(* ===== verification/Go_Base.thy ===== *)
theory Go_Base
  imports Complex_Main "HOL-Library.Char_ord" "HOL-Library.List_Lexorder"
    "HOL-Library.Multiset" "HOL-Library.Sublist"
begin

text \<open>
  The prelude. It models the parts of Go and its standard library that the exporter's code
  uses (strings as byte lists, \<^verbatim>\<open>strings\<close>, \<^verbatim>\<open>strconv\<close>, float64 and int64 arithmetic, errors and
  panics as values, map iteration in an unspecified order) and holds the collections of
  rewrite rules that the component theories share. Nothing here is the repository's own code,
  so no definition of this theory is mapped to a source line.
\<close>

named_theorems str_defs "definitions of the modelled string functions"
named_theorems coll_simps "evaluation of collections that do not stop"

section \<open>Errors, panics and the result of a run\<close>

text \<open>
  An error value is either one a client library returns, with the HTTP status the library
  found (0 when there is none) and its text, or one the repository builds from a text.
\<close>

datatype go_error = Lib_error nat string | Msg_error string

fun err_text :: "go_error \<Rightarrow> string" where
  "err_text (Lib_error c t) = t"
| "err_text (Msg_error t) = t"

fun err_status :: "go_error \<Rightarrow> nat" where
  "err_status (Lib_error c t) = c"
| "err_status (Msg_error t) = 0"

text \<open>The run-time failures that the code can run into: none of them is caught anywhere.\<close>

datatype go_panic =
  Nil_deref | Const_metric_refused | Type_assertion | Collector_refused | Route_refused

datatype stop = Done | Failed go_error | Panicked go_panic

type_synonym 'a fallible = "go_error + 'a"

section \<open>Integers and float64\<close>

text \<open>Go's \<^verbatim>\<open>int\<close> is 64 bits wide here; \<open>i64\<close> is the value after wrap-around.\<close>

definition i64 :: "int \<Rightarrow> int" where
  "i64 n = (n + 2 ^ 63) mod 2 ^ 64 - 2 ^ 63"

definition i32 :: "int \<Rightarrow> int" where
  "i32 n = (n + 2 ^ 31) mod 2 ^ 32 - 2 ^ 31"

lemma i64_id: "- (2 ^ 63) \<le> n \<Longrightarrow> n < 2 ^ 63 \<Longrightarrow> i64 n = n"
  by (simp add: i64_def)

lemma i64_add_multiple: "i64 (n + k * 2 ^ 64) = i64 n"
proof -
  have "n + k * 2 ^ 64 + 2 ^ 63 = (n + 2 ^ 63) + k * 2 ^ 64" by simp
  then show ?thesis unfolding i64_def by (simp only: mod_mult_self1)
qed

lemma i64_mult: "i64 (i64 a * b) = i64 (a * b)"
proof -
  define k where "k = - ((a + 2 ^ 63) div 2 ^ 64)"
  have "i64 a = a + k * 2 ^ 64"
    unfolding i64_def k_def by (simp add: minus_div_mult_eq_mod [symmetric])
  then have "i64 a * b = a * b + (k * b) * 2 ^ 64" by (simp only: ring_distribs ac_simps)
  then show ?thesis by (simp only: i64_add_multiple)
qed

lemma i64_bounds: "- (2 ^ 63) \<le> i64 n \<and> i64 n < 2 ^ 63"
proof -
  have "0 \<le> (n + 2 ^ 63) mod 2 ^ 64" "(n + 2 ^ 63) mod 2 ^ 64 < (2::int) ^ 64"
    by (simp_all only: pos_mod_sign pos_mod_bound zero_less_power zero_less_numeral)
  then show ?thesis by (simp add: i64_def)
qed

lemma i32_id: "- (2 ^ 31) \<le> n \<Longrightarrow> n < 2 ^ 31 \<Longrightarrow> i32 n = n"
  by (simp add: i32_def)

text \<open>
  A float64 is a finite value, kept as the rational it stands for, an infinity or NaN.
  \<open>round53\<close> rounds an integer to 53 significant bits, ties to even, as the conversion
  from int64 does.
\<close>

datatype f64 = Finite rat | Pos_inf | Neg_inf | Not_a_number

fun bit_len :: "nat \<Rightarrow> nat" where
  "bit_len n = (if n = 0 then 0 else Suc (bit_len (n div 2)))"

declare bit_len.simps [simp del]

definition round_nat53 :: "nat \<Rightarrow> nat" where
  "round_nat53 n =
     (if n < 2 ^ 53 then n
      else let k = bit_len n - 53; q = n div 2 ^ k; r = n mod 2 ^ k; half = 2 ^ (k - 1)
           in (if half < r \<or> (r = half \<and> odd q) then Suc q else q) * 2 ^ k)"

definition round53 :: "int \<Rightarrow> int" where
  "round53 n = sgn n * int (round_nat53 (nat \<bar>n\<bar>))"

text \<open>An integer-valued result that is too large for the format is an infinity.\<close>

definition f64_limit :: int where
  "f64_limit = 2 ^ 1024"

definition f64_of_int :: "int \<Rightarrow> f64" where
  "f64_of_int n = (let m = round53 n in
     if f64_limit \<le> m then Pos_inf else if m \<le> - f64_limit then Neg_inf
     else Finite (of_int m))"

abbreviation f64_of_nat :: "nat \<Rightarrow> f64" where
  "f64_of_nat n \<equiv> f64_of_int (int n)"

lemma round53_id: "\<bar>n\<bar> < 2 ^ 53 \<Longrightarrow> round53 n = n"
proof -
  assume "\<bar>n\<bar> < 2 ^ 53"
  then have "nat \<bar>n\<bar> < 2 ^ 53" by simp
  then show ?thesis by (simp add: round53_def round_nat53_def mult_sgn_abs)
qed

lemma f64_limit_ge: "2 ^ 53 \<le> f64_limit"
  unfolding f64_limit_def by (rule power_increasing) simp_all

lemma f64_of_int_exact:
  assumes "\<bar>n\<bar> < 2 ^ 53"
  shows "f64_of_int n = Finite (of_int n)"
proof -
  have "\<not> f64_limit \<le> n" "\<not> n \<le> - f64_limit"
    using assms f64_limit_ge by linarith+
  with assms show ?thesis by (simp add: f64_of_int_def round53_id Let_def)
qed

lemma f64_of_int_0 [simp]: "f64_of_int 0 = Finite 0"
  by (simp add: f64_of_int_exact)

lemma f64_of_int_1 [simp]: "f64_of_int 1 = Finite 1"
  by (simp add: f64_of_int_exact)

instantiation f64 :: "{zero, one, plus}"
begin

definition zero_f64 :: f64 where
  "zero_f64 = Finite 0"

definition one_f64 :: f64 where
  "one_f64 = Finite 1"

text \<open>
  Addition of finite values: the exact sum is a dyadic rational \<open>p / q\<close>, and rounding \<open>p\<close> to
  53 bits rounds the sum.
\<close>

fun plus_f64 :: "f64 \<Rightarrow> f64 \<Rightarrow> f64" where
  "plus_f64 (Finite a) (Finite b) =
     (let (p, q) = quotient_of (a + b); s = of_int (round53 p) / of_int q in
      if of_int f64_limit \<le> s then Pos_inf
      else if s \<le> - of_int f64_limit then Neg_inf else Finite s)"
| "plus_f64 Not_a_number b = Not_a_number"
| "plus_f64 a Not_a_number = Not_a_number"
| "plus_f64 Pos_inf Neg_inf = Not_a_number"
| "plus_f64 Neg_inf Pos_inf = Not_a_number"
| "plus_f64 Pos_inf b = Pos_inf"
| "plus_f64 a Pos_inf = Pos_inf"
| "plus_f64 Neg_inf b = Neg_inf"
| "plus_f64 a Neg_inf = Neg_inf"

instance ..

end

lemma quotient_of_int_rat: "quotient_of (of_int n) = (n, 1)"
  by (simp add: quotient_of_int Rat.of_int_def [symmetric])

lemma f64_add_int:
  "Finite (of_int a) + Finite (of_int b) = f64_of_int (a + b)"
proof -
  have "quotient_of (of_int a + of_int b) = (a + b, 1)"
    using quotient_of_int_rat [of "a + b"] by simp
  moreover have "((of_int (round53 (a + b)) :: rat) \<le> - of_int f64_limit)
      = (round53 (a + b) \<le> - f64_limit)"
    by (simp only: of_int_minus [symmetric] of_int_le_iff)
  ultimately show ?thesis
    by (simp add: f64_of_int_def Let_def)
qed

section \<open>Strings\<close>

text \<open>
  A Go string is a sequence of bytes, as a HOL \<^typ>\<open>string\<close> is. \<open>strings_Split\<close> and
  \<open>strings_Cut\<close> are \<^verbatim>\<open>strings.Split\<close> and \<^verbatim>\<open>strings.Cut\<close> for a separator of one byte, the only
  ones the code uses; \<open>strings_ReplaceAll\<close> replaces one byte by one byte.
\<close>

fun strings_Split :: "char \<Rightarrow> string \<Rightarrow> string list" where
  "strings_Split c [] = [[]]"
| "strings_Split c (x # xs) =
     (if x = c then [] # strings_Split c xs
      else (case strings_Split c xs of [] \<Rightarrow> [[x]] | w # ws \<Rightarrow> (x # w) # ws))"

fun strings_Join :: "string list \<Rightarrow> string \<Rightarrow> string" where
  "strings_Join [] sep = []"
| "strings_Join [w] sep = w"
| "strings_Join (w # v # ws) sep = w @ sep @ strings_Join (v # ws) sep"

definition strings_Cut :: "string \<Rightarrow> char \<Rightarrow> string \<times> string \<times> bool" where
  "strings_Cut s c =
     (if c \<in> set s then (takeWhile (\<lambda>x. x \<noteq> c) s, tl (dropWhile (\<lambda>x. x \<noteq> c) s), True)
      else (s, [], False))"

definition strings_HasPrefix :: "string \<Rightarrow> string \<Rightarrow> bool" where
  "strings_HasPrefix s p \<longleftrightarrow> take (length p) s = p"

definition strings_TrimPrefix :: "string \<Rightarrow> string \<Rightarrow> string" where
  "strings_TrimPrefix s p = (if strings_HasPrefix s p then drop (length p) s else s)"

definition strings_ReplaceAll :: "string \<Rightarrow> char \<Rightarrow> char \<Rightarrow> string" where
  "strings_ReplaceAll s a b = map (\<lambda>x. if x = a then b else x) s"

lemma strings_Split_not_Nil [simp]: "strings_Split c s \<noteq> []"
  by (cases s) (auto split: list.splits)

lemma strings_Split_no_sep: "w \<in> set (strings_Split c s) \<Longrightarrow> c \<notin> set w"
  by (induction s arbitrary: w) (auto split: if_splits list.splits)

lemma strings_Split_single: "c \<notin> set s \<Longrightarrow> strings_Split c s = [s]"
  by (induction s) auto

lemma strings_Split_append:
  "c \<notin> set w \<Longrightarrow> strings_Split c (w @ c # s) = w # strings_Split c s"
  by (induction w) auto

lemma strings_Split_Join:
  "ws \<noteq> [] \<Longrightarrow> (\<And>w. w \<in> set ws \<Longrightarrow> c \<notin> set w) \<Longrightarrow> strings_Split c (strings_Join ws [c]) = ws"
  by (induction ws "[c]" rule: strings_Join.induct)
    (auto simp: strings_Split_single strings_Split_append)

lemma strings_Join_Split: "strings_Join (strings_Split c s) [c] = s"
proof (induction s)
  case (Cons x s)
  obtain w ws where sp: "strings_Split c s = w # ws"
    by (cases "strings_Split c s") auto
  with Cons.IH show ?case
    by (cases ws) auto
qed simp

lemma Join_snoc: "ls \<noteq> [] \<Longrightarrow> strings_Join (ls @ [l]) sep = strings_Join ls sep @ sep @ l"
  by (induction ls sep rule: strings_Join.induct) auto

lemma strings_Join_nonempty: "w \<noteq> [] \<Longrightarrow> strings_Join (w # ws) sep \<noteq> []"
  by (cases ws) auto

lemma strings_Cut_found:
  "c \<notin> set a \<Longrightarrow> strings_Cut (a @ c # b) c = (a, b, True)"
  by (induction a) (auto simp: strings_Cut_def)

lemma strings_Cut_absent: "c \<notin> set s \<Longrightarrow> strings_Cut s c = (s, [], False)"
  by (simp add: strings_Cut_def)

lemma strings_Cut_parts:
  "strings_Cut s c = (a, b, ok) \<Longrightarrow>
     c \<notin> set a \<and> set a \<subseteq> set s \<and> set b \<subseteq> set s \<and> (if ok then s = a @ c # b else s = a \<and> b = [])"
proof -
  assume eq: "strings_Cut s c = (a, b, ok)"
  show ?thesis
  proof (cases "c \<in> set s")
    case True
    then obtain u v where s: "s = u @ c # v" and u: "c \<notin> set u"
      by (meson split_list_first)
    then have "strings_Cut s c = (u, v, True)" by (simp add: strings_Cut_found)
    with eq s u show ?thesis by auto
  next
    case False
    then show ?thesis using eq by (auto simp: strings_Cut_absent)
  qed
qed

text \<open>
  White space as \<^verbatim>\<open>unicode.IsSpace\<close> has it, each rune as its UTF-8 bytes. \<^verbatim>\<open>TrimSpace\<close> drops such
  runes from both ends; from the right it reads the bytes of a rune backwards.
\<close>

definition space_runes :: "string list" where
  "space_runes =
     [[CHR 0x20], [CHR 0x09], [CHR 0x0A], [CHR 0x0B], [CHR 0x0C], [CHR 0x0D],
      [CHR 0xC2, CHR 0x85], [CHR 0xC2, CHR 0xA0], [CHR 0xE1, CHR 0x9A, CHR 0x80],
      [CHR 0xE2, CHR 0x80, CHR 0x80], [CHR 0xE2, CHR 0x80, CHR 0x81],
      [CHR 0xE2, CHR 0x80, CHR 0x82], [CHR 0xE2, CHR 0x80, CHR 0x83],
      [CHR 0xE2, CHR 0x80, CHR 0x84], [CHR 0xE2, CHR 0x80, CHR 0x85],
      [CHR 0xE2, CHR 0x80, CHR 0x86], [CHR 0xE2, CHR 0x80, CHR 0x87],
      [CHR 0xE2, CHR 0x80, CHR 0x88], [CHR 0xE2, CHR 0x80, CHR 0x89],
      [CHR 0xE2, CHR 0x80, CHR 0x8A], [CHR 0xE2, CHR 0x80, CHR 0xA8],
      [CHR 0xE2, CHR 0x80, CHR 0xA9], [CHR 0xE2, CHR 0x80, CHR 0xAF],
      [CHR 0xE2, CHR 0x81, CHR 0x9F], [CHR 0xE3, CHR 0x80, CHR 0x80]]"

function drop_runes :: "string list \<Rightarrow> string \<Rightarrow> string" where
  "drop_runes rs s =
     (case find (\<lambda>r. r \<noteq> [] \<and> strings_HasPrefix s r) rs of
        None \<Rightarrow> s | Some r \<Rightarrow> drop_runes rs (drop (length r) s))"
  by pat_completeness auto
termination
proof (relation "measure (\<lambda>(rs, s). length s)")
  fix rs s r
  assume "find (\<lambda>r. r \<noteq> [] \<and> strings_HasPrefix s r) rs = Some r"
  then have "r \<noteq> []" "strings_HasPrefix s r" by (auto simp: find_Some_iff)
  then have "s \<noteq> []" "length r > 0" by (auto simp: strings_HasPrefix_def)
  then show "((rs, drop (length r) s), rs, s) \<in> measure (\<lambda>(rs, s). length s)" by simp
qed simp

declare drop_runes.simps [simp del]

definition strings_TrimSpace :: "string \<Rightarrow> string" where
  "strings_TrimSpace s =
     rev (drop_runes (map rev space_runes) (rev (drop_runes space_runes s)))"

lemma drop_runes_no_prefix:
  "r \<in> set rs \<Longrightarrow> r \<noteq> [] \<Longrightarrow> \<not> strings_HasPrefix (drop_runes rs s) r"
proof (induction rs s rule: drop_runes.induct)
  case (1 rs s)
  show ?case
  proof (cases "find (\<lambda>r. r \<noteq> [] \<and> strings_HasPrefix s r) rs")
    case None
    then have "drop_runes rs s = s" by (subst drop_runes.simps) simp
    with None "1.prems" show ?thesis by (auto simp: find_None_iff)
  next
    case (Some a)
    with "1.IH" [OF Some] "1.prems" show ?thesis
      by (subst drop_runes.simps) simp
  qed
qed

lemma drop_runes_fixed:
  "(\<And>r. r \<in> set rs \<Longrightarrow> r \<noteq> [] \<Longrightarrow> \<not> strings_HasPrefix s r) \<Longrightarrow> drop_runes rs s = s"
proof -
  assume "\<And>r. r \<in> set rs \<Longrightarrow> r \<noteq> [] \<Longrightarrow> \<not> strings_HasPrefix s r"
  then have "find (\<lambda>r. r \<noteq> [] \<and> strings_HasPrefix s r) rs = None"
    by (auto simp: find_None_iff)
  then show ?thesis by (subst drop_runes.simps) simp
qed

lemma drop_runes_suffix: "suffix (drop_runes rs s) s"
proof (induction rs s rule: drop_runes.induct)
  case (1 rs s)
  show ?case
  proof (cases "find (\<lambda>r. r \<noteq> [] \<and> strings_HasPrefix s r) rs")
    case None
    then show ?thesis by (subst drop_runes.simps) simp
  next
    case (Some a)
    then have "drop_runes rs s = drop_runes rs (drop (length a) s)"
      by (subst drop_runes.simps) simp
    with "1.IH" [OF Some] show ?thesis
      by (metis suffix_drop suffix_order.trans)
  qed
qed

lemma HasPrefix_prefix: "strings_HasPrefix s p \<longleftrightarrow> prefix p s"
  by (auto simp: strings_HasPrefix_def prefix_def) (metis append_take_drop_id)

lemma TrimSpace_starts:
  assumes "r \<in> set space_runes" and "r \<noteq> []"
  shows "\<not> prefix r (strings_TrimSpace s) \<and> \<not> suffix r (strings_TrimSpace s)"
proof
  let ?l = "drop_runes space_runes s"
  let ?t = "strings_TrimSpace s"
  have "suffix (rev ?t) (rev ?l)"
    by (simp add: strings_TrimSpace_def drop_runes_suffix)
  then have "prefix ?t ?l" by (simp add: suffix_to_prefix)
  moreover have "\<not> prefix r ?l"
    using assms drop_runes_no_prefix HasPrefix_prefix by blast
  ultimately show "\<not> prefix r ?t" using prefix_order.trans by blast
  have "\<not> prefix (rev r) (rev ?t)"
    using assms drop_runes_no_prefix [of "rev r" "map rev space_runes" "rev ?l"]
    by (simp add: strings_TrimSpace_def HasPrefix_prefix)
  then show "\<not> suffix r ?t" by (simp add: suffix_to_prefix)
qed

lemma TrimSpace_idem: "strings_TrimSpace (strings_TrimSpace s) = strings_TrimSpace s"
proof -
  let ?t = "strings_TrimSpace s"
  have l: "drop_runes space_runes ?t = ?t"
    using TrimSpace_starts by (intro drop_runes_fixed) (auto simp: HasPrefix_prefix)
  have "drop_runes (map rev space_runes) (rev ?t) = rev ?t"
  proof (rule drop_runes_fixed)
    fix r assume "r \<in> set (map rev space_runes)" "r \<noteq> []"
    then obtain q where "q \<in> set space_runes" "r = rev q" "q \<noteq> []" by auto
    then show "\<not> strings_HasPrefix (rev ?t) r"
      using TrimSpace_starts [of q s] by (simp add: HasPrefix_prefix suffix_to_prefix)
  qed
  with l show ?thesis by (simp add: strings_TrimSpace_def)
qed

lemma TrimSpace_subset: "set (strings_TrimSpace s) \<subseteq> set s"
proof -
  have "set (strings_TrimSpace s) \<subseteq> set (rev (drop_runes space_runes s))"
    using set_mono_suffix [OF drop_runes_suffix [of "map rev space_runes" "rev (drop_runes space_runes s)"]]
    by (simp add: strings_TrimSpace_def)
  also have "\<dots> \<subseteq> set s"
    using set_mono_suffix [OF drop_runes_suffix [of space_runes s]] by simp
  finally show ?thesis .
qed

section \<open>Runes\<close>

text \<open>
  The number of bytes of the first rune, as \<^verbatim>\<open>utf8.DecodeRuneInString\<close> finds it: 1 for a byte that
  starts no valid encoding.
\<close>

definition byte_in :: "nat \<Rightarrow> nat \<Rightarrow> char \<Rightarrow> bool" where
  "byte_in lo hi c \<longleftrightarrow> lo \<le> of_char c \<and> of_char c \<le> hi"

definition rune_size :: "string \<Rightarrow> nat" where
  "rune_size s = (case s of [] \<Rightarrow> 0 | a # r \<Rightarrow>
     (let b = of_char a :: nat;
          lo = (if b = 0xE0 then 0xA0 else if b = 0xF0 then 0x90 else 0x80);
          hi = (if b = 0xED then 0x9F else if b = 0xF4 then 0x8F else 0xBF)
      in if b < 0xC2 \<or> 0xF4 < b then 1
         else if b \<le> 0xDF then
           (case r of c # _ \<Rightarrow> if byte_in lo hi c then 2 else 1 | _ \<Rightarrow> 1)
         else if b \<le> 0xEF then
           (case r of c # d # _ \<Rightarrow> if byte_in lo hi c \<and> byte_in 0x80 0xBF d then 3 else 1 | _ \<Rightarrow> 1)
         else
           (case r of c # d # e # _ \<Rightarrow>
                if byte_in lo hi c \<and> byte_in 0x80 0xBF d \<and> byte_in 0x80 0xBF e then 4 else 1
            | _ \<Rightarrow> 1)))"

definition is_digit :: "char \<Rightarrow> bool" where
  "is_digit c \<longleftrightarrow> byte_in 0x30 0x39 c"

definition is_letter :: "char \<Rightarrow> bool" where
  "is_letter c \<longleftrightarrow> byte_in 0x41 0x5A c \<or> byte_in 0x61 0x7A c"

definition is_word :: "char \<Rightarrow> bool" where
  "is_word c \<longleftrightarrow> is_letter c \<or> is_digit c \<or> c = CHR ''_''"

lemmas char_class_defs = is_word_def is_letter_def is_digit_def byte_in_def

lemma rune_size_ascii: "of_char a < (0x80::nat) \<Longrightarrow> rune_size (a # s) = 1"
  by (simp add: rune_size_def Let_def)

section \<open>Formatting of numbers\<close>

fun nat_digits :: "nat \<Rightarrow> string" where
  "nat_digits n =
     (if n < 10 then [''0123456789'' ! n] else nat_digits (n div 10) @ [''0123456789'' ! (n mod 10)])"

declare nat_digits.simps [simp del]

definition strconv_Itoa :: "int \<Rightarrow> string" where
  "strconv_Itoa n = (if n < 0 then CHR ''-'' # nat_digits (nat (- n)) else nat_digits (nat n))"

definition strconv_FormatBool :: "bool \<Rightarrow> string" where
  "strconv_FormatBool b = (if b then ''true'' else ''false'')"

lemmas str_eval = strings_Cut_def strings_HasPrefix_def strings_TrimPrefix_def
  strings_ReplaceAll_def strconv_FormatBool_def

section \<open>Iteration over a map\<close>

text \<open>
  A Go map literal or map built by the code is an association list with distinct keys. The
  language visits each entry once, in an order it leaves open: a definition that ranges over
  a map takes that order as an argument, a function that permutes the list.
\<close>

type_synonym 'a order = "'a list \<Rightarrow> 'a list"

definition permutes_order :: "'a order \<Rightarrow> bool" where
  "permutes_order ord \<longleftrightarrow> (\<forall>xs. mset (ord xs) = mset xs)"

lemma permutes_order_set: "permutes_order ord \<Longrightarrow> set (ord xs) = set xs"
  by (metis permutes_order_def set_mset_mset)

lemma permutes_order_length: "permutes_order ord \<Longrightarrow> length (ord xs) = length xs"
  by (metis permutes_order_def size_mset)

lemma permutes_order_id [simp]: "permutes_order (\<lambda>xs. xs)"
  by (simp add: permutes_order_def)

text \<open>Incrementing the counter of a key, \<^verbatim>\<open>m[k]++\<close>: a missing key counts as 0 and is added.\<close>

fun bump :: "'k \<Rightarrow> ('k \<times> int) list \<Rightarrow> ('k \<times> int) list" where
  "bump k [] = [(k, 1)]"
| "bump k ((j, n) # m) = (if j = k then (j, i64 (n + 1)) # m else (j, n) # bump k m)"

definition count_all :: "'k list \<Rightarrow> ('k \<times> int) list \<Rightarrow> ('k \<times> int) list" where
  "count_all ks m = fold bump ks m"

lemma bump_keys: "fst ` set (bump k m) = insert k (fst ` set m)"
  by (induction k m rule: bump.induct) auto

lemma bump_distinct: "distinct (map fst m) \<Longrightarrow> distinct (map fst (bump k m))"
  by (induction k m rule: bump.induct) (auto simp: bump_keys)

lemma map_of_bump:
  "map_of (bump k m) = (map_of m)(k \<mapsto> i64 ((case map_of m k of None \<Rightarrow> 0 | Some n \<Rightarrow> n) + 1))"
  by (induction k m rule: bump.induct) (auto simp: fun_eq_iff i64_id)

lemma count_all_Nil [simp]: "count_all [] m = m"
  by (simp add: count_all_def)

lemma count_all_Cons [simp]: "count_all (k # ks) m = count_all ks (bump k m)"
  by (simp add: count_all_def)

lemma count_all_keys: "fst ` set (count_all ks m) = fst ` set m \<union> set ks"
  by (induction ks arbitrary: m) (auto simp: bump_keys)

lemma count_all_distinct: "distinct (map fst m) \<Longrightarrow> distinct (map fst (count_all ks m))"
  by (induction ks arbitrary: m) (auto simp: bump_distinct)

lemma map_of_count_all:
  assumes "\<And>v. map_of m k = Some v \<Longrightarrow> 0 \<le> v \<and> v + int (length ks) < 2 ^ 63"
    and "int (length ks) < 2 ^ 63"
  shows "map_of (count_all ks m) k =
    (if map_of m k = None \<and> k \<notin> set ks then None
     else Some ((case map_of m k of None \<Rightarrow> 0 | Some v \<Rightarrow> v) + int (count_list ks k)))"
  using assms
proof (induction ks arbitrary: m)
  case Nil
  then show ?case by (auto split: option.splits)
next
  case (Cons j ks)
  let ?v = "case map_of m k of None \<Rightarrow> 0 | Some v \<Rightarrow> v"
  have v: "0 \<le> ?v" "?v + int (length ks) + 1 < 2 ^ 63"
    using Cons.prems by (auto split: option.splits)
  show ?case
  proof (cases "j = k")
    case True
    have i: "i64 (?v + 1) = ?v + 1"
      using v by (intro i64_id) auto
    have "map_of (count_all ks (bump k m)) k = Some (?v + 1 + int (count_list ks k))"
      using v Cons.prems(2) i by (subst Cons.IH) (auto simp: map_of_bump)
    with True show ?thesis by simp
  next
    case False
    then have "map_of (bump j m) k = map_of m k" by (simp add: map_of_bump)
    moreover have "map_of (count_all ks (bump j m)) k =
      (if map_of m k = None \<and> k \<notin> set ks then None
       else Some (?v + int (count_list ks k)))"
      using Cons.prems False
      by (subst Cons.IH) (auto simp: map_of_bump dest!: Cons.prems(1))
    ultimately show ?thesis using False by auto
  qed
qed

end
