(* ===== verification/Base_Exporter.thy ===== *)
theory Base_Exporter
  imports Go_Base
begin

text \<open>
  \<^verbatim>\<open>exporters/exporter.go\<close>: the metric tables, the exporter every service exporter embeds, the
  registration of metrics and the sending of samples.

  The Prometheus client library is not part of the repository. A descriptor and a sample are
  the arguments that the code hands to \<^verbatim>\<open>NewDesc\<close> and \<^verbatim>\<open>MustNewConstMetric\<close>; what the library
  decides about them is the parameter \<^verbatim>\<open>prom\<close>: the name that \<^verbatim>\<open>BuildFQName\<close> builds and whether
  \<^verbatim>\<open>NewConstMetric\<close> takes the label values (\<^verbatim>\<open>MustNewConstMetric\<close> panics where it does not).
  Log calls have no effect on any value here and are left out.
\<close>

section \<open>The client library's side\<close>

record desc =
  d_fqName :: string
  d_help :: string
  d_variableLabels :: "string list"
  d_constLabels :: "(string \<times> string) list"

record sample =
  s_desc :: desc
  s_value :: f64
  s_labels :: "string list"

record prom =
  BuildFQName :: "string \<Rightarrow> string \<Rightarrow> string \<Rightarrow> string"
  const_metric_ok :: "desc \<Rightarrow> string list \<Rightarrow> bool"

text \<open>
  The documented contract of \<^verbatim>\<open>NewConstMetric\<close> that the collectors rely on: it takes label values
  whose number is the number of variable labels of the descriptor.
\<close>

definition accepts_arity :: "prom \<Rightarrow> bool" where
  "accepts_arity pr \<longleftrightarrow>
     (\<forall>d ls. length ls = length (d_variableLabels d) \<longrightarrow> const_metric_ok pr d ls)"

text \<open>A library that keeps the contract, for the witnesses.\<close>

definition sample_prom :: prom where
  "sample_prom = \<lparr>BuildFQName = (\<lambda>a b c. a @ ''_'' @ c),
     const_metric_ok = (\<lambda>d ls. length ls = length (d_variableLabels d))\<rparr>"

lemma sample_prom_accepts [simp]: "accepts_arity sample_prom"
  by (simp add: accepts_arity_def sample_prom_def)

section \<open>Metric tables, configuration and exporter state\<close>

text \<open>
  A \<^verbatim>\<open>ListFunc\<close> takes the exporter that holds it, which a HOL type cannot express; it is kept as
  the name of the Go function, and the theory of each service says what the name runs.
\<close>

type_synonym ListFunc = string

record Metric =
  m_Name :: string
  m_Labels :: "string list"
  m_Fn :: "ListFunc option"
  m_Slow :: bool
  m_DeprecatedVersion :: string

abbreviation metric :: "string \<Rightarrow> string list \<Rightarrow> ListFunc option \<Rightarrow> Metric" where
  "metric n ls f \<equiv> \<lparr>m_Name = n, m_Labels = ls, m_Fn = f, m_Slow = False, m_DeprecatedVersion = []\<rparr>"

abbreviation slow_metric :: "string \<Rightarrow> string list \<Rightarrow> ListFunc option \<Rightarrow> Metric" where
  "slow_metric n ls f \<equiv> \<lparr>m_Name = n, m_Labels = ls, m_Fn = f, m_Slow = True, m_DeprecatedVersion = []\<rparr>"

record PrometheusMetric =
  pm_Metric :: desc
  pm_Fn :: "ListFunc option"

text \<open>The parts of a gophercloud service client that the repository reads or sets.\<close>

record ServiceClient =
  cl_Type :: string
  cl_Endpoint :: string
  cl_Microversion :: string
  cl_MoreHeaders :: "(string \<times> string) list"

text \<open>\<^verbatim>\<open>utils.LabelMappingFlag\<close>; its operations are in \<^verbatim>\<open>Label_Mapping\<close>.\<close>

record LabelMappingFlag =
  lm_Labels :: "string list"
  lm_Keys :: "string list"

record ExporterConfig =
  ClientV2 :: ServiceClient
  ServiceName :: string
  Prefix :: string
  DisabledMetrics :: "string list"
  CollectTime :: bool
  DisableSlowMetrics :: bool
  DisableDeprecatedMetrics :: bool
  DisableCinderAgentUUID :: bool
  DomainID :: string
  TenantID :: string
  NovaMetadataMapping :: LabelMappingFlag
  DnsConcurrentCount :: int

text \<open>
  \<^verbatim>\<open>BaseOpenStackExporter\<close> embeds the configuration. Its map of metrics is \<^const>\<open>None\<close> while it is
  the nil map, and otherwise lists its entries.
\<close>

record exporter = ExporterConfig +
  ex_Name :: string
  ex_Metrics :: "(string \<times> PrometheusMetric) list option"

definition metrics_of :: "exporter \<Rightarrow> (string \<times> PrometheusMetric) list" where
  "metrics_of ex = (case ex_Metrics ex of None \<Rightarrow> [] | Some ms \<Rightarrow> ms)"

definition new_base :: "string \<Rightarrow> ExporterConfig \<Rightarrow> exporter" where
  "new_base name cfg = ExporterConfig.extend cfg \<lparr>ex_Name = name, ex_Metrics = None\<rparr>"

section \<open>Operations of the base exporter\<close>

definition GetName :: "exporter \<Rightarrow> string" where
  "GetName ex = Prefix ex @ ''_'' @ ex_Name ex"

fun MetricIsDisabled_loop :: "string list \<Rightarrow> string \<Rightarrow> bool" where
  "MetricIsDisabled_loop [] full = False"
| "MetricIsDisabled_loop (m # ms) full = (if m = full then True else MetricIsDisabled_loop ms full)"

definition MetricIsDisabled :: "exporter \<Rightarrow> string \<Rightarrow> bool" where
  "MetricIsDisabled ex name =
     MetricIsDisabled_loop (DisabledMetrics ex) (ex_Name ex @ ''-'' @ name)"

definition isSlowMetric :: "exporter \<Rightarrow> Metric \<Rightarrow> bool" where
  "isSlowMetric ex m \<longleftrightarrow> DisableSlowMetrics ex \<and> m_Slow m"

definition isDeprecatedMetric :: "exporter \<Rightarrow> Metric \<Rightarrow> bool" where
  "isDeprecatedMetric ex m \<longleftrightarrow> DisableDeprecatedMetrics ex \<and> 0 < length (m_DeprecatedVersion m)"

text \<open>\<^verbatim>\<open>Describe\<close> sends each registered descriptor, in the order the range visits the map.\<close>

definition Describe :: "(string \<times> PrometheusMetric) order \<Rightarrow> exporter \<Rightarrow> desc list" where
  "Describe ord ex = map (pm_Metric \<circ> snd) (ord (metrics_of ex))"

definition base_metrics ::
  "prom \<Rightarrow> (string \<times> string) list option \<Rightarrow> exporter \<Rightarrow> (string \<times> PrometheusMetric) list" where
  "base_metrics pr constLabels ex =
     [(''up'', \<lparr>pm_Metric = \<lparr>d_fqName = BuildFQName pr (GetName ex) [] ''up'', d_help = ''up'',
          d_variableLabels = [], d_constLabels = (case constLabels of None \<Rightarrow> [] | Some c \<Rightarrow> c)\<rparr>,
        pm_Fn = None\<rparr>),
      (''openstack_metric_collect_seconds'',
        \<lparr>pm_Metric = \<lparr>d_fqName = ''openstack_metric_collect_seconds'',
           d_help = ''Time needed to collect metric from OpenStack API'',
           d_variableLabels = [''openstack_metric''],
           d_constLabels = [(''openstack_service'', GetName ex)]\<rparr>,
         pm_Fn = None\<rparr>)]"

definition AddMetric ::
  "prom \<Rightarrow> string \<Rightarrow> ListFunc option \<Rightarrow> string list \<Rightarrow> string \<Rightarrow> (string \<times> string) list option \<Rightarrow>
   exporter \<Rightarrow> exporter" where
  "AddMetric pr name fn labels deprecatedVersion constLabels ex =
     (if MetricIsDisabled ex name then ex
      else
        let ms = (case ex_Metrics ex of None \<Rightarrow> base_metrics pr constLabels ex | Some ms \<Rightarrow> ms);
            cl = (case constLabels of None \<Rightarrow> [] | Some c \<Rightarrow> c)
        in (case map_of ms name of
              Some _ \<Rightarrow> ex\<lparr>ex_Metrics := Some ms\<rparr>
            | None \<Rightarrow> ex\<lparr>ex_Metrics := Some (ms @
                [(name, \<lparr>pm_Metric = \<lparr>d_fqName = BuildFQName pr (GetName ex) [] name,
                    d_help = name, d_variableLabels = labels, d_constLabels = cl\<rparr>,
                  pm_Fn = fn\<rparr>)])\<rparr>))"

text \<open>
  The body of the loop over a service's metric table. Most constructors skip deprecated and
  slow metrics where the flags ask for it; three have a shorter loop.
\<close>

definition register_metric :: "prom \<Rightarrow> Metric \<Rightarrow> exporter \<Rightarrow> exporter" where
  "register_metric pr m ex =
     (if isDeprecatedMetric ex m then ex
      else if \<not> isSlowMetric ex m
      then AddMetric pr (m_Name m) (m_Fn m) (m_Labels m) (m_DeprecatedVersion m) None ex
      else ex)"

definition register_table :: "prom \<Rightarrow> Metric list \<Rightarrow> exporter \<Rightarrow> exporter" where
  "register_table pr ms ex = fold (register_metric pr) ms ex"

definition GetDnsConcurrencyCount :: "exporter \<Rightarrow> int" where
  "GetDnsConcurrencyCount ex = DnsConcurrentCount ex"

section \<open>Sending samples\<close>

text \<open>
  A collection is the list of samples sent so far and how it stopped: \<^const>\<open>Done\<close> at its end, an
  error it returned, or a panic. What follows a stop is not run.
\<close>

type_synonym coll = "sample list \<times> stop"

definition finish :: coll where
  "finish = ([], Done)"

definition return_error :: "go_error \<Rightarrow> coll" where
  "return_error e = ([], Failed e)"

fun and_then :: "coll \<Rightarrow> coll \<Rightarrow> coll" where
  "and_then (xs, Done) (ys, r) = (xs @ ys, r)"
| "and_then (xs, Failed e) c = (xs, Failed e)"
| "and_then (xs, Panicked p) c = (xs, Panicked p)"

fun in_order :: "coll list \<Rightarrow> coll" where
  "in_order [] = finish"
| "in_order (c # cs) = and_then c (in_order cs)"

definition for_each :: "'a list \<Rightarrow> ('a \<Rightarrow> coll) \<Rightarrow> coll" where
  "for_each xs f = in_order (map f xs)"

text \<open>\<open>try_get r k\<close> is \<^verbatim>\<open>x, err := r; if err != nil { return err }\<close> followed by \<open>k\<close>.\<close>

definition try_get :: "'a fallible \<Rightarrow> ('a \<Rightarrow> coll) \<Rightarrow> coll" where
  "try_get r k = (case r of Inl e \<Rightarrow> return_error e | Inr x \<Rightarrow> k x)"

text \<open>
  \<^verbatim>\<open>ch <- prometheus.MustNewConstMetric(exporter.Metrics[name].Metric, GaugeValue, v, ls...)\<close>: the
  lookup of a name that is not registered gives a nil pointer, whose field cannot be read.
\<close>

definition emit_desc :: "prom \<Rightarrow> desc \<Rightarrow> f64 \<Rightarrow> string list \<Rightarrow> coll" where
  "emit_desc pr d v ls =
     (if const_metric_ok pr d ls then ([\<lparr>s_desc = d, s_value = v, s_labels = ls\<rparr>], Done)
      else ([], Panicked Const_metric_refused))"

definition emit :: "prom \<Rightarrow> exporter \<Rightarrow> string \<Rightarrow> f64 \<Rightarrow> string list \<Rightarrow> coll" where
  "emit pr ex name v ls =
     (case map_of (metrics_of ex) name of
        None \<Rightarrow> ([], Panicked Nil_deref)
      | Some pm \<Rightarrow> emit_desc pr (pm_Metric pm) v ls)"

text \<open>\<^verbatim>\<open>exporter.Metrics[name].Metric\<close> as an argument, read before the call.\<close>

definition with_desc :: "exporter \<Rightarrow> string \<Rightarrow> (desc \<Rightarrow> coll) \<Rightarrow> coll" where
  "with_desc ex name f = (case map_of (metrics_of ex) name of
     None \<Rightarrow> ([], Panicked Nil_deref) | Some pm \<Rightarrow> f (pm_Metric pm))"

text \<open>
  \<^verbatim>\<open>RunCollection\<close>: \<open>run_list f\<close> is what the list function named \<open>f\<close> sends and returns, \<open>secs\<close> the
  seconds measured around it.
\<close>

definition RunCollection ::
  "prom \<Rightarrow> (ListFunc \<Rightarrow> coll) \<Rightarrow> f64 \<Rightarrow> exporter \<Rightarrow> PrometheusMetric \<Rightarrow> string \<Rightarrow> coll" where
  "RunCollection pr run_list secs ex pm metricName =
     (case pm_Fn pm of
        None \<Rightarrow> ([], Panicked Nil_deref)
      | Some f \<Rightarrow>
          (case run_list f of
             (xs, Failed e) \<Rightarrow> (xs, Failed (Msg_error
               (''failed to collect metric: '' @ metricName @ '', error: '' @ err_text e)))
           | (xs, Panicked p) \<Rightarrow> (xs, Panicked p)
           | (xs, Done) \<Rightarrow>
               if CollectTime ex
               then and_then (xs, Done)
                 (emit pr ex ''openstack_metric_collect_seconds'' secs [metricName])
               else (xs, Done)))"

section \<open>Laws of collections\<close>

lemma and_then_finish [simp]: "and_then finish c = c"
  by (cases c) (simp add: finish_def)

lemma and_then_finish2 [simp]: "and_then c finish = c"
  by (cases c; cases "snd c") (auto simp: finish_def)

lemma and_then_assoc: "and_then (and_then a b) c = and_then a (and_then b c)"
  by (cases a; cases b; cases c; cases "snd a"; cases "snd b") auto

lemma and_then_Done: "snd a = Done \<Longrightarrow> and_then a b = (fst a @ fst b, snd b)"
  by (cases a; cases b) auto

lemma in_order_append: "in_order (as @ bs) = and_then (in_order as) (in_order bs)"
  by (induction as) (auto simp: and_then_assoc)

lemma in_order_Done:
  "(\<And>c. c \<in> set cs \<Longrightarrow> snd c = Done) \<Longrightarrow> in_order cs = (concat (map fst cs), Done)"
  by (induction cs) (auto simp: finish_def and_then_Done)

lemma for_each_Nil [simp]: "for_each [] f = finish"
  by (simp add: for_each_def)

lemma for_each_Cons [simp]: "for_each (x # xs) f = and_then (f x) (for_each xs f)"
  by (simp add: for_each_def)

lemma for_each_append: "for_each (xs @ ys) f = and_then (for_each xs f) (for_each ys f)"
  by (simp add: for_each_def in_order_append)

lemma for_each_Done:
  "(\<And>x. x \<in> set xs \<Longrightarrow> f x = (g x, Done)) \<Longrightarrow> for_each xs f = (concat (map g xs), Done)"
  by (induction xs) (auto simp: finish_def)

lemma for_each_pure [simp]: "for_each xs (\<lambda>x. (g x, Done)) = (concat (map g xs), Done)"
  by (rule for_each_Done) simp

lemma try_get_simps [simp]:
  "try_get (Inl e) k = return_error e"
  "try_get (Inr x) k = k x"
  by (simp_all add: try_get_def)

lemma concat_singletons: "concat (map (\<lambda>x. [f x]) xs) = map f xs"
  by (induction xs) auto

subsection \<open>Sending under a registered name\<close>

definition registered :: "exporter \<Rightarrow> string \<Rightarrow> nat \<Rightarrow> bool" where
  "registered ex name n \<longleftrightarrow>
     (\<exists>pm. map_of (metrics_of ex) name = Some pm \<and> length (d_variableLabels (pm_Metric pm)) = n)"

definition desc_at :: "exporter \<Rightarrow> string \<Rightarrow> desc" where
  "desc_at ex name = pm_Metric (the (map_of (metrics_of ex) name))"

definition samp :: "exporter \<Rightarrow> string \<Rightarrow> f64 \<Rightarrow> string list \<Rightarrow> sample" where
  "samp ex name v ls = \<lparr>s_desc = desc_at ex name, s_value = v, s_labels = ls\<rparr>"

lemma emit_ok [coll_simps]:
  "accepts_arity pr \<Longrightarrow> registered ex name (length ls) \<Longrightarrow>
     emit pr ex name v ls = ([samp ex name v ls], Done)"
  by (auto simp: registered_def emit_def emit_desc_def accepts_arity_def samp_def desc_at_def)

lemma emit_unregistered:
  "map_of (metrics_of ex) name = None \<Longrightarrow> emit pr ex name v ls = ([], Panicked Nil_deref)"
  by (simp add: emit_def)

lemma with_desc_ok [coll_simps]:
  "registered ex name n \<Longrightarrow> with_desc ex name f = f (desc_at ex name)"
  by (auto simp: registered_def with_desc_def desc_at_def)

lemma emit_desc_ok [coll_simps]:
  "accepts_arity pr \<Longrightarrow> registered ex name (length ls) \<Longrightarrow>
     emit_desc pr (desc_at ex name) v ls = ([samp ex name v ls], Done)"
  by (auto simp: registered_def emit_desc_def accepts_arity_def samp_def desc_at_def)

lemma for_each_emit [coll_simps]:
  "accepts_arity pr \<Longrightarrow> (\<And>x. x \<in> set xs \<Longrightarrow> registered ex name (length (ls x))) \<Longrightarrow>
     for_each xs (\<lambda>x. emit pr ex name (v x) (ls x)) = (map (\<lambda>x. samp ex name (v x) (ls x)) xs, Done)"
  by (subst for_each_Done [where g = "\<lambda>x. [samp ex name (v x) (ls x)]"])
    (auto simp: emit_ok concat_singletons)

definition wired :: "exporter \<Rightarrow> Metric list \<Rightarrow> bool" where
  "wired ex ms \<longleftrightarrow> (\<forall>m \<in> set ms. registered ex (m_Name m) (length (m_Labels m)))"

text \<open>One row of a long table, found by resolution instead of by rewriting the whole table.\<close>

lemma wired_row:
  "wired ex ms \<Longrightarrow>
     \<lparr>m_Name = n, m_Labels = ls, m_Fn = f, m_Slow = s, m_DeprecatedVersion = d\<rparr> \<in> set ms \<Longrightarrow>
     length ls = k \<Longrightarrow> registered ex n k"
  by (auto simp: wired_def)

section \<open>What registration leaves in the map\<close>

definition enabled :: "exporter \<Rightarrow> Metric \<Rightarrow> bool" where
  "enabled ex m \<longleftrightarrow>
     \<not> MetricIsDisabled ex (m_Name m) \<and> \<not> isSlowMetric ex m \<and> \<not> isDeprecatedMetric ex m"

definition entry :: "prom \<Rightarrow> exporter \<Rightarrow> Metric \<Rightarrow> string \<times> PrometheusMetric" where
  "entry pr ex m = (m_Name m,
     \<lparr>pm_Metric = \<lparr>d_fqName = BuildFQName pr (GetName ex) [] (m_Name m), d_help = m_Name m,
        d_variableLabels = m_Labels m, d_constLabels = []\<rparr>, pm_Fn = m_Fn m\<rparr>)"

definition registry :: "prom \<Rightarrow> exporter \<Rightarrow> Metric list \<Rightarrow> (string \<times> PrometheusMetric) list option" where
  "registry pr ex es =
     (if es = [] then None else Some (base_metrics pr None ex @ map (entry pr ex) es))"

definition reserved :: "string list" where
  "reserved = [''up'', ''openstack_metric_collect_seconds'']"

lemma MetricIsDisabled_iff:
  "MetricIsDisabled ex name \<longleftrightarrow> (ex_Name ex @ ''-'' @ name) \<in> set (DisabledMetrics ex)"
proof -
  have "MetricIsDisabled_loop ms full \<longleftrightarrow> full \<in> set ms" for ms full
    by (induction ms) auto
  then show ?thesis by (simp add: MetricIsDisabled_def)
qed

lemma with_metrics [simp]:
  "MetricIsDisabled (ex\<lparr>ex_Metrics := x\<rparr>) = MetricIsDisabled ex"
  "isSlowMetric (ex\<lparr>ex_Metrics := x\<rparr>) = isSlowMetric ex"
  "isDeprecatedMetric (ex\<lparr>ex_Metrics := x\<rparr>) = isDeprecatedMetric ex"
  "enabled (ex\<lparr>ex_Metrics := x\<rparr>) = enabled ex"
  "GetName (ex\<lparr>ex_Metrics := x\<rparr>) = GetName ex"
  "base_metrics pr c (ex\<lparr>ex_Metrics := x\<rparr>) = base_metrics pr c ex"
  by (simp_all add: fun_eq_iff MetricIsDisabled_def isSlowMetric_def isDeprecatedMetric_def
      enabled_def GetName_def base_metrics_def)

lemma map_fst_base [simp]: "map fst (base_metrics pr c ex) = reserved"
  by (simp add: base_metrics_def reserved_def)

lemma map_fst_entry [simp]: "map fst (map (entry pr ex) es) = map m_Name es"
  by (simp add: entry_def)

lemma map_of_fresh: "k \<notin> set (map fst xs) \<Longrightarrow> map_of xs k = None"
  by (simp add: map_of_eq_None_iff)

lemma AddMetric_fresh:
  assumes "enabled ex m" and "ex_Metrics ex = registry pr ex es"
    and "m_Name m \<notin> set (map m_Name es)" and "m_Name m \<notin> set reserved"
  shows "AddMetric pr (m_Name m) (m_Fn m) (m_Labels m) dv None ex
    = ex\<lparr>ex_Metrics := registry pr ex (es @ [m])\<rparr>"
proof -
  have "map_of (base_metrics pr None ex) (m_Name m) = None"
    using assms(4) by (intro map_of_fresh) simp
  moreover have "map_of (map (entry pr ex) es) (m_Name m) = None"
    using assms(3) by (intro map_of_fresh) (auto simp: entry_def)
  ultimately show ?thesis
    using assms(1,2) by (auto simp: AddMetric_def enabled_def registry_def entry_def Let_def map_add_def)
qed

lemma register_table_from:
  assumes "distinct (map m_Name (es @ ms))" and "set (map m_Name ms) \<inter> set reserved = {}"
  shows "register_table pr ms (ex\<lparr>ex_Metrics := registry pr ex es\<rparr>)
    = ex\<lparr>ex_Metrics := registry pr ex (es @ filter (enabled ex) ms)\<rparr>"
  using assms
proof (induction ms arbitrary: es)
  case Nil
  then show ?case by (simp add: register_table_def)
next
  case (Cons m ms)
  let ?ex = "ex\<lparr>ex_Metrics := registry pr ex es\<rparr>"
  have reg: "registry pr ?ex xs = registry pr ex xs" for xs
    by (simp add: registry_def entry_def)
  show ?case
  proof (cases "enabled ex m")
    case True
    then have "register_metric pr m ?ex = ex\<lparr>ex_Metrics := registry pr ex (es @ [m])\<rparr>"
      using Cons.prems AddMetric_fresh [of ?ex m pr es "m_DeprecatedVersion m"]
      by (auto simp: register_metric_def enabled_def reg)
    with Cons.IH [of "es @ [m]"] Cons.prems True show ?thesis
      by (simp add: register_table_def)
  next
    case False
    then have "register_metric pr m ?ex = ?ex"
      by (auto simp: register_metric_def AddMetric_def enabled_def)
    with Cons.IH [of es] Cons.prems False show ?thesis
      by (simp add: register_table_def)
  qed
qed

text \<open>
  The interface that every service exporter's table meets: distinct metric names, none of them
  the two that the first registration adds.
\<close>

locale metric_table =
  fixes table :: "Metric list"
  assumes names_distinct: "distinct (map m_Name table)"
    and names_free: "set (map m_Name table) \<inter> set reserved = {}"
begin

lemma registry_exact:
  "ex_Metrics ex = None \<Longrightarrow>
     register_table pr table ex
       = ex\<lparr>ex_Metrics := registry pr ex (filter (enabled ex) table)\<rparr>"
proof -
  assume none: "ex_Metrics ex = None"
  then have "ex\<lparr>ex_Metrics := registry pr ex []\<rparr> = ex" by (simp add: registry_def)
  then show ?thesis
    using register_table_from [of "[]" table pr ex] names_distinct names_free by simp
qed

lemma metrics_exact:
  "ex_Metrics ex = None \<Longrightarrow> filter (enabled ex) table \<noteq> [] \<Longrightarrow>
     metrics_of (register_table pr table ex)
       = base_metrics pr None ex @ map (entry pr ex) (filter (enabled ex) table)"
  by (simp add: registry_exact metrics_of_def registry_def)

lemma lookup_enabled:
  assumes "ex_Metrics ex = None" and "m \<in> set table" and "enabled ex m"
  shows "map_of (metrics_of (register_table pr table ex)) (m_Name m) = Some (snd (entry pr ex m))"
proof -
  let ?es = "filter (enabled ex) table"
  have m: "m \<in> set ?es" using assms by simp
  then have "?es \<noteq> []" by (metis emptyE empty_set)
  moreover have "map_of (base_metrics pr None ex) (m_Name m) = None"
    using names_free assms(2) by (intro map_of_fresh) auto
  moreover have "map_of (map (entry pr ex) ?es) (m_Name m) = Some (snd (entry pr ex m))"
  proof -
    have "distinct (map fst (map (entry pr ex) ?es))"
      unfolding map_fst_entry using names_distinct by (rule distinct_map_filter)
    moreover have "(m_Name m, snd (entry pr ex m)) \<in> set (map (entry pr ex) ?es)"
      using m by (force simp: entry_def image_iff)
    ultimately show ?thesis by (rule map_of_is_SomeI)
  qed
  ultimately show ?thesis using assms(1) by (simp add: metrics_exact map_add_def)
qed

lemma lookup_absent:
  assumes "ex_Metrics ex = None" and "k \<notin> set reserved"
    and "\<And>m. m \<in> set table \<Longrightarrow> m_Name m = k \<Longrightarrow> \<not> enabled ex m"
  shows "map_of (metrics_of (register_table pr table ex)) k = None"
proof (cases "filter (enabled ex) table = []")
  case True
  with assms(1) show ?thesis by (simp add: registry_exact metrics_of_def registry_def)
next
  case False
  have "k \<notin> set (map fst (base_metrics pr None ex @ map (entry pr ex) (filter (enabled ex) table)))"
    using assms(2,3) by (auto simp: entry_def)
  moreover have "metrics_of (register_table pr table ex)
      = base_metrics pr None ex @ map (entry pr ex) (filter (enabled ex) table)"
    using assms(1) False by (rule metrics_exact)
  ultimately show ?thesis by (metis map_of_fresh)
qed

lemma wired_register:
  assumes "ex_Metrics ex = None" and "\<And>m. m \<in> set table \<Longrightarrow> enabled ex m"
  shows "wired (register_table pr table ex) table"
  using assms by (auto simp: wired_def registered_def lookup_enabled entry_def)

lemma names_registered:
  assumes "ex_Metrics ex = None"
  shows "map fst (metrics_of (register_table pr table ex))
    = (if filter (enabled ex) table = [] then []
       else reserved @ map m_Name (filter (enabled ex) table))"
  using assms by (auto simp: registry_exact metrics_of_def registry_def entry_def)

end

lemma new_base_None [simp]: "ex_Metrics (new_base n cfg) = None"
  by (simp add: new_base_def ExporterConfig.extend_def)

lemma new_base_fields [simp]:
  "ex_Name (new_base n cfg) = n"
  "ClientV2 (new_base n cfg) = ClientV2 cfg"
  "ServiceName (new_base n cfg) = ServiceName cfg"
  "Prefix (new_base n cfg) = Prefix cfg"
  "DisabledMetrics (new_base n cfg) = DisabledMetrics cfg"
  "CollectTime (new_base n cfg) = CollectTime cfg"
  "DisableSlowMetrics (new_base n cfg) = DisableSlowMetrics cfg"
  "DisableDeprecatedMetrics (new_base n cfg) = DisableDeprecatedMetrics cfg"
  "DisableCinderAgentUUID (new_base n cfg) = DisableCinderAgentUUID cfg"
  "DomainID (new_base n cfg) = DomainID cfg"
  "TenantID (new_base n cfg) = TenantID cfg"
  "NovaMetadataMapping (new_base n cfg) = NovaMetadataMapping cfg"
  "DnsConcurrentCount (new_base n cfg) = DnsConcurrentCount cfg"
  by (simp_all add: new_base_def ExporterConfig.extend_def)

text \<open>Registration touches the map of metrics and nothing else.\<close>

lemma register_metric_more:
  "register_metric pr m ex = ex\<lparr>ex_Metrics := ex_Metrics (register_metric pr m ex)\<rparr>"
  by (simp add: register_metric_def AddMetric_def Let_def split: option.splits)

lemma register_table_more:
  "register_table pr ms ex = ex\<lparr>ex_Metrics := ex_Metrics (register_table pr ms ex)\<rparr>"
proof (induction ms arbitrary: ex)
  case Nil
  then show ?case by (simp add: register_table_def)
next
  case (Cons m ms)
  obtain x where x: "register_metric pr m ex = ex\<lparr>ex_Metrics := x\<rparr>"
    using register_metric_more by metis
  have "register_table pr (m # ms) ex = register_table pr ms (ex\<lparr>ex_Metrics := x\<rparr>)"
    by (simp add: register_table_def x)
  also have "\<dots> = ex\<lparr>ex_Metrics := ex_Metrics (register_table pr ms (ex\<lparr>ex_Metrics := x\<rparr>))\<rparr>"
    by (subst Cons.IH) simp
  finally show ?case by (metis exporter.select_convs(2) exporter.surjective exporter.update_convs(2))
qed

lemma register_table_fields [simp]:
  "ex_Name (register_table pr ms ex) = ex_Name ex"
  "ClientV2 (register_table pr ms ex) = ClientV2 ex"
  "ServiceName (register_table pr ms ex) = ServiceName ex"
  "Prefix (register_table pr ms ex) = Prefix ex"
  "DisabledMetrics (register_table pr ms ex) = DisabledMetrics ex"
  "CollectTime (register_table pr ms ex) = CollectTime ex"
  "DisableSlowMetrics (register_table pr ms ex) = DisableSlowMetrics ex"
  "DisableDeprecatedMetrics (register_table pr ms ex) = DisableDeprecatedMetrics ex"
  "DisableCinderAgentUUID (register_table pr ms ex) = DisableCinderAgentUUID ex"
  "DomainID (register_table pr ms ex) = DomainID ex"
  "TenantID (register_table pr ms ex) = TenantID ex"
  "NovaMetadataMapping (register_table pr ms ex) = NovaMetadataMapping ex"
  "DnsConcurrentCount (register_table pr ms ex) = DnsConcurrentCount ex"
  by (subst register_table_more, simp)+

lemma enabled_default:
  assumes "DisabledMetrics cfg = []" and "\<not> DisableSlowMetrics cfg"
    and "\<not> DisableDeprecatedMetrics cfg"
  shows "enabled (new_base n cfg) m"
  using assms
  by (simp add: enabled_def MetricIsDisabled_iff isSlowMetric_def isDeprecatedMetric_def)

text \<open>A configuration for the witnesses: nothing disabled, nothing optional.\<close>

definition sample_config :: ExporterConfig where
  "sample_config = \<lparr>ClientV2 = \<lparr>cl_Type = [], cl_Endpoint = [], cl_Microversion = [], cl_MoreHeaders = []\<rparr>,
     ServiceName = [], Prefix = ''openstack'', DisabledMetrics = [], CollectTime = False,
     DisableSlowMetrics = False, DisableDeprecatedMetrics = False,
     DisableCinderAgentUUID = False, DomainID = [], TenantID = [],
     NovaMetadataMapping = \<lparr>lm_Labels = [], lm_Keys = []\<rparr>, DnsConcurrentCount = 10\<rparr>"

lemma sample_config_enabled [simp]: "enabled (new_base n sample_config) m"
  by (rule enabled_default) (simp_all add: sample_config_def)

end
