(* ===== verification/Collect_Run.thy ===== *)
theory Collect_Run
  imports Base_Exporter
begin

text \<open>
  \<^verbatim>\<open>Collect\<close> of \<^verbatim>\<open>exporters/exporter.go\<close>: one goroutine per registered metric with a list function,
  all sending to the same channel, then the \<^verbatim>\<open>up\<close> sample.

  The state machine has one step per action that other goroutines can come between: the range
  loop starting the next goroutine, a goroutine sending one sample, a goroutine returning. Of
  \<^verbatim>\<open>errgroup\<close>, which is not part of the repository, it uses the documented contract only: \<^verbatim>\<open>Go\<close>
  runs its function in a goroutine, and \<^verbatim>\<open>Wait\<close> returns when all of them have returned. A panic in
  a goroutine is not caught; it ends the run.

  \<open>body\<close> is \<^const>\<open>RunCollection\<close> of a metric: what its goroutine sends, and how it stops.
\<close>

datatype collect_phase = Collecting | Returned | Crashed go_panic

record collect_state =
  cs_pending :: "(string \<times> PrometheusMetric) list"
  cs_running :: "coll multiset"
  cs_metricsCount :: int
  cs_failures :: int
  cs_sent :: "sample list"
  cs_phase :: collect_phase

text \<open>\<open>entries\<close> are the entries of \<^verbatim>\<open>exporter.Metrics\<close> in the order the range visits them.\<close>

definition collect_init :: "(string \<times> PrometheusMetric) list \<Rightarrow> collect_state" where
  "collect_init entries = \<lparr>cs_pending = entries, cs_running = {#}, cs_metricsCount = 0,
     cs_failures = 0, cs_sent = [], cs_phase = Collecting\<rparr>"

definition up_value :: "int \<Rightarrow> int \<Rightarrow> f64" where
  "up_value metricsCount failures =
     (if metricsCount = 0 then 0 else if failures \<ge> metricsCount then 0 else 1)"

inductive collect_step ::
  "prom \<Rightarrow> exporter \<Rightarrow> (string \<times> PrometheusMetric \<Rightarrow> coll) \<Rightarrow> collect_state \<Rightarrow> collect_state \<Rightarrow> bool"
  for pr :: prom and ex :: exporter and body :: "string \<times> PrometheusMetric \<Rightarrow> coll" where
  skip: "cs_phase s = Collecting \<Longrightarrow> cs_pending s = (name, m) # rest \<Longrightarrow> pm_Fn m = None \<Longrightarrow>
    collect_step pr ex body s (s\<lparr>cs_pending := rest\<rparr>)"
| spawn: "cs_phase s = Collecting \<Longrightarrow> cs_pending s = (name, m) # rest \<Longrightarrow> pm_Fn m = Some f \<Longrightarrow>
    collect_step pr ex body s
      (s\<lparr>cs_pending := rest, cs_metricsCount := cs_metricsCount s + 1,
         cs_running := add_mset (body (name, m)) (cs_running s)\<rparr>)"
| send: "cs_phase s = Collecting \<Longrightarrow> cs_running s = add_mset (x # xs, r) gs \<Longrightarrow>
    collect_step pr ex body s
      (s\<lparr>cs_sent := cs_sent s @ [x], cs_running := add_mset (xs, r) gs\<rparr>)"
| done_ok: "cs_phase s = Collecting \<Longrightarrow> cs_running s = add_mset ([], Done) gs \<Longrightarrow>
    collect_step pr ex body s (s\<lparr>cs_running := gs\<rparr>)"
| done_failed: "cs_phase s = Collecting \<Longrightarrow> cs_running s = add_mset ([], Failed e) gs \<Longrightarrow>
    collect_step pr ex body s (s\<lparr>cs_running := gs, cs_failures := i32 (cs_failures s + 1)\<rparr>)"
| panics: "cs_phase s = Collecting \<Longrightarrow> cs_running s = add_mset ([], Panicked p) gs \<Longrightarrow>
    collect_step pr ex body s (s\<lparr>cs_phase := Crashed p\<rparr>)"
| up: "cs_phase s = Collecting \<Longrightarrow> cs_pending s = [] \<Longrightarrow> cs_running s = {#} \<Longrightarrow>
    emit pr ex ''up'' (up_value (cs_metricsCount s) (cs_failures s)) [] = (xs, r) \<Longrightarrow>
    collect_step pr ex body s
      (s\<lparr>cs_sent := cs_sent s @ xs,
         cs_phase := (case r of Panicked p \<Rightarrow> Crashed p | _ \<Rightarrow> Returned)\<rparr>)"

inductive_cases collect_stepE: "collect_step pr ex body s t"

inductive collect_reachable ::
  "prom \<Rightarrow> exporter \<Rightarrow> (string \<times> PrometheusMetric \<Rightarrow> coll) \<Rightarrow> collect_state \<Rightarrow> collect_state \<Rightarrow> bool"
  for pr :: prom and ex :: exporter and body :: "string \<times> PrometheusMetric \<Rightarrow> coll"
    and s0 :: collect_state where
  start: "collect_reachable pr ex body s0 s0"
| step: "collect_reachable pr ex body s0 s \<Longrightarrow> collect_step pr ex body s t \<Longrightarrow>
    collect_reachable pr ex body s0 t"

section \<open>The goroutines of a run\<close>

definition has_fn :: "string \<times> PrometheusMetric \<Rightarrow> bool" where
  "has_fn e \<longleftrightarrow> pm_Fn (snd e) \<noteq> None"

definition fails :: "coll \<Rightarrow> bool" where
  "fails c \<longleftrightarrow> (\<exists>e. snd c = Failed e)"

definition panicking :: "coll \<Rightarrow> bool" where
  "panicking c \<longleftrightarrow> (\<exists>p. snd c = Panicked p)"

definition bodies :: "(string \<times> PrometheusMetric \<Rightarrow> coll) \<Rightarrow> (string \<times> PrometheusMetric) list \<Rightarrow> coll list" where
  "bodies body entries = map body (filter has_fn entries)"

definition unsent :: "coll multiset \<Rightarrow> sample multiset" where
  "unsent gs = (\<Sum>c\<in>#gs. mset (fst c))"

lemma unsent_simps [simp]:
  "unsent {#} = {#}"
  "unsent (add_mset c gs) = mset (fst c) + unsent gs"
  by (simp_all add: unsent_def)

text \<open>
  What every reachable state has: the samples sent and those still to come are the samples of
  all goroutines, the goroutines counted are those started, the failures counted and those
  still to come are the failing ones, and no goroutine that panics has ended.
\<close>

definition collect_inv ::
  "(string \<times> PrometheusMetric \<Rightarrow> coll) \<Rightarrow> (string \<times> PrometheusMetric) list \<Rightarrow> collect_state \<Rightarrow> bool" where
  "collect_inv body entries s \<longleftrightarrow>
     cs_metricsCount s + int (length (filter has_fn (cs_pending s)))
       = int (length (filter has_fn entries)) \<and>
     0 \<le> cs_failures s \<and>
     cs_failures s + int (size (filter_mset fails (cs_running s)))
       + int (length (filter fails (bodies body (cs_pending s))))
       = int (length (filter fails (bodies body entries))) \<and>
     size (filter_mset panicking (cs_running s))
       + length (filter panicking (bodies body (cs_pending s)))
       = length (filter panicking (bodies body entries)) \<and>
     mset (cs_sent s) + unsent (cs_running s) + unsent (mset (bodies body (cs_pending s)))
       = unsent (mset (bodies body entries))"

lemma collect_inv_init: "collect_inv body entries (collect_init entries)"
  by (simp add: collect_inv_def collect_init_def)

lemma bodies_Cons:
  "bodies body (e # es) = (if has_fn e then body e # bodies body es else bodies body es)"
  by (simp add: bodies_def)

lemma bodies_Nil [simp]: "bodies body [] = []"
  by (simp add: bodies_def)

lemma length_bodies: "length (bodies body es) = length (filter has_fn es)"
  by (simp add: bodies_def)

lemma collect_step_inv:
  assumes "collect_step pr ex body s t" and "collect_inv body entries s"
    and "length entries < 2 ^ 31" and "cs_phase t = Collecting"
  shows "collect_inv body entries t"
  using assms(1)
proof (cases rule: collect_step.cases)
  case (skip name m rest)
  with assms(2) show ?thesis by (simp add: collect_inv_def bodies_Cons has_fn_def)
next
  case (spawn name m rest f)
  with assms(2) show ?thesis
    by (auto simp: collect_inv_def bodies_Cons has_fn_def ac_simps)
next
  case (send x xs r gs)
  with assms(2) show ?thesis by (auto simp: collect_inv_def fails_def panicking_def)
next
  case (done_ok gs)
  with assms(2) show ?thesis by (simp add: collect_inv_def fails_def panicking_def)
next
  case (done_failed e gs)
  have "length (filter fails (bodies body entries)) \<le> length entries"
    by (metis length_bodies length_filter_le order_trans)
  with assms(2,3) done_failed have "0 \<le> cs_failures s" "cs_failures s + 1 < 2 ^ 31"
    by (auto simp: collect_inv_def fails_def panicking_def)
  then have "i32 (cs_failures s + 1) = cs_failures s + 1"
    by (intro i32_id) auto
  with assms(2) done_failed show ?thesis by (simp add: collect_inv_def fails_def panicking_def)
next
  case (panics p gs)
  with assms(4) show ?thesis by simp
next
  case (up xs r)
  with assms(4) show ?thesis by (simp split: stop.splits)
qed

lemma collect_phase_final:
  "collect_step pr ex body s t \<Longrightarrow> cs_phase s = Collecting"
  by (auto elim: collect_step.cases)

lemma collect_reachable_inv:
  assumes "collect_reachable pr ex body (collect_init entries) s" and "length entries < 2 ^ 31"
    and "cs_phase s = Collecting"
  shows "collect_inv body entries s"
  using assms(1,3)
proof (induction rule: collect_reachable.induct)
  case start
  then show ?case by (simp add: collect_inv_init)
next
  case (step s t)
  then show ?case using assms(2) collect_phase_final collect_step_inv by blast
qed

text \<open>A returned run: every sample of every goroutine, then \<^verbatim>\<open>up\<close>.\<close>

lemma collect_returned:
  assumes "collect_reachable pr ex body (collect_init entries) t" and "cs_phase t = Returned"
    and "length entries < 2 ^ 31"
  shows "\<exists>xs v. cs_sent t = xs @ [samp ex ''up'' v []]
    \<and> mset xs = unsent (mset (bodies body entries))
    \<and> v = (if \<forall>c \<in> set (bodies body entries). fails c then 0 else 1)
    \<and> (\<forall>c \<in> set (bodies body entries). \<not> panicking c)"
  using assms(1,2)
proof (cases rule: collect_reachable.cases)
  case start
  with assms(2) show ?thesis by (simp add: collect_init_def)
next
  case (step s)
  from step(2) assms(2) show ?thesis
  proof (cases rule: collect_step.cases)
    case (up xs r)
    then have inv: "collect_inv body entries s"
      using step(1) assms(3) by (intro collect_reachable_inv)
    let ?bs = "bodies body entries"
    have counts: "cs_metricsCount s = int (length ?bs)" "cs_failures s = int (length (filter fails ?bs))"
      "mset (cs_sent s) = unsent (mset ?bs)" "filter panicking ?bs = []"
      using inv up by (simp_all add: collect_inv_def length_bodies)
    have r: "r = Done \<and> xs = [samp ex ''up'' (up_value (cs_metricsCount s) (cs_failures s)) []]"
      using up assms(2)
      by (auto simp: emit_def emit_desc_def samp_def desc_at_def split: option.splits if_splits)
    have "up_value (cs_metricsCount s) (cs_failures s) = (if \<forall>c \<in> set ?bs. fails c then 0 else 1)"
    proof (cases "\<forall>c \<in> set ?bs. fails c")
      case True
      then have "filter fails ?bs = ?bs" by (simp add: filter_id_conv)
      with True show ?thesis by (simp add: up_value_def counts)
    next
      case False
      then have "length (filter fails ?bs) < length ?bs" by (auto intro: length_filter_less)
      with False show ?thesis by (auto simp: up_value_def counts)
    qed
    then show ?thesis using r counts(3,4) up by (auto simp: filter_empty_conv)
  qed (use assms(2) in auto)
qed

section \<open>Progress and termination\<close>

lemma collect_progress:
  assumes "cs_phase s = Collecting"
  shows "\<exists>t. collect_step pr ex body s t"
proof (cases "cs_running s")
  case (add c gs)
  obtain xs r where c: "c = (xs, r)" by (cases c)
  show ?thesis
  proof (cases xs)
    case (Cons x ys)
    then have "cs_running s = add_mset (x # ys, r) gs" using add c by simp
    with assms show ?thesis by (blast intro: collect_step.send)
  next
    case Nil
    then have "cs_running s = add_mset ([], r) gs" using add c by simp
    with assms show ?thesis
      by (cases r) (blast intro: collect_step.intros)+
  qed
next
  case empty
  show ?thesis
  proof (cases "cs_pending s")
    case (Cons e rest)
    obtain name m where "e = (name, m)" by (cases e)
    with Cons assms show ?thesis
      by (cases "pm_Fn m") (blast intro: collect_step.intros)+
  next
    case Nil
    obtain xs r where "emit pr ex ''up'' (up_value (cs_metricsCount s) (cs_failures s)) [] = (xs, r)"
      by (cases "emit pr ex ''up'' (up_value (cs_metricsCount s) (cs_failures s)) []")
    with Nil empty assms show ?thesis by (blast intro: collect_step.up)
  qed
qed

definition work :: "coll multiset \<Rightarrow> nat" where
  "work gs = (\<Sum>c\<in>#gs. Suc (length (fst c)))"

definition collect_measure :: "(string \<times> PrometheusMetric \<Rightarrow> coll) \<Rightarrow> collect_state \<Rightarrow> nat" where
  "collect_measure body s =
     (if cs_phase s = Collecting then 1 else 0) + work (cs_running s)
       + (\<Sum>e\<leftarrow>cs_pending s. Suc (Suc (length (fst (body e)))))"

lemma collect_step_measure:
  "collect_step pr ex body s t \<Longrightarrow> collect_measure body t < collect_measure body s"
proof (induction rule: collect_step.induct)
  case (up s xs r)
  then show ?case by (auto simp: collect_measure_def work_def split: stop.splits)
qed (simp_all add: collect_measure_def work_def)

lemma collect_finishes:
  "\<exists>t. collect_reachable pr ex body s0 t \<and> cs_phase t \<noteq> Collecting"
  if "collect_reachable pr ex body s0 s"
  using that
proof (induction "collect_measure body s" arbitrary: s rule: less_induct)
  case less
  show ?case
  proof (cases "cs_phase s = Collecting")
    case True
    then obtain t where t: "collect_step pr ex body s t" using collect_progress by blast
    with less show ?thesis
      using collect_step_measure [OF t] collect_reachable.step by blast
  qed (use less.prems in blast)
qed

text \<open>A run crashes only where a goroutine panics or \<^verbatim>\<open>up\<close> cannot be sent.\<close>

lemma collect_no_crash:
  assumes "collect_reachable pr ex body (collect_init entries) t" and "length entries < 2 ^ 31"
    and "\<And>c. c \<in> set (bodies body entries) \<Longrightarrow> \<not> panicking c"
    and "accepts_arity pr" and "registered ex ''up'' 0"
  shows "\<not> (\<exists>p. cs_phase t = Crashed p)"
  using assms(1)
proof (cases rule: collect_reachable.cases)
  case start
  then show ?thesis by (simp add: collect_init_def)
next
  case (step s)
  from step(2) show ?thesis
  proof (cases rule: collect_step.cases)
    case (panics p gs)
    then have "collect_inv body entries s"
      using step(1) assms(2) by (intro collect_reachable_inv)
    moreover have "filter panicking (bodies body entries) = []"
      using assms(3) by (simp add: filter_empty_conv)
    ultimately show ?thesis using panics by (simp add: collect_inv_def panicking_def)
  next
    case (up xs r)
    have "emit pr ex ''up'' v [] = ([samp ex ''up'' v []], Done)" for v
      using assms(4,5) by (intro emit_ok) simp_all
    with up show ?thesis by auto
  qed auto
qed

section \<open>The run of an exporter\<close>

definition collect_body ::
  "prom \<Rightarrow> (ListFunc \<Rightarrow> coll) \<Rightarrow> (string \<Rightarrow> f64) \<Rightarrow> exporter \<Rightarrow> string \<times> PrometheusMetric \<Rightarrow> coll" where
  "collect_body pr run_list secs ex e = RunCollection pr run_list (secs (fst e)) ex (snd e) (fst e)"

definition Collect ::
  "prom \<Rightarrow> (ListFunc \<Rightarrow> coll) \<Rightarrow> (string \<Rightarrow> f64) \<Rightarrow> (string \<times> PrometheusMetric) order \<Rightarrow>
   exporter \<Rightarrow> collect_state \<Rightarrow> bool" where
  "Collect pr run_list secs ord ex t \<longleftrightarrow>
     collect_reachable pr ex (collect_body pr run_list secs ex)
       (collect_init (ord (metrics_of ex))) t"

lemma RunCollection_fails:
  "pm_Fn m = Some f \<Longrightarrow> accepts_arity pr \<Longrightarrow> registered ex ''openstack_metric_collect_seconds'' 1 \<Longrightarrow>
     fails (RunCollection pr run_list v ex m n) = fails (run_list f) \<and>
     panicking (RunCollection pr run_list v ex m n) = panicking (run_list f)"
  by (cases "run_list f"; cases "snd (run_list f)")
    (auto simp: RunCollection_def fails_def panicking_def emit_ok)

lemma Collect_result:
  assumes "Collect pr run_list secs ord ex t" and "cs_phase t = Returned"
    and "permutes_order ord" and "length (metrics_of ex) < 2 ^ 31"
  shows "let cs = map (collect_body pr run_list secs ex) (filter has_fn (metrics_of ex)) in
    \<exists>xs. cs_sent t = xs @ [samp ex ''up'' (if \<forall>c \<in> set cs. fails c then 0 else 1) []]
      \<and> mset xs = unsent (mset cs) \<and> (\<forall>c \<in> set cs. \<not> panicking c)"
proof -
  let ?body = "collect_body pr run_list secs ex"
  let ?es = "ord (metrics_of ex)"
  have same: "mset (bodies ?body ?es) = mset (bodies ?body (metrics_of ex))"
    using assms(3) by (simp add: bodies_def permutes_order_def)
  then have sets: "set (bodies ?body ?es) = set (bodies ?body (metrics_of ex))"
    by (metis set_mset_mset)
  obtain xs v where "cs_sent t = xs @ [samp ex ''up'' v []]"
    "mset xs = unsent (mset (bodies ?body ?es))"
    "v = (if \<forall>c \<in> set (bodies ?body ?es). fails c then 0 else 1)"
    "\<forall>c \<in> set (bodies ?body ?es). \<not> panicking c"
    using collect_returned [of pr ex ?body ?es t] assms
    by (auto simp: Collect_def permutes_order_length)
  then show ?thesis unfolding same sets by (auto simp: Let_def bodies_def)
qed

text \<open>A run can return where nothing panics: from its start some steps lead to an end.\<close>

lemma Collect_can_return:
  assumes "permutes_order ord" and "length (metrics_of ex) < 2 ^ 31" and "accepts_arity pr"
    and "registered ex ''up'' 0"
    and "\<And>c. c \<in> set (map (collect_body pr run_list secs ex) (filter has_fn (metrics_of ex))) \<Longrightarrow> \<not> panicking c"
  shows "\<exists>t. Collect pr run_list secs ord ex t \<and> cs_phase t = Returned"
proof -
  let ?body = "collect_body pr run_list secs ex" and ?s = "collect_init (ord (metrics_of ex))"
  obtain t where t: "collect_reachable pr ex ?body ?s t" "cs_phase t \<noteq> Collecting"
    using collect_finishes [OF collect_reachable.start [of pr ex ?body ?s]] by blast
  have "set (bodies ?body (ord (metrics_of ex))) = set (bodies ?body (metrics_of ex))"
    using assms(1) by (simp add: bodies_def permutes_order_set)
  then have "\<not> (\<exists>p. cs_phase t = Crashed p)"
    using assms by (intro collect_no_crash [OF t(1)]) (auto simp: permutes_order_length bodies_def)
  with t show ?thesis unfolding Collect_def by (cases "cs_phase t") auto
qed

lemma Collect_panics:
  assumes "e \<in> set (metrics_of ex)" and "has_fn e" and "panicking (collect_body pr run_list secs ex e)"
    and "permutes_order ord" and "length (metrics_of ex) < 2 ^ 31"
  shows "\<not> (\<exists>t. Collect pr run_list secs ord ex t \<and> cs_phase t = Returned)"
    and "\<exists>t p. Collect pr run_list secs ord ex t \<and> cs_phase t = Crashed p"
proof -
  show *: "\<not> (\<exists>t. Collect pr run_list secs ord ex t \<and> cs_phase t = Returned)"
  proof
    assume "\<exists>t. Collect pr run_list secs ord ex t \<and> cs_phase t = Returned"
    then obtain t where t: "Collect pr run_list secs ord ex t" "cs_phase t = Returned" by blast
    from Collect_result [OF t assms(4,5)] assms(1-3) show False by (cases e) (auto simp: Let_def)
  qed
  obtain t where "collect_reachable pr ex (collect_body pr run_list secs ex) (collect_init (ord (metrics_of ex))) t"
    "cs_phase t \<noteq> Collecting"
    using collect_finishes [OF collect_reachable.start] by blast
  with * show "\<exists>t p. Collect pr run_list secs ord ex t \<and> cs_phase t = Crashed p"
    unfolding Collect_def by (metis collect_phase.exhaust)
qed

section \<open>Properties\<close>

text \<open>
  Property C1. However the goroutines of \<^verbatim>\<open>Collect\<close> interleave and whatever the order of the range:
  when \<^verbatim>\<open>Collect\<close> returns it has sent every sample of every list function, each as often as its
  goroutine sends it, and after all of them exactly one \<^verbatim>\<open>up\<close> sample, which is 0 when there is no
  list function or all of them failed, and 1 otherwise; and none of them panicked.
\<close>

theorem collect_sends_all_then_up:
  assumes "Collect pr run_list secs ord ex t" and "cs_phase t = Returned"
    and "permutes_order ord" and "length (metrics_of ex) < 2 ^ 31"
  shows "let cs = map (collect_body pr run_list secs ex) (filter has_fn (metrics_of ex)) in
    \<exists>xs. cs_sent t = xs @ [samp ex ''up'' (if \<forall>c \<in> set cs. fails c then 0 else 1) []]
      \<and> mset xs = unsent (mset cs) \<and> (\<forall>c \<in> set cs. \<not> panicking c)"
  using Collect_result [OF assms] .


end
