(* ===== verification/Cache_Backend.thy ===== *)
theory Cache_Backend
  imports Go_Base
begin

text \<open>
  \<^verbatim>\<open>cache/cache.go\<close>: the in-memory cache of metric families per cloud.

  Times are nanoseconds, as readings of \<^verbatim>\<open>time.Now\<close> that the operations take as arguments. A
  metric family is an opaque value of the client library (the type variable). Both maps of the
  code, clouds and families, are association lists with distinct keys; their order is the order
  of insertion and no operation depends on it but through an explicit \<open>order\<close>.

  \<open>SetCloudCache\<close> stores a copy of the cloud's cache, and \<^verbatim>\<open>GetCloudCache\<close> returns one. Copies share
  the families' map, which no caller writes once the cache is stored.
\<close>

section \<open>State and operations\<close>

record 'mf MetricFamilyCache =
  mfc_Service :: string
  mfc_MF :: 'mf

record 'mf CloudCache =
  cc_Time :: int
  cc_MetricFamilyCaches :: "(string \<times> 'mf MetricFamilyCache) list"

text \<open>\<^const>\<open>None\<close> is the nil map of an \<^verbatim>\<open>InMemoryCache\<close> that \<^verbatim>\<open>GetCache\<close> did not make.\<close>

record 'mf InMemoryCache =
  CloudCaches :: "(string \<times> 'mf CloudCache) list option"

fun al_update :: "'k \<Rightarrow> 'v \<Rightarrow> ('k \<times> 'v) list \<Rightarrow> ('k \<times> 'v) list" where
  "al_update k v [] = [(k, v)]"
| "al_update k v ((j, w) # m) = (if j = k then (k, v) # m else (j, w) # al_update k v m)"

definition al_delete :: "'k \<Rightarrow> ('k \<times> 'v) list \<Rightarrow> ('k \<times> 'v) list" where
  "al_delete k m = filter (\<lambda>e. fst e \<noteq> k) m"

definition NewCloudCache :: "int \<Rightarrow> 'mf CloudCache" where
  "NewCloudCache now = \<lparr>cc_Time = now, cc_MetricFamilyCaches = []\<rparr>"

definition SetMetricFamilyCache ::
  "string \<Rightarrow> 'mf MetricFamilyCache \<Rightarrow> 'mf CloudCache \<Rightarrow> 'mf CloudCache" where
  "SetMetricFamilyCache mfName data c =
     c\<lparr>cc_MetricFamilyCaches := al_update mfName data (cc_MetricFamilyCaches c)\<rparr>"

text \<open>
  \<^verbatim>\<open>GetCache\<close> makes the cache at its first call (\<^verbatim>\<open>sync.Once\<close>) and returns it at every call; the
  package's variable is \<^const>\<open>None\<close> before.
\<close>

definition GetCache :: "'mf InMemoryCache option \<Rightarrow> 'mf InMemoryCache" where
  "GetCache singleCache =
     (case singleCache of None \<Rightarrow> \<lparr>CloudCaches = Some []\<rparr> | Some c \<Rightarrow> c)"

definition clouds_of :: "'mf InMemoryCache \<Rightarrow> (string \<times> 'mf CloudCache) list" where
  "clouds_of c = (case CloudCaches c of None \<Rightarrow> [] | Some m \<Rightarrow> m)"

definition cache_init :: "int \<Rightarrow> string option \<Rightarrow> 'mf InMemoryCache \<Rightarrow> 'mf InMemoryCache" where
  "cache_init now cloud c =
     (let c1 = (case CloudCaches c of None \<Rightarrow> c\<lparr>CloudCaches := Some []\<rparr> | Some m \<Rightarrow> c)
      in (case cloud of
            None \<Rightarrow> c1
          | Some name \<Rightarrow>
              (case map_of (clouds_of c1) name of
                 None \<Rightarrow> c1\<lparr>CloudCaches := Some (al_update name (NewCloudCache now) (clouds_of c1))\<rparr>
               | Some d \<Rightarrow> c1)))"

definition GetCloudCache :: "string \<Rightarrow> 'mf InMemoryCache \<Rightarrow> 'mf CloudCache \<times> bool" where
  "GetCloudCache cloud c =
     (case map_of (clouds_of c) cloud of
        Some cacheData \<Rightarrow> (cacheData, True)
      | None \<Rightarrow> (\<lparr>cc_Time = 0, cc_MetricFamilyCaches = []\<rparr>, False))"

definition SetCloudCache ::
  "int \<Rightarrow> string \<Rightarrow> 'mf CloudCache \<Rightarrow> 'mf InMemoryCache \<Rightarrow> 'mf InMemoryCache" where
  "SetCloudCache now cloud data c =
     (let c1 = cache_init now (Some cloud) c
      in c1\<lparr>CloudCaches := Some (al_update cloud (data\<lparr>cc_Time := now\<rparr>) (clouds_of c1))\<rparr>)"

text \<open>
  The flush reads the clock once per entry: \<open>now_at key\<close> is the reading at that entry's turn. The
  range deletes entries of the map it visits, which Go allows; an entry is visited once.
\<close>

fun Flush_loop ::
  "(string \<Rightarrow> int) \<Rightarrow> int \<Rightarrow> (string \<times> 'mf CloudCache) list \<Rightarrow> (string \<times> 'mf CloudCache) list \<Rightarrow>
   (string \<times> 'mf CloudCache) list" where
  "Flush_loop now_at ttl [] m = m"
| "Flush_loop now_at ttl ((key, cloudCache) # rest) m =
     (let expirationTime = cc_Time cloudCache + ttl
      in Flush_loop now_at ttl rest
           (if now_at key > expirationTime then al_delete key m else m))"

definition FlushExpiredCloudCaches ::
  "(string \<times> 'mf CloudCache) order \<Rightarrow> (string \<Rightarrow> int) \<Rightarrow> int \<Rightarrow> 'mf InMemoryCache \<Rightarrow>
   'mf InMemoryCache" where
  "FlushExpiredCloudCaches ord now_at ttl c =
     (case CloudCaches c of
        None \<Rightarrow> c
      | Some m \<Rightarrow> c\<lparr>CloudCaches := Some (Flush_loop now_at ttl (ord m) m)\<rparr>)"

section \<open>The cache as a map of clouds\<close>

definition cache_inv :: "'mf InMemoryCache \<Rightarrow> bool" where
  "cache_inv c \<longleftrightarrow> distinct (map fst (clouds_of c))"

definition lookup_cloud :: "'mf InMemoryCache \<Rightarrow> string \<Rightarrow> 'mf CloudCache option" where
  "lookup_cloud c cloud = (let (d, ok) = GetCloudCache cloud c in if ok then Some d else None)"

lemma al_update_keys: "fst ` set (al_update k v m) = insert k (fst ` set m)"
  by (induction k v m rule: al_update.induct) auto

lemma al_update_distinct: "distinct (map fst m) \<Longrightarrow> distinct (map fst (al_update k v m))"
  by (induction k v m rule: al_update.induct) (auto simp: al_update_keys)

lemma map_of_al_update: "map_of (al_update k v m) = (map_of m)(k \<mapsto> v)"
  by (induction k v m rule: al_update.induct) (auto simp: fun_eq_iff)

lemma al_delete_distinct: "distinct (map fst m) \<Longrightarrow> distinct (map fst (al_delete k m))"
  by (simp add: al_delete_def distinct_map_filter)

lemma map_of_al_delete: "map_of (al_delete k m) = (map_of m)(k := None)"
  unfolding al_delete_def by (induction m) (auto simp: fun_eq_iff)

lemma lookup_cloud_map_of: "lookup_cloud c = map_of (clouds_of c)"
  by (auto simp: fun_eq_iff lookup_cloud_def GetCloudCache_def split: option.splits)

lemma cache_init_clouds:
  "clouds_of (cache_init now cloud c) =
     (case cloud of None \<Rightarrow> clouds_of c
      | Some n \<Rightarrow> if map_of (clouds_of c) n = None
          then al_update n (NewCloudCache now) (clouds_of c) else clouds_of c)"
  by (auto simp: cache_init_def clouds_of_def Let_def split: option.splits)

lemma SetCloudCache_lookup:
  "lookup_cloud (SetCloudCache now cloud data c) = (lookup_cloud c)(cloud \<mapsto> data\<lparr>cc_Time := now\<rparr>)"
  by (auto simp: lookup_cloud_map_of SetCloudCache_def Let_def clouds_of_def [of "_\<lparr>CloudCaches := _\<rparr>"]
      map_of_al_update cache_init_clouds fun_eq_iff)

lemma SetCloudCache_inv: "cache_inv c \<Longrightarrow> cache_inv (SetCloudCache now cloud data c)"
  by (auto simp: cache_inv_def SetCloudCache_def Let_def clouds_of_def [of "_\<lparr>CloudCaches := _\<rparr>"]
      cache_init_clouds al_update_distinct)

lemma Flush_loop_distinct:
  "distinct (map fst m) \<Longrightarrow> distinct (map fst (Flush_loop now_at ttl es m))"
  by (induction now_at ttl es m rule: Flush_loop.induct) (auto simp: Let_def al_delete_distinct)

lemma Flush_loop_lookup:
  "map_of (Flush_loop now_at ttl es m) k =
     (if \<exists>d. (k, d) \<in> set es \<and> now_at k > cc_Time d + ttl then None else map_of m k)"
  by (induction now_at ttl es m rule: Flush_loop.induct)
    (auto simp: Let_def map_of_al_delete)

lemma Flush_inv:
  "cache_inv c \<Longrightarrow> cache_inv (FlushExpiredCloudCaches ord now_at ttl c)"
  by (auto simp: cache_inv_def FlushExpiredCloudCaches_def clouds_of_def Flush_loop_distinct
      split: option.splits)

lemma Flush_lookup:
  assumes "cache_inv c" and "permutes_order ord"
  shows "lookup_cloud (FlushExpiredCloudCaches ord now_at ttl c) k =
    (case lookup_cloud c k of
       None \<Rightarrow> None
     | Some d \<Rightarrow> if now_at k > cc_Time d + ttl then None else Some d)"
proof (cases "CloudCaches c")
  case None
  then show ?thesis by (simp add: lookup_cloud_map_of FlushExpiredCloudCaches_def clouds_of_def)
next
  case (Some m)
  then have "distinct (map fst m)" using assms(1) by (simp add: cache_inv_def clouds_of_def)
  then have "(\<exists>d. (k, d) \<in> set (ord m) \<and> now_at k > cc_Time d + ttl)
      \<longleftrightarrow> (\<exists>d. map_of m k = Some d \<and> now_at k > cc_Time d + ttl)"
    using assms(2) by (simp add: permutes_order_set)
  with Some show ?thesis
    by (auto simp: lookup_cloud_map_of FlushExpiredCloudCaches_def clouds_of_def Flush_loop_lookup
        split: option.splits)
qed

section \<open>The interface\<close>

text \<open>
  The abstract cache is a map of clouds. A store replaces one entry and stamps it, a flush drops
  the entries whose age is more than the time to live.
\<close>

datatype 'mf cache_op = Store int string "'mf CloudCache" | Flush "string \<Rightarrow> int" int

fun map_step :: "'mf cache_op \<Rightarrow> (string \<rightharpoonup> 'mf CloudCache) \<Rightarrow> (string \<rightharpoonup> 'mf CloudCache)" where
  "map_step (Store now k d) m = m(k \<mapsto> d\<lparr>cc_Time := now\<rparr>)"
| "map_step (Flush now_at ttl) m = (\<lambda>k. case m k of None \<Rightarrow> None
     | Some d \<Rightarrow> if now_at k > cc_Time d + ttl then None else Some d)"

text \<open>
  \<^verbatim>\<open>CacheBackend\<close>, as its clients use it: what each operation does to the map of clouds, for
  states that keep the provider's invariant.
\<close>

locale cache_backend =
  fixes inv :: "'c \<Rightarrow> bool"
    and lookup :: "'c \<Rightarrow> string \<Rightarrow> 'mf CloudCache option"
    and store :: "int \<Rightarrow> string \<Rightarrow> 'mf CloudCache \<Rightarrow> 'c \<Rightarrow> 'c"
    and flush :: "(string \<Rightarrow> int) \<Rightarrow> int \<Rightarrow> 'c \<Rightarrow> 'c"
  assumes store_inv: "inv c \<Longrightarrow> inv (store now cloud d c)"
    and flush_inv: "inv c \<Longrightarrow> inv (flush now_at ttl c)"
    and lookup_store: "inv c \<Longrightarrow> lookup (store now cloud d c) = (lookup c)(cloud \<mapsto> d\<lparr>cc_Time := now\<rparr>)"
    and lookup_flush: "inv c \<Longrightarrow> lookup (flush now_at ttl c) k =
      (case lookup c k of None \<Rightarrow> None
       | Some d \<Rightarrow> if now_at k > cc_Time d + ttl then None else Some d)"
begin

text \<open>What a reader finds right after a flush is at most \<open>ttl\<close> old.\<close>

lemma fresh_after_flush:
  "inv c \<Longrightarrow> lookup (flush now_at ttl c) k = Some d \<Longrightarrow>
     lookup c k = Some d \<and> now_at k \<le> cc_Time d + ttl"
  by (auto simp: lookup_flush split: option.splits if_splits)

text \<open>A flush removes nothing that is still fresh.\<close>

lemma flush_keeps_fresh:
  "inv c \<Longrightarrow> lookup c k = Some d \<Longrightarrow> now_at k \<le> cc_Time d + ttl \<Longrightarrow>
     lookup (flush now_at ttl c) k = Some d"
  by (simp add: lookup_flush)

lemma flush_twice:
  "inv c \<Longrightarrow> (\<And>k. now_at k \<le> later k) \<Longrightarrow>
     lookup (flush later ttl (flush now_at ttl c)) k = lookup (flush later ttl c) k"
  using order_trans [of "now_at k" "later k"]
  by (cases "lookup c k") (force simp: lookup_flush flush_inv)+

text \<open>Stores of several clouds, one after another.\<close>

lemma store_all_inv: "inv c \<Longrightarrow> inv (fold (\<lambda>k. store (when k) k (f k)) ks c)"
  by (induction ks arbitrary: c) (auto simp: store_inv)

lemma lookup_store_all:
  "inv c \<Longrightarrow> lookup (fold (\<lambda>k. store (when k) k (f k)) ks c) x =
     (if x \<in> set ks then Some ((f x)\<lparr>cc_Time := when x\<rparr>) else lookup c x)"
  by (induction ks arbitrary: c) (auto simp: store_inv lookup_store)

lemma lookup_store_other:
  "inv c \<Longrightarrow> k \<noteq> cloud \<Longrightarrow> lookup (store now cloud d c) k = lookup c k"
  by (simp add: lookup_store)

lemma store_flush_fresh:
  "inv c \<Longrightarrow> 0 \<le> ttl \<Longrightarrow> now_at cloud = now \<Longrightarrow>
     lookup (flush now_at ttl (store now cloud d c)) cloud = Some (d\<lparr>cc_Time := now\<rparr>)"
  by (simp add: lookup_flush store_inv lookup_store)

text \<open>A run of the backend and the same run on a map of clouds.\<close>

lemma run_map:
  "inv c \<Longrightarrow>
     lookup (fold (\<lambda>a. case a of Store now k d \<Rightarrow> store now k d | Flush now_at ttl \<Rightarrow> flush now_at ttl) as c)
       = fold map_step as (lookup c)"
proof (induction as arbitrary: c)
  case (Cons a as)
  have "lookup (flush now_at ttl c) = map_step (Flush now_at ttl) (lookup c)" for now_at ttl
    using Cons.prems by (simp add: fun_eq_iff lookup_flush)
  with Cons show ?case
    by (cases a) (simp_all add: store_inv flush_inv lookup_store fun_upd_def del: map_step.simps(2))
qed simp

end

text \<open>\<^verbatim>\<open>InMemoryCache\<close> is a backend, whatever order its range loops visit the entries in.\<close>

lemma InMemoryCache_backend:
  "permutes_order ord \<Longrightarrow>
     cache_backend cache_inv lookup_cloud SetCloudCache (FlushExpiredCloudCaches ord)"
  by unfold_locales (simp_all add: SetCloudCache_inv Flush_inv SetCloudCache_lookup Flush_lookup)

interpretation in_memory: cache_backend cache_inv lookup_cloud SetCloudCache
  "FlushExpiredCloudCaches (\<lambda>es. es)"
  by (rule InMemoryCache_backend) simp

lemma GetCache_inv: "cache_inv (GetCache None)"
  by (simp add: GetCache_def cache_inv_def clouds_of_def)

lemma GetCache_empty: "lookup_cloud (GetCache None) = Map.empty"
  by (simp add: lookup_cloud_map_of GetCache_def clouds_of_def)

fun cache_step ::
  "(string \<times> 'mf CloudCache) order \<Rightarrow> 'mf cache_op \<Rightarrow> 'mf InMemoryCache \<Rightarrow> 'mf InMemoryCache" where
  "cache_step ord (Store now k d) c = SetCloudCache now k d c"
| "cache_step ord (Flush now_at ttl) c = FlushExpiredCloudCaches ord now_at ttl c"

lemma cache_step_eq:
  "cache_step ord = (\<lambda>a. case a of Store now k d \<Rightarrow> SetCloudCache now k d
     | Flush now_at ttl \<Rightarrow> FlushExpiredCloudCaches ord now_at ttl)"
proof
  fix a :: "'a cache_op"
  show "cache_step ord a = (case a of Store now k d \<Rightarrow> SetCloudCache now k d
     | Flush now_at ttl \<Rightarrow> FlushExpiredCloudCaches ord now_at ttl)"
    by (cases a) (simp_all add: fun_eq_iff)
qed

section \<open>Property\<close>

text \<open>
  Property C14. The in-memory cache refines a map of clouds: after any sequence of stores and flushes
  from its initial state, reading a cloud gives what the same sequence on the map leaves there,
  whatever the order in which a flush visits the entries.
\<close>

theorem cache_refines_map:
  assumes "permutes_order ord"
  shows "(let (d, ok) = GetCloudCache cloud (fold (cache_step ord) as (GetCache None))
          in if ok then Some d else None)
    = fold map_step as Map.empty cloud"
  using cache_backend.run_map [OF InMemoryCache_backend [OF assms] GetCache_inv, of as]
  by (simp add: cache_step_eq GetCache_empty flip: lookup_cloud_def)

theorem cache_refines_map_witness:
  "(let (d, ok) = GetCloudCache ''a'' (fold (cache_step (\<lambda>es. es))
      [Store 1 ''a'' (NewCloudCache 1), Store 5 ''b'' (NewCloudCache 4), Flush (\<lambda>k. 4) 2] (GetCache None))
    in if ok then Some d else None) = (None :: string CloudCache option)"
  by (subst cache_refines_map) (simp_all add: NewCloudCache_def permutes_order_def)

end
