(* ===== verification/Cache_Service.thy ===== *)
theory Cache_Service
  imports Cache_Backend
begin

text \<open>
  \<^verbatim>\<open>cache/utils.go\<close> and \<^verbatim>\<open>cacheBackgroundService\<close> of \<^verbatim>\<open>main.go\<close>: filling the cache, writing it to a
  response, and the service that refreshes and flushes it.

  What the code calls elsewhere are parameters: \<open>enable service cloud\<close> is the exporter that the
  enable function returns, \<open>gather\<close> what a fresh registry with that exporter gathers, \<open>mf_name\<close>
  the name of a metric family, \<open>to_text\<close> the text that \<^verbatim>\<open>MetricFamilyToText\<close> writes and its error.
  \<open>now_at cloud\<close> is the clock when the cloud's cache is stored. A registration or a collector that
  panics ends the process, and is not a value here but the event of a crash in \<open>Process_Run\<close>.
\<close>

section \<open>Collecting\<close>

record ('exp, 'mf) world =
  w_clouds :: "string list fallible"
  w_enable :: "string \<Rightarrow> string \<Rightarrow> 'exp fallible"
  w_gather :: "'exp \<Rightarrow> 'mf list fallible"

fun families_loop ::
  "('mf \<Rightarrow> string) \<Rightarrow> string \<Rightarrow> 'mf list \<Rightarrow> 'mf CloudCache \<Rightarrow> 'mf CloudCache" where
  "families_loop mf_name service [] cloudCache = cloudCache"
| "families_loop mf_name service (mf # mfs) cloudCache =
     families_loop mf_name service mfs
       (SetMetricFamilyCache (mf_name mf) \<lparr>mfc_Service = service, mfc_MF = mf\<rparr> cloudCache)"

fun services_loop ::
  "('mf \<Rightarrow> string) \<Rightarrow> ('exp, 'mf) world \<Rightarrow> string \<Rightarrow> string list \<Rightarrow> 'mf CloudCache \<Rightarrow> 'mf CloudCache"
where
  "services_loop mf_name w cloud [] cloudCache = cloudCache"
| "services_loop mf_name w cloud (service # services) cloudCache =
     (case w_enable w service cloud of
        Inl e \<Rightarrow> services_loop mf_name w cloud services cloudCache
      | Inr xp \<Rightarrow>
          (case w_gather w xp of
             Inl e \<Rightarrow> services_loop mf_name w cloud services cloudCache
           | Inr metricFamilies \<Rightarrow>
               services_loop mf_name w cloud services
                 (families_loop mf_name service metricFamilies cloudCache)))"

fun clouds_loop ::
  "('mf \<Rightarrow> string) \<Rightarrow> ('exp, 'mf) world \<Rightarrow> (string \<Rightarrow> int) \<Rightarrow> string list \<Rightarrow> string list \<Rightarrow>
   'mf InMemoryCache \<Rightarrow> 'mf InMemoryCache" where
  "clouds_loop mf_name w now_at services [] backend = backend"
| "clouds_loop mf_name w now_at services (cloud # clouds) backend =
     clouds_loop mf_name w now_at services clouds
       (SetCloudCache (now_at cloud) cloud
         (services_loop mf_name w cloud services (NewCloudCache (now_at cloud))) backend)"

definition CollectCache ::
  "('mf \<Rightarrow> string) \<Rightarrow> ('exp, 'mf) world \<Rightarrow> (string \<Rightarrow> int) \<Rightarrow> bool \<Rightarrow> string list \<Rightarrow> string \<Rightarrow>
   'mf InMemoryCache \<Rightarrow> go_error option \<times> 'mf InMemoryCache" where
  "CollectCache mf_name w now_at multiCloud services cloud backend =
     (case (if multiCloud then w_clouds w else Inr []) of
        Inl e \<Rightarrow> (Some e, backend)
      | Inr clouds \<Rightarrow>
          (let clouds = (if cloud \<noteq> [] \<and> \<not> multiCloud then clouds @ [cloud] else clouds)
           in (None, clouds_loop mf_name w now_at services clouds backend)))"

section \<open>Reading\<close>

fun buffer_loop ::
  "('mf \<Rightarrow> string \<times> go_error option) \<Rightarrow> string list \<Rightarrow> (string \<times> 'mf MetricFamilyCache) list \<Rightarrow>
   string \<Rightarrow> string \<times> go_error option" where
  "buffer_loop to_text services [] buf = (buf, None)"
| "buffer_loop to_text services ((k, mfCache) # rest) buf =
     (if mfc_Service mfCache \<notin> set services then buffer_loop to_text services rest buf
      else (case to_text (mfc_MF mfCache) of
              (t, Some e) \<Rightarrow> (buf @ t, Some e)
            | (t, None) \<Rightarrow> buffer_loop to_text services rest (buf @ t)))"

definition BufferFromCache ::
  "(string \<times> 'mf MetricFamilyCache) order \<Rightarrow> ('mf \<Rightarrow> string \<times> go_error option) \<Rightarrow>
   string \<Rightarrow> string list \<Rightarrow> 'mf InMemoryCache \<Rightarrow> string \<times> go_error option" where
  "BufferFromCache ord to_text cloud services backend =
     (let (cloudCache, exists) = GetCloudCache cloud backend
      in if \<not> exists then ([], None)
         else buffer_loop to_text services (ord (cc_MetricFamilyCaches cloudCache)) [])"

text \<open>
  What a handler does to its response writer, in order. The handler options are the zero value,
  so the content type is the one \<^verbatim>\<open>expfmt.Negotiate\<close> finds, a parameter.
\<close>

datatype http_action = Http_error string nat | Set_header string string | Write_body string

definition WriteCacheToResponse ::
  "(string \<times> 'mf MetricFamilyCache) order \<Rightarrow> ('mf \<Rightarrow> string \<times> go_error option) \<Rightarrow> string \<Rightarrow>
   (string \<Rightarrow> go_error option) \<Rightarrow> string \<Rightarrow> string list \<Rightarrow> 'mf InMemoryCache \<Rightarrow>
   http_action list \<times> go_error option" where
  "WriteCacheToResponse ord to_text negotiated write_error cloud enabledServices backend =
     (case BufferFromCache ord to_text cloud enabledServices backend of
        (buf, Some e) \<Rightarrow> ([Http_error ''Failed to encode metrics'' 500], Some e)
      | (buf, None) \<Rightarrow>
          (case write_error buf of
             Some e \<Rightarrow> ([Set_header ''Content-Type'' negotiated, Write_body buf,
               Http_error ''Failed to write cached metrics to response'' 500], Some e)
           | None \<Rightarrow> ([Set_header ''Content-Type'' negotiated, Write_body buf], None)))"

section \<open>What a collection stores\<close>

text \<open>The families a cloud's services deliver, with their service, in the order of arrival.\<close>

definition delivered ::
  "('mf \<Rightarrow> string) \<Rightarrow> ('exp, 'mf) world \<Rightarrow> string \<Rightarrow> string \<Rightarrow> (string \<times> 'mf MetricFamilyCache) list" where
  "delivered mf_name w cloud service =
     (case w_enable w service cloud of
        Inl e \<Rightarrow> []
      | Inr xp \<Rightarrow>
          (case w_gather w xp of
             Inl e \<Rightarrow> []
           | Inr mfs \<Rightarrow> map (\<lambda>mf. (mf_name mf, \<lparr>mfc_Service = service, mfc_MF = mf\<rparr>)) mfs))"

definition arrivals ::
  "('mf \<Rightarrow> string) \<Rightarrow> ('exp, 'mf) world \<Rightarrow> string \<Rightarrow> string list \<Rightarrow> (string \<times> 'mf MetricFamilyCache) list" where
  "arrivals mf_name w cloud services = concat (map (delivered mf_name w cloud) services)"

definition store_families ::
  "(string \<times> 'mf MetricFamilyCache) list \<Rightarrow> 'mf CloudCache \<Rightarrow> 'mf CloudCache" where
  "store_families es c = fold (\<lambda>(n, d). SetMetricFamilyCache n d) es c"

lemma families_loop_store:
  "families_loop mf_name service mfs c =
     store_families (map (\<lambda>mf. (mf_name mf, \<lparr>mfc_Service = service, mfc_MF = mf\<rparr>)) mfs) c"
  by (induction mfs arbitrary: c) (auto simp: store_families_def)

lemma services_loop_store:
  "services_loop mf_name w cloud services c
     = store_families (arrivals mf_name w cloud services) c"
proof (induction services arbitrary: c)
  case (Cons s services)
  have app: "store_families (as @ bs) c = store_families bs (store_families as c)"
    for as bs and c :: "'b CloudCache"
    by (simp add: store_families_def)
  from Cons show ?case
    by (auto simp: arrivals_def delivered_def app families_loop_store store_families_def
        split: sum.splits)
qed (simp add: arrivals_def store_families_def)

lemma clouds_loop_fold:
  "clouds_loop mf_name w now_at services clouds c =
     fold (\<lambda>k. SetCloudCache (now_at k) k
       (store_families (arrivals mf_name w k services) (NewCloudCache (now_at k)))) clouds c"
  by (induction clouds arbitrary: c) (auto simp: services_loop_store)

lemma store_families_map:
  "map_of (cc_MetricFamilyCaches (store_families es c))
     = map_of (cc_MetricFamilyCaches c) ++ map_of (rev es)"
  by (induction es arbitrary: c)
    (auto simp: store_families_def SetMetricFamilyCache_def map_of_al_update map_add_def fun_eq_iff
      split: option.splits)

lemma store_families_distinct:
  "distinct (map fst (cc_MetricFamilyCaches c)) \<Longrightarrow>
     distinct (map fst (cc_MetricFamilyCaches (store_families es c)))"
  by (induction es arbitrary: c)
    (auto simp: store_families_def SetMetricFamilyCache_def al_update_distinct)

definition collected ::
  "('mf \<Rightarrow> string) \<Rightarrow> ('exp, 'mf) world \<Rightarrow> (string \<Rightarrow> int) \<Rightarrow> string list \<Rightarrow> string \<Rightarrow> 'mf CloudCache" where
  "collected mf_name w now_at services cloud =
     store_families (arrivals mf_name w cloud services) (NewCloudCache (now_at cloud))"

lemma collected_map:
  "map_of (cc_MetricFamilyCaches (collected mf_name w now_at services cloud))
     = map_of (rev (arrivals mf_name w cloud services))"
  by (simp add: collected_def store_families_map NewCloudCache_def)

text \<open>The clouds that a collection visits.\<close>

definition targets :: "('exp, 'mf) world \<Rightarrow> bool \<Rightarrow> string \<Rightarrow> string list fallible" where
  "targets w multi cloud =
     (if multi then w_clouds w else Inr (if cloud \<noteq> [] then [cloud] else []))"

lemma CollectCache_ok:
  "CollectCache mf_name w now_at multi services cloud c =
     (case targets w multi cloud of
        Inl e \<Rightarrow> (Some e, c)
      | Inr clouds \<Rightarrow>
          (None, fold (\<lambda>k. SetCloudCache (now_at k) k (collected mf_name w now_at services k)) clouds c))"
  by (auto simp: CollectCache_def targets_def clouds_loop_fold collected_def split: sum.splits)

section \<open>What a read returns\<close>

lemma buffer_loop_ok:
  assumes "\<And>k d. (k, d) \<in> set es \<Longrightarrow> mfc_Service d \<in> set services \<Longrightarrow> snd (to_text (mfc_MF d)) = None"
  shows "buffer_loop to_text services es buf
    = (buf @ concat (map (\<lambda>(k, d). fst (to_text (mfc_MF d)))
         (filter (\<lambda>(k, d). mfc_Service d \<in> set services) es)), None)"
  using assms
proof (induction es arbitrary: buf)
  case (Cons e es)
  obtain k d where e: "e = (k, d)" by (cases e)
  show ?case
  proof (cases "mfc_Service d \<in> set services")
    case True
    then have "snd (to_text (mfc_MF d)) = None" using Cons.prems e by auto
    then obtain t where "to_text (mfc_MF d) = (t, None)" by (metis prod.collapse)
    moreover have "buffer_loop to_text services es (buf @ t)
        = (buf @ t @ concat (map (\<lambda>(k, d). fst (to_text (mfc_MF d)))
             (filter (\<lambda>(k, d). mfc_Service d \<in> set services) es)), None)"
      using Cons.IH [of "buf @ t"] Cons.prems by fastforce
    ultimately show ?thesis using True e by simp
  next
    case False
    with e Cons show ?thesis by fastforce
  qed
qed simp

section \<open>The background service\<close>

text \<open>
  The service's state: the clock, the cache, when the two tickers fire next, the time of the last
  flush (the start before the first one) and how the service ended. A collection may take time,
  and each collection meets its own world. A ticker's tick that comes while the service is busy
  waits; the select takes any ready branch.
\<close>

datatype service_phase = Starting | Serving | Stopped | Cancelled go_error | Ticker_panic

record 'mf service_state =
  sv_now :: int
  sv_cache :: "'mf InMemoryCache"
  sv_collect_due :: int
  sv_flush_due :: int
  sv_last_flush :: int
  sv_phase :: service_phase

text \<open>Go's integer division truncates towards zero.\<close>

definition go_div :: "int \<Rightarrow> int \<Rightarrow> int" where
  "go_div a b = sgn a * sgn b * (\<bar>a\<bar> div \<bar>b\<bar>)"

definition service_start :: "int \<Rightarrow> int \<Rightarrow> 'mf service_state" where
  "service_start ttl now =
     \<lparr>sv_now = now, sv_cache = GetCache None, sv_collect_due = now + go_div ttl 2,
      sv_flush_due = now + ttl, sv_last_flush = now,
      sv_phase = (if go_div ttl 2 \<le> 0 \<or> ttl \<le> 0 then Ticker_panic else Starting)\<rparr>"

inductive service_step ::
  "('mf \<Rightarrow> string) \<Rightarrow> int \<Rightarrow> bool \<Rightarrow> string list \<Rightarrow> string \<Rightarrow> 'exp itself \<Rightarrow>
   'mf service_state \<Rightarrow> 'mf service_state \<Rightarrow> bool"
  for mf_name :: "'mf \<Rightarrow> string" and ttl :: int and multi :: bool and services :: "string list"
    and cloud :: string and ty :: "'exp itself" where
  wait: "sv_now s \<le> t \<Longrightarrow>
    service_step mf_name ttl multi services cloud ty s (s\<lparr>sv_now := t\<rparr>)"
| first_collect: "sv_phase s = Starting \<Longrightarrow> sv_now s \<le> t \<Longrightarrow>
    (\<And>k. sv_now s \<le> now_at k \<and> now_at k \<le> t) \<Longrightarrow>
    CollectCache mf_name (w :: ('exp, 'mf) world) now_at multi services cloud (sv_cache s) = (err, c) \<Longrightarrow>
    service_step mf_name ttl multi services cloud ty s
      (s\<lparr>sv_now := t, sv_cache := c,
         sv_phase := (case err of None \<Rightarrow> Serving | Some e \<Rightarrow> Cancelled e)\<rparr>)"
| collect: "sv_phase s = Serving \<Longrightarrow> sv_collect_due s \<le> sv_now s \<Longrightarrow> sv_now s \<le> t \<Longrightarrow>
    (\<And>k. sv_now s \<le> now_at k \<and> now_at k \<le> t) \<Longrightarrow>
    CollectCache mf_name (w :: ('exp, 'mf) world) now_at multi services cloud (sv_cache s) = (err, c) \<Longrightarrow>
    service_step mf_name ttl multi services cloud ty s
      (s\<lparr>sv_now := t, sv_cache := c, sv_collect_due := sv_collect_due s + go_div ttl 2,
         sv_phase := (case err of None \<Rightarrow> Serving | Some e \<Rightarrow> Cancelled e)\<rparr>)"
| flush: "sv_phase s = Serving \<Longrightarrow> sv_flush_due s \<le> sv_now s \<Longrightarrow> sv_now s \<le> t \<Longrightarrow>
    (\<And>k. sv_now s \<le> now_at k \<and> now_at k \<le> t) \<Longrightarrow> permutes_order ord \<Longrightarrow>
    service_step mf_name ttl multi services cloud ty s
      (s\<lparr>sv_now := t, sv_cache := FlushExpiredCloudCaches ord now_at ttl (sv_cache s),
         sv_flush_due := sv_flush_due s + ttl, sv_last_flush := sv_now s\<rparr>)"
| stop: "sv_phase s = Serving \<Longrightarrow>
    service_step mf_name ttl multi services cloud ty s (s\<lparr>sv_phase := Stopped\<rparr>)"

inductive service_reachable ::
  "('mf \<Rightarrow> string) \<Rightarrow> int \<Rightarrow> bool \<Rightarrow> string list \<Rightarrow> string \<Rightarrow> 'exp itself \<Rightarrow> int \<Rightarrow>
   'mf service_state \<Rightarrow> bool"
  for mf_name :: "'mf \<Rightarrow> string" and ttl :: int and multi :: bool and services :: "string list"
    and cloud :: string and ty :: "'exp itself" and start :: int where
  init: "service_reachable mf_name ttl multi services cloud ty start (service_start ttl start)"
| step: "service_reachable mf_name ttl multi services cloud ty start s \<Longrightarrow>
    service_step mf_name ttl multi services cloud ty s t \<Longrightarrow>
    service_reachable mf_name ttl multi services cloud ty start t"

text \<open>
  The invariant: each cached cloud was stored in the past, and no earlier than \<open>ttl\<close> before the
  last flush.
\<close>

definition service_inv :: "int \<Rightarrow> 'mf service_state \<Rightarrow> bool" where
  "service_inv ttl s \<longleftrightarrow> cache_inv (sv_cache s) \<and> sv_last_flush s \<le> sv_now s \<and>
     (\<forall>k d. lookup_cloud (sv_cache s) k = Some d \<longrightarrow>
        cc_Time d \<le> sv_now s \<and> sv_last_flush s \<le> cc_Time d + ttl)"

lemma CollectCache_lookup:
  assumes "CollectCache mf_name w now_at multi services cloud c = (err, c')" and "cache_inv c"
  shows "cache_inv c' \<and> (\<forall>k d. lookup_cloud c' k = Some d \<longrightarrow>
    lookup_cloud c k = Some d \<or> cc_Time d = now_at k)"
proof (cases "targets w multi cloud")
  case (Inl e)
  with assms show ?thesis by (simp add: CollectCache_ok)
next
  case (Inr clouds)
  with assms(1) have c': "c' = fold (\<lambda>k. SetCloudCache (now_at k) k
      (collected mf_name w now_at services k)) clouds c"
    by (simp add: CollectCache_ok)
  then have "lookup_cloud c' k = (if k \<in> set clouds
      then Some ((collected mf_name w now_at services k)\<lparr>cc_Time := now_at k\<rparr>)
      else lookup_cloud c k)" for k
    using in_memory.lookup_store_all [OF assms(2)] by simp
  moreover have "cache_inv c'"
    using c' in_memory.store_all_inv [OF assms(2)] by simp
  ultimately show ?thesis by auto
qed

lemma service_inv_collect:
  assumes "service_inv ttl s" and "0 \<le> ttl" and "sv_now s \<le> t"
    and "\<And>k. sv_now s \<le> now_at k \<and> now_at k \<le> t"
    and "CollectCache mf_name w now_at multi services cloud (sv_cache s) = (err, c)"
  shows "service_inv ttl (s\<lparr>sv_now := t, sv_cache := c\<rparr>)"
proof -
  have inv: "cache_inv (sv_cache s)" using assms(1) by (simp add: service_inv_def)
  note new = CollectCache_lookup [OF assms(5) inv]
  have "cc_Time d \<le> t \<and> sv_last_flush s \<le> cc_Time d + ttl"
    if "lookup_cloud c k = Some d" for k d
  proof -
    from new that consider "lookup_cloud (sv_cache s) k = Some d" | "cc_Time d = now_at k" by blast
    then show ?thesis
      using assms(1-3) assms(4) [of k] by cases (force simp: service_inv_def)+
  qed
  with new assms(1,3) show ?thesis by (auto simp: service_inv_def)
qed

lemma service_inv_flush:
  assumes "service_inv ttl s" and "0 \<le> ttl" and "sv_now s \<le> t"
    and "\<And>k. sv_now s \<le> now_at k \<and> now_at k \<le> t" and "permutes_order ord"
  shows "service_inv ttl (s\<lparr>sv_now := t, sv_last_flush := sv_now s,
    sv_cache := FlushExpiredCloudCaches ord now_at ttl (sv_cache s)\<rparr>)"
proof -
  have inv: "cache_inv (sv_cache s)" using assms(1) by (simp add: service_inv_def)
  let ?c = "FlushExpiredCloudCaches ord now_at ttl (sv_cache s)"
  have "cc_Time d \<le> t \<and> sv_now s \<le> cc_Time d + ttl" if "lookup_cloud ?c k = Some d" for k d
  proof -
    have "lookup_cloud (sv_cache s) k = Some d \<and> now_at k \<le> cc_Time d + ttl"
      using InMemoryCache_backend [OF assms(5)] inv that by (rule cache_backend.fresh_after_flush)
    with assms(1,3) assms(4) [of k] show ?thesis by (force simp: service_inv_def)
  qed
  with inv assms(3) show ?thesis by (simp add: service_inv_def Flush_inv)
qed

lemma service_step_inv:
  assumes "service_step mf_name ttl multi services cloud ty s t" and "service_inv ttl s"
    and "0 \<le> ttl"
  shows "service_inv ttl t"
  using assms(1)
proof (cases rule: service_step.cases)
  case (wait t')
  with assms(2) show ?thesis by (force simp: service_inv_def)
next
  case (first_collect t' now_at w err c)
  with service_inv_collect [OF assms(2,3) first_collect(3,4,5)] show ?thesis
    by (simp add: service_inv_def)
next
  case (collect t' now_at w err c)
  with service_inv_collect [OF assms(2,3) collect(4,5,6)] show ?thesis
    by (simp add: service_inv_def)
next
  case (flush t' now_at ord)
  with service_inv_flush [OF assms(2,3) flush(4,5,6)] show ?thesis
    by (simp add: service_inv_def)
next
  case stop
  with assms(2) show ?thesis by (simp add: service_inv_def)
qed

lemma service_start_inv: "0 \<le> ttl \<Longrightarrow> service_inv ttl (service_start ttl now)"
  by (simp add: service_inv_def service_start_def cache_inv_def lookup_cloud_map_of GetCache_def
      clouds_of_def)

lemma service_reachable_inv:
  "service_reachable mf_name ttl multi services cloud ty start s \<Longrightarrow> 0 \<le> ttl \<Longrightarrow> service_inv ttl s"
  by (induction rule: service_reachable.induct) (auto simp: service_start_inv service_step_inv)

section \<open>Properties\<close>

text \<open>
  Property C15. A collection replaces the cache of each collected cloud and of no other: afterwards a
  collected cloud holds, per family name, the last family delivered under that name by the
  services that could be enabled and gathered, stamped with the time of the store, and nothing of
  what the cloud held before; a failure to read the cloud configuration changes nothing.
\<close>

theorem collect_cache_replaces:
  assumes "cache_inv c"
  shows "case targets w multi cloud of
      Inl e \<Rightarrow> CollectCache mf_name w now_at multi services cloud c = (Some e, c)
    | Inr clouds \<Rightarrow>
        \<exists>c'. CollectCache mf_name w now_at multi services cloud c = (None, c') \<and> cache_inv c' \<and>
          (\<forall>k. if k \<in> set clouds
               then \<exists>d. lookup_cloud c' k = Some d \<and> cc_Time d = now_at k \<and>
                  map_of (cc_MetricFamilyCaches d) = map_of (rev (arrivals mf_name w k services))
               else lookup_cloud c' k = lookup_cloud c k)"
proof (cases "targets w multi cloud")
  case (Inr clouds)
  let ?c = "fold (\<lambda>k. SetCloudCache (now_at k) k (collected mf_name w now_at services k)) clouds c"
  have "lookup_cloud ?c k = (if k \<in> set clouds
      then Some ((collected mf_name w now_at services k)\<lparr>cc_Time := now_at k\<rparr>)
      else lookup_cloud c k)" for k
    by (rule in_memory.lookup_store_all [OF assms])
  moreover have "cache_inv ?c" by (rule in_memory.store_all_inv [OF assms])
  ultimately show ?thesis by (simp add: Inr CollectCache_ok collected_map)
qed (simp add: CollectCache_ok)

theorem collect_cache_replaces_witness:
  "\<exists>c'. CollectCache id \<lparr>w_clouds = Inr [], w_enable = (\<lambda>s c. Inr s), w_gather = (\<lambda>s. Inr [''up''])\<rparr>
      (\<lambda>k. 7) False [''compute''] ''c1'' (GetCache None) = (None, c') \<and>
    (\<exists>d. lookup_cloud c' ''c1'' = Some d \<and> cc_Time d = 7 \<and>
       map_of (cc_MetricFamilyCaches d) ''up'' = Some \<lparr>mfc_Service = ''compute'', mfc_MF = ''up''\<rparr>)"
proof -
  let ?w = "\<lparr>w_clouds = Inr [], w_enable = (\<lambda>s c. Inr s), w_gather = (\<lambda>s. Inr [''up''])\<rparr>
    :: (string, string) world"
  have t: "targets ?w False ''c1'' = Inr [''c1'']" by (simp add: targets_def)
  have m: "map_of (rev (arrivals id ?w ''c1'' [''compute''])) ''up''
      = Some \<lparr>mfc_Service = ''compute'', mfc_MF = ''up''\<rparr>"
    by (simp add: arrivals_def delivered_def)
  have "\<exists>c'. CollectCache id ?w (\<lambda>k. 7) False [''compute''] ''c1'' (GetCache None)
      = (None, c') \<and> cache_inv c' \<and> (\<forall>k. if k \<in> set [''c1'']
         then \<exists>d. lookup_cloud c' k = Some d \<and> cc_Time d = 7 \<and>
            map_of (cc_MetricFamilyCaches d) = map_of (rev (arrivals id ?w k [''compute'']))
         else lookup_cloud c' k = lookup_cloud (GetCache None) k)"
    using collect_cache_replaces [OF GetCache_inv, where w = ?w and multi = False and cloud = "''c1''"
        and mf_name = id and now_at = "\<lambda>k. 7" and services = "[''compute'']"]
    by (simp only: t sum.case)
  then obtain c' where
    c: "CollectCache id ?w (\<lambda>k. 7) False [''compute''] ''c1'' (GetCache None) = (None, c')" and
    all: "\<And>k. if k \<in> set [''c1'']
         then \<exists>d. lookup_cloud c' k = Some d \<and> cc_Time d = 7 \<and>
            map_of (cc_MetricFamilyCaches d) = map_of (rev (arrivals id ?w k [''compute'']))
         else lookup_cloud c' k = lookup_cloud (GetCache None) k"
    by blast
  from all [of "''c1''"] obtain d where d: "lookup_cloud c' ''c1'' = Some d" "cc_Time d = 7"
    "map_of (cc_MetricFamilyCaches d) = map_of (rev (arrivals id ?w ''c1'' [''compute'']))"
    by (simp only: list.set insert_iff simp_thms if_True) blast
  from d(3) m have "map_of (cc_MetricFamilyCaches d) ''up''
      = Some \<lparr>mfc_Service = ''compute'', mfc_MF = ''up''\<rparr>" by (simp only:)
  with c d(1,2) show ?thesis by blast
qed

text \<open>
  What a request reads from the cache: nothing for a cloud that is not cached, and
  otherwise the texts of exactly the families of the requested services, in the order the range
  visits them; families of other services are left out even where they cannot be encoded.
\<close>

theorem buffer_from_cache:
  assumes "\<And>d e. lookup_cloud c cloud = Some d \<Longrightarrow> e \<in> set (ord (cc_MetricFamilyCaches d)) \<Longrightarrow>
      mfc_Service (snd e) \<in> set services \<Longrightarrow> snd (to_text (mfc_MF (snd e))) = None"
  shows "BufferFromCache ord to_text cloud services c =
    (case lookup_cloud c cloud of
       None \<Rightarrow> ([], None)
     | Some d \<Rightarrow>
         (concat (map (\<lambda>e. fst (to_text (mfc_MF (snd e))))
            (filter (\<lambda>e. mfc_Service (snd e) \<in> set services) (ord (cc_MetricFamilyCaches d)))), None))"
proof (cases "map_of (clouds_of c) cloud")
  case None
  then show ?thesis by (simp add: BufferFromCache_def GetCloudCache_def lookup_cloud_map_of)
next
  case (Some d)
  have "buffer_loop to_text services (ord (cc_MetricFamilyCaches d)) []
      = ([] @ concat (map (\<lambda>(k, d). fst (to_text (mfc_MF d)))
           (filter (\<lambda>(k, d). mfc_Service d \<in> set services) (ord (cc_MetricFamilyCaches d)))), None)"
    using assms Some by (intro buffer_loop_ok) (force simp: lookup_cloud_map_of)
  with Some show ?thesis
    by (simp add: BufferFromCache_def GetCloudCache_def lookup_cloud_map_of case_prod_unfold)
qed

theorem buffer_from_cache_witness:
  "BufferFromCache (\<lambda>es. es) (\<lambda>mf. (mf, None)) ''c1'' [''compute'']
     (SetCloudCache 5 ''c1'' (SetMetricFamilyCache ''a'' \<lparr>mfc_Service = ''compute'', mfc_MF = ''a 1''\<rparr>
        (SetMetricFamilyCache ''b'' \<lparr>mfc_Service = ''image'', mfc_MF = ''b 2''\<rparr> (NewCloudCache 5)))
      (GetCache None)) = (''a 1'', None)"
  by (subst buffer_from_cache)
    (simp_all add: lookup_cloud_map_of SetCloudCache_def cache_init_def GetCache_def clouds_of_def
      SetMetricFamilyCache_def NewCloudCache_def Let_def)

text \<open>
  Property C16. At every moment of the background service, each cached cloud was stored in the past
  and not earlier than one TTL before the last flush; so while flushes come no more than one TTL
  apart, no request is served data that is older than two TTLs.
\<close>

theorem cache_age_bound:
  assumes "service_reachable mf_name ttl multi services cloud ty start s" and "0 \<le> ttl"
    and "lookup_cloud (sv_cache s) k = Some d"
  shows "cc_Time d \<le> sv_now s \<and> sv_last_flush s - ttl \<le> cc_Time d \<and>
    (sv_now s - sv_last_flush s \<le> ttl \<longrightarrow> sv_now s - cc_Time d \<le> 2 * ttl)"
proof -
  have "cc_Time d \<le> sv_now s \<and> sv_last_flush s \<le> cc_Time d + ttl"
    using service_reachable_inv [OF assms(1,2)] assms(3) by (simp add: service_inv_def)
  then show ?thesis by linarith
qed

text \<open>A run for the witness: the first collection at time 0, then a wait until time 25.\<close>

definition sample_world :: "(string, string) world" where
  "sample_world = \<lparr>w_clouds = Inr [], w_enable = (\<lambda>s c. Inr s), w_gather = (\<lambda>s. Inr [''up''])\<rparr>"

definition sample_service :: "string service_state" where
  "sample_service = (service_start 10 0)\<lparr>sv_now := 0,
     sv_cache := snd (CollectCache id sample_world (\<lambda>k. 0) False [''compute''] ''c1'' (GetCache None)),
     sv_phase := Serving, sv_now := 25\<rparr>"

lemma sample_service_reachable:
  "service_reachable id 10 False [''compute''] ''c1'' TYPE(string) 0 sample_service"
proof -
  let ?c = "snd (CollectCache id sample_world (\<lambda>k. 0) False [''compute''] ''c1'' (GetCache None))"
  let ?s = "(service_start 10 0)\<lparr>sv_now := 0, sv_cache := ?c, sv_phase := Serving\<rparr>"
  have "CollectCache id sample_world (\<lambda>k. 0) False [''compute''] ''c1''
      (sv_cache (service_start 10 0)) = (None, ?c)"
    by (simp add: service_start_def CollectCache_ok targets_def)
  then have "service_step id 10 False [''compute''] ''c1'' TYPE(string) (service_start 10 0) ?s"
    using service_step.first_collect [of "service_start 10 0" 0 "\<lambda>k. 0" id sample_world False
        "[''compute'']" "''c1''" None ?c 10]
    by (simp add: service_start_def go_div_def)
  then have "service_reachable id 10 False [''compute''] ''c1'' TYPE(string) 0 ?s"
    by (rule service_reachable.step [OF service_reachable.init])
  moreover have "service_step id 10 False [''compute''] ''c1'' TYPE(string) ?s (?s\<lparr>sv_now := 25\<rparr>)"
    by (rule service_step.wait) simp
  ultimately show ?thesis
    unfolding sample_service_def by (rule service_reachable.step)
qed

lemma sample_service_lookup:
  "lookup_cloud (sv_cache sample_service) ''c1'' = Some \<lparr>cc_Time = 0, cc_MetricFamilyCaches =
     [(''up'', \<lparr>mfc_Service = ''compute'', mfc_MF = ''up''\<rparr>)]\<rparr>"
  by (simp add: sample_service_def CollectCache_ok targets_def SetCloudCache_lookup collected_def
      arrivals_def delivered_def sample_world_def store_families_def SetMetricFamilyCache_def
      NewCloudCache_def)

theorem cache_age_bound_witness:
  "\<exists>d. lookup_cloud (sv_cache sample_service) ''c1'' = Some d \<and>
     sv_last_flush sample_service - 10 \<le> cc_Time d"
  using cache_age_bound [OF sample_service_reachable _ sample_service_lookup]
    sample_service_lookup by simp


end
