(* ===== verification/Catalog.thy ===== *)
theory Catalog
  imports Base_Exporter
begin

text \<open>
  The services the exporter knows (\<^verbatim>\<open>SupportedExporters\<close> of \<^verbatim>\<open>exporters/exporter.go\<close>) and the part
  of \<^verbatim>\<open>exporters/utils.go\<close> that maps them to service types of the Keystone catalog, picks the
  endpoint availability and detects the services of a cloud.

  The endpoint locator of gophercloud is the parameter \<open>locate\<close>: for endpoint options with a
  service type it gives the URL or an error.
\<close>

definition SupportedExporters :: "string list" where
  "SupportedExporters = [''network'', ''compute'', ''image'', ''volume'', ''identity'',
     ''object-store'', ''load-balancer'', ''container-infra'', ''dns'', ''baremetal'', ''gnocchi'',
     ''database'', ''orchestration'', ''placement'', ''sharev2'']"

definition serviceCatalogTypesByExporterService :: "(string \<times> string list) list" where
  "serviceCatalogTypesByExporterService =
     [(''network'', [''network'']),
      (''compute'', [''compute'']),
      (''image'', [''image'']),
      (''volume'', [''block-storage'', ''volume'', ''volumev2'', ''volumev3'']),
      (''identity'', [''identity'']),
      (''object-store'', [''object-store'']),
      (''load-balancer'', [''load-balancer'']),
      (''container-infra'', [''container-infrastructure-management'', ''container-infra'']),
      (''dns'', [''dns'']),
      (''baremetal'', [''baremetal'']),
      (''gnocchi'', [''metric'', ''gnocchi'']),
      (''database'', [''database'']),
      (''orchestration'', [''orchestration'']),
      (''placement'', [''placement'']),
      (''sharev2'', [''shared-file-system'', ''sharev2''])]"

definition IsExporterNameValid :: "string \<Rightarrow> bool" where
  "IsExporterNameValid service \<longleftrightarrow> map_of serviceCatalogTypesByExporterService service \<noteq> None"

datatype Availability = AvailabilityAdmin | AvailabilityPublic | AvailabilityInternal

definition GetEndpointTypeV2 :: "string \<Rightarrow> Availability" where
  "GetEndpointTypeV2 endpointType =
     (if endpointType = ''internal'' \<or> endpointType = ''internalURL'' then AvailabilityInternal
      else if endpointType = ''admin'' \<or> endpointType = ''adminURL'' then AvailabilityAdmin
      else AvailabilityPublic)"

text \<open>
  Endpoint options as the code builds them; \<^verbatim>\<open>ApplyDefaults\<close> of gophercloud sets the service type
  (\<open>apply_defaults\<close>, a parameter).
\<close>

record EndpointOpts =
  eo_Type :: string
  eo_Region :: string
  eo_Availability :: Availability

fun serviceTypes_loop ::
  "(string \<Rightarrow> EndpointOpts \<Rightarrow> EndpointOpts) \<Rightarrow> (EndpointOpts \<Rightarrow> string fallible) \<Rightarrow>
   EndpointOpts \<Rightarrow> string list \<Rightarrow> bool" where
  "serviceTypes_loop apply_defaults locate endpointOpts [] = False"
| "serviceTypes_loop apply_defaults locate endpointOpts (serviceType # rest) =
     (case locate (apply_defaults serviceType endpointOpts) of
        Inr endpoint \<Rightarrow> if endpoint \<noteq> [] then True
          else serviceTypes_loop apply_defaults locate endpointOpts rest
      | Inl e \<Rightarrow> serviceTypes_loop apply_defaults locate endpointOpts rest)"

definition isServiceAvailable ::
  "(string \<Rightarrow> EndpointOpts \<Rightarrow> EndpointOpts) \<Rightarrow> (EndpointOpts \<Rightarrow> string fallible) \<Rightarrow>
   EndpointOpts \<Rightarrow> string \<Rightarrow> bool" where
  "isServiceAvailable apply_defaults locate endpointOpts service =
     (case map_of serviceCatalogTypesByExporterService service of
        None \<Rightarrow> False
      | Some types \<Rightarrow> serviceTypes_loop apply_defaults locate endpointOpts types)"

fun enabledServices_loop ::
  "(string \<Rightarrow> bool) \<Rightarrow> string list \<Rightarrow> string list \<Rightarrow> string list" where
  "enabledServices_loop available [] enabledServices = enabledServices"
| "enabledServices_loop available (service # rest) enabledServices =
     (if \<not> available service then enabledServices_loop available rest enabledServices
      else enabledServices_loop available rest (enabledServices @ [service]))"

text \<open>\<open>auth\<close> is the result of \<^verbatim>\<open>newAuthenticatedProviderClient\<close>: the endpoint locator and options.\<close>

definition AutodetectServicesFromCatalog ::
  "(string \<Rightarrow> EndpointOpts \<Rightarrow> EndpointOpts) \<Rightarrow>
   ((EndpointOpts \<Rightarrow> string fallible) \<times> EndpointOpts) fallible \<Rightarrow> string list fallible" where
  "AutodetectServicesFromCatalog apply_defaults auth =
     (case auth of
        Inl e \<Rightarrow> Inl e
      | Inr (locate, endpointOpts) \<Rightarrow>
          (let enabledServices = enabledServices_loop
                 (isServiceAvailable apply_defaults locate endpointOpts) SupportedExporters []
           in if length enabledServices = 0 then Inl (Msg_error ''no services autodetected'')
              else Inr enabledServices))"

lemma SupportedExporters_distinct: "distinct SupportedExporters"
  by (simp add: SupportedExporters_def)

lemma SupportedExporters_valid:
  "IsExporterNameValid service \<longleftrightarrow> service \<in> set SupportedExporters"
  by (simp add: IsExporterNameValid_def serviceCatalogTypesByExporterService_def
      SupportedExporters_def)

lemma enabledServices_filter:
  "enabledServices_loop available ss acc = acc @ filter available ss"
  by (induction ss arbitrary: acc) auto

lemma serviceTypes_loop_iff:
  "serviceTypes_loop ad locate eo types \<longleftrightarrow>
     (\<exists>t \<in> set types. \<exists>url. locate (ad t eo) = Inr url \<and> url \<noteq> [])"
  by (induction types) (auto split: sum.splits)

lemma Autodetect_services:
  "AutodetectServicesFromCatalog ad (Inr (locate, eo)) =
     (let ds = filter (isServiceAvailable ad locate eo) SupportedExporters
      in if ds = [] then Inl (Msg_error ''no services autodetected'') else Inr ds)"
  by (simp add: AutodetectServicesFromCatalog_def enabledServices_filter)

end
