(* ===== verification/Slices.thy ===== *)
theory Slices
  imports Go_Base
begin

text \<open>\<^verbatim>\<open>utils/slices.go\<close>: removing the elements of one slice from another, and removing duplicates.\<close>

fun RemoveElements_loop :: "'a list \<Rightarrow> 'a list \<Rightarrow> 'a list \<Rightarrow> 'a list" where
  "RemoveElements_loop [] dropped res = res"
| "RemoveElements_loop (s # slice) dropped res =
     (if s \<in> set dropped then RemoveElements_loop slice dropped res
      else RemoveElements_loop slice dropped (res @ [s]))"

definition RemoveElements :: "'a list \<Rightarrow> 'a list \<Rightarrow> 'a list" where
  "RemoveElements slice dropped = RemoveElements_loop slice dropped []"

text \<open>\<open>seen\<close> holds the keys of the map \<^verbatim>\<open>seen\<close> of the code.\<close>

fun UniqueElements_loop :: "'a list \<Rightarrow> 'a list \<Rightarrow> 'a list \<Rightarrow> 'a list" where
  "UniqueElements_loop [] seen res = res"
| "UniqueElements_loop (s # slice) seen res =
     (if s \<in> set seen then UniqueElements_loop slice seen res
      else UniqueElements_loop slice (s # seen) (res @ [s]))"

definition UniqueElements :: "'a list \<Rightarrow> 'a list" where
  "UniqueElements slice = UniqueElements_loop slice [] []"

lemma RemoveElements_filter: "RemoveElements slice dropped = filter (\<lambda>s. s \<notin> set dropped) slice"
proof -
  have "RemoveElements_loop slice dropped res = res @ filter (\<lambda>s. s \<notin> set dropped) slice" for res
    by (induction slice arbitrary: res) auto
  then show ?thesis by (simp add: RemoveElements_def)
qed

text \<open>The first occurrences of a list's elements, in their order.\<close>

fun first_occurrences :: "'a list \<Rightarrow> 'a list" where
  "first_occurrences [] = []"
| "first_occurrences (x # xs) = x # filter (\<lambda>y. y \<noteq> x) (first_occurrences xs)"

lemma UniqueElements_loop_eq:
  "UniqueElements_loop slice seen res
     = res @ filter (\<lambda>s. s \<notin> set seen) (first_occurrences slice)"
  by (induction slice arbitrary: seen res)
    (auto intro: filter_cong simp: conj_commute)

lemma UniqueElements_first: "UniqueElements slice = first_occurrences slice"
  by (simp add: UniqueElements_def UniqueElements_loop_eq)

lemma set_first_occurrences [simp]: "set (first_occurrences xs) = set xs"
  by (induction xs) auto

lemma distinct_first_occurrences [simp]: "distinct (first_occurrences xs)"
  by (induction xs) auto

lemma subseq_first_occurrences: "subseq (first_occurrences xs) xs"
proof (induction xs)
  case (Cons x xs)
  have "subseq (filter (\<lambda>y. y \<noteq> x) (first_occurrences xs)) xs"
    using Cons.IH subseq_filter_left subseq_order.trans by blast
  then show ?case by simp
qed simp

lemma first_occurrences_id: "distinct xs \<Longrightarrow> first_occurrences xs = xs"
  by (induction xs) (auto simp: filter_id_conv)

text \<open>\<^verbatim>\<open>UniqueElements\<close> keeps the elements and their order, each once, and changes nothing else.\<close>

lemmas UniqueElements_laws =
  UniqueElements_first set_first_occurrences distinct_first_occurrences
  subseq_first_occurrences first_occurrences_id

end
