(* ===== verification/Service_Selection.thy ===== *)
theory Service_Selection
  imports Catalog Slices
begin

text \<open>
  \<^verbatim>\<open>main.go\<close>: which services the process enables (\<^verbatim>\<open>resolveServiceConfig\<close> and its helpers) and which
  of them a request of \<^verbatim>\<open>/probe\<close> selects (\<^verbatim>\<open>selectServicesForRequest\<close> and its helpers).

  The map of service states is a HOL map; reading a missing key gives \<^verbatim>\<open>serviceAuto\<close>, the zero
  value. \<open>autodetect\<close> is the result of \<^verbatim>\<open>autodetectServices\<close>; the query parameters of a request
  are strings, empty when absent, as \<^verbatim>\<open>Query().Get\<close> returns them.
\<close>

section \<open>The services of the process\<close>

datatype serviceState = serviceAuto | serviceEnabled | serviceDisabled

type_synonym service_states = "string \<rightharpoonup> serviceState"

definition state_of :: "service_states \<Rightarrow> string \<Rightarrow> serviceState" where
  "state_of st service = (case st service of None \<Rightarrow> serviceAuto | Some x \<Rightarrow> x)"

fun setAuto_loop :: "string list \<Rightarrow> serviceState \<Rightarrow> service_states \<Rightarrow> service_states" where
  "setAuto_loop [] state st = st"
| "setAuto_loop (service # rest) state st =
     setAuto_loop rest state
       (if state_of st service = serviceAuto then st(service \<mapsto> state) else st)"

definition setAutoServicesState :: "service_states \<Rightarrow> serviceState \<Rightarrow> service_states" where
  "setAutoServicesState st state = setAuto_loop SupportedExporters state st"

definition applyAutodetection :: "service_states \<Rightarrow> string list \<Rightarrow> service_states" where
  "applyAutodetection st detectedServices =
     setAutoServicesState (setAuto_loop detectedServices serviceEnabled st) serviceDisabled"

fun getEnabled_loop :: "service_states \<Rightarrow> string list \<Rightarrow> string list \<Rightarrow> string list" where
  "getEnabled_loop st [] enabledServices = enabledServices"
| "getEnabled_loop st (service # rest) enabledServices =
     getEnabled_loop st rest
       (if state_of st service = serviceEnabled then enabledServices @ [service]
        else enabledServices)"

definition getEnabledServicesFromStates :: "service_states \<Rightarrow> string list" where
  "getEnabledServicesFromStates st = getEnabled_loop st SupportedExporters []"

text \<open>The state map that \<^verbatim>\<open>main\<close> builds, and the action of a \<^verbatim>\<open>--disable-service.<service>\<close> flag.\<close>

definition initial_states :: service_states where
  "initial_states = fold (\<lambda>service st. st(service \<mapsto> serviceAuto)) SupportedExporters Map.empty"

definition service_flag_action :: "string \<Rightarrow> bool \<Rightarrow> service_states \<Rightarrow> service_states" where
  "service_flag_action serviceName disableValue st =
     (if disableValue then st(serviceName \<mapsto> serviceDisabled)
      else st(serviceName \<mapsto> serviceEnabled))"

definition resolveServiceConfig ::
  "bool \<Rightarrow> bool \<Rightarrow> service_states \<Rightarrow> string list fallible \<Rightarrow> string list fallible" where
  "resolveServiceConfig isMultiCloud disableAutodetect serviceStates autodetect =
     (if isMultiCloud \<or> disableAutodetect then
        (let st = setAutoServicesState serviceStates serviceEnabled;
             enabledServices = getEnabledServicesFromStates st
         in if length enabledServices = 0
            then Inl (Msg_error ''no services enabled by explicit flags'')
            else Inr enabledServices)
      else
        (case autodetect of
           Inl e \<Rightarrow> Inl e
         | Inr detectedServices \<Rightarrow>
             (let st = applyAutodetection serviceStates detectedServices;
                  enabledServices = getEnabledServicesFromStates st
              in if length enabledServices = 0
                 then Inl (Msg_error ''no services enabled after autodetection and flag filtering'')
                 else Inr enabledServices)))"

lemma state_of_upd [simp]:
  "state_of (st(k \<mapsto> x)) s = (if s = k then x else state_of st s)"
  by (simp add: state_of_def)

lemma state_of_setAuto:
  assumes "x \<noteq> serviceAuto"
  shows "state_of (setAuto_loop ss x st) s
    = (if s \<in> set ss \<and> state_of st s = serviceAuto then x else state_of st s)"
  by (induction ss arbitrary: st) (use assms in auto)

lemma getEnabled_filter:
  "getEnabledServicesFromStates st
     = filter (\<lambda>s. state_of st s = serviceEnabled) SupportedExporters"
proof -
  have "getEnabled_loop st ss acc = acc @ filter (\<lambda>s. state_of st s = serviceEnabled) ss" for ss acc
    by (induction ss arbitrary: acc) auto
  then show ?thesis by (simp add: getEnabledServicesFromStates_def)
qed

lemma initial_states_auto: "state_of initial_states s = serviceAuto"
proof -
  have "state_of st s = serviceAuto \<Longrightarrow>
      state_of (fold (\<lambda>service st. st(service \<mapsto> serviceAuto)) ss st) s = serviceAuto" for ss st
    by (induction ss arbitrary: st) auto
  then show ?thesis by (simp add: initial_states_def state_of_def)
qed

lemma strict_services:
  "getEnabledServicesFromStates (setAutoServicesState st serviceEnabled)
     = filter (\<lambda>s. state_of st s \<noteq> serviceDisabled) SupportedExporters"
  unfolding getEnabled_filter setAutoServicesState_def
  by (rule filter_cong) (auto simp: state_of_setAuto intro: serviceState.exhaust)

lemma autodetected_services:
  "getEnabledServicesFromStates (applyAutodetection st ds)
     = filter (\<lambda>s. state_of st s = serviceEnabled \<or> (state_of st s = serviceAuto \<and> s \<in> set ds))
         SupportedExporters"
  unfolding getEnabled_filter applyAutodetection_def setAutoServicesState_def
  by (rule filter_cong) (auto simp: state_of_setAuto)

section \<open>The services of a request\<close>

fun invalid_loop :: "string list \<Rightarrow> string list \<Rightarrow> string list" where
  "invalid_loop [] invalid = invalid"
| "invalid_loop (service # services) invalid =
     invalid_loop services (if \<not> IsExporterNameValid service then invalid @ [service] else invalid)"

definition invalidExporterNames :: "string list \<Rightarrow> string list" where
  "invalidExporterNames services = invalid_loop services []"

fun parse_loop :: "string list \<Rightarrow> string list \<Rightarrow> string list" where
  "parse_loop [] services = services"
| "parse_loop (service # rest) services =
     (let service = strings_TrimSpace service in
      if service = [] then parse_loop rest services
      else parse_loop rest (services @ [service]))"

definition parseServiceList :: "string \<Rightarrow> string list" where
  "parseServiceList raw =
     (if raw = [] then [] else parse_loop (strings_Split (CHR '','') raw) [])"

definition selectServicesForRequest ::
  "string list \<Rightarrow> string \<Rightarrow> string \<Rightarrow> string list fallible" where
  "selectServicesForRequest configuredServices includeServices excludeServices =
     (let includeList = parseServiceList includeServices;
          invalid = invalidExporterNames includeList
      in if includeServices \<noteq> [] \<and> length invalid > 0
         then Inl (Msg_error (''invalid include_services: '' @ strings_Join invalid '',''))
         else
           (let enabledServices = (if includeServices \<noteq> [] then includeList else configuredServices);
                excludeList = parseServiceList excludeServices;
                invalid = invalidExporterNames excludeList
            in if length invalid > 0
               then Inl (Msg_error (''invalid exclude_services: '' @ strings_Join invalid '',''))
               else Inr (UniqueElements (RemoveElements enabledServices excludeList))))"

lemma invalid_filter: "invalidExporterNames ss = filter (\<lambda>s. \<not> IsExporterNameValid s) ss"
proof -
  have "invalid_loop ss acc = acc @ filter (\<lambda>s. \<not> IsExporterNameValid s) ss" for acc
    by (induction ss arbitrary: acc) auto
  then show ?thesis by (simp add: invalidExporterNames_def)
qed

lemma parse_loop_eq:
  "parse_loop ss acc = acc @ filter (\<lambda>s. s \<noteq> []) (map strings_TrimSpace ss)"
  by (induction ss arbitrary: acc) (auto simp: Let_def)

lemma parseServiceList_eq:
  "parseServiceList raw
     = filter (\<lambda>s. s \<noteq> []) (map strings_TrimSpace (strings_Split (CHR '','') raw))"
proof (cases "raw = []")
  case True
  have "strings_TrimSpace [] = []"
    using TrimSpace_subset [of "[]"] by simp
  with True show ?thesis by (simp add: parseServiceList_def)
next
  case False
  then show ?thesis by (simp add: parseServiceList_def parse_loop_eq)
qed

lemma parseServiceList_entries:
  assumes "s \<in> set (parseServiceList raw)"
  shows "s \<noteq> [] \<and> strings_TrimSpace s = s \<and> CHR '','' \<notin> set s"
proof -
  obtain w where "w \<in> set (strings_Split (CHR '','') raw)" and "s = strings_TrimSpace w" "s \<noteq> []"
    using assms by (auto simp: parseServiceList_eq)
  moreover from this have "CHR '','' \<notin> set s"
    using strings_Split_no_sep TrimSpace_subset by blast
  ultimately show ?thesis by (simp add: TrimSpace_idem)
qed

text \<open>A list of trimmed names reads back as itself.\<close>

lemma parseServiceList_Join:
  assumes "\<And>s. s \<in> set ss \<Longrightarrow> s \<noteq> [] \<and> strings_TrimSpace s = s \<and> CHR '','' \<notin> set s"
  shows "parseServiceList (strings_Join ss '','') = ss"
proof (cases "ss = []")
  case True
  then show ?thesis by (simp add: parseServiceList_def)
next
  case False
  then have "strings_Split (CHR '','') (strings_Join ss '','') = ss"
    using assms by (intro strings_Split_Join) auto
  moreover have "map strings_TrimSpace ss = ss"
    using assms by (intro map_idI) auto
  ultimately show ?thesis using assms by (simp add: parseServiceList_eq filter_id_conv)
qed

lemma select_cases:
  "selectServicesForRequest cfg inc exc =
     (if inc \<noteq> [] \<and> (\<exists>s \<in> set (parseServiceList inc). s \<notin> set SupportedExporters)
      then Inl (Msg_error (''invalid include_services: ''
             @ strings_Join (filter (\<lambda>s. s \<notin> set SupportedExporters) (parseServiceList inc)) '',''))
      else if \<exists>s \<in> set (parseServiceList exc). s \<notin> set SupportedExporters
      then Inl (Msg_error (''invalid exclude_services: ''
             @ strings_Join (filter (\<lambda>s. s \<notin> set SupportedExporters) (parseServiceList exc)) '',''))
      else Inr (first_occurrences
             (filter (\<lambda>s. s \<notin> set (parseServiceList exc))
               (if inc \<noteq> [] then parseServiceList inc else cfg))))"
  by (auto simp: selectServicesForRequest_def Let_def invalid_filter SupportedExporters_valid
      UniqueElements_first RemoveElements_filter filter_empty_conv)

section \<open>Properties\<close>

text \<open>
  Property C9. A request's services: \<^verbatim>\<open>selectServicesForRequest\<close> succeeds exactly when every name of
  the include list and of the exclude list is a known exporter; the services it returns are then
  distinct, none of them is excluded, each comes from the include list (or from the configured
  services when there is none), in that list's order, and no such service that is not excluded
  is missing.
\<close>

theorem select_services_correct:
  "(case selectServicesForRequest configured inc exc of
      Inl e \<Rightarrow> \<not> (set (parseServiceList inc) \<subseteq> set SupportedExporters
              \<and> set (parseServiceList exc) \<subseteq> set SupportedExporters)
    | Inr ss \<Rightarrow>
        (let base = (if inc \<noteq> [] then parseServiceList inc else configured)
         in set (parseServiceList inc) \<subseteq> set SupportedExporters
            \<and> set (parseServiceList exc) \<subseteq> set SupportedExporters
            \<and> distinct ss \<and> set ss = set base - set (parseServiceList exc) \<and> subseq ss base))"
proof -
  have sub: "subseq (first_occurrences (filter P xs)) xs" for P and xs :: "string list"
    using subseq_first_occurrences subseq_filter_left subseq_order.trans by blast
  have empty: "parseServiceList [] = []" by (simp add: parseServiceList_def)
  show ?thesis
    by (cases "inc = []") (auto simp: select_cases Let_def sub empty)
qed

text \<open>
  Property C10. The services of the process: with several clouds, or with autodetection switched
  off, they are the supported services that no flag disables; otherwise they are those that a
  flag enables, and those that no flag mentions and the catalog offers. A service that a flag
  disables is never among them, the order is that of \<^verbatim>\<open>SupportedExporters\<close>, and an empty result is
  an error.
\<close>

theorem resolve_services:
  "resolveServiceConfig multi noauto st auto =
     (if multi \<or> noauto then
        (let ss = filter (\<lambda>s. state_of st s \<noteq> serviceDisabled) SupportedExporters
         in if ss = [] then Inl (Msg_error ''no services enabled by explicit flags'') else Inr ss)
      else
        (case auto of
           Inl e \<Rightarrow> Inl e
         | Inr ds \<Rightarrow>
             (let ss = filter (\<lambda>s. state_of st s = serviceEnabled
                          \<or> (state_of st s = serviceAuto \<and> s \<in> set ds)) SupportedExporters
              in if ss = []
                 then Inl (Msg_error ''no services enabled after autodetection and flag filtering'')
                 else Inr ss)))"
  by (auto simp: resolveServiceConfig_def strict_services autodetected_services Let_def
      split: sum.splits)

text \<open>
  A service list that is written as trimmed, non-empty names without commas is read
  back as it was, and every name that \<^verbatim>\<open>parseServiceList\<close> returns is of that form.
\<close>

theorem service_list_roundtrip:
  "parseServiceList (strings_Join (parseServiceList raw) '','') = parseServiceList raw"
  using parseServiceList_entries by (intro parseServiceList_Join) blast

end
