(* ===== verification/Label_Mapping.thy ===== *)
theory Label_Mapping
  imports Base_Exporter
begin

text \<open>
  \<^verbatim>\<open>utils/kingpin_parser.go\<close>: the flag that maps keys of server metadata to metric labels. A flag
  value is text like \<^verbatim>\<open>label=key,key\<close>; \<^verbatim>\<open>Set\<close> may be called several times and adds to the flag.

  \<open>labelNameConstraint\<close> is the match of the regular expression
  \<^verbatim>\<open>^([^_0-9][^_][a-zA-Z]|(?:_)[a-zA-Z0-9]|[a-zA-Z])[a-zA-Z0-9_]*$\<close>, whose negated classes take any
  rune, one of several bytes too.
\<close>

section \<open>The flag's operations\<close>

datatype label_error = ErrLabelDup string | ErrLabelName string

definition word_tail :: "string \<Rightarrow> bool" where
  "word_tail s \<longleftrightarrow> list_all is_word s"

definition regex_alt1 :: "string \<Rightarrow> bool" where
  "regex_alt1 s = (case s of [] \<Rightarrow> False | a # _ \<Rightarrow>
     a \<noteq> CHR ''_'' \<and> \<not> is_digit a \<and>
     (let s1 = drop (rune_size s) s in case s1 of [] \<Rightarrow> False | b # _ \<Rightarrow>
        b \<noteq> CHR ''_'' \<and>
        (case drop (rune_size s1) s1 of [] \<Rightarrow> False | c # rest \<Rightarrow> is_letter c \<and> word_tail rest)))"

definition regex_alt2 :: "string \<Rightarrow> bool" where
  "regex_alt2 s = (case s of a # b # rest \<Rightarrow>
     a = CHR ''_'' \<and> (is_letter b \<or> is_digit b) \<and> word_tail rest | _ \<Rightarrow> False)"

definition regex_alt3 :: "string \<Rightarrow> bool" where
  "regex_alt3 s = (case s of a # rest \<Rightarrow> is_letter a \<and> word_tail rest | _ \<Rightarrow> False)"

definition labelNameConstraint :: "string \<Rightarrow> bool" where
  "labelNameConstraint s \<longleftrightarrow> regex_alt1 s \<or> regex_alt2 s \<or> regex_alt3 s"

fun LabelMapping_Set_loop ::
  "string list \<Rightarrow> LabelMappingFlag \<Rightarrow> LabelMappingFlag \<times> label_error option" where
  "LabelMapping_Set_loop [] s = (s, None)"
| "LabelMapping_Set_loop (kv # rest) s =
     (let (label, key0, ok) = strings_Cut kv (CHR ''='');
          key = (if \<not> ok then label else key0)
      in if label \<in> set (lm_Labels s) then (s, Some (ErrLabelDup label))
         else if \<not> labelNameConstraint label then (s, Some (ErrLabelName label))
         else LabelMapping_Set_loop rest
           \<lparr>lm_Labels = lm_Labels s @ [label], lm_Keys = lm_Keys s @ [key]\<rparr>)"

definition LabelMapping_Set ::
  "string \<Rightarrow> LabelMappingFlag \<Rightarrow> LabelMappingFlag \<times> label_error option" where
  "LabelMapping_Set value s =
     (if length value = 0 then (s, None)
      else LabelMapping_Set_loop (strings_Split (CHR '','') value) s)"

text \<open>\<^verbatim>\<open>String\<close> reads \<^verbatim>\<open>Keys\<close> at the indices of \<^verbatim>\<open>Labels\<close>; \<^const>\<open>None\<close> is the index out of range.\<close>

fun LabelMapping_String_loop :: "string list \<Rightarrow> string list \<Rightarrow> string list \<Rightarrow> string list option" where
  "LabelMapping_String_loop [] keys buf = Some buf"
| "LabelMapping_String_loop (label # labels) [] buf = None"
| "LabelMapping_String_loop (label # labels) (key # keys) buf =
     (if label \<noteq> key
      then LabelMapping_String_loop labels keys (buf @ [strings_Join [label, key] ''=''])
      else LabelMapping_String_loop labels keys (buf @ [label]))"

definition LabelMapping_String :: "LabelMappingFlag \<Rightarrow> string option" where
  "LabelMapping_String s =
     map_option (\<lambda>buf. strings_Join buf '','') (LabelMapping_String_loop (lm_Labels s) (lm_Keys s) [])"

definition LabelMapping_IsCumulative :: "LabelMappingFlag \<Rightarrow> bool" where
  "LabelMapping_IsCumulative s = True"

text \<open>Reading a missing key of the metadata map, or any key of a nil map, gives the empty string.\<close>

definition LabelMapping_Extract :: "LabelMappingFlag \<Rightarrow> (string \<rightharpoonup> string) \<Rightarrow> string list" where
  "LabelMapping_Extract s m =
     map (\<lambda>key. case m key of None \<Rightarrow> [] | Some v \<Rightarrow> v) (lm_Keys s)"

definition new_flag :: LabelMappingFlag where
  "new_flag = \<lparr>lm_Labels = [], lm_Keys = []\<rparr>"

section \<open>The invariant of a flag\<close>

definition wf_label :: "string \<Rightarrow> bool" where
  "wf_label l \<longleftrightarrow> labelNameConstraint l \<and> CHR ''='' \<notin> set l \<and> CHR '','' \<notin> set l"

definition wf_flag :: "LabelMappingFlag \<Rightarrow> bool" where
  "wf_flag s \<longleftrightarrow> length (lm_Labels s) = length (lm_Keys s) \<and> distinct (lm_Labels s) \<and>
     (\<forall>l \<in> set (lm_Labels s). wf_label l) \<and> (\<forall>k \<in> set (lm_Keys s). CHR '','' \<notin> set k)"

lemma wf_new_flag [simp]: "wf_flag new_flag"
  by (simp add: wf_flag_def new_flag_def)

lemma labelNameConstraint_nonempty: "labelNameConstraint l \<Longrightarrow> l \<noteq> []"
  by (auto simp: labelNameConstraint_def regex_alt1_def regex_alt2_def regex_alt3_def)

lemma wf_flag_add:
  assumes "wf_flag s" and "l \<notin> set (lm_Labels s)" and "wf_label l" and "CHR '','' \<notin> set k"
  shows "wf_flag \<lparr>lm_Labels = lm_Labels s @ [l], lm_Keys = lm_Keys s @ [k]\<rparr>"
  using assms by (auto simp: wf_flag_def)

lemma Set_loop_wf:
  assumes "wf_flag s" and "\<And>w. w \<in> set ws \<Longrightarrow> CHR '','' \<notin> set w"
  shows "wf_flag (fst (LabelMapping_Set_loop ws s))"
  using assms
proof (induction ws arbitrary: s)
  case (Cons kv ws)
  obtain l k ok where cut: "strings_Cut kv (CHR ''='') = (l, k, ok)"
    by (cases "strings_Cut kv (CHR ''='')") auto
  have "CHR ''='' \<notin> set l" "CHR '','' \<notin> set l" "CHR '','' \<notin> set k"
    using strings_Cut_parts [OF cut] Cons.prems(2) [of kv] by auto
  then have "wf_flag \<lparr>lm_Labels = lm_Labels s @ [l],
      lm_Keys = lm_Keys s @ [if \<not> ok then l else k]\<rparr>"
    if "l \<notin> set (lm_Labels s)" "labelNameConstraint l"
    using that Cons.prems(1) by (intro wf_flag_add) (auto simp: wf_label_def)
  then show ?case
    using Cons.IH Cons.prems by (auto simp: cut Let_def)
qed simp

lemma Set_wf: "wf_flag s \<Longrightarrow> wf_flag (fst (LabelMapping_Set v s))"
  using Set_loop_wf [of s "strings_Split (CHR '','') v"] strings_Split_no_sep
  by (auto simp: LabelMapping_Set_def)

section \<open>Adding to a flag\<close>

lemma Set_loop_append:
  "LabelMapping_Set_loop (us @ vs) s =
     (case LabelMapping_Set_loop us s of
        (t, None) \<Rightarrow> LabelMapping_Set_loop vs t
      | (t, Some e) \<Rightarrow> (t, Some e))"
  by (induction us arbitrary: s) (auto simp: Let_def split: prod.splits)

lemma strings_Split_both:
  "strings_Split c (a @ c # b) = strings_Split c a @ strings_Split c b"
proof (induction a)
  case (Cons x a)
  show ?case
  proof (cases "x = c")
    case False
    obtain w ws where "strings_Split c a = w # ws" by (cases "strings_Split c a") auto
    with Cons False show ?thesis by simp
  qed (use Cons in simp)
qed simp

lemma Set_cumulative:
  assumes "u \<noteq> []" and "v \<noteq> []"
  shows "LabelMapping_Set (u @ '','' @ v) s =
    (case LabelMapping_Set u s of (t, None) \<Rightarrow> LabelMapping_Set v t | (t, Some e) \<Rightarrow> (t, Some e))"
  using assms
  by (auto simp: LabelMapping_Set_def strings_Split_both Set_loop_append
      split: prod.splits option.splits)

section \<open>Printing and reading back\<close>

definition piece :: "string \<Rightarrow> string \<Rightarrow> string" where
  "piece label key = (if label \<noteq> key then label @ ''='' @ key else label)"

lemma String_pieces:
  "length (lm_Labels s) = length (lm_Keys s) \<Longrightarrow>
     LabelMapping_String s = Some (strings_Join (map2 piece (lm_Labels s) (lm_Keys s)) '','')"
proof -
  have "LabelMapping_String_loop ls ks buf = Some (buf @ map2 piece ls ks)"
    if "length ls = length ks" for ls ks buf
    using that by (induction ls ks arbitrary: buf rule: list_induct2) (auto simp: piece_def)
  then show "length (lm_Labels s) = length (lm_Keys s) \<Longrightarrow> ?thesis"
    by (simp add: LabelMapping_String_def)
qed

lemma Set_loop_pieces:
  assumes "length ls = length ks" and "distinct (lm_Labels s @ ls)"
    and "\<And>l. l \<in> set ls \<Longrightarrow> wf_label l"
  shows "LabelMapping_Set_loop (map2 piece ls ks) s
    = (\<lparr>lm_Labels = lm_Labels s @ ls, lm_Keys = lm_Keys s @ ks\<rparr>, None)"
  using assms
proof (induction ls ks arbitrary: s rule: list_induct2)
  case (Cons l ls k ks)
  have wf: "labelNameConstraint l" "CHR ''='' \<notin> set l"
    using Cons.prems(2) [of l] by (auto simp: wf_label_def)
  let ?s = "\<lparr>lm_Labels = lm_Labels s @ [l], lm_Keys = lm_Keys s @ [k]\<rparr>"
  have "LabelMapping_Set_loop (map2 piece ls ks) ?s
      = (\<lparr>lm_Labels = lm_Labels ?s @ ls, lm_Keys = lm_Keys ?s @ ks\<rparr>, None)"
    using Cons.prems by (intro Cons.IH) auto
  moreover have "strings_Cut (piece l k) (CHR ''='') = (if l = k then (l, [], False) else (l, k, True))"
    using wf(2) strings_Cut_found [of "CHR ''=''" l k] by (auto simp: piece_def strings_Cut_absent)
  ultimately show ?case
    using Cons.prems(1) wf(1) by (auto simp: Let_def split: if_splits)
qed simp

lemma String_Set_roundtrip:
  assumes "wf_flag s"
  shows "\<exists>t. LabelMapping_String s = Some t \<and> LabelMapping_Set t new_flag = (s, None)"
proof -
  let ?ps = "map2 piece (lm_Labels s) (lm_Keys s)"
  let ?t = "strings_Join ?ps '',''"
  have wf: "length (lm_Labels s) = length (lm_Keys s)" "distinct (lm_Labels s)"
    "\<And>l. l \<in> set (lm_Labels s) \<Longrightarrow> wf_label l" "\<And>k. k \<in> set (lm_Keys s) \<Longrightarrow> CHR '','' \<notin> set k"
    using assms by (auto simp: wf_flag_def)
  have no_comma: "CHR '','' \<notin> set p" if "p \<in> set ?ps" for p
  proof -
    from that obtain l k where "p = piece l k" "l \<in> set (lm_Labels s)" "k \<in> set (lm_Keys s)"
      by (auto dest: set_zip_leftD set_zip_rightD)
    with wf(3,4) show ?thesis by (auto simp: piece_def wf_label_def)
  qed
  have loop: "LabelMapping_Set_loop ?ps new_flag = (s, None)"
    using wf Set_loop_pieces [of "lm_Labels s" "lm_Keys s" new_flag]
    by (simp add: new_flag_def)
  have "LabelMapping_Set ?t new_flag = (s, None)"
  proof (cases "lm_Labels s")
    case Nil
    with wf(1) loop show ?thesis by (simp add: LabelMapping_Set_def)
  next
    case (Cons l ls)
    with wf(1) obtain k ks where keys: "lm_Keys s = k # ks" by (cases "lm_Keys s") auto
    have "piece l k \<noteq> []"
      using wf(3) [of l] Cons labelNameConstraint_nonempty by (auto simp: piece_def wf_label_def)
    moreover have ps: "?ps = piece l k # map2 piece ls ks" using Cons keys by simp
    ultimately have "?t \<noteq> []" by (simp only: strings_Join_nonempty not_False_eq_True)
    moreover have ne: "?ps \<noteq> []" using ps by simp
    have "strings_Split (CHR '','') ?t = ?ps"
      using ne no_comma by (intro strings_Split_Join)
    ultimately show ?thesis using loop by (simp add: LabelMapping_Set_def)
  qed
  with wf(1) String_pieces show ?thesis by blast
qed

section \<open>Label names\<close>

text \<open>The rules that the comment above the regular expression gives.\<close>

definition documented_label :: "string \<Rightarrow> bool" where
  "documented_label s \<longleftrightarrow> list_all is_word s \<and> (case s of a # _ \<Rightarrow> \<not> is_digit a | [] \<Rightarrow> True) \<and>
     take 2 s \<noteq> ''__''"

lemma word_ascii: "is_word c \<Longrightarrow> of_char c < (0x80::nat)"
  by (auto simp: char_class_defs)

lemma letter_not: "is_letter c \<Longrightarrow> \<not> is_digit c \<and> c \<noteq> CHR ''_''"
  by (auto simp: char_class_defs)

lemma digit_not: "is_digit c \<Longrightarrow> c \<noteq> CHR ''_''"
  by (auto simp: char_class_defs)

lemma regex_on_words:
  assumes "list_all is_word s"
  shows "labelNameConstraint s \<longleftrightarrow> documented_label s \<and> s \<noteq> [] \<and> s \<noteq> ''_''"
proof (cases s)
  case Nil
  then show ?thesis using labelNameConstraint_nonempty by blast
next
  case (Cons a t)
  have a: "is_word a" "list_all is_word t" using assms Cons by auto
  consider (letter) "is_letter a" | (digit) "is_digit a" | (under) "a = CHR ''_''"
    using a(1) by (auto simp: is_word_def)
  then show ?thesis
  proof cases
    case letter
    then have "regex_alt3 s" using a Cons by (simp add: regex_alt3_def word_tail_def)
    then show ?thesis
      using letter assms Cons letter_not [OF letter]
      by (auto simp: labelNameConstraint_def documented_label_def)
  next
    case digit
    then show ?thesis
      using Cons letter_not digit_not [OF digit]
      by (auto simp: labelNameConstraint_def documented_label_def regex_alt1_def regex_alt2_def
          regex_alt3_def split: list.splits)
  next
    case under
    then have one: "\<not> regex_alt1 s" "\<not> regex_alt3 s"
      using Cons letter_not by (auto simp: regex_alt1_def regex_alt3_def split: list.splits)
    show ?thesis
    proof (cases t)
      case Nil
      with one Cons under show ?thesis by (simp add: labelNameConstraint_def regex_alt2_def)
    next
      case (Cons b u)
      then have "regex_alt2 s \<longleftrightarrow> b \<noteq> CHR ''_''"
        using a(2) \<open>s = a # t\<close> under letter_not digit_not
        by (auto simp: regex_alt2_def word_tail_def is_word_def)
      with one Cons \<open>s = a # t\<close> under assms show ?thesis
        by (auto simp: labelNameConstraint_def documented_label_def char_class_defs)
    qed
  qed
qed

lemma regex_accepts_others:
  "labelNameConstraint ''-.a'' \<and> \<not> documented_label ''-.a''"
  by code_simp

section \<open>Properties\<close>

text \<open>
  Property C29. Every flag that calls of \<^verbatim>\<open>Set\<close> build from a new one, whatever their values and
  whether or not some of them fail, prints to a text that \<^verbatim>\<open>Set\<close> reads back, on a new flag,
  without error and to the same flag.
\<close>

theorem label_flag_roundtrip:
  "\<exists>t. LabelMapping_String (fold (\<lambda>v s. fst (LabelMapping_Set v s)) vs new_flag) = Some t \<and>
     LabelMapping_Set t new_flag = (fold (\<lambda>v s. fst (LabelMapping_Set v s)) vs new_flag, None)"
proof -
  have "wf_flag s \<Longrightarrow> wf_flag (fold (\<lambda>v s. fst (LabelMapping_Set v s)) vs s)" for s
    by (induction vs arbitrary: s) (auto simp: Set_wf)
  then show ?thesis by (intro String_Set_roundtrip) simp
qed

text \<open>
  Property C30. After any calls of \<^verbatim>\<open>Set\<close> the flag has one key per label, its labels are distinct
  and each of them matches the label constraint, and \<^verbatim>\<open>Extract\<close> gives as many values as there are
  labels, the i-th being the metadata value of the i-th key.
\<close>

theorem label_flag_invariant:
  "let s = fold (\<lambda>v s. fst (LabelMapping_Set v s)) vs new_flag in
     length (lm_Keys s) = length (lm_Labels s) \<and> distinct (lm_Labels s)
     \<and> list_all labelNameConstraint (lm_Labels s)
     \<and> length (LabelMapping_Extract s md) = length (lm_Labels s)
     \<and> list_all2 (\<lambda>k v. v = (case md k of None \<Rightarrow> [] | Some x \<Rightarrow> x)) (lm_Keys s)
         (LabelMapping_Extract s md)"
proof -
  have "wf_flag s \<Longrightarrow> wf_flag (fold (\<lambda>v s. fst (LabelMapping_Set v s)) vs s)" for s
    by (induction vs arbitrary: s) (auto simp: Set_wf)
  then have "wf_flag (fold (\<lambda>v s. fst (LabelMapping_Set v s)) vs new_flag)" by simp
  then show ?thesis
    by (auto simp: Let_def wf_flag_def wf_label_def LabelMapping_Extract_def list_all_iff
        list_all2_map2 list.rel_refl)
qed

text \<open>
  On texts of letters, digits and underscores the label constraint is the rule the
  comment documents, but for the empty text and a lone underscore, which it refuses; and there are
  texts with other characters that it accepts against the documented rule.
\<close>

theorem label_constraint_documented:
  "(\<forall>s. list_all is_word s \<longrightarrow>
      labelNameConstraint s = (documented_label s \<and> s \<noteq> [] \<and> s \<noteq> ''_'')) \<and>
   (\<exists>s. labelNameConstraint s \<and> \<not> documented_label s)"
  using regex_on_words regex_accepts_others by blast

theorem label_constraint_documented_witness:
  "labelNameConstraint ''_9a'' = documented_label ''_9a'' \<and> list_all is_word ''_9a''"
proof -
  have "list_all is_word ''_9a''" by code_simp
  then show ?thesis using label_constraint_documented by simp
qed

end
