(* ===== verification/Microversion.thy ===== *)
theory Microversion
  imports Base_Exporter "HOL-Library.Product_Lexorder"
begin

text \<open>
  \<^verbatim>\<open>utils/microversion.go\<close>: comparing API microversions, and choosing the one a client asks for.

  gophercloud's \<^verbatim>\<open>ParseMicroversion\<close> is the parameter \<open>parse\<close>, \<^verbatim>\<open>GetServiceVersions\<close> the parameter
  \<open>versions\<close>; a version that the service reports carries its maximum and its answer to
  \<^verbatim>\<open>IsSupported\<close>. \<open>quote\<close> is the \<^verbatim>\<open>%q\<close> verb, used in error texts only, and \<open>env\<close> the environment
  variable's value, \<^const>\<open>None\<close> when it is not set.
\<close>

definition IsMicroversionAtLeast ::
  "(string \<Rightarrow> string) \<Rightarrow> (string \<Rightarrow> (int \<times> int) fallible) \<Rightarrow> string \<Rightarrow> string \<Rightarrow> bool fallible" where
  "IsMicroversionAtLeast quote parse current required =
     (case parse current of
        Inl e \<Rightarrow> Inl (Msg_error (''failed to parse current microversion '' @ quote current
          @ '': '' @ err_text e))
      | Inr (currentMajor, currentMinor) \<Rightarrow>
          (case parse required of
             Inl e \<Rightarrow> Inl (Msg_error (''failed to parse required microversion '' @ quote required
               @ '': '' @ err_text e))
           | Inr (requiredMajor, requiredMinor) \<Rightarrow>
               if currentMajor \<noteq> requiredMajor then Inr (currentMajor > requiredMajor)
               else Inr (currentMinor \<ge> requiredMinor)))"

text \<open>\<^verbatim>\<open>ok, _ := IsMicroversionAtLeast(...)\<close>: an error leaves \<^verbatim>\<open>ok\<close> false.\<close>

definition at_least_or_false ::
  "(string \<Rightarrow> (int \<times> int) fallible) \<Rightarrow> string \<Rightarrow> string \<Rightarrow> bool" where
  "at_least_or_false parse current required =
     (case IsMicroversionAtLeast id parse current required of Inl e \<Rightarrow> False | Inr b \<Rightarrow> b)"

record SupportedVersion =
  v_MaxMajor :: int
  v_MaxMinor :: int
  v_IsSupported :: "string \<Rightarrow> bool"

fun default_loop ::
  "string \<Rightarrow> SupportedVersion list \<Rightarrow> int \<Rightarrow> int \<Rightarrow> bool \<times> int \<times> int" where
  "default_loop defaultLatest [] prevMaxMajor prevMaxMinor = (False, prevMaxMajor, prevMaxMinor)"
| "default_loop defaultLatest (ver # rest) prevMaxMajor prevMaxMinor =
     (if v_IsSupported ver defaultLatest then (True, prevMaxMajor, prevMaxMinor)
      else default_loop defaultLatest rest
        (max prevMaxMajor (v_MaxMajor ver)) (max prevMaxMinor (v_MaxMinor ver)))"

fun any_supports :: "string \<Rightarrow> SupportedVersion list \<Rightarrow> bool" where
  "any_supports mv [] = False"
| "any_supports mv (ver # rest) = (if v_IsSupported ver mv then True else any_supports mv rest)"

definition SetupClientMicroversionV2 ::
  "SupportedVersion list fallible \<Rightarrow> string option \<Rightarrow> string \<Rightarrow> ServiceClient \<Rightarrow>
   ServiceClient fallible" where
  "SetupClientMicroversionV2 versions env defaultLatest client =
     (case versions of
        Inl e \<Rightarrow> Inl (Msg_error (''failed to get supported api versions: '' @ err_text e))
      | Inr supportedVersions \<Rightarrow>
          if length supportedVersions = 0
          then Inl (Msg_error ''microversions not supported by endpoint'')
          else
            (case env of
               None \<Rightarrow>
                 (let (found, prevMaxMajor, prevMaxMinor)
                        = default_loop defaultLatest supportedVersions 0 0;
                      microversion =
                        (if found then defaultLatest
                         else if prevMaxMajor > 0
                         then strconv_Itoa prevMaxMajor @ ''.'' @ strconv_Itoa prevMaxMinor
                         else [])
                  in Inr (client\<lparr>cl_Microversion := microversion\<rparr>))
             | Some microversion \<Rightarrow>
                 if \<not> any_supports microversion supportedVersions
                 then Inl (Msg_error (''failed to require microversion: '' @ microversion))
                 else Inr (client\<lparr>cl_Microversion := microversion\<rparr>)))"

lemma IsMicroversionAtLeast_lex:
  assumes "parse c = Inr v" and "parse r = Inr w"
  shows "IsMicroversionAtLeast q parse c r = Inr (w \<le> v)"
  using assms by (cases v; cases w) (auto simp: IsMicroversionAtLeast_def)

lemma at_least_or_false_iff:
  "at_least_or_false parse c r \<longleftrightarrow>
     (\<exists>v w. parse c = Inr v \<and> parse r = Inr w \<and> w \<le> v)"
  by (cases "parse c"; cases "parse r")
    (auto simp: at_least_or_false_def IsMicroversionAtLeast_lex IsMicroversionAtLeast_def
      split: prod.splits)

text \<open>A client for the examples.\<close>

definition sample_client :: ServiceClient where
  "sample_client = \<lparr>cl_Type = ''compute'', cl_Endpoint = [], cl_Microversion = [], cl_MoreHeaders = []\<rparr>"

lemma any_supports_iff: "any_supports mv vs \<longleftrightarrow> (\<exists>v \<in> set vs. v_IsSupported v mv)"
  by (induction vs) auto

lemma default_loop_found: "fst (default_loop d vs a b) \<longleftrightarrow> any_supports d vs"
  by (induction vs arbitrary: a b) auto

lemma default_loop_max:
  "\<not> any_supports d vs \<Longrightarrow> default_loop d vs a b
     = (False, fold max (map v_MaxMajor vs) a, fold max (map v_MaxMinor vs) b)"
  by (induction vs arbitrary: a b) (auto simp: max.commute)

text \<open>
  What the client asks for: the required value where the environment names one that the
  service supports, the default where the service supports it, and otherwise a version put
  together from the largest major and the largest minor number.
\<close>

lemma Setup_microversion:
  assumes "SetupClientMicroversionV2 (Inr vs) env d cl = Inr cl'"
  shows "cl' = cl\<lparr>cl_Microversion := cl_Microversion cl'\<rparr> \<and>
    (case env of
       Some m \<Rightarrow> cl_Microversion cl' = m \<and> any_supports m vs
     | None \<Rightarrow>
         if any_supports d vs then cl_Microversion cl' = d
         else if fold max (map v_MaxMajor vs) 0 > 0
         then cl_Microversion cl' = strconv_Itoa (fold max (map v_MaxMajor vs) 0) @ ''.''
                @ strconv_Itoa (fold max (map v_MaxMinor vs) 0)
         else cl_Microversion cl' = [])"
proof (cases env)
  case None
  then show ?thesis
  proof (cases "any_supports d vs")
    case True
    then have "fst (default_loop d vs 0 0)" by (simp add: default_loop_found)
    with assms None True show ?thesis
      by (auto simp: SetupClientMicroversionV2_def Let_def split: if_splits prod.splits)
  next
    case False
    with assms None show ?thesis
      by (auto simp: SetupClientMicroversionV2_def Let_def default_loop_max split: if_splits)
  qed
next
  case (Some m)
  with assms show ?thesis
    by (auto simp: SetupClientMicroversionV2_def split: if_splits)
qed

section \<open>Properties\<close>

text \<open>
  On microversions that parse, \<^verbatim>\<open>IsMicroversionAtLeast\<close> is the lexicographic order of
  (major, minor): it never fails there, it holds in at least one direction, and it is transitive.
\<close>

theorem microversion_order:
  assumes "parse a = Inr va" and "parse b = Inr vb" and "parse c = Inr vc"
  shows "IsMicroversionAtLeast q parse a b
      = Inr (fst vb < fst va \<or> (fst va = fst vb \<and> snd vb \<le> snd va)) \<and>
    (IsMicroversionAtLeast q parse a b = Inr True \<or> IsMicroversionAtLeast q parse b a = Inr True) \<and>
    (IsMicroversionAtLeast q parse a b = Inr True \<and> IsMicroversionAtLeast q parse b c = Inr True
       \<longrightarrow> IsMicroversionAtLeast q parse a c = Inr True)"
  using assms by (cases va; cases vb; cases vc) (auto simp: IsMicroversionAtLeast_lex)

theorem microversion_order_witness:
  "let parse = (\<lambda>s. if s = ''2.87'' then Inr (2, 87) else Inr (2, 46)) in
     IsMicroversionAtLeast id parse ''2.87'' ''2.46'' = Inr True"
  using microversion_order [of "\<lambda>s. if s = ''2.87'' then Inr (2, 87) else Inr (2, 46)"
      "''2.87''" "(2, 87)" "''2.46''" "(2, 46)" "''2.46''" "(2, 46)" id]
  by (simp add: Let_def)

text \<open>
  The microversion that a client is set up with when no environment variable asks for
  one: the default where some reported version supports it, and else, with a positive largest
  major number, the largest major and the largest minor number of all reported versions put
  together; nothing else of the client changes.
\<close>

theorem microversion_fallback:
  assumes "vs \<noteq> []"
  shows "SetupClientMicroversionV2 (Inr vs) None d cl
    = Inr (cl\<lparr>cl_Microversion :=
        (if any_supports d vs then d
         else if fold max (map v_MaxMajor vs) 0 > 0
         then strconv_Itoa (fold max (map v_MaxMajor vs) 0) @ ''.''
                @ strconv_Itoa (fold max (map v_MaxMinor vs) 0)
         else [])\<rparr>)"
proof (cases "any_supports d vs")
  case True
  then have "fst (default_loop d vs 0 0)" by (simp add: default_loop_found)
  with assms True show ?thesis
    by (cases "default_loop d vs 0 0") (simp add: SetupClientMicroversionV2_def)
next
  case False
  with assms show ?thesis
    by (simp add: SetupClientMicroversionV2_def default_loop_max)
qed

theorem microversion_fallback_witness:
  "SetupClientMicroversionV2
     (Inr [\<lparr>v_MaxMajor = 2, v_MaxMinor = 30, v_IsSupported = (\<lambda>s. s = ''2.30'')\<rparr>]) None ''2.87''
     sample_client
   = Inr (sample_client\<lparr>cl_Microversion := ''2.30''\<rparr>)"
  by (subst microversion_fallback) (simp_all add: strconv_Itoa_def nat_digits.simps)

definition exactly_version :: "int \<Rightarrow> int \<Rightarrow> SupportedVersion" where
  "exactly_version major minor = \<lparr>v_MaxMajor = major, v_MaxMinor = minor,
     v_IsSupported = (\<lambda>s. s = strconv_Itoa major @ ''.'' @ strconv_Itoa minor)\<rparr>"


end
