(* ===== verification/Status_Map.thy ===== *)
theory Status_Map
  imports Base_Exporter
begin

text \<open>
  The numeric codes of statuses. \<^verbatim>\<open>mapStatus\<close> of \<^verbatim>\<open>exporters/utils.go\<close> looks a status up in a
  service's table; two services search a list instead (\<open>index_status\<close> is the loop that
  \<^verbatim>\<open>mapVpnServiceStatus\<close>, \<^verbatim>\<open>mapVpnConnectionStatus\<close>, \<^verbatim>\<open>mapZoneStatus\<close> and \<^verbatim>\<open>mapRecordsetStatus\<close> run).
  The locale states what a table has to satisfy for the code to be a faithful encoding of the
  status; each service's table is an interpretation.
\<close>

type_synonym status_codes = "(string \<times> int) list"

definition mapStatus :: "status_codes \<Rightarrow> string \<Rightarrow> int" where
  "mapStatus mapping current = (case map_of mapping current of None \<Rightarrow> -1 | Some v \<Rightarrow> v)"

fun index_status :: "int \<Rightarrow> string list \<Rightarrow> string \<Rightarrow> int" where
  "index_status idx [] current = -1"
| "index_status idx (status # rest) current =
     (if current = status then idx else index_status (idx + 1) rest current)"

locale status_table =
  fixes tbl :: status_codes
  assumes keys_distinct: "distinct (map fst tbl)"
    and codes_in_order: "map snd tbl = map int [0..<length tbl]"
begin

lemma code_nth: "i < length tbl \<Longrightarrow> snd (tbl ! i) = int i"
  using codes_in_order by (metis add_0 diff_zero length_upt nth_map nth_upt)

lemma mapStatus_nth: "i < length tbl \<Longrightarrow> mapStatus tbl (fst (tbl ! i)) = int i"
proof -
  assume i: "i < length tbl"
  then have "(fst (tbl ! i), int i) \<in> set tbl"
    by (metis code_nth nth_mem prod.collapse)
  then show ?thesis by (simp add: mapStatus_def map_of_is_SomeI keys_distinct)
qed

lemma mapStatus_known:
  "s \<in> fst ` set tbl \<Longrightarrow> \<exists>i < length tbl. s = fst (tbl ! i) \<and> mapStatus tbl s = int i"
proof -
  assume "s \<in> fst ` set tbl"
  then obtain i where "i < length tbl" and "s = fst (tbl ! i)"
    by (metis image_iff in_set_conv_nth)
  with mapStatus_nth show ?thesis by blast
qed

lemma mapStatus_unknown: "mapStatus tbl s = -1 \<longleftrightarrow> s \<notin> fst ` set tbl"
proof
  assume "mapStatus tbl s = -1"
  then show "s \<notin> fst ` set tbl" using mapStatus_known by fastforce
next
  assume "s \<notin> fst ` set tbl"
  then have "map_of tbl s = None" by (simp add: map_of_eq_None_iff)
  then show "mapStatus tbl s = -1" by (simp add: mapStatus_def)
qed

lemma mapStatus_range: "-1 \<le> mapStatus tbl s \<and> mapStatus tbl s < int (length tbl)"
  using mapStatus_known [of s] mapStatus_unknown [of s] by fastforce

lemma mapStatus_inj:
  "s \<in> fst ` set tbl \<Longrightarrow> mapStatus tbl s = mapStatus tbl t \<Longrightarrow> s = t"
proof -
  assume s: "s \<in> fst ` set tbl" and eq: "mapStatus tbl s = mapStatus tbl t"
  with mapStatus_unknown have t: "t \<in> fst ` set tbl" by metis
  from mapStatus_known [OF s] mapStatus_known [OF t] eq show ?thesis by auto
qed

end

text \<open>The search agrees with a table that numbers the list.\<close>

definition numbered :: "string list \<Rightarrow> status_codes" where
  "numbered ss = zip ss (map int [0..<length ss])"

lemma numbered_table: "distinct ss \<Longrightarrow> status_table (numbered ss)"
  by unfold_locales (simp_all add: numbered_def)

lemma index_status_mapStatus:
  "distinct ss \<Longrightarrow> index_status 0 ss s = mapStatus (numbered ss) s"
proof -
  have gen: "index_status (int k) ss s
      = (case map_of (zip ss (map int [k..<k + length ss])) s of None \<Rightarrow> -1 | Some v \<Rightarrow> v)" for k
  proof (induction ss arbitrary: k)
    case (Cons a ss)
    have "[k..<k + length (a # ss)] = k # [Suc k..<Suc k + length ss]"
      by (simp add: upt_conv_Cons del: upt_Suc)
    then show ?case using Cons.IH [of "Suc k"] by (simp add: add.commute del: upt_Suc)
  qed simp
  from gen [of 0] show ?thesis by (simp add: mapStatus_def numbered_def)
qed

end
