(* ===== verification/Service_Client.thy ===== *)
theory Service_Client
  imports Base_Exporter Catalog
begin

text \<open>
  \<^verbatim>\<open>exporters/utils.go\<close> and the end of \<^verbatim>\<open>exporters/keystone.go\<close>: the authenticated client of a
  service, the process-wide map of endpoint options, and the projects an exporter reports on.

  The calls into gophercloud, the environment and the file system are the fields of \<open>gopher\<close> and
  \<open>identity_api\<close>. The global \<^verbatim>\<open>endpointOptsV2\<close> is an explicit state: its writes are guarded by a
  mutex in the code, so they happen one after the other.
\<close>

section \<open>The libraries' side\<close>

record Cloud =
  cloud_RegionName :: string
  cloud_IdentityAPIVersion :: string
  cloud_VolumeAPIVersion :: string
  cloud_Verify :: bool
  cloud_CACertFile :: string
  cloud_ClientCertFile :: string
  cloud_ClientKeyFile :: string

definition new_cloud :: Cloud where
  "new_cloud = \<lparr>cloud_RegionName = [], cloud_IdentityAPIVersion = [], cloud_VolumeAPIVersion = [],
     cloud_Verify = False, cloud_CACertFile = [], cloud_ClientCertFile = [], cloud_ClientKeyFile = []\<rparr>"

record ClientOpts =
  opt_Cloud :: string
  opt_EnvPrefix :: string
  opt_RegionName :: string

record tlsConfig =
  tls_InsecureSkipVerify :: bool
  tls_RootCAs :: "string list option"
  tls_Certificates :: "(string \<times> string) list"

text \<open>
  A round tripper: an \<^verbatim>\<open>http.Transport\<close> with its TLS configuration and whether its proxy is taken
  from the environment, the default transport, or the logging wrapper around one.
\<close>

datatype transport = Http_Transport tlsConfig bool | Default_Transport | Logging_RoundTripper transport

record AuthOptions =
  ao_IdentityEndpoint :: string
  ao_AllowReauth :: bool
  ao_Credentials :: string

record ProviderClient =
  pc_Endpoint :: string
  pc_Transport :: "transport option"
  pc_TokenID :: string

datatype service_ctor =
  NewBareMetalV1 | NewComputeV2 | NewContainerInfraV1 | NewDBV1 | NewDNSV2 | NewGnocchiV1 |
  NewIdentityV2 | NewIdentityV3 | NewImageV2 | NewLoadBalancerV2 | NewNetworkV2 |
  NewObjectStorageV1 | NewOrchestrationV1 | NewPlacementV1 | NewSharedFileSystemV2 |
  NewBlockStorageV1 | NewBlockStorageV2 | NewBlockStorageV3

record gopher =
  gp_Getenv :: "string \<Rightarrow> string"
  gp_GetCloudFromYAML :: "ClientOpts \<Rightarrow> Cloud fallible"
  gp_AuthOptions :: "ClientOpts \<Rightarrow> AuthOptions fallible"
  gp_NewClient :: "string \<Rightarrow> ProviderClient fallible"
  gp_Authenticate :: "ProviderClient \<Rightarrow> AuthOptions \<Rightarrow> ProviderClient fallible"
  gp_construct :: "service_ctor \<Rightarrow> ProviderClient \<Rightarrow> EndpointOpts \<Rightarrow> ServiceClient fallible"

section \<open>The authenticated client\<close>

text \<open>\<^verbatim>\<open>tr, ok := transport.(*http.Transport)\<close>: only a plain transport gets the proxy setting.\<close>

fun with_proxy :: "transport \<Rightarrow> transport" where
  "with_proxy (Http_Transport tls proxy) = Http_Transport tls True"
| "with_proxy Default_Transport = Default_Transport"
| "with_proxy (Logging_RoundTripper t) = Logging_RoundTripper t"

definition AuthenticatedClientV2 ::
  "gopher \<Rightarrow> ClientOpts \<Rightarrow> transport option \<Rightarrow> ProviderClient fallible" where
  "AuthenticatedClientV2 gp opts tr =
     (case gp_AuthOptions gp opts of
        Inl e \<Rightarrow> Inl e
      | Inr options \<Rightarrow>
          let options = options\<lparr>ao_AllowReauth := True\<rparr> in
          (case gp_NewClient gp (ao_IdentityEndpoint options) of
             Inl e \<Rightarrow> Inl e
           | Inr client \<Rightarrow>
               let client = (case tr of None \<Rightarrow> client
                  | Some t \<Rightarrow> client\<lparr>pc_Transport := Some (with_proxy t)\<rparr>)
               in gp_Authenticate gp client options))"

definition newAuthenticatedProviderClient ::
  "gopher \<Rightarrow> ClientOpts option \<Rightarrow> transport option \<Rightarrow> string \<Rightarrow>
   (ProviderClient \<times> Cloud \<times> EndpointOpts) fallible" where
  "newAuthenticatedProviderClient gp opts0 tr endpointType =
     (let opts = (case opts0 of None \<Rightarrow> \<lparr>opt_Cloud = [], opt_EnvPrefix = [], opt_RegionName = []\<rparr>
            | Some o1 \<Rightarrow> o1);
          envPrefix = (if opt_EnvPrefix opts \<noteq> [] then opt_EnvPrefix opts else ''OS_'');
          cloudName = (if gp_Getenv gp (envPrefix @ ''CLOUD'') \<noteq> []
            then gp_Getenv gp (envPrefix @ ''CLOUD'') else opt_Cloud opts)
      in case (if cloudName \<noteq> [] then gp_GetCloudFromYAML gp opts else Inr new_cloud) of
           Inl e \<Rightarrow> Inl e
         | Inr cloud \<Rightarrow>
             (case AuthenticatedClientV2 gp opts tr of
                Inl e \<Rightarrow> Inl e
              | Inr pClient \<Rightarrow>
                  let region = gp_Getenv gp (envPrefix @ ''REGION_NAME'');
                      region = (if cloud_RegionName cloud \<noteq> [] then cloud_RegionName cloud else region);
                      region = (if opt_RegionName opts \<noteq> [] then opt_RegionName opts else region)
                  in Inr (pClient, cloud, \<lparr>eo_Type = [], eo_Region = region,
                       eo_Availability = GetEndpointTypeV2 endpointType\<rparr>)))"

section \<open>The client of a service\<close>

type_synonym endpoint_map = "string \<rightharpoonup> EndpointOpts"

definition service_client ::
  "gopher \<Rightarrow> ProviderClient \<Rightarrow> Cloud \<Rightarrow> EndpointOpts \<Rightarrow> string \<Rightarrow> ServiceClient fallible" where
  "service_client gp pClient cloud eo service =
     (if service = ''baremetal'' then gp_construct gp NewBareMetalV1 pClient eo
      else if service = ''compute'' then gp_construct gp NewComputeV2 pClient eo
      else if service = ''container-infra'' then gp_construct gp NewContainerInfraV1 pClient eo
      else if service = ''database'' then gp_construct gp NewDBV1 pClient eo
      else if service = ''dns'' then gp_construct gp NewDNSV2 pClient eo
      else if service = ''gnocchi'' then gp_construct gp NewGnocchiV1 pClient eo
      else if service = ''identity'' then
        (let identityVersion = (if cloud_IdentityAPIVersion cloud \<noteq> []
             then cloud_IdentityAPIVersion cloud else ''3'')
         in if identityVersion \<in> {''v2'', ''2'', ''2.0''} then gp_construct gp NewIdentityV2 pClient eo
            else if identityVersion \<in> {''v3'', ''3''} then gp_construct gp NewIdentityV3 pClient eo
            else Inl (Msg_error ''invalid identity API version''))
      else if service = ''image'' then gp_construct gp NewImageV2 pClient eo
      else if service = ''load-balancer'' then gp_construct gp NewLoadBalancerV2 pClient eo
      else if service = ''network'' then gp_construct gp NewNetworkV2 pClient eo
      else if service = ''object-store'' then gp_construct gp NewObjectStorageV1 pClient eo
      else if service = ''orchestration'' then gp_construct gp NewOrchestrationV1 pClient eo
      else if service = ''placement'' then gp_construct gp NewPlacementV1 pClient eo
      else if service = ''sharev2'' then gp_construct gp NewSharedFileSystemV2 pClient eo
      else if service = ''volume'' then
        (let volumeVersion = (if cloud_VolumeAPIVersion cloud \<noteq> []
             then cloud_VolumeAPIVersion cloud else ''3'')
         in if volumeVersion \<in> {''v1'', ''1''} then gp_construct gp NewBlockStorageV1 pClient eo
            else if volumeVersion \<in> {''v2'', ''2''} then gp_construct gp NewBlockStorageV2 pClient eo
            else if volumeVersion \<in> {''v3'', ''3''} then gp_construct gp NewBlockStorageV3 pClient eo
            else Inl (Msg_error ''invalid volume API version''))
      else Inl (Msg_error (''unable to create a service client for '' @ service)))"

definition NewServiceClientV2 ::
  "gopher \<Rightarrow> string \<Rightarrow> ClientOpts option \<Rightarrow> transport option \<Rightarrow> string \<Rightarrow> endpoint_map \<Rightarrow>
   ServiceClient fallible \<times> endpoint_map" where
  "NewServiceClientV2 gp service opts tr endpointType endpointOptsV2 =
     (case newAuthenticatedProviderClient gp opts tr endpointType of
        Inl e \<Rightarrow> (Inl e, endpointOptsV2)
      | Inr (pClient, cloud, eo) \<Rightarrow>
          (service_client gp pClient cloud eo service, endpointOptsV2(service \<mapsto> eo)))"

section \<open>Projects\<close>

record Project =
  pr_ID :: string
  pr_Name :: string
  pr_IsDomain :: bool
  pr_Description :: string
  pr_DomainID :: string
  pr_Enabled :: bool
  pr_ParentID :: string
  pr_Tags :: "string list"

text \<open>
  The identity requests: \<open>id_NewIdentityV3\<close> makes the identity client from the provider of the
  exporter's client, the others are \<^verbatim>\<open>projects.Get\<close>, \<^verbatim>\<open>projects.List\<close>, the user of the token,
  \<^verbatim>\<open>users.ListProjects\<close> and \<^verbatim>\<open>ExtractProjects\<close> of the page that one of the two returned.
\<close>

record identity_api =
  id_NewIdentityV3 :: "ServiceClient \<Rightarrow> EndpointOpts \<Rightarrow> ServiceClient fallible"
  id_get :: "ServiceClient \<Rightarrow> string \<Rightarrow> Project fallible"
  id_list :: "ServiceClient \<Rightarrow> string \<Rightarrow> Project list fallible fallible"
  id_user :: "ServiceClient \<Rightarrow> string fallible"
  id_user_projects :: "ServiceClient \<Rightarrow> string \<Rightarrow> Project list fallible fallible"

definition newIdentityV3ClientV2FromExporter ::
  "identity_api \<Rightarrow> endpoint_map \<Rightarrow> exporter \<Rightarrow> string \<Rightarrow> ServiceClient fallible" where
  "newIdentityV3ClientV2FromExporter api endpointOptsV2 ex fallbackServiceName =
     (case (case endpointOptsV2 ''identity'' of Some v \<Rightarrow> Some v
            | None \<Rightarrow> endpointOptsV2 fallbackServiceName) of
        None \<Rightarrow> Inl (Msg_error ''no EndpointOpts available to create Identity client'')
      | Some eo \<Rightarrow> id_NewIdentityV3 api (ClientV2 ex) eo)"

definition GetProjects ::
  "identity_api \<Rightarrow> endpoint_map \<Rightarrow> exporter \<Rightarrow> Project list fallible" where
  "GetProjects api endpointOptsV2 ex =
     (case newIdentityV3ClientV2FromExporter api endpointOptsV2 ex (ServiceName ex) of
        Inl e \<Rightarrow> Inl e
      | Inr c \<Rightarrow>
          if TenantID ex \<noteq> [] then
            (case id_get api c (TenantID ex) of Inl e \<Rightarrow> Inl e | Inr project \<Rightarrow> Inr [project])
          else
            (case id_list api c (DomainID ex) of
               Inr page \<Rightarrow> page
             | Inl err \<Rightarrow>
                 if err_status err \<noteq> 403 then Inl err
                 else
                   (case id_user api c of
                      Inl e \<Rightarrow> Inl e
                    | Inr user \<Rightarrow>
                        (case id_user_projects api c user of Inl e \<Rightarrow> Inl e | Inr page \<Rightarrow> page))))"

section \<open>Trusted certificates and client certificates\<close>

record files =
  fs_SystemCertPool :: "string list option"
  fs_AppendCertsFromPEM :: "string list \<Rightarrow> string \<Rightarrow> string list \<times> bool"
  fs_ReadFile :: "string \<Rightarrow> string fallible"
  fs_Stat_ok :: "string \<Rightarrow> bool"
  fs_Expand :: "string \<Rightarrow> string fallible"

definition additionalTLSTrust :: "files \<Rightarrow> string \<Rightarrow> string list fallible" where
  "additionalTLSTrust fs caCertFile =
     (let trustedCAs = (case fs_SystemCertPool fs of None \<Rightarrow> [] | Some p \<Rightarrow> p) in
      if strings_HasPrefix caCertFile ''---'' then
        (let (pool, ok) = fs_AppendCertsFromPEM fs trustedCAs (strings_TrimSpace caCertFile)
         in if \<not> ok then Inl (Msg_error ''failed to add cert to trusted roots'') else Inr pool)
      else
        (case fs_ReadFile fs caCertFile of
           Inl e \<Rightarrow> Inl e
         | Inr pemFile \<Rightarrow>
             (let (pool, ok) = fs_AppendCertsFromPEM fs trustedCAs (strings_TrimSpace pemFile)
              in if \<not> ok then Inl (Msg_error (''error parsing CA Cert from: '' @ caCertFile))
                 else Inr pool)))"

definition pathOrContents :: "files \<Rightarrow> string \<Rightarrow> (string \<times> bool) fallible" where
  "pathOrContents fs poc =
     (case poc of
        [] \<Rightarrow> Inr ([], False)
      | c # cs \<Rightarrow>
          (case (if c = CHR ''~'' then fs_Expand fs poc else Inr poc) of
             Inl e \<Rightarrow> Inl e
           | Inr path \<Rightarrow>
               if fs_Stat_ok fs path then
                 (case fs_ReadFile fs path of Inl e \<Rightarrow> Inl e | Inr contents \<Rightarrow> Inr (contents, True))
               else Inr (poc, False)))"

section \<open>Properties\<close>

text \<open>A run of the process: the clients it asked for, one after the other.\<close>

type_synonym client_call = "string \<times> ClientOpts option \<times> transport option \<times> string"

fun run_calls :: "gopher \<Rightarrow> client_call list \<Rightarrow> endpoint_map \<Rightarrow> endpoint_map" where
  "run_calls gp [] m = m"
| "run_calls gp ((service, opts, tr, ty) # calls) m =
     run_calls gp calls (snd (NewServiceClientV2 gp service opts tr ty m))"

definition authenticated :: "gopher \<Rightarrow> client_call list \<Rightarrow> (string \<times> EndpointOpts) list" where
  "authenticated gp calls = List.map_filter
     (\<lambda>(service, opts, tr, ty). case newAuthenticatedProviderClient gp opts tr ty of
        Inl e \<Rightarrow> None | Inr (p, c, eo) \<Rightarrow> Some (service, eo)) calls"

lemma run_calls_map: "run_calls gp calls m = m ++ map_of (rev (authenticated gp calls))"
proof (induction calls arbitrary: m)
  case Nil
  then show ?case by (simp add: authenticated_def List.map_filter_def)
next
  case (Cons call calls)
  obtain service opts tr ty where call: "call = (service, opts, tr, ty)" by (cases call)
  show ?case
  proof (cases "newAuthenticatedProviderClient gp opts tr ty")
    case (Inl e)
    with Cons.IH [of m] show ?thesis
      by (simp add: call NewServiceClientV2_def authenticated_def List.map_filter_def)
  next
    case (Inr r)
    obtain p c eo where "r = (p, c, eo)" by (cases r)
    with Inr Cons.IH [of "m(service \<mapsto> eo)"] show ?thesis
      by (simp add: call NewServiceClientV2_def authenticated_def List.map_filter_def
          del: fun_upd_apply)
  qed
qed

text \<open>
  The endpoint options of the identity client are those of the last authenticated
  client for the service \<^verbatim>\<open>identity\<close>, and otherwise of the last one for the exporter's own service:
  whichever cloud and whichever region that client was made for, not the exporter's own.
\<close>

theorem identity_endpoint_last_writer:
  "newIdentityV3ClientV2FromExporter api (run_calls gp calls Map.empty) ex service =
    (case map_of (rev (authenticated gp calls)) ''identity'' of
       Some eo \<Rightarrow> id_NewIdentityV3 api (ClientV2 ex) eo
     | None \<Rightarrow>
         (case map_of (rev (authenticated gp calls)) service of
            Some eo \<Rightarrow> id_NewIdentityV3 api (ClientV2 ex) eo
          | None \<Rightarrow> Inl (Msg_error ''no EndpointOpts available to create Identity client'')))"
  by (simp add: newIdentityV3ClientV2FromExporter_def run_calls_map split: option.splits)


definition sample_identity :: identity_api where
  "sample_identity = \<lparr>id_NewIdentityV3 = (\<lambda>cl eo. Inr cl),
     id_get = (\<lambda>cl i. Inl (Lib_error 404 ''no project'')),
     id_list = (\<lambda>cl d. Inl (Lib_error 403 ''forbidden'')),
     id_user = (\<lambda>cl. Inr ''u''),
     id_user_projects = (\<lambda>cl u. Inr (Inr [\<lparr>pr_ID = ''7'', pr_Name = u, pr_IsDomain = False,
        pr_Description = [], pr_DomainID = [], pr_Enabled = True, pr_ParentID = [], pr_Tags = []\<rparr>]))\<rparr>"

definition sample_endpoints :: endpoint_map where
  "sample_endpoints = [''identity'' \<mapsto> \<lparr>eo_Type = [], eo_Region = ''r'', eo_Availability = AvailabilityPublic\<rparr>]"


definition two_clouds :: gopher where
  "two_clouds = \<lparr>gp_Getenv = (\<lambda>v. []),
     gp_GetCloudFromYAML = (\<lambda>opts. Inr (new_cloud\<lparr>cloud_RegionName := ''region-of-'' @ opt_Cloud opts\<rparr>)),
     gp_AuthOptions = (\<lambda>opts. Inr \<lparr>ao_IdentityEndpoint = opt_Cloud opts, ao_AllowReauth = False, ao_Credentials = []\<rparr>),
     gp_NewClient = (\<lambda>url. Inr \<lparr>pc_Endpoint = url, pc_Transport = None, pc_TokenID = []\<rparr>),
     gp_Authenticate = (\<lambda>pc ao. Inr pc),
     gp_construct = (\<lambda>k pc eo. Inr \<lparr>cl_Type = [], cl_Endpoint = pc_Endpoint pc, cl_Microversion = [], cl_MoreHeaders = []\<rparr>)\<rparr>"

definition cloud_call :: "string \<Rightarrow> client_call" where
  "cloud_call name = (''compute'',
     Some \<lparr>opt_Cloud = name, opt_EnvPrefix = [], opt_RegionName = []\<rparr>, None, ''public'')"


end
