(* ===== verification/Network.thy ===== *)
theory Network
  imports Status_Map Service_Client
begin

text \<open>
  \<^verbatim>\<open>exporters/neutron.go\<close> apart from the subnet pools: floating IPs, agents, networks, security groups,
  subnets, ports, address availabilities, VPN objects, routers and quotas. The requests are
  parameters; \<open>parse_float\<close> is \<^verbatim>\<open>big.Float.SetString\<close> followed by \<^verbatim>\<open>Float64\<close>.
\<close>

section \<open>What the API returns\<close>

record FloatingIP =
  fp_ID :: string
  fp_FloatingNetworkID :: string
  fp_RouterID :: string
  fp_Status :: string
  fp_ProjectID :: string
  fp_FloatingIP :: string
  fp_FixedIP :: string

record Agent =
  ag_ID :: string
  ag_Alive :: bool
  ag_AdminStateUp :: bool
  ag_Host :: string
  ag_Binary :: string
  ag_AvailabilityZone :: string

record NetworkWithExt =
  nw_ID :: string
  nw_TenantID :: string
  nw_Status :: string
  nw_Name :: string
  nw_Shared :: bool
  nw_External :: bool
  nw_NetworkType :: string
  nw_PhysicalNetwork :: string
  nw_SegmentationID :: string
  nw_Subnets :: "string list"
  nw_Tags :: "string list"
  nw_MTU :: int

record Subnet =
  sn_ID :: string
  sn_TenantID :: string
  sn_Name :: string
  sn_NetworkID :: string
  sn_CIDR :: string
  sn_GatewayIP :: string
  sn_EnableDHCP :: bool
  sn_DNSNameservers :: "string list"
  sn_Tags :: "string list"
  sn_SubnetPoolID :: string

text \<open>The addresses of a port's fixed IPs stand for its list of \<^verbatim>\<open>FixedIPs\<close>.\<close>

record PortBinding =
  pb_ID :: string
  pb_NetworkID :: string
  pb_MACAddress :: string
  pb_DeviceOwner :: string
  pb_DeviceID :: string
  pb_Status :: string
  pb_VIFType :: string
  pb_AdminStateUp :: bool
  pb_FixedIPs :: "string list"

record SubnetIPAvailability =
  sa_SubnetName :: string
  sa_CIDR :: string
  sa_IPVersion :: int
  sa_TotalIPs :: string
  sa_UsedIPs :: string

record NetworkIPAvailability =
  na_NetworkID :: string
  na_NetworkName :: string
  na_ProjectID :: string
  na_TenantID :: string
  na_Subnets :: "SubnetIPAvailability list"

record VpnService =
  vs_ID :: string
  vs_ProjectID :: string
  vs_SubnetID :: string
  vs_RouterID :: string
  vs_AdminStateUp :: bool
  vs_Name :: string
  vs_ExternalV4IP :: string
  vs_ExternalV6IP :: string
  vs_FlavorID :: string
  vs_Status :: string

record VpnConnection =
  vc_ID :: string
  vc_ProjectID :: string
  vc_AdminStateUp :: bool
  vc_Name :: string
  vc_VPNServiceID :: string
  vc_IKEPolicyID :: string
  vc_IPSecPolicyID :: string
  vc_PeerID :: string
  vc_PeerEPGroupID :: string
  vc_LocalID :: string
  vc_LocalEPGroupID :: string
  vc_Status :: string

record Router =
  ro_ID :: string
  ro_Name :: string
  ro_ProjectID :: string
  ro_AdminStateUp :: bool
  ro_Status :: string
  ro_GatewayNetworkID :: string

record L3Agent =
  l3_ID :: string
  l3_Alive :: bool
  l3_AdminStateUp :: bool
  l3_HAState :: string
  l3_Host :: string

record NetworkQuota =
  nq_Used :: int
  nq_Reserved :: int
  nq_Limit :: int

section \<open>Tables and constructor\<close>

definition knownNetworkStatuses :: status_codes where
  "knownNetworkStatuses =
    [(''ACTIVE'', 0),
     (''BUILD'', 1),
     (''DOWN'', 2),
     (''ERROR'', 3)]"

definition defaultNeutronNetIPsLabels :: "string list" where
  "defaultNeutronNetIPsLabels = [''network_id'', ''network_name'', ''ip_version'', ''cidr'', ''subnet_name'', ''project_id'']"

definition defaultNeutronSubnetsLabels :: "string list" where
  "defaultNeutronSubnetsLabels = [''ip_version'', ''prefix'', ''prefix_length'', ''project_id'', ''subnet_pool_id'', ''subnet_pool_name'']"

definition defaultNeutronQuotaLabels :: "string list" where
  "defaultNeutronQuotaLabels = [''type'', ''tenant'', ''tenant_id'']"

definition defaultNeutronMetrics :: "Metric list" where
  "defaultNeutronMetrics =
    [metric ''floating_ips'' [] (Some ''ListFloatingIps''),
     metric ''floating_ips_associated_not_active'' [] None,
     metric ''floating_ip'' [''id'', ''floating_network_id'', ''router_id'', ''status'',
         ''project_id'', ''floating_ip_address''] None,
     metric ''networks'' [] (Some ''ListNetworks''),
     metric ''network'' [''id'', ''tenant_id'', ''status'', ''name'', ''is_shared'',
         ''is_external'', ''provider_network_type'', ''provider_physical_network'',
         ''provider_segmentation_id'', ''subnets'', ''tags'', ''mtu''] None,
     metric ''security_groups'' [] (Some ''ListSecGroups''),
     metric ''subnets'' [] (Some ''ListSubnets''),
     metric ''subnet'' [''id'', ''tenant_id'', ''name'', ''network_id'', ''cidr'',
         ''gateway_ip'', ''enable_dhcp'', ''dns_nameservers'', ''tags''] None,
     metric ''port'' [''uuid'', ''network_id'', ''mac_address'', ''device_owner'',
         ''device_id'', ''status'', ''binding_vif_type'', ''admin_state_up'', ''fixed_ips'']
         (Some ''ListPorts''),
     metric ''ports'' [] None,
     metric ''ports_no_ips'' [] None,
     metric ''ports_lb_not_active'' [] None,
     metric ''router'' [''id'', ''name'', ''project_id'', ''admin_state_up'', ''status'',
         ''external_network_id''] None,
     metric ''routers'' [] (Some ''ListRouters''),
     metric ''vpn_endpoint_groups'' [] (Some ''ListVpnEndpointGroups''),
     metric ''vpn_ike_policies'' [] (Some ''ListIkePolicies''),
     metric ''vpn_ipsec_policies'' [] (Some ''ListIpsecPolicies''),
     metric ''vpn_services'' [] (Some ''ListVpnServices''),
     metric ''vpn_service'' [''id'', ''project_id'', ''subnet_id'', ''router_id'',
         ''admin_state_up'', ''name'', ''external_ipv4'', ''external_ipv6'', ''flavor_id''] None,
     metric ''vpn_siteconnections'' [] (Some ''ListVpnSiteConnections''),
     metric ''vpn_siteconnection'' [''id'', ''project_id'', ''admin_state_up'', ''name'',
         ''vpn_service_id'', ''ike_policy_id'', ''ipsec_policy_id'', ''peer_id'',
         ''peer_ep_group_id'', ''local_id'', ''local_ep_group_id''] None,
     metric ''routers_not_active'' [] None,
     metric ''l3_agent_of_router'' [''router_id'', ''l3_agent_id'', ''ha_state'',
         ''agent_alive'', ''agent_admin_up'', ''agent_host''] None,
     metric ''agent_state'' [''id'', ''hostname'', ''service'', ''adminState'',
         ''availability_zone''] (Some ''ListAgentStates''),
     metric ''network_ip_availabilities_total'' defaultNeutronNetIPsLabels (Some
         ''ListNetworkIPAvailabilities''),
     metric ''network_ip_availabilities_used'' defaultNeutronNetIPsLabels None,
     metric ''subnets_total'' defaultNeutronSubnetsLabels (Some ''ListSubnetsPerPool''),
     metric ''subnets_used'' defaultNeutronSubnetsLabels None,
     metric ''subnets_free'' defaultNeutronSubnetsLabels None,
     slow_metric ''quota_network'' defaultNeutronQuotaLabels (Some ''ListNetworkQuotas''),
     slow_metric ''quota_subnet'' defaultNeutronQuotaLabels None,
     slow_metric ''quota_subnetpool'' defaultNeutronQuotaLabels None,
     slow_metric ''quota_port'' defaultNeutronQuotaLabels None,
     slow_metric ''quota_router'' defaultNeutronQuotaLabels None,
     slow_metric ''quota_floatingip'' defaultNeutronQuotaLabels None,
     slow_metric ''quota_security_group'' defaultNeutronQuotaLabels None,
     slow_metric ''quota_security_group_rule'' defaultNeutronQuotaLabels None,
     slow_metric ''quota_rbac_policy'' defaultNeutronQuotaLabels None]"

definition mapNetworkStatus :: "string \<Rightarrow> int" where
  "mapNetworkStatus current = mapStatus knownNetworkStatuses current"

definition vpn_service_status :: "string list" where
  "vpn_service_status = [''ACTIVE'', ''DOWN'', ''BUILD'', ''ERROR'', ''PENDING_CREATE'',
     ''PENDING_UPDATE'', ''PENDING_DELETE'']"

definition mapVpnServiceStatus :: "string \<Rightarrow> int" where
  "mapVpnServiceStatus current = index_status 0 vpn_service_status current"

definition vpn_connection_status :: "string list" where
  "vpn_connection_status = [''ACTIVE'', ''DOWN'', ''BUILD'', ''ERROR'', ''PENDING_CREATE'',
     ''PENDING_UPDATE'', ''PENDING_DELETE'']"

definition mapVpnConnectionStatus :: "string \<Rightarrow> int" where
  "mapVpnConnectionStatus current = index_status 0 vpn_connection_status current"

definition NewNeutronExporter :: "prom \<Rightarrow> ExporterConfig \<Rightarrow> exporter" where
  "NewNeutronExporter pr config = register_table pr defaultNeutronMetrics (new_base ''neutron'' config)"

section \<open>Floating IPs, agents, networks and subnets\<close>

definition fip_failed :: "FloatingIP \<Rightarrow> bool" where
  "fip_failed fip \<longleftrightarrow> fp_FixedIP fip \<noteq> [] \<and> fp_Status fip \<noteq> ''ACTIVE''"

fun count_if :: "('a \<Rightarrow> bool) \<Rightarrow> int \<Rightarrow> 'a list \<Rightarrow> int" where
  "count_if P n [] = n"
| "count_if P n (x # xs) = count_if P (if P x then i64 (n + 1) else n) xs"

definition ListFloatingIps :: "prom \<Rightarrow> FloatingIP list fallible \<Rightarrow> exporter \<Rightarrow> coll" where
  "ListFloatingIps pr api ex = try_get api (\<lambda>allFloatingIPs. in_order
     [for_each allFloatingIPs (\<lambda>fip. emit pr ex ''floating_ip'' 1
        [fp_ID fip, fp_FloatingNetworkID fip, fp_RouterID fip, fp_Status fip, fp_ProjectID fip, fp_FloatingIP fip]),
      emit pr ex ''floating_ips'' (f64_of_nat (length allFloatingIPs)) [],
      emit pr ex ''floating_ips_associated_not_active'' (f64_of_int (count_if fip_failed 0 allFloatingIPs)) []])"

fun neutron_agents :: "prom \<Rightarrow> (nat \<Rightarrow> string fallible) \<Rightarrow> exporter \<Rightarrow> nat \<Rightarrow> Agent list \<Rightarrow> coll" where
  "neutron_agents pr uuid ex n [] = finish"
| "neutron_agents pr uuid ex n (agent # rest) =
     (let state = (if ag_Alive agent then 1 else 0);
          adminState = (if ag_AdminStateUp agent then ''up'' else ''down'');
          send = (\<lambda>uid. emit pr ex ''agent_state'' (f64_of_int state)
            [uid, ag_Host agent, ag_Binary agent, adminState, ag_AvailabilityZone agent])
      in if ag_ID agent = []
         then try_get (uuid n) (\<lambda>uid. and_then (send uid) (neutron_agents pr uuid ex (Suc n) rest))
         else and_then (send (ag_ID agent)) (neutron_agents pr uuid ex n rest))"

definition ListAgentStates ::
  "prom \<Rightarrow> (nat \<Rightarrow> string fallible) \<Rightarrow> Agent list fallible \<Rightarrow> exporter \<Rightarrow> coll" where
  "ListAgentStates pr uuid api ex = try_get api (neutron_agents pr uuid ex 0)"

definition ListNetworks :: "prom \<Rightarrow> NetworkWithExt list fallible \<Rightarrow> exporter \<Rightarrow> coll" where
  "ListNetworks pr api ex = try_get api (\<lambda>allNetworks. and_then
     (emit pr ex ''networks'' (f64_of_nat (length allNetworks)) [])
     (if \<not> MetricIsDisabled ex ''network'' then
        for_each allNetworks (\<lambda>net. emit pr ex ''network'' (f64_of_int (mapNetworkStatus (nw_Status net)))
          [nw_ID net, nw_TenantID net, nw_Status net, nw_Name net, strconv_FormatBool (nw_Shared net),
           strconv_FormatBool (nw_External net), nw_NetworkType net, nw_PhysicalNetwork net,
           nw_SegmentationID net, strings_Join (nw_Subnets net) '','', strings_Join (nw_Tags net) '','',
           strconv_Itoa (nw_MTU net)])
      else finish))"

definition ListSecGroups :: "prom \<Rightarrow> 'g list fallible \<Rightarrow> exporter \<Rightarrow> coll" where
  "ListSecGroups pr api ex = try_get api (\<lambda>allSecurityGroups.
     emit pr ex ''security_groups'' (f64_of_nat (length allSecurityGroups)) [])"

definition ListSubnets :: "prom \<Rightarrow> Subnet list fallible \<Rightarrow> exporter \<Rightarrow> coll" where
  "ListSubnets pr api ex = try_get api (\<lambda>allSubnets. and_then
     (emit pr ex ''subnets'' (f64_of_nat (length allSubnets)) [])
     (if \<not> MetricIsDisabled ex ''subnet'' then
        for_each allSubnets (\<lambda>s. emit pr ex ''subnet'' 1
          [sn_ID s, sn_TenantID s, sn_Name s, sn_NetworkID s, sn_CIDR s, sn_GatewayIP s,
           strconv_FormatBool (sn_EnableDHCP s), strings_Join (sn_DNSNameservers s) '','',
           strings_Join (sn_Tags s) '',''])
      else finish))"

section \<open>Ports\<close>

fun fixed_ips_loop :: "nat \<Rightarrow> string list \<Rightarrow> string \<Rightarrow> string" where
  "fixed_ips_loop idx [] fixedIPs = fixedIPs"
| "fixed_ips_loop idx (fip # rest) fixedIPs =
     fixed_ips_loop (Suc idx) rest ((if idx \<noteq> 0 then fixedIPs @ '','' else fixedIPs) @ fip)"

definition port_fixed_ips :: "PortBinding \<Rightarrow> string" where
  "port_fixed_ips port =
     (if length (pb_FixedIPs port) = 1 then hd (pb_FixedIPs port)
      else if length (pb_FixedIPs port) > 1 then fixed_ips_loop 0 (pb_FixedIPs port) []
      else [])"

fun ports_loop :: "prom \<Rightarrow> exporter \<Rightarrow> PortBinding list \<Rightarrow> f64 \<Rightarrow> f64 \<Rightarrow> (f64 \<Rightarrow> f64 \<Rightarrow> coll) \<Rightarrow> coll" where
  "ports_loop pr ex [] portsWithNoIP lbaasPortsInactive k = k portsWithNoIP lbaasPortsInactive"
| "ports_loop pr ex (port # rest) portsWithNoIP lbaasPortsInactive k =
     (let portsWithNoIP = (if pb_Status port = ''ACTIVE'' \<and> length (pb_FixedIPs port) = 0
            then portsWithNoIP + 1 else portsWithNoIP);
          lbaasPortsInactive = (if pb_DeviceOwner port = ''neutron:LOADBALANCERV2'' \<and> pb_Status port \<noteq> ''ACTIVE''
            then lbaasPortsInactive + 1 else lbaasPortsInactive)
      in and_then
        (if \<not> MetricIsDisabled ex ''port'' then
           emit pr ex ''port'' 1
             [pb_ID port, pb_NetworkID port, pb_MACAddress port, pb_DeviceOwner port, pb_DeviceID port,
              pb_Status port, pb_VIFType port, strconv_FormatBool (pb_AdminStateUp port), port_fixed_ips port]
         else finish)
        (ports_loop pr ex rest portsWithNoIP lbaasPortsInactive k))"

definition ListPorts :: "prom \<Rightarrow> PortBinding list fallible \<Rightarrow> exporter \<Rightarrow> coll" where
  "ListPorts pr api ex = try_get api (\<lambda>allPorts.
     ports_loop pr ex allPorts 0 0 (\<lambda>portsWithNoIP lbaasPortsInactive. in_order
       [emit pr ex ''ports'' (f64_of_nat (length allPorts)) [],
        emit pr ex ''ports_lb_not_active'' lbaasPortsInactive [],
        emit pr ex ''ports_no_ips'' portsWithNoIP []]))"

section \<open>Address availabilities\<close>

text \<open>The body of a page: a map, or a value of another type, of which only the type's name matters.\<close>

datatype 'b body = Body_map 'b | Body_other string

definition availability_subnet ::
  "prom \<Rightarrow> (string \<Rightarrow> f64 option) \<Rightarrow> exporter \<Rightarrow> NetworkIPAvailability \<Rightarrow> string \<Rightarrow> SubnetIPAvailability \<Rightarrow> coll" where
  "availability_subnet pr parse_float ex network projectID subnet =
     (case parse_float (sa_TotalIPs subnet) of
        None \<Rightarrow> return_error (Msg_error (''failed to parse total IPs: '' @ sa_TotalIPs subnet))
      | Some totalFloat64 \<Rightarrow>
          (case parse_float (sa_UsedIPs subnet) of
             None \<Rightarrow> return_error (Msg_error (''failed to parse used IPs: '' @ sa_UsedIPs subnet))
           | Some usedFloat64 \<Rightarrow> in_order
               [emit pr ex ''network_ip_availabilities_total'' totalFloat64
                  [na_NetworkID network, na_NetworkName network, strconv_Itoa (sa_IPVersion subnet),
                   sa_CIDR subnet, sa_SubnetName subnet, projectID],
                emit pr ex ''network_ip_availabilities_used'' usedFloat64
                  [na_NetworkID network, na_NetworkName network, strconv_Itoa (sa_IPVersion subnet),
                   sa_CIDR subnet, sa_SubnetName subnet, projectID]]))"

definition availability_project :: "NetworkIPAvailability \<Rightarrow> string" where
  "availability_project network =
     (if na_ProjectID network = [] \<and> na_TenantID network \<noteq> [] then na_TenantID network
      else na_ProjectID network)"

definition ListNetworkIPAvailabilities ::
  "prom \<Rightarrow> (string \<Rightarrow> f64 option) \<Rightarrow> ('b \<Rightarrow> 'bytes fallible) \<Rightarrow>
   ('bytes \<Rightarrow> NetworkIPAvailability list fallible) \<Rightarrow> 'b body fallible \<Rightarrow> exporter \<Rightarrow> coll" where
  "ListNetworkIPAvailabilities pr parse_float marshal unmarshal api ex = try_get api (\<lambda>page.
     case page of
       Body_other t \<Rightarrow> return_error (Msg_error (''unexpected type for body: '' @ t))
     | Body_map bodyMap \<Rightarrow>
         (case marshal bodyMap of
            Inl e \<Rightarrow> return_error (Msg_error (''failed to marshal body back to JSON: '' @ err_text e))
          | Inr bodyBytes \<Rightarrow>
              (case unmarshal bodyBytes of
                 Inl e \<Rightarrow> return_error (Msg_error
                   (''failed to unmarshal network_ip_availabilities JSON: '' @ err_text e))
               | Inr networks \<Rightarrow> for_each networks (\<lambda>network. for_each (na_Subnets network)
                   (availability_subnet pr parse_float ex network (availability_project network))))))"

section \<open>VPN objects\<close>

definition ListVpnEndpointGroups :: "prom \<Rightarrow> 'x list fallible \<Rightarrow> exporter \<Rightarrow> coll" where
  "ListVpnEndpointGroups pr api ex = try_get api (\<lambda>allEndpointGroups.
     emit pr ex ''vpn_endpoint_groups'' (f64_of_nat (length allEndpointGroups)) [])"

definition ListIkePolicies :: "prom \<Rightarrow> 'x list fallible \<Rightarrow> exporter \<Rightarrow> coll" where
  "ListIkePolicies pr api ex = try_get api (\<lambda>allIkePolicies.
     emit pr ex ''vpn_ike_policies'' (f64_of_nat (length allIkePolicies)) [])"

definition ListIpsecPolicies :: "prom \<Rightarrow> 'x list fallible \<Rightarrow> exporter \<Rightarrow> coll" where
  "ListIpsecPolicies pr api ex = try_get api (\<lambda>allIpsecPolicies.
     emit pr ex ''vpn_ipsec_policies'' (f64_of_nat (length allIpsecPolicies)) [])"

definition ListVpnServices :: "prom \<Rightarrow> VpnService list fallible \<Rightarrow> exporter \<Rightarrow> coll" where
  "ListVpnServices pr api ex = try_get api (\<lambda>allVpnServices. and_then
     (emit pr ex ''vpn_services'' (f64_of_nat (length allVpnServices)) [])
     (if \<not> MetricIsDisabled ex ''vpn_service'' then
        for_each allVpnServices (\<lambda>s. emit pr ex ''vpn_service'' (f64_of_int (mapVpnServiceStatus (vs_Status s)))
          [vs_ID s, vs_ProjectID s, vs_SubnetID s, vs_RouterID s, strconv_FormatBool (vs_AdminStateUp s),
           vs_Name s, vs_ExternalV4IP s, vs_ExternalV6IP s, vs_FlavorID s])
      else finish))"

definition ListVpnSiteConnections :: "prom \<Rightarrow> VpnConnection list fallible \<Rightarrow> exporter \<Rightarrow> coll" where
  "ListVpnSiteConnections pr api ex = try_get api (\<lambda>allVpnSiteConnections. and_then
     (emit pr ex ''vpn_siteconnections'' (f64_of_nat (length allVpnSiteConnections)) [])
     (if \<not> MetricIsDisabled ex ''vpn_siteconnection'' then
        for_each allVpnSiteConnections (\<lambda>c. emit pr ex ''vpn_siteconnection''
          (f64_of_int (mapVpnConnectionStatus (vc_Status c)))
          [vc_ID c, vc_ProjectID c, strconv_FormatBool (vc_AdminStateUp c), vc_Name c, vc_VPNServiceID c,
           vc_IKEPolicyID c, vc_IPSecPolicyID c, vc_PeerID c, vc_PeerEPGroupID c, vc_LocalID c,
           vc_LocalEPGroupID c])
      else finish))"

section \<open>Routers\<close>

definition router_agents :: "prom \<Rightarrow> exporter \<Rightarrow> Router \<Rightarrow> L3Agent list \<Rightarrow> coll" where
  "router_agents pr ex router l3Agents = for_each l3Agents (\<lambda>agent.
     let state = (if l3_Alive agent then 1 else 0) in
     emit pr ex ''l3_agent_of_router'' (f64_of_int state)
       [ro_ID router, l3_ID agent, l3_HAState agent, strconv_FormatBool (l3_Alive agent),
        strconv_FormatBool (l3_AdminStateUp agent), l3_Host agent])"

definition router_body ::
  "prom \<Rightarrow> (string \<Rightarrow> L3Agent list fallible) \<Rightarrow> exporter \<Rightarrow> bool \<Rightarrow> Router \<Rightarrow> coll" where
  "router_body pr l3_api ex ovnBackendEnabled router = and_then
     (if \<not> MetricIsDisabled ex ''router'' then
        emit pr ex ''router'' 1 [ro_ID router, ro_Name router, ro_ProjectID router,
          strconv_FormatBool (ro_AdminStateUp router), ro_Status router, ro_GatewayNetworkID router]
      else finish)
     (if ovnBackendEnabled then finish
      else if \<not> MetricIsDisabled ex ''l3_agent_of_router''
      then try_get (l3_api (ro_ID router)) (router_agents pr ex router)
      else finish)"

definition ListRouters ::
  "prom \<Rightarrow> Router list fallible \<Rightarrow> Agent list fallible \<Rightarrow> (string \<Rightarrow> L3Agent list fallible) \<Rightarrow> exporter \<Rightarrow> coll" where
  "ListRouters pr routers_api ovn_api l3_api ex = try_get routers_api (\<lambda>allRouters. try_get ovn_api (\<lambda>ovnAgents.
     let ovnBackendEnabled = (length ovnAgents > 0) in in_order
       [for_each allRouters (router_body pr l3_api ex ovnBackendEnabled),
        emit pr ex ''routers'' (f64_of_nat (length allRouters)) [],
        emit pr ex ''routers_not_active''
          (f64_of_int (count_if (\<lambda>r. ro_Status r \<noteq> ''ACTIVE'') 0 allRouters)) []]))"

section \<open>Quotas\<close>

definition collectNeutronQuotaDetail ::
  "prom \<Rightarrow> NetworkQuota \<Rightarrow> string \<Rightarrow> string \<Rightarrow> desc \<Rightarrow> coll" where
  "collectNeutronQuotaDetail pr q projectName projectID d = in_order
     [emit_desc pr d (f64_of_int (nq_Used q)) [''used'', projectName, projectID],
      emit_desc pr d (f64_of_int (nq_Reserved q)) [''reserved'', projectName, projectID],
      emit_desc pr d (f64_of_int (nq_Limit q)) [''limit'', projectName, projectID]]"

text \<open>The quota set is its details by the name of the metric that reports each.\<close>

definition neutron_quotas :: "string list" where
  "neutron_quotas = [''quota_network'', ''quota_subnet'', ''quota_subnetpool'', ''quota_port'',
     ''quota_router'', ''quota_floatingip'', ''quota_security_group'', ''quota_security_group_rule'',
     ''quota_rbac_policy'']"

definition ListNetworkQuotas ::
  "prom \<Rightarrow> identity_api \<Rightarrow> endpoint_map \<Rightarrow> (string \<Rightarrow> (string \<Rightarrow> NetworkQuota) fallible) \<Rightarrow> exporter \<Rightarrow> coll" where
  "ListNetworkQuotas pr idapi endpointOptsV2 api ex = try_get (GetProjects idapi endpointOptsV2 ex)
     (\<lambda>allProjects. for_each allProjects (\<lambda>p. try_get (api (pr_ID p)) (\<lambda>quota.
        for_each neutron_quotas (\<lambda>name.
          with_desc ex name (collectNeutronQuotaDetail pr (quota name) (pr_Name p) (pr_ID p))))))"

section \<open>Tables\<close>

interpretation network_statuses: status_table knownNetworkStatuses
  by unfold_locales (simp_all add: knownNetworkStatuses_def upt_rec)

interpretation vpn_service_statuses: status_table "numbered vpn_service_status"
  by (rule numbered_table) (simp add: vpn_service_status_def)

interpretation vpn_connection_statuses: status_table "numbered vpn_connection_status"
  by (rule numbered_table) (simp add: vpn_connection_status_def)

interpretation neutron: metric_table defaultNeutronMetrics
  by unfold_locales (simp_all add: defaultNeutronMetrics_def reserved_def)

lemma neutron_wired: "wired (NewNeutronExporter pr sample_config) defaultNeutronMetrics"
  by (simp add: NewNeutronExporter_def neutron.wired_register)

lemmas neutron_label_defs = defaultNeutronNetIPsLabels_def defaultNeutronSubnetsLabels_def
  defaultNeutronQuotaLabels_def

lemma neutron_registered:
  assumes "wired ex defaultNeutronMetrics"
  shows "registered ex ''floating_ips'' 0" "registered ex ''floating_ips_associated_not_active'' 0"
    "registered ex ''ports'' 0" "registered ex ''ports_no_ips'' 0" "registered ex ''ports_lb_not_active'' 0"
    "registered ex ''routers'' 0" "registered ex ''routers_not_active'' 0"
    "registered ex ''floating_ip'' 6" "registered ex ''router'' 6" "registered ex ''l3_agent_of_router'' 6"
    "registered ex ''port'' 9" "registered ex ''agent_state'' 5"
    "registered ex ''subnets_total'' 6" "registered ex ''subnets_used'' 6" "registered ex ''subnets_free'' 6"
    "registered ex ''quota_network'' 3" "registered ex ''quota_subnet'' 3" "registered ex ''quota_subnetpool'' 3"
    "registered ex ''quota_port'' 3" "registered ex ''quota_router'' 3" "registered ex ''quota_floatingip'' 3"
    "registered ex ''quota_security_group'' 3" "registered ex ''quota_security_group_rule'' 3"
    "registered ex ''quota_rbac_policy'' 3"
  by (rule wired_row [OF assms], unfold defaultNeutronMetrics_def,
      (rule list.set_intros(1) | rule list.set_intros(2))+, simp add: neutron_label_defs)+

section \<open>Functional behaviour\<close>

lemma count_if_length:
  "0 \<le> n \<Longrightarrow> n + int (length xs) < 2 ^ 63 \<Longrightarrow> count_if P n xs = n + int (length (filter P xs))"
  by (induction xs arbitrary: n) (simp_all add: i64_id)

lemma count_if_0: "int (length xs) < 2 ^ 63 \<Longrightarrow> count_if P 0 xs = int (length (filter P xs))"
  using count_if_length [of 0 xs P] by simp

definition fip_sample :: "exporter \<Rightarrow> FloatingIP \<Rightarrow> sample" where
  "fip_sample ex fip = samp ex ''floating_ip'' 1
     [fp_ID fip, fp_FloatingNetworkID fip, fp_RouterID fip, fp_Status fip, fp_ProjectID fip, fp_FloatingIP fip]"

lemma ListFloatingIps_ok:
  assumes "wired ex defaultNeutronMetrics" and "accepts_arity pr" and "int (length fips) < 2 ^ 63"
  shows "ListFloatingIps pr (Inr fips) ex
    = (map (fip_sample ex) fips @
       [samp ex ''floating_ips'' (f64_of_nat (length fips)) [],
        samp ex ''floating_ips_associated_not_active'' (f64_of_nat (length (filter fip_failed fips))) []], Done)"
proof -
  note count = count_if_0 [OF assms(3), of fip_failed]
  show ?thesis
    using neutron_registered(1,2,8) [OF assms(1)] assms(2)
    by (simp add: ListFloatingIps_def emit_ok count fip_sample_def [abs_def] eval_nat_numeral)
qed

text \<open>Counting in floating point is exact below \<open>2 ^ 53\<close>.\<close>

lemma f64_count_Suc: "n + 1 < 2 ^ 53 \<Longrightarrow> f64_of_nat n + 1 = f64_of_nat (n + 1)"
  using f64_add_int [of "int n" 1] f64_of_int_exact [of "int n"] by (simp add: one_f64_def add.commute)

definition port_no_ip :: "PortBinding \<Rightarrow> bool" where
  "port_no_ip p \<longleftrightarrow> pb_Status p = ''ACTIVE'' \<and> pb_FixedIPs p = []"

definition port_lb_inactive :: "PortBinding \<Rightarrow> bool" where
  "port_lb_inactive p \<longleftrightarrow> pb_DeviceOwner p = ''neutron:LOADBALANCERV2'' \<and> pb_Status p \<noteq> ''ACTIVE''"

definition port_sample :: "exporter \<Rightarrow> PortBinding \<Rightarrow> sample" where
  "port_sample ex p = samp ex ''port'' 1
     [pb_ID p, pb_NetworkID p, pb_MACAddress p, pb_DeviceOwner p, pb_DeviceID p, pb_Status p, pb_VIFType p,
      strconv_FormatBool (pb_AdminStateUp p), port_fixed_ips p]"

lemma ports_loop_ok:
  assumes "registered ex ''port'' 9" and "accepts_arity pr" and "\<not> MetricIsDisabled ex ''port''"
    and "a + length ps < 2 ^ 53" and "b + length ps < 2 ^ 53"
  shows "ports_loop pr ex ps (f64_of_nat a) (f64_of_nat b) k
    = and_then (map (port_sample ex) ps, Done)
        (k (f64_of_nat (a + length (filter port_no_ip ps))) (f64_of_nat (b + length (filter port_lb_inactive ps))))"
  using assms(4,5)
proof (induction ps arbitrary: a b)
  case Nil
  then show ?case by (simp add: finish_def [symmetric])
next
  case (Cons p ps)
  let ?a = "a + (if port_no_ip p then 1 else 0)" and ?b = "b + (if port_lb_inactive p then 1 else 0)"
  have "f64_of_nat a + 1 = f64_of_nat (a + 1)" "f64_of_nat b + 1 = f64_of_nat (b + 1)"
    using Cons.prems by (simp_all only: f64_count_Suc list.size)
  then have a: "(if pb_Status p = ''ACTIVE'' \<and> length (pb_FixedIPs p) = 0 then f64_of_nat a + 1 else f64_of_nat a)
      = f64_of_nat ?a"
    and b: "(if pb_DeviceOwner p = ''neutron:LOADBALANCERV2'' \<and> pb_Status p \<noteq> ''ACTIVE''
        then f64_of_nat b + 1 else f64_of_nat b) = f64_of_nat ?b"
    by (auto simp: port_no_ip_def port_lb_inactive_def add.commute)
  have e: "emit pr ex ''port'' 1
      [pb_ID p, pb_NetworkID p, pb_MACAddress p, pb_DeviceOwner p, pb_DeviceID p, pb_Status p, pb_VIFType p,
       strconv_FormatBool (pb_AdminStateUp p), port_fixed_ips p] = ([port_sample ex p], Done)"
    using assms(1,2) by (simp add: emit_ok port_sample_def eval_nat_numeral)
  have bound: "?a + length ps < 2 ^ 53" "?b + length ps < 2 ^ 53" using Cons.prems by simp_all
  have sums: "?a + length (filter port_no_ip ps) = a + length (filter port_no_ip (p # ps))"
    "?b + length (filter port_lb_inactive ps) = b + length (filter port_lb_inactive (p # ps))" by simp_all
  have "ports_loop pr ex (p # ps) (f64_of_nat a) (f64_of_nat b) k
      = and_then ([port_sample ex p], Done) (ports_loop pr ex ps (f64_of_nat ?a) (f64_of_nat ?b) k)"
    unfolding ports_loop.simps Let_def a b e using assms(3) by simp
  also have "\<dots> = and_then ([port_sample ex p], Done) (and_then (map (port_sample ex) ps, Done)
      (k (f64_of_nat (a + length (filter port_no_ip (p # ps))))
         (f64_of_nat (b + length (filter port_lb_inactive (p # ps))))))"
    unfolding Cons.IH [OF bound] sums ..
  also have "\<dots> = and_then (map (port_sample ex) (p # ps), Done)
      (k (f64_of_nat (a + length (filter port_no_ip (p # ps))))
         (f64_of_nat (b + length (filter port_lb_inactive (p # ps)))))"
    by (subst and_then_assoc [symmetric]) simp
  finally show ?case .
qed

lemma ListPorts_ok:
  assumes "wired ex defaultNeutronMetrics" and "accepts_arity pr" and "\<not> MetricIsDisabled ex ''port''"
    and "length ps < 2 ^ 53"
  shows "ListPorts pr (Inr ps) ex
    = (map (port_sample ex) ps @
       [samp ex ''ports'' (f64_of_nat (length ps)) [],
        samp ex ''ports_lb_not_active'' (f64_of_nat (length (filter port_lb_inactive ps))) [],
        samp ex ''ports_no_ips'' (f64_of_nat (length (filter port_no_ip ps))) []], Done)"
proof -
  show ?thesis
    using ports_loop_ok [OF neutron_registered(11) [OF assms(1)] assms(2,3), of 0 ps 0] assms(2,4)
      neutron_registered(3,4,5) [OF assms(1)]
    by (simp add: ListPorts_def emit_ok zero_f64_def)
qed

lemma fixed_ips_loop_Join:
  "ls0 \<noteq> [] \<Longrightarrow> i \<noteq> 0 \<Longrightarrow>
     fixed_ips_loop i ls (strings_Join ls0 '','') = strings_Join (ls0 @ ls) '',''"
proof (induction ls arbitrary: i ls0)
  case (Cons l ls)
  then have "fixed_ips_loop (Suc i) ls (strings_Join (ls0 @ [l]) '','') = strings_Join ((ls0 @ [l]) @ ls) '',''"
    by (intro Cons.IH) simp_all
  with Cons.prems show ?case by (simp add: Join_snoc)
qed simp

text \<open>The three branches for a port's addresses are one join.\<close>

lemma port_fixed_ips_Join: "port_fixed_ips p = strings_Join (pb_FixedIPs p) '',''"
proof (cases "pb_FixedIPs p")
  case (Cons l rest)
  then show ?thesis
    using fixed_ips_loop_Join [of "[l]" 1 rest] by (cases rest) (simp_all add: port_fixed_ips_def)
qed (simp add: port_fixed_ips_def)

definition router_sample :: "exporter \<Rightarrow> Router \<Rightarrow> sample" where
  "router_sample ex r = samp ex ''router'' 1 [ro_ID r, ro_Name r, ro_ProjectID r,
     strconv_FormatBool (ro_AdminStateUp r), ro_Status r, ro_GatewayNetworkID r]"

definition l3_agent_sample :: "exporter \<Rightarrow> Router \<Rightarrow> L3Agent \<Rightarrow> sample" where
  "l3_agent_sample ex r a = samp ex ''l3_agent_of_router'' (if l3_Alive a then 1 else 0)
     [ro_ID r, l3_ID a, l3_HAState a, strconv_FormatBool (l3_Alive a),
      strconv_FormatBool (l3_AdminStateUp a), l3_Host a]"

lemma router_agents_ok:
  assumes "registered ex ''l3_agent_of_router'' 6" and "accepts_arity pr"
  shows "router_agents pr ex r = (\<lambda>as. (map (l3_agent_sample ex r) as, Done))"
proof
  fix as
  have "f64_of_int (if l3_Alive a then 1 else 0) = (if l3_Alive a then 1 else 0)" for a :: L3Agent
    by (simp add: zero_f64_def one_f64_def)
  then have "router_agents pr ex r as
      = for_each as (\<lambda>a. emit pr ex ''l3_agent_of_router'' (s_value (l3_agent_sample ex r a))
          (s_labels (l3_agent_sample ex r a)))"
    by (simp add: router_agents_def Let_def l3_agent_sample_def samp_def)
  also have "\<dots> = (map (l3_agent_sample ex r) as, Done)"
    using assms by (subst for_each_emit) (simp_all add: l3_agent_sample_def samp_def eval_nat_numeral)
  finally show "router_agents pr ex r as = (map (l3_agent_sample ex r) as, Done)" .
qed

lemma router_body_ok:
  assumes "wired ex defaultNeutronMetrics" and "accepts_arity pr"
    and "\<not> MetricIsDisabled ex ''router''" and "\<not> MetricIsDisabled ex ''l3_agent_of_router''"
  shows "router_body pr l3_api ex ovn r = and_then ([router_sample ex r], Done)
    (if ovn then finish else try_get (l3_api (ro_ID r)) (\<lambda>as. (map (l3_agent_sample ex r) as, Done)))"
  using neutron_registered(9) [OF assms(1)] assms(2-4)
  by (simp add: router_body_def emit_ok router_sample_def eval_nat_numeral
      router_agents_ok [OF neutron_registered(10) [OF assms(1)] assms(2)])

section \<open>Properties\<close>

definition sample_fip :: "string \<Rightarrow> FloatingIP" where
  "sample_fip status = \<lparr>fp_ID = ''f'', fp_FloatingNetworkID = ''n'', fp_RouterID = [], fp_Status = status,
     fp_ProjectID = ''p'', fp_FloatingIP = ''192.0.2.1'', fp_FixedIP = ''10.0.0.1''\<rparr>"

text \<open>
  The floating IPs: one sample each, then their number and the number of those that are
  bound to a fixed address and not \<^verbatim>\<open>ACTIVE\<close>.
\<close>

theorem neutron_floating_ips:
  assumes "wired ex defaultNeutronMetrics" and "accepts_arity pr" and "int (length fips) < 2 ^ 63"
  shows "ListFloatingIps pr (Inr fips) ex
    = (map (fip_sample ex) fips @
       [samp ex ''floating_ips'' (f64_of_nat (length fips)) [],
        samp ex ''floating_ips_associated_not_active''
          (f64_of_nat (length (filter (\<lambda>f. fp_FixedIP f \<noteq> [] \<and> fp_Status f \<noteq> ''ACTIVE'') fips))) []], Done)"
  using ListFloatingIps_ok [OF assms] by (simp add: fip_failed_def [abs_def])

theorem neutron_floating_ips_witness:
  "snd (ListFloatingIps sample_prom (Inr [sample_fip ''DOWN'', sample_fip ''ACTIVE''])
      (NewNeutronExporter sample_prom sample_config)) = Done \<and>
   samp (NewNeutronExporter sample_prom sample_config) ''floating_ips_associated_not_active'' 1 []
     \<in> set (fst (ListFloatingIps sample_prom (Inr [sample_fip ''DOWN'', sample_fip ''ACTIVE''])
         (NewNeutronExporter sample_prom sample_config)))"
  using neutron_floating_ips [OF neutron_wired sample_prom_accepts, of "[sample_fip ''DOWN'', sample_fip ''ACTIVE'']"]
  by (simp add: sample_fip_def one_f64_def)

text \<open>
  Property C34. The ports: one sample each with the addresses joined by commas, and the three totals,
  which are exact although two of them are counted in floating point.
\<close>

theorem neutron_ports:
  assumes "wired ex defaultNeutronMetrics" and "accepts_arity pr" and "\<not> MetricIsDisabled ex ''port''"
    and "length ps < 2 ^ 53"
  shows "ListPorts pr (Inr ps) ex
    = (map (port_sample ex) ps @
       [samp ex ''ports'' (Finite (of_nat (length ps))) [],
        samp ex ''ports_lb_not_active'' (Finite (of_nat (length (filter port_lb_inactive ps)))) [],
        samp ex ''ports_no_ips'' (Finite (of_nat (length (filter port_no_ip ps)))) []], Done) \<and>
    (\<forall>p. s_labels (port_sample ex p) ! 8 = strings_Join (pb_FixedIPs p) '','')"
proof -
  have "f64_of_nat (length (filter P ps)) = Finite (of_nat (length (filter P ps)))" for P
    using le_less_trans [OF length_filter_le assms(4), of P] by (subst f64_of_int_exact) simp_all
  moreover have "f64_of_nat (length ps) = Finite (of_nat (length ps))"
    using assms(4) by (subst f64_of_int_exact) simp_all
  ultimately show ?thesis
    using ListPorts_ok [OF assms] by (simp add: port_sample_def samp_def port_fixed_ips_Join)
qed

definition sample_port :: PortBinding where
  "sample_port = \<lparr>pb_ID = ''1'', pb_NetworkID = ''n'', pb_MACAddress = [], pb_DeviceOwner = [],
     pb_DeviceID = [], pb_Status = ''ACTIVE'', pb_VIFType = [], pb_AdminStateUp = True, pb_FixedIPs = []\<rparr>"

theorem neutron_ports_witness:
  "ListPorts sample_prom (Inr [sample_port]) (NewNeutronExporter sample_prom sample_config)
    = ([port_sample (NewNeutronExporter sample_prom sample_config) sample_port,
        samp (NewNeutronExporter sample_prom sample_config) ''ports'' 1 [],
        samp (NewNeutronExporter sample_prom sample_config) ''ports_lb_not_active'' 0 [],
        samp (NewNeutronExporter sample_prom sample_config) ''ports_no_ips'' 1 []], Done)"
proof -
  have "\<not> MetricIsDisabled (NewNeutronExporter sample_prom sample_config) ''port''"
    by (simp add: MetricIsDisabled_iff NewNeutronExporter_def sample_config_def)
  from neutron_ports [OF neutron_wired sample_prom_accepts this, of "[sample_port]"]
  show ?thesis
    by (simp add: port_lb_inactive_def port_no_ip_def one_f64_def zero_f64_def) (simp add: sample_port_def)
qed

text \<open>
  Property C33. The routers: each is reported, with the L3 agents of each in turn. Where the cloud runs
  OVN agents the L3 agents are never asked for, so the collection does not depend on that request.
\<close>

theorem neutron_routers:
  assumes "wired ex defaultNeutronMetrics" and "accepts_arity pr" and "int (length rs) < 2 ^ 63"
    and "\<not> MetricIsDisabled ex ''router''" and "\<not> MetricIsDisabled ex ''l3_agent_of_router''"
    and "ovn = [] \<Longrightarrow> \<forall>r \<in> set rs. l3_api (ro_ID r) = Inr (agents r)"
  shows "ListRouters pr (Inr rs) (Inr ovn) l3_api ex
    = (concat (map (\<lambda>r. router_sample ex r #
         (if ovn = [] then map (l3_agent_sample ex r) (agents r) else [])) rs) @
       [samp ex ''routers'' (f64_of_nat (length rs)) [],
        samp ex ''routers_not_active'' (f64_of_nat (length (filter (\<lambda>r. ro_Status r \<noteq> ''ACTIVE'') rs))) []], Done)"
proof -
  have "router_body pr l3_api ex (length ovn > 0) r
      = (router_sample ex r # (if ovn = [] then map (l3_agent_sample ex r) (agents r) else []), Done)"
    if "r \<in> set rs" for r
    using router_body_ok [OF assms(1,2,4,5), of l3_api "length ovn > 0" r] assms(6) that
    by (cases ovn) (simp_all add: finish_def)
  then have "for_each rs (router_body pr l3_api ex (length ovn > 0))
      = (concat (map (\<lambda>r. router_sample ex r #
           (if ovn = [] then map (l3_agent_sample ex r) (agents r) else [])) rs), Done)"
    by (rule for_each_Done)
  moreover have "registered ex ''routers'' 0" "registered ex ''routers_not_active'' 0"
    using neutron_registered [OF assms(1)] by simp_all
  ultimately show ?thesis
    using assms(2) by (simp add: ListRouters_def Let_def emit_ok count_if_0 [OF assms(3)])
qed

definition sample_router :: Router where
  "sample_router = \<lparr>ro_ID = ''r1'', ro_Name = [], ro_ProjectID = ''p'', ro_AdminStateUp = True,
     ro_Status = ''ACTIVE'', ro_GatewayNetworkID = []\<rparr>"

definition sample_agent :: Agent where
  "sample_agent = \<lparr>ag_ID = ''a'', ag_Alive = True, ag_AdminStateUp = True, ag_Host = ''h'',
     ag_Binary = ''ovn-controller'', ag_AvailabilityZone = []\<rparr>"

theorem neutron_routers_witness:
  "ListRouters sample_prom (Inr [sample_router]) (Inr [sample_agent]) (\<lambda>r. Inl (Msg_error ''no L3 agents''))
      (NewNeutronExporter sample_prom sample_config)
    = ([router_sample (NewNeutronExporter sample_prom sample_config) sample_router,
        samp (NewNeutronExporter sample_prom sample_config) ''routers'' 1 [],
        samp (NewNeutronExporter sample_prom sample_config) ''routers_not_active'' 0 []], Done)"
proof -
  have on: "\<not> MetricIsDisabled (NewNeutronExporter sample_prom sample_config) n" for n
    by (simp add: MetricIsDisabled_iff NewNeutronExporter_def sample_config_def)
  from neutron_routers [OF neutron_wired sample_prom_accepts _ on on, of "[sample_router]" "[sample_agent]"]
  show ?thesis by (simp add: one_f64_def zero_f64_def) (simp add: sample_router_def)
qed

text \<open>
  The floating IPs are sent under \<^verbatim>\<open>floating_ip\<close> without asking whether it is registered.
\<close>

lemma floating_ip_listing_panics:
  assumes "''neutron-floating_ip'' \<in> set (DisabledMetrics cfg)"
  shows "ListFloatingIps pr (Inr (fip # fips)) (NewNeutronExporter pr cfg) = ([], Panicked Nil_deref)"
proof -
  have "map_of (metrics_of (NewNeutronExporter pr cfg)) ''floating_ip'' = None"
    unfolding NewNeutronExporter_def using assms
    by (intro neutron.lookup_absent) (auto simp: reserved_def enabled_def MetricIsDisabled_iff)
  then show ?thesis
    by (simp add: ListFloatingIps_def emit_unregistered)
qed

end
