(* ===== verification/Subnet_Pools.thy ===== *)
theory Subnet_Pools
  imports Network
begin

text \<open>
  The subnet pools of \<^verbatim>\<open>exporters/neutron.go\<close>: for every prefix of a pool and every prefix length the
  pool allows, how many subnets there could be, how many there are, and how many are still free.

  \<^verbatim>\<open>netip.ParsePrefix\<close> and \<^verbatim>\<open>Prefix.String\<close> are the parameters \<open>parse\<close> and \<open>show_prefix\<close>. The set of
  addresses that \<^verbatim>\<open>netipx.IPSetBuilder\<close> builds is the parameter \<open>ipset\<close>: the prefixes of the set that
  results from adding one prefix and removing others.
\<close>

section \<open>Data\<close>

text \<open>A \<^verbatim>\<open>netip.Prefix\<close>: its family, its address as a number, and its length.\<close>

record Prefix =
  pf_v6 :: bool
  pf_addr :: nat
  pf_bits :: nat

record SubnetPool =
  sup_ID :: string
  sup_Name :: string
  sup_ProjectID :: string
  sup_IPversion :: int
  sup_MinPrefixLen :: int
  sup_MaxPrefixLen :: int
  sup_Prefixes :: "string list"

record subnetpoolWithSubnets = SubnetPool +
  sup_subnets :: "Prefix list"

definition width :: "Prefix \<Rightarrow> nat" where
  "width p = (if pf_v6 p then 128 else 32)"

definition valid_prefix :: "Prefix \<Rightarrow> bool" where
  "valid_prefix p \<longleftrightarrow> pf_bits p \<le> width p \<and> pf_addr p < 2 ^ width p"

text \<open>The number of the block that a prefix of length \<open>b\<close> around the address denotes.\<close>

definition block_at :: "Prefix \<Rightarrow> nat \<Rightarrow> nat" where
  "block_at p b = pf_addr p div 2 ^ (width p - b)"

definition Prefix_Overlaps :: "Prefix \<Rightarrow> Prefix \<Rightarrow> bool" where
  "Prefix_Overlaps p o' =
     (if \<not> valid_prefix p \<or> \<not> valid_prefix o' then False
      else if p = o' then True
      else if pf_v6 p \<noteq> pf_v6 o' then False
      else let minBits = min (pf_bits p) (pf_bits o') in
        if minBits = 0 then True else block_at p minBits = block_at o' minBits)"

section \<open>The pools and their subnets\<close>

fun parse_all :: "(string \<Rightarrow> Prefix fallible) \<Rightarrow> string list \<Rightarrow> Prefix list fallible" where
  "parse_all parse [] = Inr []"
| "parse_all parse (s # ss) =
     (case parse s of
        Inl e \<Rightarrow> Inl e
      | Inr p \<Rightarrow> (case parse_all parse ss of Inl e \<Rightarrow> Inl e | Inr ps \<Rightarrow> Inr (p # ps)))"

definition IPPrefixes :: "(string \<Rightarrow> Prefix fallible) \<Rightarrow> subnetpoolWithSubnets \<Rightarrow> Prefix list fallible" where
  "IPPrefixes parse s = parse_all parse (sup_Prefixes s)"

fun subnet_prefixes ::
  "(string \<Rightarrow> Prefix fallible) \<Rightarrow> Subnet list \<Rightarrow> (string \<rightharpoonup> Prefix list) \<Rightarrow> (string \<rightharpoonup> Prefix list) fallible" where
  "subnet_prefixes parse [] m = Inr m"
| "subnet_prefixes parse (s # ss) m =
     (if sn_SubnetPoolID s \<noteq> [] then
        (case parse (sn_CIDR s) of
           Inl e \<Rightarrow> Inl e
         | Inr p \<Rightarrow> subnet_prefixes parse ss
             (m(sn_SubnetPoolID s \<mapsto> (case m (sn_SubnetPoolID s) of None \<Rightarrow> [] | Some ps \<Rightarrow> ps) @ [p])))
      else subnet_prefixes parse ss m)"

definition subnetpoolsWithSubnets ::
  "(string \<Rightarrow> Prefix fallible) \<Rightarrow> SubnetPool list \<Rightarrow> Subnet list \<Rightarrow> subnetpoolWithSubnets list fallible" where
  "subnetpoolsWithSubnets parse pools subnets =
     (case subnet_prefixes parse subnets Map.empty of
        Inl e \<Rightarrow> Inl e
      | Inr m \<Rightarrow> Inr (map (\<lambda>pool. SubnetPool.extend pool (subnetpoolWithSubnets.fields
          (case m (sup_ID pool) of None \<Rightarrow> [] | Some ps \<Rightarrow> ps))) pools))"

section \<open>Counting\<close>

text \<open>\<^verbatim>\<open>math.Pow(2, float64(n))\<close> for an integer \<open>n\<close> that is not negative.\<close>

definition pow2 :: "int \<Rightarrow> f64" where
  "pow2 n = f64_of_int (2 ^ nat n)"

type_synonym ipset_builder = "Prefix \<Rightarrow> Prefix list \<Rightarrow> Prefix list fallible"

fun free_loop :: "int \<Rightarrow> Prefix list \<Rightarrow> f64 \<Rightarrow> f64" where
  "free_loop prefixLength [] acc = acc"
| "free_loop prefixLength (p # ps) acc =
     (if int (pf_bits p) > prefixLength then free_loop prefixLength ps acc
      else free_loop prefixLength ps (acc + pow2 (prefixLength - int (pf_bits p))))"

definition calculateFreeSubnets :: "ipset_builder \<Rightarrow> Prefix \<Rightarrow> Prefix list \<Rightarrow> int \<Rightarrow> f64 fallible" where
  "calculateFreeSubnets ipset poolPrefix subnetsInPool prefixLength =
     (case ipset poolPrefix subnetsInPool of
        Inl e \<Rightarrow> Inl e
      | Inr ps \<Rightarrow> Inr (free_loop prefixLength ps 0))"

definition calculateUsedSubnets :: "Prefix list \<Rightarrow> Prefix \<Rightarrow> int \<Rightarrow> f64" where
  "calculateUsedSubnets subnets ipPrefix prefixLength =
     (let result = count_all (map (\<lambda>s. int (pf_bits s)) (filter (Prefix_Overlaps ipPrefix) subnets)) []
      in f64_of_int (case map_of result prefixLength of None \<Rightarrow> 0 | Some n \<Rightarrow> n))"

definition pool_length ::
  "prom \<Rightarrow> ipset_builder \<Rightarrow> (Prefix \<Rightarrow> string) \<Rightarrow> exporter \<Rightarrow> subnetpoolWithSubnets \<Rightarrow> Prefix \<Rightarrow> int \<Rightarrow> coll" where
  "pool_length pr ipset show_prefix ex pool ipPrefix prefixLength =
     (if prefixLength < int (pf_bits ipPrefix) then finish
      else
        let ls = [strconv_Itoa (sup_IPversion pool), show_prefix ipPrefix, strconv_Itoa prefixLength,
              sup_ProjectID pool, sup_ID pool, sup_Name pool]
        in in_order
          [emit pr ex ''subnets_total'' (pow2 (prefixLength - int (pf_bits ipPrefix))) ls,
           emit pr ex ''subnets_used'' (calculateUsedSubnets (sup_subnets pool) ipPrefix prefixLength) ls,
           try_get (calculateFreeSubnets ipset ipPrefix (sup_subnets pool) prefixLength)
             (\<lambda>freeSubnets. emit pr ex ''subnets_free'' freeSubnets ls)])"

definition ListSubnetsPerPool ::
  "prom \<Rightarrow> (string \<Rightarrow> Prefix fallible) \<Rightarrow> (Prefix \<Rightarrow> string) \<Rightarrow> ipset_builder \<Rightarrow> Subnet list fallible \<Rightarrow>
   SubnetPool list fallible \<Rightarrow> exporter \<Rightarrow> coll" where
  "ListSubnetsPerPool pr parse show_prefix ipset subnets_api pools_api ex =
     try_get subnets_api (\<lambda>allSubnets. try_get pools_api (\<lambda>allSubnetPools.
     try_get (subnetpoolsWithSubnets parse allSubnetPools allSubnets) (\<lambda>subnetPools.
       for_each subnetPools (\<lambda>subnetPool. try_get (IPPrefixes parse subnetPool) (\<lambda>ipPrefixes.
         for_each ipPrefixes (\<lambda>ipPrefix.
           for_each [sup_MinPrefixLen subnetPool..sup_MaxPrefixLen subnetPool]
             (pool_length pr ipset show_prefix ex subnetPool ipPrefix)))))))"

section \<open>Blocks of addresses\<close>

text \<open>The addresses of block \<open>n\<close> at length \<open>b\<close> in a space of \<open>w\<close> bits, and those of a prefix.\<close>

definition cell :: "nat \<Rightarrow> nat \<Rightarrow> nat \<Rightarrow> nat set" where
  "cell w b n = {a. a div 2 ^ (w - b) = n}"

definition addresses :: "Prefix \<Rightarrow> nat set" where
  "addresses p = cell (width p) (pf_bits p) (block_at p (pf_bits p))"

lemma cell_nonempty: "n * 2 ^ (w - b) \<in> cell w b n"
  by (simp add: cell_def)

lemma cell_card: "card (cell w b n) = 2 ^ (w - b)"
proof -
  have "cell w b n = {n * 2 ^ (w - b)..<n * 2 ^ (w - b) + 2 ^ (w - b)}"
  proof (intro set_eqI)
    fix a
    have "a div 2 ^ (w - b) = n \<longleftrightarrow> n * 2 ^ (w - b) \<le> a \<and> a < n * 2 ^ (w - b) + 2 ^ (w - b)"
      by (metis add.commute div_nat_eqI dividend_less_times_div mult.commute mult_Suc_right
          times_div_less_eq_dividend zero_less_numeral zero_less_power)
    then show "a \<in> cell w b n \<longleftrightarrow> a \<in> {n * 2 ^ (w - b)..<n * 2 ^ (w - b) + 2 ^ (w - b)}"
      by (simp add: cell_def)
  qed
  then show ?thesis by simp
qed

lemma div_levels:
  fixes a :: nat
  assumes "b \<le> l" and "l \<le> w"
  shows "a div 2 ^ (w - b) = a div 2 ^ (w - l) div 2 ^ (l - b)"
proof -
  have "(2::nat) ^ (w - b) = 2 ^ (w - l) * 2 ^ (l - b)"
    using assms by (simp add: power_add [symmetric])
  then show ?thesis by (simp add: div_mult2_eq)
qed

lemma cell_subset:
  assumes "l \<le> w" and "b \<le> w"
  shows "cell w l n \<subseteq> cell w b m \<longleftrightarrow> b \<le> l \<and> n div 2 ^ (l - b) = m"
proof
  assume sub: "cell w l n \<subseteq> cell w b m"
  have fin: "finite (cell w b m)"
    using cell_card [of w b m] card.infinite by fastforce
  have "(2::nat) ^ (w - l) \<le> 2 ^ (w - b)"
    using card_mono [OF fin sub] by (simp add: cell_card)
  then have "b \<le> l" using assms by (simp add: power_le_imp_le_exp)
  moreover have "n * 2 ^ (w - l) \<in> cell w b m" using sub cell_nonempty by blast
  ultimately show "b \<le> l \<and> n div 2 ^ (l - b) = m"
    using div_levels [of b l w "n * 2 ^ (w - l)"] assms by (simp add: cell_def)
next
  assume "b \<le> l \<and> n div 2 ^ (l - b) = m"
  then show "cell w l n \<subseteq> cell w b m"
    using div_levels [of b l w] assms by (auto simp: cell_def)
qed

text \<open>
  What the library promises about its sets: the prefixes it returns are valid and disjoint, hold
  exactly the addresses that were added and not removed, and are as large as possible, so that
  every block inside the set is inside one of them.
\<close>

definition covers :: "Prefix \<Rightarrow> Prefix list \<Rightarrow> Prefix list \<Rightarrow> bool" where
  "covers pool subnets ps \<longleftrightarrow>
     (\<forall>p \<in> set ps. valid_prefix p \<and> pf_v6 p = pf_v6 pool) \<and> distinct ps \<and>
     (\<forall>p \<in> set ps. \<forall>q \<in> set ps. p \<noteq> q \<longrightarrow> addresses p \<inter> addresses q = {}) \<and>
     (\<Union>p \<in> set ps. addresses p)
       = addresses pool - (\<Union>s \<in> {s \<in> set subnets. pf_v6 s = pf_v6 pool}. addresses s) \<and>
     (\<forall>b n. b \<le> width pool \<longrightarrow> cell (width pool) b n \<subseteq> (\<Union>p \<in> set ps. addresses p) \<longrightarrow>
        (\<exists>p \<in> set ps. cell (width pool) b n \<subseteq> addresses p))"

definition free_addresses :: "Prefix \<Rightarrow> Prefix list \<Rightarrow> nat set" where
  "free_addresses pool subnets =
     addresses pool - (\<Union>s \<in> {s \<in> set subnets. pf_v6 s = pf_v6 pool}. addresses s)"

text \<open>The blocks of length \<open>l\<close> inside one prefix.\<close>

definition inside :: "nat \<Rightarrow> Prefix \<Rightarrow> nat set" where
  "inside l p = {n. cell (width p) l n \<subseteq> addresses p}"

lemma inside_eq:
  assumes "valid_prefix p" and "l \<le> width p"
  shows "inside l p = (if pf_bits p \<le> l
    then {block_at p (pf_bits p) * 2 ^ (l - pf_bits p)..<block_at p (pf_bits p) * 2 ^ (l - pf_bits p) + 2 ^ (l - pf_bits p)}
    else {})"
proof -
  have "cell (width p) l n \<subseteq> addresses p
      \<longleftrightarrow> pf_bits p \<le> l \<and> n div 2 ^ (l - pf_bits p) = block_at p (pf_bits p)" for n
    unfolding addresses_def using assms by (intro cell_subset) (simp_all add: valid_prefix_def)
  moreover have "n div 2 ^ k = m \<longleftrightarrow> m * 2 ^ k \<le> n \<and> n < m * 2 ^ k + 2 ^ k" for n m k :: nat
    by (metis add.commute div_nat_eqI dividend_less_times_div mult.commute mult_Suc_right
        times_div_less_eq_dividend zero_less_numeral zero_less_power)
  ultimately show ?thesis by (auto simp: inside_def)
qed

lemma inside_card:
  "valid_prefix p \<Longrightarrow> l \<le> width p \<Longrightarrow>
     card (inside l p) = (if pf_bits p \<le> l then 2 ^ (l - pf_bits p) else 0) \<and> finite (inside l p)"
  by (simp add: inside_eq)

lemma free_blocks_card:
  assumes "covers pool subnets ps" and "l \<le> width pool"
  shows "card {n. cell (width pool) l n \<subseteq> free_addresses pool subnets}
    = (\<Sum>p\<leftarrow>ps. card (inside l p)) \<and> finite {n. cell (width pool) l n \<subseteq> free_addresses pool subnets}"
proof -
  have ps: "valid_prefix p" "width p = width pool" if "p \<in> set ps" for p
    using assms(1) that by (simp_all add: covers_def width_def)
  have union: "(\<Union>p \<in> set ps. addresses p) = free_addresses pool subnets"
    using assms(1) by (simp add: covers_def free_addresses_def)
  have "{n. cell (width pool) l n \<subseteq> free_addresses pool subnets} = (\<Union>p \<in> set ps. inside l p)"
    using assms ps unfolding union [symmetric] inside_def covers_def by fastforce
  moreover have "inside l p \<inter> inside l q = {}" if "p \<in> set ps" "q \<in> set ps" "p \<noteq> q" for p q
  proof -
    have disj: "addresses p \<inter> addresses q = {}" using assms(1) that by (simp add: covers_def)
    have "False" if "cell (width pool) l n \<subseteq> addresses p" "cell (width pool) l n \<subseteq> addresses q" for n
      using that disj cell_nonempty [of n "width pool" l] by blast
    then show ?thesis using ps that by (auto simp: inside_def)
  qed
  moreover have "finite (inside l p)" if "p \<in> set ps" for p
    using inside_card ps [OF that] assms(2) by simp
  ultimately have "card {n. cell (width pool) l n \<subseteq> free_addresses pool subnets}
      = (\<Sum>p \<in> set ps. card (inside l p))"
    and "finite {n. cell (width pool) l n \<subseteq> free_addresses pool subnets}"
    using card_UN_disjoint [of "set ps" "inside l"] by simp_all
  then show ?thesis
    using assms(1) by (simp add: covers_def sum_list_distinct_conv_sum_set)
qed

lemma pow2_exact: "0 \<le> n \<Longrightarrow> n < 53 \<Longrightarrow> pow2 n = Finite (of_int (2 ^ nat n))"
proof -
  assume "0 \<le> n" "n < 53"
  then have "(2::int) ^ nat n < 2 ^ 53" by (intro power_strict_increasing) auto
  then show ?thesis by (simp add: pow2_def f64_of_int_exact)
qed

lemma free_loop_sum:
  assumes "\<And>p. p \<in> set ps \<Longrightarrow> valid_prefix p \<and> l \<le> width p"
    and "c + (\<Sum>p\<leftarrow>ps. card (inside l p)) < 2 ^ 53"
  shows "free_loop (int l) ps (Finite (of_nat c)) = Finite (of_nat (c + (\<Sum>p\<leftarrow>ps. card (inside l p))))"
  using assms
proof (induction ps arbitrary: c)
  case (Cons p ps)
  have card: "card (inside l p) = (if pf_bits p \<le> l then 2 ^ (l - pf_bits p) else 0)"
    using inside_card Cons.prems(1) by simp
  show ?case
  proof (cases "pf_bits p \<le> l")
    case True
    let ?n = "2 ^ (l - pf_bits p) :: nat"
    have "c + ?n < 2 ^ 53" using Cons.prems(2) True card by simp
    then have "?n < 2 ^ 53" by linarith
    then have "l - pf_bits p < 53"
      using power_less_imp_less_exp [of "2::nat" "l - pf_bits p" 53] by simp
    then have "pow2 (int l - int (pf_bits p)) = Finite (of_int (int ?n))"
      using True by (subst pow2_exact) (auto simp: nat_diff_distrib)
    moreover have "int (c + ?n) < 2 ^ 53"
      using \<open>c + ?n < 2 ^ 53\<close> by (metis of_nat_less_iff of_nat_numeral of_nat_power)
    then have "\<bar>int c + int ?n\<bar> < 2 ^ 53" by (simp only: of_nat_add abs_of_nonneg add_nonneg_nonneg of_nat_0_le_iff)
    then have "Finite (of_int (int c)) + Finite (of_int (int ?n)) = Finite (of_int (int c + int ?n))"
      unfolding f64_add_int by (rule f64_of_int_exact)
    then have "Finite (of_nat c) + Finite (of_int (int ?n)) = Finite (of_nat (c + ?n))"
      by (simp del: plus_f64.simps)
    ultimately have "free_loop (int l) (p # ps) (Finite (of_nat c))
        = free_loop (int l) ps (Finite (of_nat (c + ?n)))"
      using True by (simp del: plus_f64.simps)
    then show ?thesis
      using Cons.IH [of "c + ?n"] Cons.prems card True by (simp add: add.assoc)
  next
    case False
    then show ?thesis using Cons card by simp
  qed
qed simp

section \<open>Properties\<close>

text \<open>
  Property C11. The number of free subnets is the number of blocks of the asked length that lie in the
  pool's prefix and share no address with any subnet of the pool; it is exact as long as the
  prefix has fewer than \<open>2 ^ 53\<close> such blocks.
\<close>

theorem free_subnets_count:
  assumes "valid_prefix pool" and "ipset pool subnets = Inr ps" and "covers pool subnets ps"
    and "pf_bits pool \<le> l" and "l \<le> width pool" and "l - pf_bits pool < 53"
  shows "calculateFreeSubnets ipset pool subnets (int l) = Inr (Finite (of_nat (card
    {n. cell (width pool) l n \<subseteq> addresses pool \<and>
        (\<forall>s \<in> set subnets. pf_v6 s = pf_v6 pool \<longrightarrow> cell (width pool) l n \<inter> addresses s = {})})))"
proof -
  let ?F = "{n. cell (width pool) l n \<subseteq> free_addresses pool subnets}"
  note F = free_blocks_card [OF assms(3,5)]
  have "?F \<subseteq> inside l pool" by (auto simp: free_addresses_def inside_def)
  then have "card ?F \<le> 2 ^ (l - pf_bits pool)"
    using inside_card [OF assms(1,5)] assms(4) by (metis card_mono)
  moreover have "(2::nat) ^ (l - pf_bits pool) < 2 ^ 53"
    using assms(6) by (intro power_strict_increasing) auto
  ultimately have "0 + (\<Sum>p\<leftarrow>ps. card (inside l p)) < 2 ^ 53" using F by simp
  moreover have "valid_prefix p \<and> l \<le> width p" if "p \<in> set ps" for p
    using assms(3,5) that by (simp add: covers_def width_def)
  ultimately have "free_loop (int l) ps (Finite (of_nat 0)) = Finite (of_nat (card ?F))"
    using free_loop_sum [of ps l 0] F by simp
  moreover have "?F = {n. cell (width pool) l n \<subseteq> addresses pool \<and>
      (\<forall>s \<in> set subnets. pf_v6 s = pf_v6 pool \<longrightarrow> cell (width pool) l n \<inter> addresses s = {})}"
    by (auto simp: free_addresses_def)
  ultimately show ?thesis
    using assms(2) by (simp add: calculateFreeSubnets_def zero_f64_def)
qed

text \<open>The prefixes \<^verbatim>\<open>0.0.0.0/30\<close>, its lower half and its upper half.\<close>

definition small_pool :: Prefix where
  "small_pool = \<lparr>pf_v6 = False, pf_addr = 0, pf_bits = 30\<rparr>"

definition lower_half :: Prefix where
  "lower_half = \<lparr>pf_v6 = False, pf_addr = 0, pf_bits = 31\<rparr>"

definition upper_half :: Prefix where
  "upper_half = \<lparr>pf_v6 = False, pf_addr = 2, pf_bits = 31\<rparr>"

lemma halves_covers: "covers small_pool [lower_half] [upper_half]"
proof -
  have sets: "addresses small_pool = {a. a div 4 = 0}" "addresses lower_half = {a. a div 2 = 0}"
    "addresses upper_half = {a. a div 2 = 1}"
    by (auto simp: addresses_def cell_def block_at_def width_def small_pool_def lower_half_def upper_half_def)
  have "{a::nat. a div 2 = 1} = {a. a div 4 = 0} - {a. a div 2 = 0}" by auto
  moreover have "valid_prefix upper_half" "pf_v6 lower_half = pf_v6 small_pool" "pf_v6 upper_half = pf_v6 small_pool"
    by (simp_all add: valid_prefix_def upper_half_def lower_half_def small_pool_def width_def)
  ultimately show ?thesis by (auto simp: covers_def sets)
qed

theorem free_subnets_count_witness:
  "calculateFreeSubnets (\<lambda>p ss. Inr [upper_half]) small_pool [lower_half] 32
    = Inr (Finite (of_nat (card {n. cell 32 32 n \<subseteq> addresses small_pool \<and>
        cell 32 32 n \<inter> addresses lower_half = {}}))) \<and>
   calculateFreeSubnets (\<lambda>p ss. Inr [upper_half]) small_pool [lower_half] 32 = Inr (Finite 2)"
proof
  have "valid_prefix small_pool" "pf_bits small_pool \<le> 32" "32 \<le> width small_pool" "32 - pf_bits small_pool < 53"
    by (simp_all add: valid_prefix_def small_pool_def width_def)
  from free_subnets_count [OF this(1) refl halves_covers this(2-4)]
  show "calculateFreeSubnets (\<lambda>p ss. Inr [upper_half]) small_pool [lower_half] 32
    = Inr (Finite (of_nat (card {n. cell 32 32 n \<subseteq> addresses small_pool \<and>
        cell 32 32 n \<inter> addresses lower_half = {}})))"
    by (simp add: width_def small_pool_def lower_half_def)
  show "calculateFreeSubnets (\<lambda>p ss. Inr [upper_half]) small_pool [lower_half] 32 = Inr (Finite 2)"
    using f64_add_int [of 0 2]
    by (simp add: calculateFreeSubnets_def pow2_def upper_half_def f64_of_int_exact zero_f64_def)
qed

text \<open>
  The number of used subnets of a length is the number of the pool's subnets of that
  length that overlap the prefix: those of another length or another part of the pool do not count.
\<close>

theorem used_subnets_count:
  assumes "int (length subnets) < 2 ^ 63"
  shows "calculateUsedSubnets subnets ipPrefix (int l)
    = f64_of_nat (length (filter (\<lambda>s. pf_bits s = l \<and> Prefix_Overlaps ipPrefix s) subnets))"
proof -
  let ?bs = "map (\<lambda>s. int (pf_bits s)) (filter (Prefix_Overlaps ipPrefix) subnets)"
  have "int (length ?bs) \<le> int (length subnets)" by simp
  then have len: "int (length ?bs) < 2 ^ 63" using assms by linarith
  have count: "count_list ?bs (int l)
      = length (filter (\<lambda>s. pf_bits s = l \<and> Prefix_Overlaps ipPrefix s) subnets)"
    by (induction subnets) auto
  have "map_of (count_all ?bs []) (int l)
      = (if int l \<in> set ?bs then Some (int (count_list ?bs (int l))) else None)"
    by (subst map_of_count_all) (use len in auto)
  moreover have "count_list ?bs (int l) = 0" if "int l \<notin> set ?bs"
    by (rule count_list_0_iff [THEN iffD2, OF that])
  ultimately have "(case map_of (count_all ?bs []) (int l) of None \<Rightarrow> 0 | Some n \<Rightarrow> n)
      = int (count_list ?bs (int l))" by auto
  then show ?thesis by (simp only: calculateUsedSubnets_def Let_def count)
qed

theorem used_subnets_count_witness:
  "calculateUsedSubnets [lower_half, upper_half, small_pool] small_pool (int 31) = Finite 2"
  using used_subnets_count [of "[lower_half, upper_half, small_pool]" small_pool 31]
  by (simp add: Prefix_Overlaps_def valid_prefix_def small_pool_def lower_half_def upper_half_def
      width_def block_at_def f64_of_int_exact)

end
