(* ===== verification/Status_Counter.thy ===== *)
theory Status_Counter
  imports Status_Map
begin

text \<open>
  The status counters of the orchestration, volume and share services: a map that starts with a
  zero for every known status, is incremented for the status of every object, and is sent with
  one sample per key, in the order the range visits the map.
\<close>

definition zero_counter :: "'k list \<Rightarrow> ('k \<times> int) list" where
  "zero_counter ks = map (\<lambda>k. (k, 0)) ks"

definition status_counter :: "'k list \<Rightarrow> 'k list \<Rightarrow> ('k \<times> int) list" where
  "status_counter known ss = count_all ss (zero_counter known)"

definition emit_counter ::
  "prom \<Rightarrow> exporter \<Rightarrow> string \<Rightarrow> (string \<times> int) order \<Rightarrow> (string \<times> int) list \<Rightarrow> coll" where
  "emit_counter pr ex name ord counter =
     for_each (ord counter) (\<lambda>e. emit pr ex name (f64_of_int (snd e)) [fst e])"

lemma status_counter_distinct: "distinct known \<Longrightarrow> distinct (map fst (status_counter known ss))"
  unfolding status_counter_def
  by (rule count_all_distinct) (simp add: zero_counter_def o_def)

lemma status_counter_lookup:
  assumes "distinct known" and "int (length ss) < 2 ^ 63"
  shows "map_of (status_counter known ss) k
    = (if k \<in> set known \<union> set ss then Some (int (count_list ss k)) else None)"
proof -
  have z: "map_of (zero_counter known) k = (if k \<in> set known then Some 0 else None)"
    by (induction known) (auto simp: zero_counter_def)
  have "map_of (status_counter known ss) k =
    (if map_of (zero_counter known) k = None \<and> k \<notin> set ss then None
     else Some ((case map_of (zero_counter known) k of None \<Rightarrow> 0 | Some v \<Rightarrow> v) + int (count_list ss k)))"
    unfolding status_counter_def using assms(2)
    by (intro map_of_count_all) (auto simp: z split: if_splits)
  then show ?thesis by (simp add: z)
qed

lemma status_counter_set:
  assumes "distinct known" and "int (length ss) < 2 ^ 63"
  shows "set (status_counter known ss)
    = (\<lambda>k. (k, int (count_list ss k))) ` (set known \<union> set ss)"
proof -
  have "(k, n) \<in> set (status_counter known ss)
      \<longleftrightarrow> k \<in> set known \<union> set ss \<and> n = int (count_list ss k)" for k n
  proof -
    have "(k, n) \<in> set (status_counter known ss) \<longleftrightarrow> map_of (status_counter known ss) k = Some n"
      by (rule map_of_eq_Some_iff [OF status_counter_distinct [OF assms(1)], symmetric])
    then show ?thesis by (auto simp: status_counter_lookup [OF assms])
  qed
  then show ?thesis by (auto simp: image_iff)
qed

text \<open>Every object is counted once.\<close>

lemma status_counter_total:
  assumes "distinct known" and "int (length ss) < 2 ^ 63"
  shows "sum_list (map snd (status_counter known ss)) = int (length ss)"
proof -
  let ?m = "status_counter known ss"
  have d: "distinct ?m" using status_counter_distinct [OF assms(1)] by (simp add: distinct_map)
  have "sum_list (map snd ?m) = (\<Sum>e \<in> set ?m. snd e)"
    using d by (simp add: sum_list_distinct_conv_sum_set)
  also have "\<dots> = (\<Sum>k \<in> set known \<union> set ss. int (count_list ss k))"
    unfolding status_counter_set [OF assms] by (subst sum.reindex) (auto simp: inj_on_def)
  also have "\<dots> = int (\<Sum>k \<in> set known \<union> set ss. count_list ss k)" by simp
  also have "(\<Sum>k \<in> set known \<union> set ss. count_list ss k) = (\<Sum>k \<in> set ss. count_list ss k)"
    by (rule sum.mono_neutral_right) (auto simp: count_list_0_iff)
  also have "\<dots> = length ss" by (rule sum_count_set) auto
  finally show ?thesis .
qed

definition counter_samples ::
  "exporter \<Rightarrow> string \<Rightarrow> (string \<times> int) order \<Rightarrow> string list \<Rightarrow> string list \<Rightarrow> sample list" where
  "counter_samples ex name ord known ss =
     map (\<lambda>e. samp ex name (f64_of_int (snd e)) [fst e]) (ord (status_counter known ss))"

lemma emit_counter_ok:
  "accepts_arity pr \<Longrightarrow> registered ex name 1 \<Longrightarrow>
     emit_counter pr ex name ord (status_counter known ss)
       = (counter_samples ex name ord known ss, Done)"
  by (simp add: emit_counter_def counter_samples_def for_each_emit)

text \<open>
  What the counter tells: one sample for each status that is known or occurs, carrying the
  number of objects in it.
\<close>

lemma counter_samples_exact:
  assumes "distinct known" and "int (length ss) < 2 ^ 63" and "permutes_order ord"
  shows "distinct (map s_labels (counter_samples ex name ord known ss)) \<and>
    set (counter_samples ex name ord known ss)
      = (\<lambda>k. samp ex name (f64_of_nat (count_list ss k)) [k]) ` (set known \<union> set ss)"
proof
  have "mset (map fst (ord (status_counter known ss))) = mset (map fst (status_counter known ss))"
    using assms(3) by (simp add: permutes_order_def mset_map)
  then have "distinct (map fst (ord (status_counter known ss)))"
    using status_counter_distinct [OF assms(1)] by (metis mset_eq_imp_distinct_iff)
  then have "distinct (map (\<lambda>k. [k]) (map fst (ord (status_counter known ss))))"
    by (subst distinct_map) (auto simp: inj_on_def)
  then show "distinct (map s_labels (counter_samples ex name ord known ss))"
    by (simp add: counter_samples_def samp_def o_def)
next
  show "set (counter_samples ex name ord known ss)
      = (\<lambda>k. samp ex name (f64_of_nat (count_list ss k)) [k]) ` (set known \<union> set ss)"
    using permutes_order_set [OF assms(3), of "status_counter known ss"]
    by (simp add: counter_samples_def status_counter_set [OF assms(1,2)] image_image)
qed

end
