(* ===== verification/Go_Any.thy ===== *)
theory Go_Any
  imports Go_Base
begin

text \<open>
  Values of type \<^verbatim>\<open>any\<close> as they come out of a JSON document: a string, a map of strings to values
  (\<^const>\<open>None\<close> is the nil map), or something else, kept as the text that the verb \<^verbatim>\<open>%v\<close> gives for it.
\<close>

datatype any = Any_string string | Any_map "(string \<times> any) list option" | Any_other string

text \<open>Reading a key of a map that may be nil: a nil map has no keys.\<close>

definition go_lookup :: "(string \<times> any) list option \<Rightarrow> string \<Rightarrow> any option" where
  "go_lookup m k = (case m of None \<Rightarrow> None | Some kvs \<Rightarrow> map_of kvs k)"

text \<open>\<^verbatim>\<open>fmt.Sprintf("%v", m[k])\<close>, where \<open>fmt_map\<close> prints a map; a missing key reads as nil.\<close>

fun Sprintf_v :: "((string \<times> any) list option \<Rightarrow> string) \<Rightarrow> any option \<Rightarrow> string" where
  "Sprintf_v fmt_map None = ''<nil>''"
| "Sprintf_v fmt_map (Some (Any_string s)) = s"
| "Sprintf_v fmt_map (Some (Any_map m)) = fmt_map m"
| "Sprintf_v fmt_map (Some (Any_other t)) = t"

end
