(* ===== verification/Volume.thy ===== *)
theory Volume
  imports Status_Counter Service_Client
begin

text \<open>
  \<^verbatim>\<open>exporters/cinder.go\<close>: volumes, snapshots, agents, storage pools and the limits of projects.
\<close>

record Volume =
  vo_ID :: string
  vo_Name :: string
  vo_Status :: string
  vo_Size :: int
  vo_AvailabilityZone :: string
  vo_Bootable :: string
  vo_TenantID :: string
  vo_UserID :: string
  vo_VolumeType :: string
  vo_Attachments :: "string list"

text \<open>An attachment is represented by its server's identifier. A service of cinder or nova:\<close>

record Service =
  sv_ID :: string
  sv_Host :: string
  sv_Binary :: string
  sv_Status :: string
  sv_State :: string
  sv_Zone :: string
  sv_DisabledReason :: string

record StoragePool =
  sp_Name :: string
  sp_FreeCapacityGB :: f64
  sp_TotalCapacityGB :: f64
  sp_VolumeBackendName :: string
  sp_VendorName :: string

record QuotaUsage =
  qu_InUse :: int
  qu_Limit :: int

record QuotaUsageSet =
  qs_Gigabytes :: QuotaUsage
  qs_BackupGigabytes :: QuotaUsage

text \<open>A value of the untyped rest of a quota set: a number, or anything else.\<close>

datatype extra_value = Extra_float f64 | Extra_other

datatype list_options = All_tenants | Of_tenant string

definition knownVolumeStatuses :: status_codes where
  "knownVolumeStatuses =
    [(''creating'', 0),
     (''available'', 1),
     (''reserved'', 2),
     (''attaching'', 3),
     (''detaching'', 4),
     (''in-use'', 5),
     (''maintenance'', 6),
     (''deleting'', 7),
     (''awaiting-transfer'', 8),
     (''error'', 9),
     (''error_deleting'', 10),
     (''backing-up'', 11),
     (''restoring-backup'', 12),
     (''error_backing-up'', 13),
     (''error_restoring'', 14),
     (''error_extending'', 15),
     (''downloading'', 16),
     (''uploading'', 17),
     (''retyping'', 18),
     (''extending'', 19)]"

definition defaultCinderMetrics :: "Metric list" where
  "defaultCinderMetrics =
    [metric ''volumes'' [] (Some ''ListVolumes''),
     metric ''snapshots'' [] (Some ''ListSnapshots''),
     metric ''agent_state'' [''uuid'', ''hostname'', ''service'', ''adminState'', ''zone'',
         ''disabledReason''] (Some ''ListCinderAgentState''),
     metric ''volume_gb'' [''id'', ''name'', ''status'', ''availability_zone'', ''bootable'',
         ''tenant_id'', ''user_id'', ''volume_type'', ''server_id''] None,
     (metric ''volume_status'' [''id'', ''name'', ''status'', ''bootable'', ''tenant_id'',
         ''size'', ''volume_type'', ''server_id''] (Some
         ''ListVolumesStatus''))\<lparr>m_DeprecatedVersion := ''1.4''\<rparr>,
     metric ''volume_status_counter'' [''status''] None,
     metric ''pool_capacity_free_gb'' [''name'', ''volume_backend_name'', ''vendor_name'']
         (Some ''ListCinderPoolCapacityFree''),
     metric ''pool_capacity_total_gb'' [''name'', ''volume_backend_name'', ''vendor_name'']
         None,
     slow_metric ''limits_volume_max_gb'' [''tenant'', ''tenant_id''] (Some
         ''ListVolumeLimits''),
     slow_metric ''limits_volume_used_gb'' [''tenant'', ''tenant_id''] None,
     slow_metric ''limits_backup_max_gb'' [''tenant'', ''tenant_id''] None,
     slow_metric ''limits_backup_used_gb'' [''tenant'', ''tenant_id''] None,
     slow_metric ''volume_type_quota_gigabytes'' [''tenant'', ''tenant_id'', ''volume_type'']
         None]"

definition mapVolumeStatus :: "string \<Rightarrow> int" where
  "mapVolumeStatus volStatus = mapStatus knownVolumeStatuses volStatus"

definition NewCinderExporter :: "prom \<Rightarrow> ExporterConfig \<Rightarrow> exporter" where
  "NewCinderExporter pr config = register_table pr defaultCinderMetrics (new_base ''cinder'' config)"

definition getVolumeListOptions :: "string \<Rightarrow> list_options" where
  "getVolumeListOptions tenantID = (if tenantID = [] then All_tenants else Of_tenant tenantID)"

definition getSnapshotListOptions :: "string \<Rightarrow> list_options" where
  "getSnapshotListOptions tenantID = (if tenantID = [] then All_tenants else Of_tenant tenantID)"

definition volume_server :: "Volume \<Rightarrow> string" where
  "volume_server v = (case vo_Attachments v of [] \<Rightarrow> [] | s # _ \<Rightarrow> s)"

definition ListVolumesStatus ::
  "prom \<Rightarrow> (list_options \<Rightarrow> Volume list fallible) \<Rightarrow> exporter \<Rightarrow> coll" where
  "ListVolumesStatus pr api ex = try_get (api (getVolumeListOptions (TenantID ex))) (\<lambda>allVolumes.
     for_each allVolumes (\<lambda>v. emit pr ex ''volume_status'' (f64_of_int (mapVolumeStatus (vo_Status v)))
       [vo_ID v, vo_Name v, vo_Status v, vo_Bootable v, vo_TenantID v, strconv_Itoa (vo_Size v),
        vo_VolumeType v, volume_server v]))"

definition ListVolumes ::
  "prom \<Rightarrow> (string \<times> int) order \<Rightarrow> (list_options \<Rightarrow> Volume list fallible) \<Rightarrow> exporter \<Rightarrow> coll" where
  "ListVolumes pr ord api ex = try_get (api (getVolumeListOptions (TenantID ex))) (\<lambda>allVolumes. in_order
     [emit pr ex ''volumes'' (f64_of_nat (length allVolumes)) [],
      for_each allVolumes (\<lambda>v. emit pr ex ''volume_gb'' (f64_of_int (vo_Size v))
        [vo_ID v, vo_Name v, vo_Status v, vo_AvailabilityZone v, vo_Bootable v, vo_TenantID v,
         vo_UserID v, vo_VolumeType v, volume_server v]),
      emit_counter pr ex ''volume_status_counter'' ord
        (status_counter (map fst knownVolumeStatuses) (map vo_Status allVolumes))])"

definition ListSnapshots ::
  "prom \<Rightarrow> (list_options \<Rightarrow> 's list fallible) \<Rightarrow> exporter \<Rightarrow> coll" where
  "ListSnapshots pr api ex = try_get (api (getSnapshotListOptions (TenantID ex))) (\<lambda>allSnapshots.
     emit pr ex ''snapshots'' (f64_of_nat (length allSnapshots)) [])"

text \<open>\<open>uuid n\<close> is what the \<open>n\<close>-th call of \<^verbatim>\<open>UUIDGenFunc\<close> in this collection gives.\<close>

fun cinder_agents :: "prom \<Rightarrow> (nat \<Rightarrow> string fallible) \<Rightarrow> exporter \<Rightarrow> nat \<Rightarrow> Service list \<Rightarrow> coll" where
  "cinder_agents pr uuid ex n [] = finish"
| "cinder_agents pr uuid ex n (service # rest) =
     (let state = (if sv_State service = ''up'' then 1 else 0) in
      if \<not> DisableCinderAgentUUID ex then
        try_get (uuid n) (\<lambda>uid. and_then
          (emit pr ex ''agent_state'' (f64_of_int state) [uid, sv_Host service, sv_Binary service,
             sv_Status service, sv_Zone service, sv_DisabledReason service])
          (cinder_agents pr uuid ex (Suc n) rest))
      else and_then
        (emit pr ex ''agent_state'' (f64_of_int state) [[], sv_Host service, sv_Binary service,
           sv_Status service, sv_Zone service, sv_DisabledReason service])
        (cinder_agents pr uuid ex n rest))"

definition ListCinderAgentState ::
  "prom \<Rightarrow> (nat \<Rightarrow> string fallible) \<Rightarrow> Service list fallible \<Rightarrow> exporter \<Rightarrow> coll" where
  "ListCinderAgentState pr uuid api ex = try_get api (cinder_agents pr uuid ex 0)"

definition ListCinderPoolCapacityFree :: "prom \<Rightarrow> StoragePool list fallible \<Rightarrow> exporter \<Rightarrow> coll" where
  "ListCinderPoolCapacityFree pr api ex = try_get api (\<lambda>allStats. for_each allStats (\<lambda>stat. in_order
     [emit pr ex ''pool_capacity_free_gb'' (sp_FreeCapacityGB stat)
        [sp_Name stat, sp_VolumeBackendName stat, sp_VendorName stat],
      emit pr ex ''pool_capacity_total_gb'' (sp_TotalCapacityGB stat)
        [sp_Name stat, sp_VolumeBackendName stat, sp_VendorName stat]]))"

definition volume_type_quota :: "prom \<Rightarrow> exporter \<Rightarrow> Project \<Rightarrow> string \<times> extra_value \<Rightarrow> coll" where
  "volume_type_quota pr ex p kv =
     (let (key, val) = kv in
      if strings_HasPrefix key ''gigabytes_'' then
        (let volumeType = strings_TrimPrefix key ''gigabytes_'' in
         case val of
           Extra_float quotaValue \<Rightarrow>
             emit pr ex ''volume_type_quota_gigabytes'' quotaValue [pr_Name p, pr_ID p, volumeType]
         | Extra_other \<Rightarrow> finish)
      else finish)"

definition ListVolumeLimits ::
  "prom \<Rightarrow> identity_api \<Rightarrow> endpoint_map \<Rightarrow> (string \<Rightarrow> QuotaUsageSet fallible) \<Rightarrow>
   (string \<Rightarrow> (string \<times> extra_value) list fallible) \<Rightarrow> (string \<times> extra_value) order \<Rightarrow> exporter \<Rightarrow> coll" where
  "ListVolumeLimits pr idapi endpointOptsV2 get_usage get_extra ord ex =
     try_get (GetProjects idapi endpointOptsV2 ex) (\<lambda>allProjects. for_each allProjects (\<lambda>p.
       try_get (get_usage (pr_ID p)) (\<lambda>limits.
       try_get (get_extra (pr_ID p)) (\<lambda>extra. in_order
         [for_each (ord extra) (volume_type_quota pr ex p),
          emit pr ex ''limits_volume_max_gb'' (f64_of_int (qu_Limit (qs_Gigabytes limits))) [pr_Name p, pr_ID p],
          emit pr ex ''limits_volume_used_gb'' (f64_of_int (qu_InUse (qs_Gigabytes limits))) [pr_Name p, pr_ID p],
          emit pr ex ''limits_backup_max_gb'' (f64_of_int (qu_Limit (qs_BackupGigabytes limits))) [pr_Name p, pr_ID p],
          emit pr ex ''limits_backup_used_gb'' (f64_of_int (qu_InUse (qs_BackupGigabytes limits))) [pr_Name p, pr_ID p]]))))"

interpretation volume_statuses: status_table knownVolumeStatuses
  by unfold_locales (simp_all add: knownVolumeStatuses_def upt_rec)

interpretation cinder: metric_table defaultCinderMetrics
  by unfold_locales (simp_all add: defaultCinderMetrics_def reserved_def)

lemma cinder_wired: "wired (NewCinderExporter pr sample_config) defaultCinderMetrics"
  by (simp add: NewCinderExporter_def cinder.wired_register)

section \<open>Functional behaviour\<close>

definition volume_gb_sample :: "exporter \<Rightarrow> Volume \<Rightarrow> sample" where
  "volume_gb_sample ex v = samp ex ''volume_gb'' (f64_of_int (vo_Size v))
     [vo_ID v, vo_Name v, vo_Status v, vo_AvailabilityZone v, vo_Bootable v, vo_TenantID v,
      vo_UserID v, vo_VolumeType v, volume_server v]"

lemma ListVolumes_ok:
  assumes "wired ex defaultCinderMetrics" and "accepts_arity pr"
    and "api (getVolumeListOptions (TenantID ex)) = Inr vs"
  shows "ListVolumes pr ord api ex
    = (samp ex ''volumes'' (f64_of_nat (length vs)) [] # map (volume_gb_sample ex) vs @
       counter_samples ex ''volume_status_counter'' ord (map fst knownVolumeStatuses) (map vo_Status vs), Done)"
  using assms
  by (simp add: ListVolumes_def wired_def defaultCinderMetrics_def emit_ok for_each_emit emit_counter_ok
      volume_gb_sample_def [abs_def])

definition agent_sample :: "exporter \<Rightarrow> string \<Rightarrow> Service \<Rightarrow> sample" where
  "agent_sample ex i s = samp ex ''agent_state'' (if sv_State s = ''up'' then 1 else 0)
     [i, sv_Host s, sv_Binary s, sv_Status s, sv_Zone s, sv_DisabledReason s]"

lemma cinder_agents_uuid:
  assumes "registered ex ''agent_state'' 6" and "accepts_arity pr" and "\<not> DisableCinderAgentUUID ex"
    and "\<And>i. i < length ss \<Longrightarrow> uuid (n + i) = Inr (u (n + i))"
  shows "cinder_agents pr uuid ex n ss
    = (map (\<lambda>(i, s). agent_sample ex (u i) s) (zip [n..<n + length ss] ss), Done)"
  using assms(4)
proof (induction ss arbitrary: n)
  case Nil
  then show ?case by (simp add: finish_def)
next
  case (Cons s ss)
  have "uuid n = Inr (u n)" using Cons.prems [of 0] by simp
  moreover have "cinder_agents pr uuid ex (Suc n) ss
      = (map (\<lambda>(i, s). agent_sample ex (u i) s) (zip [Suc n..<Suc n + length ss] ss), Done)"
    using Cons.prems [of "Suc _"] by (intro Cons.IH) force
  moreover have "[n..<n + length (s # ss)] = n # [Suc n..<Suc n + length ss]"
    by (simp add: upt_conv_Cons del: upt_Suc)
  ultimately show ?case using assms(1-3)
    by (simp add: emit_ok agent_sample_def zero_f64_def one_f64_def eval_nat_numeral del: upt_Suc)
qed

lemma cinder_agents_no_uuid:
  assumes "registered ex ''agent_state'' 6" and "accepts_arity pr" and "DisableCinderAgentUUID ex"
  shows "cinder_agents pr uuid ex n ss = (map (agent_sample ex []) ss, Done)"
  using assms
  by (induction ss) (simp_all add: finish_def emit_ok agent_sample_def zero_f64_def one_f64_def eval_nat_numeral)

section \<open>Properties\<close>

text \<open>
  Property C37. The volume service reports the number of volumes, the size of each, and per status
  that is known or occurs the number of volumes in it; the sum of those numbers is the number of
  volumes. Only the configured tenant's volumes are asked for where one is configured.
\<close>

theorem cinder_volume_counters:
  assumes "wired ex defaultCinderMetrics" and "accepts_arity pr" and "permutes_order ord"
    and "api (if TenantID ex = [] then All_tenants else Of_tenant (TenantID ex)) = Inr vs"
    and "int (length vs) < 2 ^ 63"
  shows "\<exists>cs. ListVolumes pr ord api ex
      = (samp ex ''volumes'' (f64_of_nat (length vs)) [] # map (volume_gb_sample ex) vs @ cs, Done) \<and>
    distinct (map s_labels cs) \<and>
    set cs = (\<lambda>k. samp ex ''volume_status_counter'' (f64_of_nat (count_list (map vo_Status vs) k)) [k])
      ` (fst ` set knownVolumeStatuses \<union> vo_Status ` set vs) \<and>
    sum_list (map snd (status_counter (map fst knownVolumeStatuses) (map vo_Status vs))) = int (length vs)"
proof -
  let ?cs = "counter_samples ex ''volume_status_counter'' ord (map fst knownVolumeStatuses) (map vo_Status vs)"
  have "distinct (map s_labels ?cs)" "set ?cs
      = (\<lambda>k. samp ex ''volume_status_counter'' (f64_of_nat (count_list (map vo_Status vs) k)) [k])
        ` (fst ` set knownVolumeStatuses \<union> vo_Status ` set vs)"
    using counter_samples_exact [OF volume_statuses.keys_distinct, of "map vo_Status vs" ord]
      assms(3,5) by simp_all
  moreover have "sum_list (map snd (status_counter (map fst knownVolumeStatuses) (map vo_Status vs)))
      = int (length vs)"
    using status_counter_total [OF volume_statuses.keys_distinct, of "map vo_Status vs"] assms(5) by simp
  moreover have "ListVolumes pr ord api ex
      = (samp ex ''volumes'' (f64_of_nat (length vs)) [] # map (volume_gb_sample ex) vs @ ?cs, Done)"
    using assms(4) by (intro ListVolumes_ok [OF assms(1,2)]) (simp add: getVolumeListOptions_def)
  ultimately show ?thesis by blast
qed

definition sample_volume :: Volume where
  "sample_volume = \<lparr>vo_ID = ''1'', vo_Name = ''v'', vo_Status = ''in-use'', vo_Size = 10,
     vo_AvailabilityZone = ''nova'', vo_Bootable = ''true'', vo_TenantID = ''t'', vo_UserID = ''u'',
     vo_VolumeType = ''ssd'', vo_Attachments = [''s1'']\<rparr>"

theorem cinder_volume_counters_witness:
  "\<exists>cs. ListVolumes sample_prom (\<lambda>xs. xs)
      (\<lambda>opts. if opts = All_tenants then Inr [sample_volume] else Inl (Msg_error ''no''))
      (NewCinderExporter sample_prom sample_config)
    = (samp (NewCinderExporter sample_prom sample_config) ''volumes'' 1 [] #
       volume_gb_sample (NewCinderExporter sample_prom sample_config) sample_volume # cs, Done)"
proof -
  have "TenantID (NewCinderExporter sample_prom sample_config) = []"
    by (simp add: NewCinderExporter_def sample_config_def)
  with cinder_volume_counters [OF cinder_wired [of sample_prom] sample_prom_accepts permutes_order_id,
      where api = "\<lambda>opts. if opts = All_tenants then Inr [sample_volume] else Inl (Msg_error ''no'')"
        and vs = "[sample_volume]"]
  show ?thesis by (auto simp: one_f64_def)
qed

text \<open>
  The agents of the volume service: with UUIDs enabled every agent gets the next
  generated identifier and the samples of equal agents stay apart; disabled, the generator is not
  called and the identifier is empty.
\<close>

theorem cinder_agent_identifiers:
  assumes "wired ex defaultCinderMetrics" and "accepts_arity pr"
    and "\<And>i. i < length ss \<Longrightarrow> uuid i = Inr (u i)"
  shows "ListCinderAgentState pr uuid (Inr ss) ex
    = (map (\<lambda>(i, s). agent_sample ex (if DisableCinderAgentUUID ex then [] else u i) s)
         (enumerate 0 ss), Done)"
proof -
  have reg: "registered ex ''agent_state'' 6"
    using assms(1) by (simp add: wired_def defaultCinderMetrics_def eval_nat_numeral)
  have "map (\<lambda>(i, s). agent_sample ex [] s) (enumerate 0 ss) = map (agent_sample ex []) ss"
    by (simp add: enumerate_eq_zip case_prod_unfold map_zip_map2 flip: map_map [of _ snd, unfolded o_def])
  then show ?thesis
    using cinder_agents_uuid [OF reg assms(2), of ss uuid 0 u] assms(3)
      cinder_agents_no_uuid [OF reg assms(2)]
    by (cases "DisableCinderAgentUUID ex") (simp_all add: ListCinderAgentState_def enumerate_eq_zip)
qed

theorem cinder_agent_identifiers_witness:
  "ListCinderAgentState sample_prom (\<lambda>n. Inr (if n = 0 then ''a'' else ''b''))
      (Inr [\<lparr>sv_ID = [], sv_Host = ''h'', sv_Binary = ''cinder-volume'', sv_Status = ''enabled'',
         sv_State = ''up'', sv_Zone = ''z'', sv_DisabledReason = []\<rparr>])
      (NewCinderExporter sample_prom sample_config)
    = ([samp (NewCinderExporter sample_prom sample_config) ''agent_state'' 1
         [''a'', ''h'', ''cinder-volume'', ''enabled'', ''z'', []]], Done)"
proof -
  have "\<not> DisableCinderAgentUUID (NewCinderExporter sample_prom sample_config)"
    by (simp add: NewCinderExporter_def sample_config_def)
  with cinder_agent_identifiers [OF cinder_wired [of sample_prom] sample_prom_accepts,
      where uuid = "\<lambda>n. Inr (if n = 0 then ''a'' else ''b'')" and u = "\<lambda>n. if n = 0 then ''a'' else ''b''"
        and ss = "[\<lparr>sv_ID = [], sv_Host = ''h'', sv_Binary = ''cinder-volume'', sv_Status = ''enabled'',
         sv_State = ''up'', sv_Zone = ''z'', sv_DisabledReason = []\<rparr>]"]
  show ?thesis by (simp add: agent_sample_def)
qed

end
