(* ===== verification/Compute.thy ===== *)
theory Compute
  imports Status_Counter Service_Client Label_Mapping Microversion Go_Any Volume
begin

text \<open>
  \<^verbatim>\<open>exporters/nova.go\<close>: hypervisors with their availability zones and aggregates, flavors, servers,
  limits, usage and quotas. The requests are parameters, functions of the options the code sends.
\<close>

section \<open>What the API returns\<close>

record Topology =
  tp_Sockets :: int
  tp_Cores :: int
  tp_Threads :: int
  tp_Cells :: int

record CPUInfo =
  ci_Vendor :: string
  ci_Arch :: string
  ci_Model :: string
  ci_Features :: "string list option"
  ci_Topology :: Topology

record Hypervisor =
  hy_Hostname :: string
  hy_ServiceHost :: string
  hy_CurrentWorkload :: int
  hy_CPUInfo :: CPUInfo
  hy_VCPUs :: int
  hy_VCPUsUsed :: int
  hy_MemoryMB :: int
  hy_MemoryMBUsed :: int
  hy_LocalGB :: int
  hy_LocalGBUsed :: int
  hy_FreeDiskGB :: int

record Aggregate =
  ag_Name :: string
  ag_AvailabilityZone :: string
  ag_Hosts :: "string list"
  ag_Metadata :: "(string \<times> string) list"

record Flavor =
  fl_ID :: string
  fl_Name :: string
  fl_VCPUs :: int
  fl_RAM :: int
  fl_Disk :: int
  fl_IsPublic :: bool

record Server =
  se_ID :: string
  se_Status :: string
  se_Name :: string
  se_TenantID :: string
  se_UserID :: string
  se_AccessIPv4 :: string
  se_AccessIPv6 :: string
  se_HostID :: string
  se_HypervisorHostname :: string
  se_AvailabilityZone :: string
  se_Flavor :: "(string \<times> any) list option"
  se_InstanceName :: string
  se_Metadata :: "string \<rightharpoonup> string"

record QuotaDetail =
  qd_InUse :: int
  qd_Reserved :: int
  qd_Limit :: int

record AbsoluteLimits =
  al_MaxTotalCores :: int
  al_TotalCoresUsed :: int
  al_MaxTotalRAMSize :: int
  al_TotalRAMUsed :: int
  al_TotalInstancesUsed :: int
  al_MaxTotalInstances :: int

record ServerUsage =
  su_LocalGB :: f64
  su_Name :: string
  su_InstanceID :: string

record TenantUsage =
  tu_TenantID :: string
  tu_ServerUsages :: "ServerUsage list"

section \<open>Tables and constructor\<close>

definition novaLatestSupportedMicroversion :: string where
  "novaLatestSupportedMicroversion = ''2.87''"

definition MEGABYTE :: int where "MEGABYTE = 2 ^ 20"

definition GIGABYTE :: int where "GIGABYTE = 2 ^ 30"

definition knownServerStatuses :: status_codes where
  "knownServerStatuses =
    [(''ACTIVE'', 0),
     (''BUILD'', 1),
     (''BUILD(spawning)'', 2),
     (''DELETED'', 3),
     (''ERROR'', 4),
     (''HARD_REBOOT'', 5),
     (''PASSWORD'', 6),
     (''REBOOT'', 7),
     (''REBUILD'', 8),
     (''RESCUE'', 9),
     (''RESIZE'', 10),
     (''SHUTOFF'', 11),
     (''SUSPENDED'', 12),
     (''UNKNOWN'', 13),
     (''VERIFY_RESIZE'', 14),
     (''MIGRATING'', 15),
     (''PAUSED'', 16),
     (''REVERT_RESIZE'', 17),
     (''SHELVED'', 18),
     (''SHELVED_OFFLOADED'', 19),
     (''SOFT_DELETED'', 20)]"

definition defaultNovaServerStatusLabels :: "string list" where
  "defaultNovaServerStatusLabels = [''id'', ''status'', ''name'', ''tenant_id'', ''user_id'', ''address_ipv4'', ''address_ipv6'', ''host_id'', ''hypervisor_hostname'', ''uuid'', ''availability_zone'', ''flavor_id'', ''instance_libvirt'']"

definition defaultNovaHypervisorLabels :: "string list" where
  "defaultNovaHypervisorLabels = [''hostname'', ''availability_zone'', ''aggregates'']"

definition defaultNovaRunningVMLabels :: "string list" where
  "defaultNovaRunningVMLabels = [''hostname'', ''availability_zone'', ''aggregates'', ''tenant_id'']"

definition defaultNovaLimitsLabels :: "string list" where
  "defaultNovaLimitsLabels = [''tenant'', ''tenant_id'']"

definition defaultNovaQuotaLabels :: "string list" where
  "defaultNovaQuotaLabels = [''type'', ''tenant'', ''tenant_id'']"

definition defaultNovaMetrics :: "Metric list" where
  "defaultNovaMetrics =
    [metric ''flavors'' [] (Some ''ListFlavors''),
     metric ''flavor'' [''id'', ''name'', ''vcpus'', ''ram'', ''disk'', ''is_public''] None,
     metric ''availability_zones'' [] (Some ''ListAZs''),
     metric ''security_groups'' [] (Some ''ListComputeSecGroups''),
     metric ''total_vms'' [] (Some ''ListAllServers''),
     metric ''agent_state'' [''id'', ''hostname'', ''service'', ''adminState'', ''zone'',
         ''disabledReason''] (Some ''ListNovaAgentState''),
     metric ''running_vms'' defaultNovaRunningVMLabels None,
     metric ''current_workload'' defaultNovaHypervisorLabels (Some ''ListHypervisors''),
     metric ''vcpus_available'' defaultNovaHypervisorLabels None,
     metric ''vcpus_used'' defaultNovaHypervisorLabels None,
     metric ''memory_available_bytes'' defaultNovaHypervisorLabels None,
     metric ''memory_used_bytes'' defaultNovaHypervisorLabels None,
     metric ''local_storage_available_bytes'' defaultNovaHypervisorLabels None,
     metric ''local_storage_used_bytes'' defaultNovaHypervisorLabels None,
     metric ''free_disk_bytes'' defaultNovaHypervisorLabels None,
     metric ''server_status'' defaultNovaServerStatusLabels None,
     slow_metric ''limits_vcpus_max'' defaultNovaLimitsLabels (Some ''ListComputeLimits''),
     metric ''limits_vcpus_used'' defaultNovaLimitsLabels None,
     metric ''limits_memory_max'' defaultNovaLimitsLabels None,
     metric ''limits_memory_used'' defaultNovaLimitsLabels None,
     metric ''limits_instances_used'' defaultNovaLimitsLabels None,
     metric ''limits_instances_max'' defaultNovaLimitsLabels None,
     slow_metric ''server_local_gb'' [''name'', ''id'', ''tenant_id''] (Some ''ListUsage''),
     metric ''quota_cores'' defaultNovaQuotaLabels (Some ''ListQuotas''),
     metric ''quota_instances'' defaultNovaQuotaLabels None,
     metric ''quota_key_pairs'' defaultNovaQuotaLabels None,
     metric ''quota_metadata_items'' defaultNovaQuotaLabels None,
     metric ''quota_ram'' defaultNovaQuotaLabels None,
     metric ''quota_server_groups'' defaultNovaQuotaLabels None,
     metric ''quota_server_group_members'' defaultNovaQuotaLabels None,
     metric ''quota_fixed_ips'' defaultNovaQuotaLabels None,
     metric ''quota_floating_ips'' defaultNovaQuotaLabels None,
     metric ''quota_security_group_rules'' defaultNovaQuotaLabels None,
     metric ''quota_security_groups'' defaultNovaQuotaLabels None,
     metric ''quota_injected_file_content_bytes'' defaultNovaQuotaLabels None,
     metric ''quota_injected_file_path_bytes'' defaultNovaQuotaLabels None,
     metric ''quota_injected_files'' defaultNovaQuotaLabels None]"

definition mapServerStatus :: "string \<Rightarrow> int" where
  "mapServerStatus current = mapStatus knownServerStatuses current"

text \<open>The table with the mapped metadata labels appended to those of \<^verbatim>\<open>server_status\<close>.\<close>

definition nova_table :: "LabelMappingFlag \<Rightarrow> Metric list" where
  "nova_table mapping = map (\<lambda>m. if m_Name m = ''server_status''
     then m\<lparr>m_Labels := defaultNovaServerStatusLabels @ lm_Labels mapping\<rparr> else m) defaultNovaMetrics"

definition NewNovaExporter ::
  "prom \<Rightarrow> SupportedVersion list fallible \<Rightarrow> string option \<Rightarrow> ExporterConfig \<Rightarrow> exporter fallible" where
  "NewNovaExporter pr versions env config =
     (case SetupClientMicroversionV2 versions env novaLatestSupportedMicroversion (ClientV2 config) of
        Inl e \<Rightarrow> Inl e
      | Inr client \<Rightarrow> Inr (register_table pr (nova_table (NovaMetadataMapping config))
          (new_base ''nova'' (config\<lparr>ClientV2 := client\<rparr>))))"

section \<open>Agents, flavors and plain counts\<close>

definition ListNovaAgentState :: "prom \<Rightarrow> Service list fallible \<Rightarrow> exporter \<Rightarrow> coll" where
  "ListNovaAgentState pr api ex = try_get api (\<lambda>allServices. for_each allServices (\<lambda>service.
     let state = (if sv_State service = ''up'' then 1 else 0) in
     emit pr ex ''agent_state'' (f64_of_int state) [sv_ID service, sv_Host service, sv_Binary service,
       sv_Status service, sv_Zone service, sv_DisabledReason service]))"

definition ListFlavors :: "prom \<Rightarrow> Flavor list fallible \<Rightarrow> exporter \<Rightarrow> coll" where
  "ListFlavors pr api ex = try_get api (\<lambda>allFlavors. and_then
     (emit pr ex ''flavors'' (f64_of_nat (length allFlavors)) [])
     (for_each allFlavors (\<lambda>f. emit pr ex ''flavor'' 1
       [fl_ID f, fl_Name f, strconv_Itoa (fl_VCPUs f), strconv_Itoa (fl_RAM f), strconv_Itoa (fl_Disk f),
        strconv_FormatBool (fl_IsPublic f)])))"

definition ListAZs :: "prom \<Rightarrow> 'z list fallible \<Rightarrow> exporter \<Rightarrow> coll" where
  "ListAZs pr api ex = try_get api (\<lambda>allAZs.
     emit pr ex ''availability_zones'' (f64_of_nat (length allAZs)) [])"

definition ListComputeSecGroups :: "prom \<Rightarrow> 'g list fallible \<Rightarrow> exporter \<Rightarrow> coll" where
  "ListComputeSecGroups pr api ex = try_get api (\<lambda>allSecurityGroups.
     emit pr ex ''security_groups'' (f64_of_nat (length allSecurityGroups)) [])"

section \<open>Hypervisors\<close>

definition isAzAggregate :: "Aggregate \<Rightarrow> bool" where
  "isAzAggregate a =
     (if length (ag_Metadata a) = 1 then
        (case map_of (ag_Metadata a) ''availability_zone'' of Some _ \<Rightarrow> True | None \<Rightarrow> False)
      else False)"

text \<open>The two maps that the loop over the aggregates and their hosts fills.\<close>

type_synonym host_maps = "(string \<rightharpoonup> string) \<times> (string \<rightharpoonup> string list)"

definition add_host :: "Aggregate \<Rightarrow> string \<Rightarrow> host_maps \<Rightarrow> host_maps" where
  "add_host a h maps =
     (let (hostToAzMap, hostToAggrMap) = maps in
      (if ag_AvailabilityZone a \<noteq> [] then hostToAzMap(h \<mapsto> ag_AvailabilityZone a) else hostToAzMap,
       if \<not> isAzAggregate a
       then hostToAggrMap(h \<mapsto> (case hostToAggrMap h of None \<Rightarrow> [] | Some as \<Rightarrow> as) @ [ag_Name a])
       else hostToAggrMap))"

definition add_aggregate :: "Aggregate \<Rightarrow> host_maps \<Rightarrow> host_maps" where
  "add_aggregate a maps = fold (add_host a) (ag_Hosts a) maps"

definition host_maps_of :: "Aggregate list \<Rightarrow> host_maps" where
  "host_maps_of as = fold add_aggregate as (Map.empty, Map.empty)"

text \<open>\<^verbatim>\<open>slices.Sort\<close> orders strings by their bytes.\<close>

definition aggregatesLabel :: "string \<Rightarrow> (string \<rightharpoonup> string list) \<Rightarrow> string" where
  "aggregatesLabel h hostToAggrMap =
     (case hostToAggrMap h of
        Some aggregates \<Rightarrow> strings_Join (sort aggregates) '',''
      | None \<Rightarrow> [])"

text \<open>\<^verbatim>\<open>reflect.ValueOf(info).IsZero()\<close>: every field has its zero value.\<close>

definition cpu_info_is_zero :: "CPUInfo \<Rightarrow> bool" where
  "cpu_info_is_zero c \<longleftrightarrow> ci_Vendor c = [] \<and> ci_Arch c = [] \<and> ci_Model c = [] \<and> ci_Features c = None \<and>
     ci_Topology c = \<lparr>tp_Sockets = 0, tp_Cores = 0, tp_Threads = 0, tp_Cells = 0\<rparr>"

definition hypervisor_vcpus :: "Hypervisor \<Rightarrow> int" where
  "hypervisor_vcpus h =
     (let t = ci_Topology (hy_CPUInfo h) in
      if \<not> cpu_info_is_zero (hy_CPUInfo h)
      then i64 (i64 (i64 (max (tp_Cells t) 1 * tp_Sockets t) * tp_Cores t) * tp_Threads t)
      else hy_VCPUs h)"

definition hypervisor_body :: "prom \<Rightarrow> exporter \<Rightarrow> host_maps \<Rightarrow> Hypervisor \<Rightarrow> coll" where
  "hypervisor_body pr ex maps h =
     (let (hostToAzMap, hostToAggrMap) = maps;
          availabilityZone = (case hostToAzMap (hy_ServiceHost h) of Some v \<Rightarrow> v | None \<Rightarrow> []);
          aggregates = aggregatesLabel (hy_ServiceHost h) hostToAggrMap;
          ls = [hy_Hostname h, availabilityZone, aggregates]
      in in_order
        [emit pr ex ''current_workload'' (f64_of_int (hy_CurrentWorkload h)) ls,
         emit pr ex ''vcpus_available'' (f64_of_int (hypervisor_vcpus h)) ls,
         emit pr ex ''vcpus_used'' (f64_of_int (hy_VCPUsUsed h)) ls,
         emit pr ex ''memory_available_bytes'' (f64_of_int (i64 (hy_MemoryMB h * MEGABYTE))) ls,
         emit pr ex ''memory_used_bytes'' (f64_of_int (i64 (hy_MemoryMBUsed h * MEGABYTE))) ls,
         emit pr ex ''local_storage_available_bytes'' (f64_of_int (i64 (hy_LocalGB h * GIGABYTE))) ls,
         emit pr ex ''local_storage_used_bytes'' (f64_of_int (i64 (hy_LocalGBUsed h * GIGABYTE))) ls,
         emit pr ex ''free_disk_bytes'' (f64_of_int (i64 (hy_FreeDiskGB h * GIGABYTE))) ls])"

definition ListHypervisors ::
  "prom \<Rightarrow> (string \<Rightarrow> (int \<times> int) fallible) \<Rightarrow> (int option \<Rightarrow> Hypervisor list fallible) \<Rightarrow>
   Aggregate list fallible \<Rightarrow> exporter \<Rightarrow> coll" where
  "ListHypervisors pr parse hyp_api agg_api ex =
     (let limit = (if at_least_or_false parse (cl_Microversion (ClientV2 ex)) ''2.33'' then Some 1000 else None)
      in try_get (hyp_api limit) (\<lambda>allHypervisors. try_get agg_api (\<lambda>allAggregates.
           for_each allHypervisors (hypervisor_body pr ex (host_maps_of allAggregates)))))"

section \<open>Quotas, limits and usage\<close>

definition collectNovaQuotaDetail ::
  "prom \<Rightarrow> QuotaDetail \<Rightarrow> string \<Rightarrow> string \<Rightarrow> desc \<Rightarrow> coll" where
  "collectNovaQuotaDetail pr q projectName projectID d = in_order
     [emit_desc pr d (f64_of_int (qd_InUse q)) [''in_use'', projectName, projectID],
      emit_desc pr d (f64_of_int (qd_Reserved q)) [''reserved'', projectName, projectID],
      emit_desc pr d (f64_of_int (qd_Limit q)) [''limit'', projectName, projectID]]"

text \<open>The quota set is its details by the name of the metric that reports each.\<close>

definition nova_quotas :: "string list" where
  "nova_quotas = [''quota_cores'', ''quota_instances'', ''quota_key_pairs'', ''quota_metadata_items'',
     ''quota_ram'', ''quota_server_groups'', ''quota_server_group_members'', ''quota_fixed_ips'',
     ''quota_floating_ips'', ''quota_security_group_rules'', ''quota_security_groups'',
     ''quota_injected_file_content_bytes'', ''quota_injected_file_path_bytes'', ''quota_injected_files'']"

definition ListQuotas ::
  "prom \<Rightarrow> identity_api \<Rightarrow> endpoint_map \<Rightarrow> (string \<Rightarrow> (string \<Rightarrow> QuotaDetail) fallible) \<Rightarrow> exporter \<Rightarrow> coll" where
  "ListQuotas pr idapi endpointOptsV2 api ex = try_get (GetProjects idapi endpointOptsV2 ex)
     (\<lambda>allProjects. for_each allProjects (\<lambda>p. try_get (api (pr_ID p)) (\<lambda>quotaSet.
        for_each nova_quotas (\<lambda>name.
          with_desc ex name (collectNovaQuotaDetail pr (quotaSet name) (pr_Name p) (pr_ID p))))))"

definition ListComputeLimits ::
  "prom \<Rightarrow> identity_api \<Rightarrow> endpoint_map \<Rightarrow> (string \<Rightarrow> AbsoluteLimits fallible) \<Rightarrow> exporter \<Rightarrow> coll" where
  "ListComputeLimits pr idapi endpointOptsV2 api ex = try_get (GetProjects idapi endpointOptsV2 ex)
     (\<lambda>allProjects. for_each allProjects (\<lambda>p.
        let tenant = (if pr_ID p = TenantID ex then [] else pr_ID p) in
        try_get (api tenant) (\<lambda>limits. in_order
          [emit pr ex ''limits_vcpus_max'' (f64_of_int (al_MaxTotalCores limits)) [pr_Name p, pr_ID p],
           emit pr ex ''limits_vcpus_used'' (f64_of_int (al_TotalCoresUsed limits)) [pr_Name p, pr_ID p],
           emit pr ex ''limits_memory_max'' (f64_of_int (al_MaxTotalRAMSize limits)) [pr_Name p, pr_ID p],
           emit pr ex ''limits_memory_used'' (f64_of_int (al_TotalRAMUsed limits)) [pr_Name p, pr_ID p],
           emit pr ex ''limits_instances_used'' (f64_of_int (al_TotalInstancesUsed limits)) [pr_Name p, pr_ID p],
           emit pr ex ''limits_instances_max'' (f64_of_int (al_MaxTotalInstances limits)) [pr_Name p, pr_ID p]])))"

definition ListUsage :: "prom \<Rightarrow> TenantUsage list fallible \<Rightarrow> exporter \<Rightarrow> coll" where
  "ListUsage pr api ex = try_get api (\<lambda>allTenantsUsage. for_each allTenantsUsage (\<lambda>tenant.
     for_each (tu_ServerUsages tenant) (\<lambda>server. emit pr ex ''server_local_gb'' (su_LocalGB server)
       [su_Name server, su_InstanceID server, tu_TenantID tenant])))"

section \<open>Servers\<close>

definition getServerListOptions :: "string \<Rightarrow> list_options" where
  "getServerListOptions tenantID = (if tenantID = [] then All_tenants else Of_tenant tenantID)"

type_synonym flavorIDMapper = "string \<rightharpoonup> string"

definition newFlavorIDMapper :: "Flavor list fallible \<Rightarrow> flavorIDMapper fallible" where
  "newFlavorIDMapper api = (case api of Inl e \<Rightarrow> Inl e
     | Inr allFlavors \<Rightarrow> Inr (fold (\<lambda>f m. m(fl_Name f \<mapsto> fl_ID f)) allFlavors Map.empty))"

definition flavorIDMapper_Search :: "flavorIDMapper \<Rightarrow> any option \<Rightarrow> string" where
  "flavorIDMapper_Search s flavorName =
     (case flavorName of
        Some (Any_string key) \<Rightarrow> (case s key of None \<Rightarrow> [] | Some v \<Rightarrow> v)
      | _ \<Rightarrow> [])"

fun mapper_required :: "Server list \<Rightarrow> bool" where
  "mapper_required [] = False"
| "mapper_required (server # rest) =
     (case go_lookup (se_Flavor server) ''id'' of
        None \<Rightarrow> True
      | Some _ \<Rightarrow> mapper_required rest)"

text \<open>\<^verbatim>\<open>strings.EqualFold(s, "ACTIVE")\<close>: none of its letters folds to a character outside ASCII.\<close>

definition upper :: "char \<Rightarrow> char" where
  "upper c = (if byte_in 0x61 0x7A c then char_of (of_char c - 32 :: nat) else c)"

definition is_active :: "string \<Rightarrow> bool" where
  "is_active s \<longleftrightarrow> map upper s = ''ACTIVE''"

type_synonym novaRunningVMLabels = "string \<times> string \<times> string"

definition vm_labels :: "Server \<Rightarrow> novaRunningVMLabels" where
  "vm_labels s = (se_HypervisorHostname s, se_AvailabilityZone s, se_TenantID s)"

definition running_vms :: "Server list \<Rightarrow> (novaRunningVMLabels \<times> int) list" where
  "running_vms servers = count_all (map vm_labels (filter (\<lambda>s. is_active (se_Status s)) servers)) []"

definition server_flavor :: "((string \<times> any) list option \<Rightarrow> string) \<Rightarrow> flavorIDMapper option \<Rightarrow> Server \<Rightarrow> string" where
  "server_flavor fmt_map mapper s =
     (case mapper of
        None \<Rightarrow> Sprintf_v fmt_map (go_lookup (se_Flavor s) ''id'')
      | Some m \<Rightarrow> flavorIDMapper_Search m (go_lookup (se_Flavor s) ''original_name''))"

definition server_labels ::
  "((string \<times> any) list option \<Rightarrow> string) \<Rightarrow> flavorIDMapper option \<Rightarrow> LabelMappingFlag \<Rightarrow> Server \<Rightarrow> string list" where
  "server_labels fmt_map mapper mapping s =
     [se_ID s, se_Status s, se_Name s, se_TenantID s, se_UserID s, se_AccessIPv4 s, se_AccessIPv6 s,
      se_HostID s, se_HypervisorHostname s, se_ID s, se_AvailabilityZone s, server_flavor fmt_map mapper s,
      se_InstanceName s] @ LabelMapping_Extract mapping (se_Metadata s)"

definition ListAllServers ::
  "prom \<Rightarrow> (string \<Rightarrow> (int \<times> int) fallible) \<Rightarrow> ((string \<times> any) list option \<Rightarrow> string) \<Rightarrow>
   (novaRunningVMLabels \<times> int) order \<Rightarrow> (list_options \<Rightarrow> Server list fallible) \<Rightarrow> Flavor list fallible \<Rightarrow>
   exporter \<Rightarrow> coll" where
  "ListAllServers pr parse fmt_map ord api flavors ex =
     try_get (api (getServerListOptions (TenantID ex))) (\<lambda>allServers.
       let mvAtLeast246 = at_least_or_false parse (cl_Microversion (ClientV2 ex)) ''2.46'' in
       try_get (if mvAtLeast246 \<or> mapper_required allServers
                then map_sum id Some (newFlavorIDMapper flavors) else Inr None) (\<lambda>mapper. in_order
         [emit pr ex ''total_vms'' (f64_of_nat (length allServers)) [],
          (if \<not> MetricIsDisabled ex ''running_vms'' then
             for_each (ord (running_vms allServers)) (\<lambda>((hostname, availabilityZone, tenantID), count).
               emit pr ex ''running_vms'' (f64_of_int count) [hostname, availabilityZone, [], tenantID])
           else finish),
          (if \<not> MetricIsDisabled ex ''server_status'' then
             for_each allServers (\<lambda>server. emit pr ex ''server_status''
               (f64_of_int (mapServerStatus (se_Status server)))
               (server_labels fmt_map mapper (NovaMetadataMapping ex) server))
           else finish)]))"

section \<open>Tables\<close>

interpretation server_statuses: status_table knownServerStatuses
  by unfold_locales (simp_all add: knownServerStatuses_def upt_rec)

lemma nova_table_names: "map m_Name (nova_table mapping) = map m_Name defaultNovaMetrics"
  by (simp add: nova_table_def)

interpretation nova: metric_table "nova_table mapping" for mapping
proof
  show "distinct (map m_Name (nova_table mapping))"
    unfolding nova_table_names by (simp add: defaultNovaMetrics_def)
  show "set (map m_Name (nova_table mapping)) \<inter> set reserved = {}"
    unfolding nova_table_names by (simp add: defaultNovaMetrics_def reserved_def)
qed

lemmas nova_label_defs = defaultNovaHypervisorLabels_def defaultNovaRunningVMLabels_def
  defaultNovaLimitsLabels_def defaultNovaQuotaLabels_def defaultNovaServerStatusLabels_def

text \<open>The arities that the list functions rely on.\<close>

lemma nova_registered:
  assumes "wired ex (nova_table mapping)"
  shows "n \<in> {''current_workload'', ''vcpus_available'', ''vcpus_used'', ''memory_available_bytes'',
      ''memory_used_bytes'', ''local_storage_available_bytes'', ''local_storage_used_bytes'',
      ''free_disk_bytes''} \<Longrightarrow> registered ex n 3"
    and "registered ex ''running_vms'' 4" and "registered ex ''total_vms'' 0"
    and "registered ex ''server_status'' (13 + length (lm_Labels mapping))"
    and "n \<in> set nova_quotas \<Longrightarrow> registered ex n 3"
  using assms
  by (auto simp: wired_def nova_table_def defaultNovaMetrics_def nova_label_defs nova_quotas_def
      eval_nat_numeral)

section \<open>Hypervisors\<close>

definition host_zones :: "Aggregate list \<Rightarrow> string \<Rightarrow> string list" where
  "host_zones as h = map ag_AvailabilityZone
     (filter (\<lambda>a. h \<in> set (ag_Hosts a) \<and> ag_AvailabilityZone a \<noteq> []) as)"

definition host_aggregates :: "Aggregate list \<Rightarrow> string \<Rightarrow> string list" where
  "host_aggregates as h = concat (map (\<lambda>a. replicate (count_list (ag_Hosts a) h) (ag_Name a))
     (filter (\<lambda>a. \<not> isAzAggregate a) as))"

lemma fold_add_host_az:
  "fst (fold (add_host a) hs maps) h
    = (if h \<in> set hs \<and> ag_AvailabilityZone a \<noteq> [] then Some (ag_AvailabilityZone a) else fst maps h)"
  by (induction hs arbitrary: maps) (auto simp: add_host_def case_prod_unfold)

lemma fold_add_host_aggr:
  "snd (fold (add_host a) hs maps) h
    = (let names = (if isAzAggregate a then [] else replicate (count_list hs h) (ag_Name a)) in
       if names = [] then snd maps h
       else Some ((case snd maps h of None \<Rightarrow> [] | Some as \<Rightarrow> as) @ names))"
  by (induction hs arbitrary: maps)
    (auto simp: add_host_def case_prod_unfold Let_def count_list_0_iff replicate_append_same
      split: option.splits)

lemma fold_aggregates_az:
  "fst (fold add_aggregate as maps) h
    = (if host_zones as h = [] then fst maps h else Some (last (host_zones as h)))"
  by (induction as arbitrary: maps) (auto simp: add_aggregate_def fold_add_host_az host_zones_def)

lemma fold_aggregates_aggr:
  "snd (fold add_aggregate as maps) h
    = (if host_aggregates as h = [] then snd maps h
       else Some ((case snd maps h of None \<Rightarrow> [] | Some xs \<Rightarrow> xs) @ host_aggregates as h))"
proof (induction as arbitrary: maps)
  case Nil
  then show ?case by (simp add: host_aggregates_def)
next
  case (Cons a as)
  then show ?case
    by (simp add: add_aggregate_def fold_add_host_aggr host_aggregates_def Let_def split: option.splits)
qed

lemma host_maps_az:
  "fst (host_maps_of as) h = (if host_zones as h = [] then None else Some (last (host_zones as h)))"
  by (simp add: host_maps_of_def fold_aggregates_az)

lemma host_maps_aggr:
  "snd (host_maps_of as) h
    = (if host_aggregates as h = [] then None else Some (host_aggregates as h))"
  by (simp add: host_maps_of_def fold_aggregates_aggr)

lemma aggregatesLabel_eq:
  "aggregatesLabel h (snd (host_maps_of as)) = strings_Join (sort (host_aggregates as h)) '',''"
  by (simp add: aggregatesLabel_def host_maps_aggr)

definition hypervisor_values :: "Hypervisor \<Rightarrow> (string \<times> int) list" where
  "hypervisor_values h =
     [(''current_workload'', hy_CurrentWorkload h), (''vcpus_available'', hypervisor_vcpus h),
      (''vcpus_used'', hy_VCPUsUsed h),
      (''memory_available_bytes'', i64 (hy_MemoryMB h * MEGABYTE)),
      (''memory_used_bytes'', i64 (hy_MemoryMBUsed h * MEGABYTE)),
      (''local_storage_available_bytes'', i64 (hy_LocalGB h * GIGABYTE)),
      (''local_storage_used_bytes'', i64 (hy_LocalGBUsed h * GIGABYTE)),
      (''free_disk_bytes'', i64 (hy_FreeDiskGB h * GIGABYTE))]"

definition hypervisor_labels :: "Aggregate list \<Rightarrow> Hypervisor \<Rightarrow> string list" where
  "hypervisor_labels as h = [hy_Hostname h,
     (if host_zones as (hy_ServiceHost h) = [] then [] else last (host_zones as (hy_ServiceHost h))),
     strings_Join (sort (host_aggregates as (hy_ServiceHost h))) '','']"

definition hypervisor_samples :: "exporter \<Rightarrow> Aggregate list \<Rightarrow> Hypervisor \<Rightarrow> sample list" where
  "hypervisor_samples ex as h =
     map (\<lambda>(n, v). samp ex n (f64_of_int v) (hypervisor_labels as h)) (hypervisor_values h)"

lemma hypervisor_body_ok:
  assumes "wired ex (nova_table mapping)" and "accepts_arity pr"
  shows "hypervisor_body pr ex (host_maps_of as) h = (hypervisor_samples ex as h, Done)"
proof -
  let ?ls = "hypervisor_labels as h"
  have emit: "emit pr ex n (f64_of_int v) ?ls = ([samp ex n (f64_of_int v) ?ls], Done)"
    if "n \<in> fst ` set (hypervisor_values h)" for n v
    using nova_registered(1) [OF assms(1), of n] that
    by (intro emit_ok [OF assms(2)]) (auto simp: hypervisor_labels_def hypervisor_values_def eval_nat_numeral)
  have ls: "[hy_Hostname h, (case fst (host_maps_of as) (hy_ServiceHost h) of None \<Rightarrow> [] | Some v \<Rightarrow> v),
      aggregatesLabel (hy_ServiceHost h) (snd (host_maps_of as))] = ?ls"
    by (simp add: hypervisor_labels_def host_maps_az aggregatesLabel_eq)
  have "hypervisor_body pr ex (host_maps_of as) h
      = in_order (map (\<lambda>(n, v). emit pr ex n (f64_of_int v) ?ls) (hypervisor_values h))"
    by (simp only: hypervisor_body_def hypervisor_values_def case_prod_unfold Let_def ls list.map fst_conv snd_conv)
  also have "\<dots> = for_each (hypervisor_values h) (\<lambda>(n, v). emit pr ex n (f64_of_int v) ?ls)"
    by (simp add: for_each_def)
  also have "\<dots> = (hypervisor_samples ex as h, Done)"
    by (subst for_each_Done [where g = "\<lambda>(n, v). [samp ex n (f64_of_int v) ?ls]"])
      (auto simp: emit rev_image_eqI hypervisor_samples_def case_prod_unfold)
  finally show ?thesis .
qed

section \<open>Servers\<close>

lemma running_vms_status_counter:
  "running_vms ss = status_counter [] (map vm_labels (filter (\<lambda>s. is_active (se_Status s)) ss))"
  by (simp add: running_vms_def status_counter_def zero_counter_def)

lemma mapper_required_iff:
  "mapper_required ss \<longleftrightarrow> (\<exists>s \<in> set ss. go_lookup (se_Flavor s) ''id'' = None)"
  by (induction ss) (auto split: option.splits)

lemma flavor_mapper_fold:
  "fold (\<lambda>f m. m(fl_Name f \<mapsto> fl_ID f)) fs m = m ++ map_of (rev (map (\<lambda>f. (fl_Name f, fl_ID f)) fs))"
  by (induction fs arbitrary: m) (simp_all del: fun_upd_apply)

definition vm_sample :: "exporter \<Rightarrow> novaRunningVMLabels \<times> int \<Rightarrow> sample" where
  "vm_sample ex e = samp ex ''running_vms'' (f64_of_int (snd e))
     [fst (fst e), fst (snd (fst e)), [], snd (snd (fst e))]"

definition server_sample ::
  "((string \<times> any) list option \<Rightarrow> string) \<Rightarrow> flavorIDMapper option \<Rightarrow> exporter \<Rightarrow> Server \<Rightarrow> sample" where
  "server_sample fmt_map mapper ex s = samp ex ''server_status'' (f64_of_int (mapServerStatus (se_Status s)))
     (server_labels fmt_map mapper (NovaMetadataMapping ex) s)"

text \<open>The mapper that a collection uses: none where every server still names its flavor's identifier.\<close>

definition chosen_mapper :: "bool \<Rightarrow> Server list \<Rightarrow> Flavor list \<Rightarrow> flavorIDMapper option" where
  "chosen_mapper recent ss fs =
     (if recent \<or> (\<exists>s \<in> set ss. go_lookup (se_Flavor s) ''id'' = None)
      then Some (map_of (rev (map (\<lambda>f. (fl_Name f, fl_ID f)) fs))) else None)"

lemma server_labels_length:
  "wf_flag mapping \<Longrightarrow> length (server_labels fmt_map mapper mapping s) = 13 + length (lm_Labels mapping)"
  by (simp add: server_labels_def LabelMapping_Extract_def wf_flag_def)

lemma ListAllServers_ok:
  assumes "wired ex (nova_table (NovaMetadataMapping ex))" and "accepts_arity pr"
    and "wf_flag (NovaMetadataMapping ex)"
    and "\<not> MetricIsDisabled ex ''running_vms''" and "\<not> MetricIsDisabled ex ''server_status''"
    and "api (getServerListOptions (TenantID ex)) = Inr ss"
    and "flavors = Inr fs"
  shows "ListAllServers pr parse fmt_map ord api flavors ex
    = (samp ex ''total_vms'' (f64_of_nat (length ss)) [] # map (vm_sample ex) (ord (running_vms ss)) @
       map (server_sample fmt_map
         (chosen_mapper (at_least_or_false parse (cl_Microversion (ClientV2 ex)) ''2.46'') ss fs) ex) ss, Done)"
proof -
  note reg = nova_registered [OF assms(1)]
  have vms: "for_each xs (\<lambda>((hostname, availabilityZone, tenantID), count).
      emit pr ex ''running_vms'' (f64_of_int count) [hostname, availabilityZone, [], tenantID])
    = (map (vm_sample ex) xs, Done)" for xs
    using reg(2) by (simp add: case_prod_unfold for_each_emit assms(2) vm_sample_def [abs_def] eval_nat_numeral)
  have srv: "for_each ss (\<lambda>server. emit pr ex ''server_status''
      (f64_of_int (mapServerStatus (se_Status server)))
      (server_labels fmt_map mapper (NovaMetadataMapping ex) server))
    = (map (server_sample fmt_map mapper ex) ss, Done)" for mapper
    using reg(4) server_labels_length [OF assms(3)]
    by (subst for_each_emit [OF assms(2)]) (simp_all add: server_sample_def [abs_def])
  let ?recent = "at_least_or_false parse (cl_Microversion (ClientV2 ex)) ''2.46''"
  have "(if ?recent \<or> mapper_required ss then map_sum id Some (newFlavorIDMapper flavors) else Inr None)
      = Inr (chosen_mapper ?recent ss fs)"
    using assms(7)
    by (simp add: chosen_mapper_def mapper_required_iff newFlavorIDMapper_def flavor_mapper_fold)
  then show ?thesis
    using assms(2,4-6) reg(3) by (simp add: ListAllServers_def vms srv emit_ok)
qed

section \<open>An exporter for the witnesses\<close>

definition nova_sample :: exporter where
  "nova_sample = register_table sample_prom (nova_table (NovaMetadataMapping sample_config))
     (new_base ''nova'' sample_config)"

lemma nova_sample_fields [simp]:
  "NovaMetadataMapping nova_sample = \<lparr>lm_Labels = [], lm_Keys = []\<rparr>"
  "TenantID nova_sample = []" "DisabledMetrics nova_sample = []"
  by (simp_all add: nova_sample_def sample_config_def)

lemma nova_sample_wired: "wired nova_sample (nova_table (NovaMetadataMapping nova_sample))"
proof -
  have "NovaMetadataMapping nova_sample = NovaMetadataMapping sample_config"
    by (simp add: nova_sample_def)
  then show ?thesis unfolding nova_sample_def by (simp add: nova.wired_register)
qed

definition sample_aggregate :: "string \<Rightarrow> Aggregate" where
  "sample_aggregate n = \<lparr>ag_Name = n, ag_AvailabilityZone = ''az'', ag_Hosts = [''h1''], ag_Metadata = []\<rparr>"

definition sample_hypervisor :: Hypervisor where
  "sample_hypervisor = \<lparr>hy_Hostname = ''h1.example.org'', hy_ServiceHost = ''h1'', hy_CurrentWorkload = 0,
     hy_CPUInfo = \<lparr>ci_Vendor = ''v'', ci_Arch = [], ci_Model = [], ci_Features = None,
       ci_Topology = \<lparr>tp_Sockets = 2, tp_Cores = 8, tp_Threads = 2, tp_Cells = 0\<rparr>\<rparr>,
     hy_VCPUs = 4, hy_VCPUsUsed = 1, hy_MemoryMB = 1, hy_MemoryMBUsed = 0, hy_LocalGB = 1,
     hy_LocalGBUsed = 0, hy_FreeDiskGB = 1\<rparr>"

section \<open>Properties\<close>

text \<open>
  Property C12. Every hypervisor is reported with its eight values under one set of labels: the zone
  of the last aggregate with a zone that its host is in, and the sorted names of the host's
  aggregates that do more than set a zone. The page size is sent from microversion 2.33 on.
\<close>

theorem nova_hypervisors:
  assumes "wired ex (nova_table mapping)" and "accepts_arity pr"
    and "hyp_api (if at_least_or_false parse (cl_Microversion (ClientV2 ex)) ''2.33'' then Some 1000 else None)
      = Inr hs"
  shows "ListHypervisors pr parse hyp_api (Inr as) ex
    = (concat (map (hypervisor_samples ex as) hs), Done)"
  using assms(3) unfolding ListHypervisors_def Let_def
  by (simp add: for_each_Done [OF hypervisor_body_ok [OF assms(1,2)]])

theorem nova_hypervisors_witness:
  "ListHypervisors sample_prom (\<lambda>v. Inl (Msg_error ''unparsable''))
      (\<lambda>limit. if limit = None then Inr [sample_hypervisor] else Inl (Msg_error ''paged''))
      (Inr [sample_aggregate ''b'', sample_aggregate ''a'']) nova_sample
    = (map (\<lambda>(n, v). samp nova_sample n (f64_of_int v) [''h1.example.org'', ''az'', ''a,b''])
         (hypervisor_values sample_hypervisor), Done)"
proof -
  have zones: "host_zones [sample_aggregate ''b'', sample_aggregate ''a''] ''h1'' = [''az'', ''az'']"
    and names: "sort (host_aggregates [sample_aggregate ''b'', sample_aggregate ''a''] ''h1'') = [''a'', ''b'']"
    by (simp_all add: host_zones_def host_aggregates_def sample_aggregate_def isAzAggregate_def)
  have "\<not> at_least_or_false (\<lambda>v. Inl (Msg_error ''unparsable'')) v ''2.33''" for v
    by (simp add: at_least_or_false_iff)
  then show ?thesis
    using nova_hypervisors [OF nova_sample_wired sample_prom_accepts, where hs = "[sample_hypervisor]"
        and hyp_api = "\<lambda>limit. if limit = None then Inr [sample_hypervisor] else Inl (Msg_error ''paged'')"
        and parse = "\<lambda>v. Inl (Msg_error ''unparsable'')"
        and as = "[sample_aggregate ''b'', sample_aggregate ''a'']"]
    by (simp add: hypervisor_samples_def hypervisor_labels_def zones names)
      (simp add: sample_hypervisor_def zones names)
qed

text \<open>
  The aggregates label of a host names its aggregates in byte order, and does not depend
  on the order in which the API lists the aggregates.
\<close>

theorem aggregates_label_stable:
  assumes "mset as = mset bs"
  shows "aggregatesLabel h (snd (host_maps_of as)) = aggregatesLabel h (snd (host_maps_of bs)) \<and>
    (\<exists>names. aggregatesLabel h (snd (host_maps_of as)) = strings_Join names '','' \<and> sorted names \<and>
       mset names = mset (host_aggregates as h))"
proof -
  have "mset (host_aggregates xs h) = sum_mset (image_mset (\<lambda>a. mset
      (replicate (count_list (ag_Hosts a) h) (ag_Name a))) (filter_mset (\<lambda>a. \<not> isAzAggregate a) (mset xs)))" for xs
    by (induction xs) (simp_all add: host_aggregates_def)
  then have "mset (host_aggregates as h) = mset (host_aggregates bs h)" using assms by simp
  then have "sort (host_aggregates as h) = sort (host_aggregates bs h)"
    by (intro properties_for_sort) simp_all
  note eq = this [symmetric]
  show ?thesis
    by (intro conjI exI [of _ "sort (host_aggregates as h)"]) (simp_all add: aggregatesLabel_eq eq)
qed

theorem aggregates_label_stable_witness:
  "aggregatesLabel ''h1'' (snd (host_maps_of [sample_aggregate ''b'', sample_aggregate ''a'']))
    = aggregatesLabel ''h1'' (snd (host_maps_of [sample_aggregate ''a'', sample_aggregate ''b'']))"
  by (rule aggregates_label_stable [THEN conjunct1]) simp

text \<open>
  Property C36. The number of CPUs of a hypervisor is the product of its topology, with a missing cell
  count read as one, wherever that product fits 64 bits; without CPU information it is the number
  that the API gives.
\<close>

theorem hypervisor_vcpus_product:
  assumes "- (2 ^ 63) \<le> p" and "p < 2 ^ 63"
    and "p = max (tp_Cells t) 1 * tp_Sockets t * tp_Cores t * tp_Threads t"
    and "t = ci_Topology (hy_CPUInfo h)"
  shows "hypervisor_vcpus h = (if cpu_info_is_zero (hy_CPUInfo h) then hy_VCPUs h else p)"
proof -
  have "hypervisor_vcpus h = (if cpu_info_is_zero (hy_CPUInfo h) then hy_VCPUs h else i64 p)"
    using assms(3,4) by (simp add: hypervisor_vcpus_def Let_def i64_mult)
  then show ?thesis using i64_id [OF assms(1,2)] by simp
qed

theorem hypervisor_vcpus_product_witness: "hypervisor_vcpus sample_hypervisor = 32"
proof -
  have "(32::int) = max (tp_Cells (ci_Topology (hy_CPUInfo sample_hypervisor))) 1
      * tp_Sockets (ci_Topology (hy_CPUInfo sample_hypervisor))
      * tp_Cores (ci_Topology (hy_CPUInfo sample_hypervisor))
      * tp_Threads (ci_Topology (hy_CPUInfo sample_hypervisor))"
    by (simp add: sample_hypervisor_def)
  from hypervisor_vcpus_product [OF _ _ this refl]
  have "hypervisor_vcpus sample_hypervisor
      = (if cpu_info_is_zero (hy_CPUInfo sample_hypervisor) then hy_VCPUs sample_hypervisor else 32)"
    by simp
  then show ?thesis by (simp add: sample_hypervisor_def cpu_info_is_zero_def)
qed

text \<open>
  Property C13. The servers: after their number come the counts of active servers, one sample for each
  host, zone and tenant that has one, adding up to the number of active servers; then one status
  sample per server, in order, whatever metadata labels are configured.
\<close>

theorem nova_servers:
  assumes "wired ex (nova_table (NovaMetadataMapping ex))" and "accepts_arity pr"
    and "wf_flag (NovaMetadataMapping ex)" and "permutes_order ord"
    and "\<not> MetricIsDisabled ex ''running_vms''" and "\<not> MetricIsDisabled ex ''server_status''"
    and "api (getServerListOptions (TenantID ex)) = Inr ss" and "int (length ss) < 2 ^ 63"
  shows "\<exists>vms. ListAllServers pr parse fmt_map ord api (Inr fs) ex
      = (samp ex ''total_vms'' (f64_of_nat (length ss)) [] # map (vm_sample ex) vms @
         map (server_sample fmt_map
           (chosen_mapper (at_least_or_false parse (cl_Microversion (ClientV2 ex)) ''2.46'') ss fs) ex) ss, Done) \<and>
    distinct (map fst vms) \<and>
    set vms = (\<lambda>l. (l, int (length (filter (\<lambda>s. is_active (se_Status s) \<and> vm_labels s = l) ss))))
      ` vm_labels ` {s \<in> set ss. is_active (se_Status s)} \<and>
    sum_list (map snd vms) = int (length (filter (\<lambda>s. is_active (se_Status s)) ss))"
proof -
  let ?on = "filter (\<lambda>s. is_active (se_Status s)) ss" and ?vms = "ord (running_vms ss)"
  have "int (length ?on) \<le> int (length ss)" by (simp only: of_nat_le_iff length_filter_le)
  then have len: "int (length (map vm_labels ?on)) < 2 ^ 63" using assms(8) by (simp only: length_map)
  have perm: "mset ?vms = mset (running_vms ss)" using assms(4) by (simp add: permutes_order_def)
  have empty: "distinct ([] :: novaRunningVMLabels list)" by simp
  have "distinct (map fst (running_vms ss))"
    unfolding running_vms_status_counter by (rule status_counter_distinct [OF empty])
  then have keys: "distinct (map fst ?vms)" using perm by (metis mset_eq_imp_distinct_iff mset_map)
  have "count_list (map vm_labels ?on) l
      = length (filter (\<lambda>s. is_active (se_Status s) \<and> vm_labels s = l) ss)" for l
    by (induction ss) simp_all
  then have entries: "set ?vms = (\<lambda>l. (l, int (length (filter (\<lambda>s. is_active (se_Status s) \<and> vm_labels s = l) ss))))
      ` vm_labels ` {s \<in> set ss. is_active (se_Status s)}"
    unfolding permutes_order_set [OF assms(4)] running_vms_status_counter status_counter_set [OF empty len]
    by simp
  have "sum_list (map snd ?vms) = sum_list (map snd (running_vms ss))"
    using perm by (metis mset_map sum_mset_sum_list)
  also have "\<dots> = int (length ?on)"
    unfolding running_vms_status_counter status_counter_total [OF empty len] by simp
  finally show ?thesis
    using ListAllServers_ok [OF assms(1-3,5,6), where api = api and ss = ss and flavors = "Inr fs" and fs = fs
        and parse = parse and fmt_map = fmt_map and ord = ord, OF assms(7) refl] keys entries
    by (intro exI [of _ ?vms] conjI)
qed

definition sample_server :: Server where
  "sample_server = \<lparr>se_ID = ''1'', se_Status = ''Active'', se_Name = ''vm'', se_TenantID = ''t'', se_UserID = ''u'',
     se_AccessIPv4 = [], se_AccessIPv6 = [], se_HostID = [], se_HypervisorHostname = ''h'',
     se_AvailabilityZone = ''z'', se_Flavor = Some [(''original_name'', Any_string ''m1'')],
     se_InstanceName = [], se_Metadata = Map.empty\<rparr>"

theorem nova_servers_witness:
  "\<exists>vms. ListAllServers sample_prom (\<lambda>v. Inl (Msg_error [])) (\<lambda>m. []) (\<lambda>xs. xs) (\<lambda>opts. Inr [sample_server])
      (Inr []) nova_sample
    = (samp nova_sample ''total_vms'' 1 [] # map (vm_sample nova_sample) vms @
       [server_sample (\<lambda>m. []) (Some Map.empty) nova_sample sample_server], Done) \<and>
    vms = [((''h'', ''z'', ''t''), 1)]"
proof -
  have *: "\<not> MetricIsDisabled nova_sample n" for n by (simp add: MetricIsDisabled_iff)
  have wf: "wf_flag (NovaMetadataMapping nova_sample)" by (simp add: wf_flag_def)
  have active: "is_active (se_Status sample_server)"
    by code_simp
  have mapper: "chosen_mapper r [sample_server] [] = Some Map.empty" for r
    by (simp add: chosen_mapper_def sample_server_def go_lookup_def)
  note result = nova_servers [OF nova_sample_wired sample_prom_accepts wf permutes_order_id * *,
      where api = "\<lambda>opts. Inr [sample_server]" and ss = "[sample_server]" and fs = "[]"
        and parse = "\<lambda>v. Inl (Msg_error [])" and fmt_map = "\<lambda>m. []"]
  have set1: "{s \<in> set [sample_server]. is_active (se_Status s)} = {sample_server}" using active by auto
  have labels: "vm_labels sample_server = (''h'', ''z'', ''t'')"
    by (simp add: vm_labels_def sample_server_def)
  from result obtain vms where vms: "ListAllServers sample_prom (\<lambda>v. Inl (Msg_error [])) (\<lambda>m. []) (\<lambda>xs. xs)
      (\<lambda>opts. Inr [sample_server]) (Inr []) nova_sample
    = (samp nova_sample ''total_vms'' 1 [] # map (vm_sample nova_sample) vms @
       [server_sample (\<lambda>m. []) (Some Map.empty) nova_sample sample_server], Done)"
    "distinct (map fst vms)" "set vms = {((''h'', ''z'', ''t''), 1)}"
    unfolding set1 mapper by (auto simp: active labels one_f64_def)
  have "distinct vms" using vms(2) by (simp add: distinct_map)
  then have "length vms = 1" using vms(3) by (metis card.empty card_insert_disjoint distinct_card
        empty_iff finite.emptyI One_nat_def)
  then obtain v where "vms = [v]" by (auto simp: length_Suc_conv)
  with vms(3) have "vms = [((''h'', ''z'', ''t''), 1)]" by simp
  with vms(1) show ?thesis by blast
qed

text \<open>
  The flavor label: where the code looks flavors up, a server that names a flavor gets the
  identifier of the listed flavor of that name, and the empty string for an unknown or unnamed one;
  it does so for all servers as soon as one of them does not carry its flavor's identifier.
\<close>

theorem server_flavor_label:
  assumes "distinct (map fl_Name fs)" and "f \<in> set fs"
    and "go_lookup (se_Flavor s) ''original_name'' = Some (Any_string (fl_Name f))"
  shows "(case chosen_mapper recent ss fs of
      Some m \<Rightarrow> server_flavor fmt_map (Some m) s = fl_ID f
    | None \<Rightarrow> \<not> recent \<and> (\<forall>t \<in> set ss. server_flavor fmt_map None t
        = Sprintf_v fmt_map (go_lookup (se_Flavor t) ''id'') \<and> go_lookup (se_Flavor t) ''id'' \<noteq> None))"
proof -
  have "map_of (rev (map (\<lambda>f. (fl_Name f, fl_ID f)) fs)) (fl_Name f) = Some (fl_ID f)"
    using assms(1,2) by (intro map_of_is_SomeI) (auto simp: rev_map [symmetric] o_def)
  with assms(3) show ?thesis
    by (auto simp: chosen_mapper_def server_flavor_def flavorIDMapper_Search_def)
qed

theorem server_flavor_label_witness:
  "server_flavor (\<lambda>m. []) (chosen_mapper True [sample_server]
     [\<lparr>fl_ID = ''42'', fl_Name = ''m1'', fl_VCPUs = 1, fl_RAM = 1, fl_Disk = 1, fl_IsPublic = True\<rparr>]) sample_server
   = ''42''"
  using server_flavor_label [where recent = True and s = sample_server and ss = "[sample_server]"
      and fs = "[\<lparr>fl_ID = ''42'', fl_Name = ''m1'', fl_VCPUs = 1, fl_RAM = 1, fl_Disk = 1, fl_IsPublic = True\<rparr>]"
      and f = "\<lparr>fl_ID = ''42'', fl_Name = ''m1'', fl_VCPUs = 1, fl_RAM = 1, fl_Disk = 1, fl_IsPublic = True\<rparr>"
      and fmt_map = "\<lambda>m. []"]
  by (simp add: chosen_mapper_def sample_server_def go_lookup_def)

end
