(* ===== verification/Go_Time.thy ===== *)
theory Go_Time
  imports Go_Base
begin

text \<open>
  The parts of the package \<^verbatim>\<open>time\<close> that the exporters use: an instant with its zone offset,
  \<^verbatim>\<open>IsZero\<close>, \<^verbatim>\<open>Unix\<close> and the layout \<^verbatim>\<open>RFC3339\<close>.
\<close>

record Time =
  tm_ns :: int
  tm_offset :: int

text \<open>\<open>tm_ns\<close> counts nanoseconds from 1970; the zero \<^verbatim>\<open>Time\<close> is the first of January of year 1.\<close>

definition zero_unix :: int where
  "zero_unix = -62135596800"

definition time_Unix :: "Time \<Rightarrow> int" where
  "time_Unix t = tm_ns t div 10 ^ 9"

definition time_IsZero :: "Time \<Rightarrow> bool" where
  "time_IsZero t \<longleftrightarrow> tm_ns t = zero_unix * 10 ^ 9"

text \<open>
  The date of a day number in the proleptic Gregorian calendar. Years are counted from March, so
  that the leap day is the last of its year; 400 years are 146097 days.
\<close>

definition civil :: "int \<Rightarrow> int \<times> int \<times> int" where
  "civil days =
     (let z = days + 719468;
          era = z div 146097;
          doe = z mod 146097;
          yoe = (doe - doe div 1460 + doe div 36524 - doe div 146096) div 365;
          doy = doe - (365 * yoe + yoe div 4 - yoe div 100);
          mp = (5 * doy + 2) div 153;
          d = doy - (153 * mp + 2) div 5 + 1;
          m = (if mp < 10 then mp + 3 else mp - 9);
          y = yoe + era * 400
      in (if m \<le> 2 then y + 1 else y, m, d))"

definition pad :: "nat \<Rightarrow> int \<Rightarrow> string" where
  "pad w n = (let ds = nat_digits (nat \<bar>n\<bar>)
     in (if n < 0 then ''-'' else '''') @ replicate (w - length ds) (CHR ''0'') @ ds)"

definition Format_RFC3339 :: "Time \<Rightarrow> string" where
  "Format_RFC3339 t =
     (let secs = time_Unix t + tm_offset t;
          (y, m, d) = civil (secs div 86400);
          s = secs mod 86400;
          zone = \<bar>tm_offset t\<bar> div 60
      in pad 4 y @ ''-'' @ pad 2 m @ ''-'' @ pad 2 d @ ''T'' @
         pad 2 (s div 3600) @ '':'' @ pad 2 (s mod 3600 div 60) @ '':'' @ pad 2 (s mod 60) @
         (if tm_offset t = 0 then ''Z''
          else (if tm_offset t < 0 \<and> 0 < zone then ''-'' else ''+'') @ pad 2 (zone div 60) @ '':'' @ pad 2 (zone mod 60)))"

lemma Format_epoch: "Format_RFC3339 \<lparr>tm_ns = 0, tm_offset = 0\<rparr> = ''1970-01-01T00:00:00Z''"
  by code_simp

lemma Format_zero:
  "Format_RFC3339 \<lparr>tm_ns = zero_unix * 10 ^ 9, tm_offset = 0\<rparr> = ''0001-01-01T00:00:00Z''"
  by code_simp

lemma Format_leap_day:
  "Format_RFC3339 \<lparr>tm_ns = 1709210096 * 10 ^ 9, tm_offset = 7200\<rparr> = ''2024-02-29T14:34:56+02:00''"
  by code_simp

end
