(* ===== verification/Image.thy ===== *)
theory Image
  imports Base_Exporter Go_Time
begin

text \<open>
  \<^verbatim>\<open>exporters/glance.go\<close>: the number of images and the size and creation time of each. The two list
  functions ask for the images separately; \<open>api\<close> is what \<^verbatim>\<open>AllPages\<close> and \<^verbatim>\<open>ExtractImages\<close> give.
\<close>

record Image =
  im_ID :: string
  im_Name :: string
  im_Owner :: string
  im_SizeBytes :: int
  im_CreatedAt :: Time
  im_Visibility :: string
  im_Hidden :: bool
  im_Status :: string

definition defaultGlanceMetrics :: "Metric list" where
  "defaultGlanceMetrics =
    [metric ''images'' [] (Some ''ListImages''),
     slow_metric ''image_bytes'' [''id'', ''name'', ''tenant_id''] (Some
         ''ListImageProperties''),
     slow_metric ''image_created_at'' [''id'', ''name'', ''tenant_id'', ''visibility'',
         ''hidden'', ''status''] None]"

definition NewGlanceExporter :: "prom \<Rightarrow> ExporterConfig \<Rightarrow> exporter" where
  "NewGlanceExporter pr config = register_table pr defaultGlanceMetrics (new_base ''glance'' config)"

definition getAllImages :: "'page fallible \<Rightarrow> ('page \<Rightarrow> Image list fallible) \<Rightarrow> Image list fallible" where
  "getAllImages pages extract =
     (case pages of Inl e \<Rightarrow> Inl e | Inr allPagesImage \<Rightarrow>
        (case extract allPagesImage of Inl e \<Rightarrow> Inl e | Inr allImages \<Rightarrow> Inr allImages))"

definition ListImages ::
  "prom \<Rightarrow> 'page fallible \<Rightarrow> ('page \<Rightarrow> Image list fallible) \<Rightarrow> exporter \<Rightarrow> coll" where
  "ListImages pr pages extract ex = try_get (getAllImages pages extract) (\<lambda>allImages.
     emit pr ex ''images'' (f64_of_nat (length allImages)) [])"

definition ListImageProperties ::
  "prom \<Rightarrow> 'page fallible \<Rightarrow> ('page \<Rightarrow> Image list fallible) \<Rightarrow> exporter \<Rightarrow> coll" where
  "ListImageProperties pr pages extract ex = try_get (getAllImages pages extract) (\<lambda>allImages.
     for_each allImages (\<lambda>image. in_order
       [emit pr ex ''image_bytes'' (f64_of_int (im_SizeBytes image))
          [im_ID image, im_Name image, im_Owner image],
        emit pr ex ''image_created_at'' (f64_of_int (time_Unix (im_CreatedAt image)))
          [im_ID image, im_Name image, im_Owner image, im_Visibility image,
           strconv_FormatBool (im_Hidden image), im_Status image]]))"

interpretation glance: metric_table defaultGlanceMetrics
  by unfold_locales (simp_all add: defaultGlanceMetrics_def reserved_def)

lemma glance_wired: "wired (NewGlanceExporter pr sample_config) defaultGlanceMetrics"
  by (simp add: NewGlanceExporter_def glance.wired_register)

definition image_samples :: "exporter \<Rightarrow> Image \<Rightarrow> sample list" where
  "image_samples ex i =
     [samp ex ''image_bytes'' (f64_of_int (im_SizeBytes i)) [im_ID i, im_Name i, im_Owner i],
      samp ex ''image_created_at'' (f64_of_int (time_Unix (im_CreatedAt i)))
        [im_ID i, im_Name i, im_Owner i, im_Visibility i, strconv_FormatBool (im_Hidden i), im_Status i]]"

lemma ListImages_ok:
  "wired ex defaultGlanceMetrics \<Longrightarrow> accepts_arity pr \<Longrightarrow> getAllImages pages extract = Inr is \<Longrightarrow>
     ListImages pr pages extract ex = ([samp ex ''images'' (f64_of_nat (length is)) []], Done)"
  by (simp add: ListImages_def wired_def defaultGlanceMetrics_def emit_ok)

lemma ListImageProperties_ok:
  "wired ex defaultGlanceMetrics \<Longrightarrow> accepts_arity pr \<Longrightarrow> getAllImages pages extract = Inr is \<Longrightarrow>
     ListImageProperties pr pages extract ex = (concat (map (image_samples ex) is), Done)"
  by (simp add: ListImageProperties_def wired_def defaultGlanceMetrics_def emit_ok for_each_Done
      image_samples_def [abs_def])

text \<open>
  With the slow metrics disabled only the count is registered; the collector then has one list
  function to run, and the properties of single images are neither asked for nor sent.
\<close>

lemma glance_slow_disabled:
  assumes "DisableSlowMetrics cfg" and "DisabledMetrics cfg = []" and "\<not> DisableDeprecatedMetrics cfg"
  shows "map fst (metrics_of (NewGlanceExporter pr cfg)) = reserved @ [''images'']"
  using assms
  by (simp add: NewGlanceExporter_def glance.names_registered)
    (simp add: defaultGlanceMetrics_def enabled_def MetricIsDisabled_iff isSlowMetric_def
      isDeprecatedMetric_def)

end
