(* ===== verification/Identity.thy ===== *)
theory Identity
  imports Service_Client
begin

text \<open>
  \<^verbatim>\<open>exporters/keystone.go\<close>: the domains, users, groups, projects and regions of the identity service.
  Each request is the parameter \<open>api\<close>; users and groups are asked for the configured domain.
\<close>

record Domain =
  do_Description :: string
  do_Enabled :: bool
  do_ID :: string
  do_Name :: string

definition defaultKeystoneMetrics :: "Metric list" where
  "defaultKeystoneMetrics =
    [metric ''domains'' [] (Some ''ListDomains''),
     metric ''domain_info'' [''description'', ''enabled'', ''id'', ''name''] None,
     metric ''users'' [] (Some ''ListUsers''),
     metric ''groups'' [] (Some ''ListGroups''),
     metric ''projects'' [] (Some ''ListProjects''),
     metric ''project_info'' [''is_domain'', ''description'', ''domain_id'', ''enabled'',
         ''id'', ''name'', ''parent_id'', ''tags''] None,
     metric ''regions'' [] (Some ''ListRegions'')]"

definition NewKeystoneExporter :: "prom \<Rightarrow> ExporterConfig \<Rightarrow> exporter" where
  "NewKeystoneExporter pr config = register_table pr defaultKeystoneMetrics (new_base ''identity'' config)"

definition ListDomains :: "prom \<Rightarrow> Domain list fallible \<Rightarrow> exporter \<Rightarrow> coll" where
  "ListDomains pr api ex = try_get api (\<lambda>allDomains. and_then
     (emit pr ex ''domains'' (f64_of_nat (length allDomains)) [])
     (if \<not> MetricIsDisabled ex ''domain_info'' then
        for_each allDomains (\<lambda>d. emit pr ex ''domain_info'' 1
          [do_Description d, strconv_FormatBool (do_Enabled d), do_ID d, do_Name d])
      else finish))"

definition ListProjects ::
  "prom \<Rightarrow> identity_api \<Rightarrow> endpoint_map \<Rightarrow> exporter \<Rightarrow> coll" where
  "ListProjects pr idapi endpointOptsV2 ex = try_get (GetProjects idapi endpointOptsV2 ex)
     (\<lambda>allProjects. and_then
       (emit pr ex ''projects'' (f64_of_nat (length allProjects)) [])
       (if \<not> MetricIsDisabled ex ''project_info'' then
          for_each allProjects (\<lambda>p. emit pr ex ''project_info'' 1
            [strconv_FormatBool (pr_IsDomain p), pr_Description p, pr_DomainID p,
             strconv_FormatBool (pr_Enabled p), pr_ID p, pr_Name p, pr_ParentID p,
             strings_Join (pr_Tags p) '',''])
        else finish))"

definition ListRegions :: "prom \<Rightarrow> 'r list fallible \<Rightarrow> exporter \<Rightarrow> coll" where
  "ListRegions pr api ex = try_get api (\<lambda>allRegions.
     emit pr ex ''regions'' (f64_of_nat (length allRegions)) [])"

definition ListUsers :: "prom \<Rightarrow> (string \<Rightarrow> 'u list fallible) \<Rightarrow> exporter \<Rightarrow> coll" where
  "ListUsers pr api ex = try_get (api (DomainID ex)) (\<lambda>allUsers.
     emit pr ex ''users'' (f64_of_nat (length allUsers)) [])"

definition ListGroups :: "prom \<Rightarrow> (string \<Rightarrow> 'g list fallible) \<Rightarrow> exporter \<Rightarrow> coll" where
  "ListGroups pr api ex = try_get (api (DomainID ex)) (\<lambda>allGroups.
     emit pr ex ''groups'' (f64_of_nat (length allGroups)) [])"

interpretation keystone: metric_table defaultKeystoneMetrics
  by unfold_locales (simp_all add: defaultKeystoneMetrics_def reserved_def)

lemma keystone_wired: "wired (NewKeystoneExporter pr sample_config) defaultKeystoneMetrics"
  by (simp add: NewKeystoneExporter_def keystone.wired_register)

definition project_sample :: "exporter \<Rightarrow> Project \<Rightarrow> sample" where
  "project_sample ex p = samp ex ''project_info'' 1
     [strconv_FormatBool (pr_IsDomain p), pr_Description p, pr_DomainID p,
      strconv_FormatBool (pr_Enabled p), pr_ID p, pr_Name p, pr_ParentID p, strings_Join (pr_Tags p) '','']"

section \<open>Properties\<close>

text \<open>
  \<^verbatim>\<open>project_info\<close> is the one metric of the project list that can be disabled on its
  own: with \<^verbatim>\<open>projects\<close> registered, the listing never crashes, and the information is sent
  exactly when it is registered.
\<close>

theorem keystone_projects:
  assumes "accepts_arity pr" and "\<not> MetricIsDisabled (new_base ''identity'' cfg) ''projects''"
    and "GetProjects idapi m (NewKeystoneExporter pr cfg) = Inr ps"
  shows "ListProjects pr idapi m (NewKeystoneExporter pr cfg)
    = (samp (NewKeystoneExporter pr cfg) ''projects'' (f64_of_nat (length ps)) [] #
       (if MetricIsDisabled (new_base ''identity'' cfg) ''project_info'' then []
        else map (project_sample (NewKeystoneExporter pr cfg)) ps), Done)"
proof -
  let ?ex = "NewKeystoneExporter pr cfg" and ?b = "new_base ''identity'' cfg"
  have found: "registered ?ex (m_Name m) (length (m_Labels m))"
    if "m \<in> set defaultKeystoneMetrics" and "\<not> MetricIsDisabled ?b (m_Name m)" for m
  proof -
    have "enabled ?b m"
      using that by (auto simp: enabled_def isSlowMetric_def isDeprecatedMetric_def defaultKeystoneMetrics_def)
    with that(1) show ?thesis
      by (simp add: NewKeystoneExporter_def registered_def keystone.lookup_enabled entry_def)
  qed
  have "registered ?ex ''projects'' 0"
    using found [of "metric ''projects'' [] (Some ''ListProjects'')"] assms(2)
    by (simp add: defaultKeystoneMetrics_def)
  moreover have "registered ?ex ''project_info'' 8" if "\<not> MetricIsDisabled ?b ''project_info''"
    using found [of "defaultKeystoneMetrics ! 5"] that
    by (simp add: defaultKeystoneMetrics_def eval_nat_numeral)
  moreover have "MetricIsDisabled ?ex = MetricIsDisabled ?b"
    by (simp add: fun_eq_iff MetricIsDisabled_def NewKeystoneExporter_def)
  ultimately show ?thesis using assms(1,3)
    by (simp add: ListProjects_def emit_ok finish_def project_sample_def [abs_def] eval_nat_numeral)
qed

theorem keystone_projects_witness:
  "ListProjects sample_prom sample_identity sample_endpoints
      (NewKeystoneExporter sample_prom (sample_config\<lparr>DisabledMetrics := [''identity-project_info'']\<rparr>))
    = ([samp (NewKeystoneExporter sample_prom (sample_config\<lparr>DisabledMetrics := [''identity-project_info'']\<rparr>))
         ''projects'' 1 []], Done)"
proof -
  let ?cfg = "sample_config\<lparr>DisabledMetrics := [''identity-project_info'']\<rparr>"
  let ?ex = "NewKeystoneExporter sample_prom ?cfg"
  have fields: "TenantID ?ex = []" "ServiceName ?ex = []" "DomainID ?ex = []"
    by (simp_all add: NewKeystoneExporter_def sample_config_def)
  have "\<exists>p. GetProjects sample_identity sample_endpoints ?ex = Inr [p]"
    by (simp add: GetProjects_def newIdentityV3ClientV2FromExporter_def sample_identity_def
        sample_endpoints_def fields)
  then obtain p where "GetProjects sample_identity sample_endpoints ?ex = Inr [p]" ..
  moreover have "\<not> MetricIsDisabled (new_base ''identity'' ?cfg) ''projects''"
    "MetricIsDisabled (new_base ''identity'' ?cfg) ''project_info''"
    by (simp_all add: MetricIsDisabled_iff)
  ultimately show ?thesis
    using keystone_projects [OF sample_prom_accepts, of ?cfg sample_identity sample_endpoints "[p]"]
    by (simp add: one_f64_def)
qed

end
