(* ===== verification/Object_Store.thy ===== *)
theory Object_Store
  imports Base_Exporter
begin

text \<open>
  \<^verbatim>\<open>exporters/objectstore.go\<close>: the containers of the object store, read page by page. The client's
  \<^verbatim>\<open>EachPage\<close> is its sequence of pages, each with what \<^verbatim>\<open>ExtractInfo\<close> makes of it, and the error
  that ended the paging, if any; it stops at the first page whose handler fails.
\<close>

record Container =
  co_Name :: string
  co_Count :: int
  co_Bytes :: int

type_synonym pages = "Container list fallible list \<times> go_error option"

definition defaultObjectStoreMetrics :: "Metric list" where
  "defaultObjectStoreMetrics =
    [metric ''objects'' [''container_name''] (Some ''ListContainers''),
     metric ''bytes'' [''container_name''] None]"

definition NewObjectStoreExporter :: "prom \<Rightarrow> ExporterConfig \<Rightarrow> exporter" where
  "NewObjectStoreExporter pr config =
     register_table pr defaultObjectStoreMetrics (new_base ''object_store'' config)"

definition container_page :: "prom \<Rightarrow> exporter \<Rightarrow> Container list fallible \<Rightarrow> coll" where
  "container_page pr ex page = try_get page (\<lambda>containerList.
     for_each containerList (\<lambda>c. in_order
       [emit pr ex ''objects'' (f64_of_int (co_Count c)) [co_Name c],
        emit pr ex ''bytes'' (f64_of_int (co_Bytes c)) [co_Name c]]))"

definition ListContainers :: "prom \<Rightarrow> pages \<Rightarrow> exporter \<Rightarrow> coll" where
  "ListContainers pr ps ex =
     and_then (for_each (fst ps) (container_page pr ex))
       (case snd ps of None \<Rightarrow> finish | Some e \<Rightarrow> return_error e)"

interpretation object_store: metric_table defaultObjectStoreMetrics
  by unfold_locales (simp_all add: defaultObjectStoreMetrics_def reserved_def)

section \<open>Properties\<close>

definition container_samples :: "exporter \<Rightarrow> Container \<Rightarrow> sample list" where
  "container_samples ex c =
     [samp ex ''objects'' (f64_of_int (co_Count c)) [co_Name c],
      samp ex ''bytes'' (f64_of_int (co_Bytes c)) [co_Name c]]"

lemma container_page_ok:
  assumes "wired ex defaultObjectStoreMetrics" and "accepts_arity pr"
  shows "container_page pr ex (Inr cs) = (concat (map (container_samples ex) cs), Done)"
  using assms
  by (simp add: container_page_def wired_def defaultObjectStoreMetrics_def emit_ok container_samples_def [abs_def]
      for_each_Done)

lemma ListContainers_pages:
  assumes "wired ex defaultObjectStoreMetrics" and "accepts_arity pr"
  shows "ListContainers pr (map Inr css, None) ex
      = (concat (map (container_samples ex) (concat css)), Done)"
proof -
  have "for_each (map Inr css) (container_page pr ex)
      = (concat (map (container_samples ex) (concat css)), Done)"
    by (induction css) (simp_all add: container_page_ok [OF assms] finish_def)
  then show ?thesis by (simp add: ListContainers_def)
qed

text \<open>
  The object store's pages are reported in order, two samples per container, up to
  the first page that cannot be read: what the pages before it held has been sent, the collection
  ends with that page's error, and the pages after it are not looked at.
\<close>

theorem container_pages_until_error:
  assumes "wired ex defaultObjectStoreMetrics" and "accepts_arity pr"
  shows "ListContainers pr (map Inr css @ Inl e # rest, last_error) ex
      = (concat (map (container_samples ex) (concat css)), Failed e)
    \<and> ListContainers pr (map Inr css, None) ex
      = (concat (map (container_samples ex) (concat css)), Done)"
proof -
  have "for_each (map Inr css) (container_page pr ex)
      = (concat (map (container_samples ex) (concat css)), Done)"
    using ListContainers_pages [OF assms, of css] by (simp add: ListContainers_def)
  moreover have "for_each (Inl e # rest) (container_page pr ex) = ([], Failed e)"
    by (simp add: container_page_def return_error_def)
  ultimately show ?thesis
    using ListContainers_pages [OF assms] by (simp add: ListContainers_def for_each_append)
qed

theorem container_pages_until_error_witness:
  "ListContainers sample_prom
      ([Inr [\<lparr>co_Name = ''c'', co_Count = 2, co_Bytes = 7\<rparr>], Inl (Msg_error ''gone'')], None)
      (NewObjectStoreExporter sample_prom sample_config)
    = (container_samples (NewObjectStoreExporter sample_prom sample_config)
         \<lparr>co_Name = ''c'', co_Count = 2, co_Bytes = 7\<rparr>, Failed (Msg_error ''gone''))"
proof -
  have "wired (NewObjectStoreExporter sample_prom sample_config) defaultObjectStoreMetrics"
    by (simp add: NewObjectStoreExporter_def object_store.wired_register)
  from container_pages_until_error [OF this sample_prom_accepts,
      where css = "[[\<lparr>co_Name = ''c'', co_Count = 2, co_Bytes = 7\<rparr>]]" and rest = "[]"]
  show ?thesis by simp
qed

end
