(* ===== verification/Load_Balancer.thy ===== *)
theory Load_Balancer
  imports Status_Map Go_Time
begin

text \<open>
  \<^verbatim>\<open>exporters/loadbalancer.go\<close>: load balancers, amphorae and pools. The constructor registers every
  metric of the table, whatever the slow and deprecated flags say.
\<close>

record LoadBalancer =
  lb_ID :: string
  lb_Name :: string
  lb_ProjectID :: string
  lb_OperatingStatus :: string
  lb_ProvisioningStatus :: string
  lb_Provider :: string
  lb_VipAddress :: string

record Amphora =
  am_ID :: string
  am_LoadbalancerID :: string
  am_ComputeID :: string
  am_Status :: string
  am_Role :: string
  am_LBNetworkIP :: string
  am_HAIP :: string
  am_CertExpiration :: Time

text \<open>The identifiers of a pool's load balancers stand for its list of \<^verbatim>\<open>LoadBalancerID\<close>.\<close>

record Pool =
  po_ID :: string
  po_ProvisioningStatus :: string
  po_Name :: string
  po_Loadbalancers :: "string list"
  po_Protocol :: string
  po_LBMethod :: string
  po_OperatingStatus :: string
  po_ProjectID :: string

definition knownLoadbalancerStatuses :: status_codes where
  "knownLoadbalancerStatuses =
    [(''ONLINE'', 0),
     (''DRAINING'', 1),
     (''OFFLINE'', 2),
     (''ERROR'', 3),
     (''NO_MONITOR'', 4)]"

definition knownAmphoraStatuses :: status_codes where
  "knownAmphoraStatuses =
    [(''BOOTING'', 0),
     (''ALLOCATED'', 1),
     (''READY'', 2),
     (''PENDING_CREATE'', 3),
     (''PENDING_DELETE'', 4),
     (''DELETED'', 5),
     (''ERROR'', 6)]"

definition knownPoolStatuses :: status_codes where
  "knownPoolStatuses =
    [(''ACTIVE'', 0),
     (''DELETED'', 1),
     (''ERROR'', 2),
     (''PENDING_CREATE'', 3),
     (''PENDING_UPDATE'', 4),
     (''PENDING_DELETE'', 5)]"

definition defaultLoadbalancerMetrics :: "Metric list" where
  "defaultLoadbalancerMetrics =
    [metric ''total_loadbalancers'' [] (Some ''ListAllLoadbalancers''),
     metric ''loadbalancer_status'' [''id'', ''name'', ''project_id'', ''operating_status'',
         ''provisioning_status'', ''provider'', ''vip_address''] None,
     metric ''total_amphorae'' [] (Some ''ListAllAmphorae''),
     metric ''amphora_status'' [''id'', ''loadbalancer_id'', ''compute_id'', ''status'',
         ''role'', ''lb_network_ip'', ''ha_ip'', ''cert_expiration''] None,
     metric ''total_pools'' [] (Some ''ListAllPools''),
     metric ''pool_status'' [''id'', ''provisioning_status'', ''name'', ''loadbalancers'',
         ''protocol'', ''lb_algorithm'', ''operating_status'', ''project_id''] None]"

definition mapLoadbalancerStatus :: "string \<Rightarrow> int" where
  "mapLoadbalancerStatus current = mapStatus knownLoadbalancerStatuses current"

definition mapAmphoraStatus :: "string \<Rightarrow> int" where
  "mapAmphoraStatus current = mapStatus knownAmphoraStatuses current"

definition mapPoolStatus :: "string \<Rightarrow> int" where
  "mapPoolStatus current = mapStatus knownPoolStatuses current"

definition NewLoadbalancerExporter :: "prom \<Rightarrow> ExporterConfig \<Rightarrow> exporter" where
  "NewLoadbalancerExporter pr config = fold
     (\<lambda>m. AddMetric pr (m_Name m) (m_Fn m) (m_Labels m) (m_DeprecatedVersion m) None)
     defaultLoadbalancerMetrics (new_base ''loadbalancer'' config)"

definition ListAllLoadbalancers :: "prom \<Rightarrow> LoadBalancer list fallible \<Rightarrow> exporter \<Rightarrow> coll" where
  "ListAllLoadbalancers pr api ex = try_get api (\<lambda>allLoadbalancers. and_then
     (emit pr ex ''total_loadbalancers'' (f64_of_nat (length allLoadbalancers)) [])
     (for_each allLoadbalancers (\<lambda>lb. emit pr ex ''loadbalancer_status''
       (f64_of_int (mapLoadbalancerStatus (lb_OperatingStatus lb)))
       [lb_ID lb, lb_Name lb, lb_ProjectID lb, lb_OperatingStatus lb, lb_ProvisioningStatus lb,
        lb_Provider lb, lb_VipAddress lb])))"

definition ListAllAmphorae :: "prom \<Rightarrow> Amphora list fallible \<Rightarrow> exporter \<Rightarrow> coll" where
  "ListAllAmphorae pr api ex = try_get api (\<lambda>allAmphorae. and_then
     (emit pr ex ''total_amphorae'' (f64_of_nat (length allAmphorae)) [])
     (for_each allAmphorae (\<lambda>a. emit pr ex ''amphora_status''
       (f64_of_int (mapAmphoraStatus (am_Status a)))
       [am_ID a, am_LoadbalancerID a, am_ComputeID a, am_Status a, am_Role a, am_LBNetworkIP a,
        am_HAIP a, Format_RFC3339 (am_CertExpiration a)])))"

fun lbsLabels_loop :: "nat \<Rightarrow> string list \<Rightarrow> string \<Rightarrow> string" where
  "lbsLabels_loop i [] label = label"
| "lbsLabels_loop i (l # ls) label =
     lbsLabels_loop (Suc i) ls ((if i \<noteq> 0 then label @ '','' else label) @ l)"

definition lbsLabels :: "string list \<Rightarrow> string" where
  "lbsLabels lbs = lbsLabels_loop 0 lbs []"

definition ListAllPools :: "prom \<Rightarrow> Pool list fallible \<Rightarrow> exporter \<Rightarrow> coll" where
  "ListAllPools pr api ex = try_get api (\<lambda>allPools. and_then
     (emit pr ex ''total_pools'' (f64_of_nat (length allPools)) [])
     (for_each allPools (\<lambda>p. emit pr ex ''pool_status''
       (f64_of_int (mapPoolStatus (po_ProvisioningStatus p)))
       [po_ID p, po_ProvisioningStatus p, po_Name p, lbsLabels (po_Loadbalancers p), po_Protocol p,
        po_LBMethod p, po_OperatingStatus p, po_ProjectID p])))"

interpretation loadbalancer_statuses: status_table knownLoadbalancerStatuses
  by unfold_locales (simp_all add: knownLoadbalancerStatuses_def upt_rec)

interpretation amphora_statuses: status_table knownAmphoraStatuses
  by unfold_locales (simp_all add: knownAmphoraStatuses_def upt_rec)

interpretation pool_statuses: status_table knownPoolStatuses
  by unfold_locales (simp_all add: knownPoolStatuses_def upt_rec)

interpretation loadbalancer: metric_table defaultLoadbalancerMetrics
  by unfold_locales (simp_all add: defaultLoadbalancerMetrics_def reserved_def)

text \<open>
  No entry is slow or deprecated, so the bare loop registers the same metrics as the usual one.
\<close>

lemma NewLoadbalancerExporter_register:
  "NewLoadbalancerExporter pr config
    = register_table pr defaultLoadbalancerMetrics (new_base ''loadbalancer'' config)"
  by (simp add: NewLoadbalancerExporter_def register_table_def defaultLoadbalancerMetrics_def
      register_metric_def isDeprecatedMetric_def isSlowMetric_def)

lemma loadbalancer_wired:
  "wired (NewLoadbalancerExporter pr sample_config) defaultLoadbalancerMetrics"
  by (simp add: NewLoadbalancerExporter_register loadbalancer.wired_register)

section \<open>Functional behaviour\<close>

lemma lbsLabels_loop_Join:
  "ls0 \<noteq> [] \<Longrightarrow> i \<noteq> 0 \<Longrightarrow>
     lbsLabels_loop i ls (strings_Join ls0 '','') = strings_Join (ls0 @ ls) '',''"
proof (induction ls arbitrary: i ls0)
  case (Cons l ls)
  then have "lbsLabels_loop (Suc i) ls (strings_Join (ls0 @ [l]) '','') = strings_Join ((ls0 @ [l]) @ ls) '',''"
    by (intro Cons.IH) simp_all
  with Cons.prems show ?case by (simp add: Join_snoc)
qed simp

text \<open>The hand-written loop of \<^verbatim>\<open>lbsLabels\<close> is \<^verbatim>\<open>strings.Join\<close>.\<close>

lemma lbsLabels_Join: "lbsLabels ls = strings_Join ls '',''"
proof (cases ls)
  case (Cons l rest)
  then show ?thesis using lbsLabels_loop_Join [of "[l]" 1 rest] by (simp add: lbsLabels_def)
qed (simp add: lbsLabels_def)

definition pool_sample :: "exporter \<Rightarrow> Pool \<Rightarrow> sample" where
  "pool_sample ex p = samp ex ''pool_status'' (f64_of_int (mapPoolStatus (po_ProvisioningStatus p)))
     [po_ID p, po_ProvisioningStatus p, po_Name p, lbsLabels (po_Loadbalancers p), po_Protocol p,
      po_LBMethod p, po_OperatingStatus p, po_ProjectID p]"

lemma ListAllPools_ok:
  "wired ex defaultLoadbalancerMetrics \<Longrightarrow> accepts_arity pr \<Longrightarrow>
     ListAllPools pr (Inr ps) ex
       = (samp ex ''total_pools'' (f64_of_nat (length ps)) [] # map (pool_sample ex) ps, Done)"
  by (simp add: ListAllPools_def wired_def defaultLoadbalancerMetrics_def emit_ok pool_sample_def [abs_def])

definition loadbalancer_sample :: "exporter \<Rightarrow> LoadBalancer \<Rightarrow> sample" where
  "loadbalancer_sample ex lb = samp ex ''loadbalancer_status''
     (f64_of_int (mapLoadbalancerStatus (lb_OperatingStatus lb)))
     [lb_ID lb, lb_Name lb, lb_ProjectID lb, lb_OperatingStatus lb, lb_ProvisioningStatus lb,
      lb_Provider lb, lb_VipAddress lb]"

lemma ListAllLoadbalancers_ok:
  "wired ex defaultLoadbalancerMetrics \<Longrightarrow> accepts_arity pr \<Longrightarrow>
     ListAllLoadbalancers pr (Inr ls) ex
       = (samp ex ''total_loadbalancers'' (f64_of_nat (length ls)) [] # map (loadbalancer_sample ex) ls, Done)"
  by (simp add: ListAllLoadbalancers_def wired_def defaultLoadbalancerMetrics_def emit_ok
      loadbalancer_sample_def [abs_def])

definition amphora_sample :: "exporter \<Rightarrow> Amphora \<Rightarrow> sample" where
  "amphora_sample ex a = samp ex ''amphora_status'' (f64_of_int (mapAmphoraStatus (am_Status a)))
     [am_ID a, am_LoadbalancerID a, am_ComputeID a, am_Status a, am_Role a, am_LBNetworkIP a,
      am_HAIP a, Format_RFC3339 (am_CertExpiration a)]"

lemma ListAllAmphorae_ok:
  "wired ex defaultLoadbalancerMetrics \<Longrightarrow> accepts_arity pr \<Longrightarrow>
     ListAllAmphorae pr (Inr as) ex
       = (samp ex ''total_amphorae'' (f64_of_nat (length as)) [] # map (amphora_sample ex) as, Done)"
  by (simp add: ListAllAmphorae_def wired_def defaultLoadbalancerMetrics_def emit_ok
      amphora_sample_def [abs_def])

section \<open>Properties\<close>

text \<open>
  The label that names a pool's load balancers can be read back: splitting it at the
  commas gives their identifiers, in order, as long as there is one and none contains a comma.
\<close>

theorem pool_label_roundtrip:
  assumes "lbs \<noteq> []" and "\<And>l. l \<in> set lbs \<Longrightarrow> CHR '','' \<notin> set l"
  shows "strings_Split (CHR '','') (lbsLabels lbs) = lbs"
  using strings_Split_Join [of lbs "CHR '',''"] assms by (simp add: lbsLabels_Join)

theorem pool_label_roundtrip_witness:
  "strings_Split (CHR '','') (lbsLabels [''a'', '''', ''b'']) = [''a'', '''', ''b'']"
  by (rule pool_label_roundtrip) auto

end
