(* ===== verification/Container_Infra.thy ===== *)
theory Container_Infra
  imports Status_Map
begin

text \<open>
  \<^verbatim>\<open>exporters/containerinfra.go\<close>: the number of clusters, their master and node counts and status.
\<close>

record Cluster =
  cr_UUID :: string
  cr_Name :: string
  cr_StackID :: string
  cr_Status :: string
  cr_NodeCount :: int
  cr_MasterCount :: int
  cr_ProjectID :: string

definition knownClusterStatuses :: status_codes where
  "knownClusterStatuses =
    [(''CREATE_COMPLETE'', 0),
     (''CREATE_FAILED'', 1),
     (''CREATE_IN_PROGRESS'', 2),
     (''UPDATE_IN_PROGRESS'', 3),
     (''UPDATE_FAILED'', 4),
     (''UPDATE_COMPLETE'', 5),
     (''DELETE_IN_PROGRESS'', 6),
     (''DELETE_FAILED'', 7),
     (''DELETE_COMPLETE'', 8),
     (''RESUME_COMPLETE'', 9),
     (''RESUME_FAILED'', 10),
     (''RESTORE_COMPLETE'', 11),
     (''ROLLBACK_IN_PROGRESS'', 12),
     (''ROLLBACK_FAILED'', 13),
     (''ROLLBACK_COMPLETE'', 14),
     (''SNAPSHOT_COMPLETE'', 15),
     (''CHECK_COMPLETE'', 16),
     (''ADOPT_COMPLETE'', 17)]"

definition defaultContainerInfraMetrics :: "Metric list" where
  "defaultContainerInfraMetrics =
    [metric ''total_clusters'' [] (Some ''ListAllClusters''),
     metric ''cluster_masters'' [''uuid'', ''name'', ''stack_id'', ''status'',
         ''node_count'', ''project_id''] None,
     metric ''cluster_nodes'' [''uuid'', ''name'', ''stack_id'', ''status'',
         ''master_count'', ''project_id''] None,
     metric ''cluster_status'' [''uuid'', ''name'', ''stack_id'', ''status'', ''node_count'',
         ''master_count'', ''project_id''] None]"

definition mapClusterStatus :: "string \<Rightarrow> int" where
  "mapClusterStatus current = mapStatus knownClusterStatuses current"

definition NewContainerInfraExporter :: "prom \<Rightarrow> ExporterConfig \<Rightarrow> exporter" where
  "NewContainerInfraExporter pr config =
     register_table pr defaultContainerInfraMetrics (new_base ''container_infra'' config)"

definition ListAllClusters :: "prom \<Rightarrow> Cluster list fallible \<Rightarrow> exporter \<Rightarrow> coll" where
  "ListAllClusters pr api ex = try_get api (\<lambda>allClusters. and_then
     (emit pr ex ''total_clusters'' (f64_of_nat (length allClusters)) [])
     (for_each allClusters (\<lambda>cluster. in_order
       [emit pr ex ''cluster_masters'' (f64_of_int (cr_MasterCount cluster))
          [cr_UUID cluster, cr_Name cluster, cr_StackID cluster, cr_Status cluster,
           strconv_Itoa (cr_NodeCount cluster), cr_ProjectID cluster],
        emit pr ex ''cluster_nodes'' (f64_of_int (cr_NodeCount cluster))
          [cr_UUID cluster, cr_Name cluster, cr_StackID cluster, cr_Status cluster,
           strconv_Itoa (cr_MasterCount cluster), cr_ProjectID cluster],
        emit pr ex ''cluster_status'' (f64_of_int (mapClusterStatus (cr_Status cluster)))
          [cr_UUID cluster, cr_Name cluster, cr_StackID cluster, cr_Status cluster,
           strconv_Itoa (cr_NodeCount cluster), strconv_Itoa (cr_MasterCount cluster),
           cr_ProjectID cluster]])))"

interpretation cluster_statuses: status_table knownClusterStatuses
  by unfold_locales (simp_all add: knownClusterStatuses_def upt_rec)

interpretation container_infra: metric_table defaultContainerInfraMetrics
  by unfold_locales (simp_all add: defaultContainerInfraMetrics_def reserved_def)

definition cluster_samples :: "exporter \<Rightarrow> Cluster \<Rightarrow> sample list" where
  "cluster_samples ex c =
     (let base = [cr_UUID c, cr_Name c, cr_StackID c, cr_Status c];
          nodes = strconv_Itoa (cr_NodeCount c);
          masters = strconv_Itoa (cr_MasterCount c)
      in [samp ex ''cluster_masters'' (f64_of_int (cr_MasterCount c)) (base @ [nodes, cr_ProjectID c]),
          samp ex ''cluster_nodes'' (f64_of_int (cr_NodeCount c)) (base @ [masters, cr_ProjectID c]),
          samp ex ''cluster_status'' (f64_of_int (mapClusterStatus (cr_Status c)))
            (base @ [nodes, masters, cr_ProjectID c])])"

lemma ListAllClusters_ok:
  "wired ex defaultContainerInfraMetrics \<Longrightarrow> accepts_arity pr \<Longrightarrow>
     ListAllClusters pr (Inr cs) ex
       = (samp ex ''total_clusters'' (f64_of_nat (length cs)) [] # concat (map (cluster_samples ex) cs), Done)"
  by (simp add: ListAllClusters_def wired_def defaultContainerInfraMetrics_def emit_ok for_each_Done
      cluster_samples_def [abs_def] Let_def)

end
