(* ===== verification/Dns.thy ===== *)
theory Dns
  imports Status_Map
begin

text \<open>
  \<^verbatim>\<open>exporters/designate.go\<close>: the zones and their record sets. The record sets of each zone are
  collected by a goroutine of an error group with a limit on how many run at a time; the group
  is a step relation, so that every interleaving of their sends is covered.

  \<^verbatim>\<open>strings.ToLower\<close> is the parameter \<open>to_lower\<close>; the laws it needs here are stated where used.
\<close>

record Zone =
  zo_ID :: string
  zo_Name :: string
  zo_Status :: string
  zo_ProjectID :: string
  zo_Type :: string

record RecordSet =
  rs_ID :: string
  rs_Name :: string
  rs_Status :: string
  rs_ZoneID :: string
  rs_ZoneName :: string
  rs_Type :: string

definition zone_status :: "string list" where
  "zone_status = [''pending'', ''active'', ''deleted'', ''error'']"

definition recordset_status :: "string list" where
  "recordset_status = [''pending'', ''active'', ''deleted'', ''error'']"

definition mapZoneStatus :: "(string \<Rightarrow> string) \<Rightarrow> string \<Rightarrow> int" where
  "mapZoneStatus to_lower zoneStatus = index_status 0 zone_status (to_lower zoneStatus)"

definition mapRecordsetStatus :: "(string \<Rightarrow> string) \<Rightarrow> string \<Rightarrow> int" where
  "mapRecordsetStatus to_lower recordsetStatus = index_status 0 recordset_status (to_lower recordsetStatus)"

definition defaultDesignateMetrics :: "Metric list" where
  "defaultDesignateMetrics =
    [metric ''zones'' [] (Some ''ListZonesAndRecordsets''),
     metric ''zone_status'' [''id'', ''name'', ''status'', ''tenant_id'', ''type''] None,
     metric ''recordsets'' [''zone_id'', ''zone_name'', ''tenant_id''] None,
     metric ''recordsets_status'' [''id'', ''name'', ''status'', ''zone_id'', ''zone_name'',
         ''type''] None]"

text \<open>The headers are set on the shared client before the metrics are registered.\<close>

definition NewDesignateExporter :: "prom \<Rightarrow> ExporterConfig \<Rightarrow> exporter" where
  "NewDesignateExporter pr config =
     (let client = (ClientV2 config)\<lparr>cl_MoreHeaders := [(''X-Auth-All-Projects'', ''True'')]\<rparr>
      in register_table pr defaultDesignateMetrics (new_base ''designate'' (config\<lparr>ClientV2 := client\<rparr>)))"

text \<open>What the goroutine of a zone sends once it has its record sets, and how it ends.\<close>

definition zone_body :: "prom \<Rightarrow> (string \<Rightarrow> string) \<Rightarrow> exporter \<Rightarrow> Zone \<Rightarrow> RecordSet list fallible \<Rightarrow> coll" where
  "zone_body pr to_lower ex zone api = try_get api (\<lambda>allRecordsets. in_order
     [emit pr ex ''recordsets'' (f64_of_nat (length allRecordsets))
        [zo_ID zone, zo_Name zone, zo_ProjectID zone],
      for_each allRecordsets (\<lambda>recordset. emit pr ex ''recordsets_status''
        (f64_of_int (mapRecordsetStatus to_lower (rs_Status recordset)))
        [rs_ID recordset, rs_Name recordset, rs_Status recordset, rs_ZoneID recordset,
         rs_ZoneName recordset, rs_Type recordset]),
      emit pr ex ''zone_status'' (f64_of_int (mapZoneStatus to_lower (zo_Status zone)))
        [zo_ID zone, zo_Name zone, zo_Status zone, zo_ProjectID zone, zo_Type zone]])"

section \<open>The error group\<close>

text \<open>
  A goroutine of the group has to fetch the record sets of its zone, or has samples left to send
  before it stops. The group starts the next zone while fewer than its limit are running (a
  negative limit is none), and remembers the first error; from then on its context is cancelled,
  so a fetch may give any error of cancelled requests instead of its own answer.
\<close>

datatype zone_task = Fetching Zone | Sending "sample list" stop

record group =
  gr_waiting :: "Zone list"
  gr_running :: "zone_task list"
  gr_sent :: "sample list"
  gr_error :: "go_error option"

definition may_start :: "int \<Rightarrow> group \<Rightarrow> bool" where
  "may_start limit g \<longleftrightarrow> limit < 0 \<or> int (length (gr_running g)) < limit"

definition group_start :: "Zone list \<Rightarrow> sample list \<Rightarrow> group" where
  "group_start zones sent = \<lparr>gr_waiting = zones, gr_running = [], gr_sent = sent, gr_error = None\<rparr>"

inductive group_step ::
  "int \<Rightarrow> (Zone \<Rightarrow> RecordSet list fallible \<Rightarrow> coll) \<Rightarrow> (string \<Rightarrow> RecordSet list fallible) \<Rightarrow>
   group \<Rightarrow> group \<Rightarrow> bool"
  for limit :: int and body :: "Zone \<Rightarrow> RecordSet list fallible \<Rightarrow> coll"
    and api :: "string \<Rightarrow> RecordSet list fallible" where
  go: "gr_waiting g = z # zs \<Longrightarrow> may_start limit g \<Longrightarrow>
    group_step limit body api g (g\<lparr>gr_waiting := zs, gr_running := gr_running g @ [Fetching z]\<rparr>)"
| fetch: "i < length (gr_running g) \<Longrightarrow> gr_running g ! i = Fetching z \<Longrightarrow>
    r = api (zo_ID z) \<or> (gr_error g \<noteq> None \<and> (\<exists>e. r = Inl e)) \<Longrightarrow>
    body z r = (xs, s) \<Longrightarrow>
    group_step limit body api g (g\<lparr>gr_running := (gr_running g)[i := Sending xs s]\<rparr>)"
| send: "i < length (gr_running g) \<Longrightarrow> gr_running g ! i = Sending (x # xs) s \<Longrightarrow>
    group_step limit body api g
      (g\<lparr>gr_running := (gr_running g)[i := Sending xs s], gr_sent := gr_sent g @ [x]\<rparr>)"
| return_ok: "gr_running g = as @ Sending [] Done # bs \<Longrightarrow>
    group_step limit body api g (g\<lparr>gr_running := as @ bs\<rparr>)"
| return_err: "gr_running g = as @ Sending [] (Failed e) # bs \<Longrightarrow>
    group_step limit body api g (g\<lparr>gr_running := as @ bs,
      gr_error := (case gr_error g of None \<Rightarrow> Some e | Some e0 \<Rightarrow> Some e0)\<rparr>)"

inductive_cases group_step_cases: "group_step limit body api g h"

inductive group_reachable ::
  "int \<Rightarrow> (Zone \<Rightarrow> RecordSet list fallible \<Rightarrow> coll) \<Rightarrow> (string \<Rightarrow> RecordSet list fallible) \<Rightarrow>
   group \<Rightarrow> group \<Rightarrow> bool"
  for limit body api g0 where
  init: "group_reachable limit body api g0 g0"
| step: "group_reachable limit body api g0 g \<Longrightarrow> group_step limit body api g h \<Longrightarrow>
    group_reachable limit body api g0 h"

text \<open>\<^verbatim>\<open>g.Wait()\<close> returns once every zone was started and every goroutine has returned.\<close>

definition group_done :: "group \<Rightarrow> bool" where
  "group_done g \<longleftrightarrow> gr_waiting g = [] \<and> gr_running g = []"

definition group_result :: "group \<Rightarrow> coll" where
  "group_result g = (gr_sent g, case gr_error g of None \<Rightarrow> Done | Some e \<Rightarrow> Failed e)"

text \<open>
  A collection ends with \<open>c\<close>: the request for the zones fails, or some run of the group ends with
  it. The number of zones is sent before the group starts.
\<close>

definition ListZonesAndRecordsets ::
  "prom \<Rightarrow> (string \<Rightarrow> string) \<Rightarrow> Zone list fallible \<Rightarrow> (string \<Rightarrow> RecordSet list fallible) \<Rightarrow>
   exporter \<Rightarrow> coll \<Rightarrow> bool" where
  "ListZonesAndRecordsets pr to_lower zones_api api ex c \<longleftrightarrow>
     (case zones_api of
        Inl e \<Rightarrow> c = return_error e
      | Inr allZones \<Rightarrow>
          (case emit pr ex ''zones'' (f64_of_nat (length allZones)) [] of
             (xs, Done) \<Rightarrow>
               (\<exists>g. group_reachable (GetDnsConcurrencyCount ex) (zone_body pr to_lower ex) api
                      (group_start allZones xs) g \<and> group_done g \<and> c = group_result g)
           | (xs, s) \<Rightarrow> c = (xs, s)))"

section \<open>Tables\<close>

interpretation zone_statuses: status_table "numbered zone_status"
  by (rule numbered_table) (simp add: zone_status_def)

interpretation designate: metric_table defaultDesignateMetrics
  by unfold_locales (simp_all add: defaultDesignateMetrics_def reserved_def)

lemma NewDesignate_wired: "wired (NewDesignateExporter pr sample_config) defaultDesignateMetrics"
proof -
  have "enabled (new_base ''designate'' (sample_config\<lparr>ClientV2 := c\<rparr>)) m" for c m
    by (rule enabled_default) (simp_all add: sample_config_def)
  then show ?thesis by (simp add: NewDesignateExporter_def Let_def designate.wired_register)
qed

section \<open>Invariants of the group\<close>

definition zone_samples ::
  "(string \<Rightarrow> string) \<Rightarrow> exporter \<Rightarrow> Zone \<Rightarrow> RecordSet list \<Rightarrow> sample list" where
  "zone_samples to_lower ex zone rss =
     samp ex ''recordsets'' (f64_of_nat (length rss)) [zo_ID zone, zo_Name zone, zo_ProjectID zone] #
     map (\<lambda>r. samp ex ''recordsets_status'' (f64_of_int (mapRecordsetStatus to_lower (rs_Status r)))
       [rs_ID r, rs_Name r, rs_Status r, rs_ZoneID r, rs_ZoneName r, rs_Type r]) rss @
     [samp ex ''zone_status'' (f64_of_int (mapZoneStatus to_lower (zo_Status zone)))
       [zo_ID zone, zo_Name zone, zo_Status zone, zo_ProjectID zone, zo_Type zone]]"

lemma zone_body_ok:
  "wired ex defaultDesignateMetrics \<Longrightarrow> accepts_arity pr \<Longrightarrow>
     zone_body pr to_lower ex zone (Inr rss) = (zone_samples to_lower ex zone rss, Done)"
  by (simp add: zone_body_def wired_def defaultDesignateMetrics_def emit_ok zone_samples_def)

lemma zone_body_error: "zone_body pr to_lower ex zone (Inl e) = ([], Failed e)"
  by (simp add: zone_body_def return_error_def)

text \<open>
  The samples still to come, when every request answers: those left in the running tasks and
  those of the zones that were not fetched.
\<close>

fun task_samples :: "(Zone \<Rightarrow> sample list) \<Rightarrow> zone_task \<Rightarrow> sample list" where
  "task_samples f (Fetching z) = f z"
| "task_samples f (Sending xs s) = xs"

definition group_total :: "(Zone \<Rightarrow> sample list) \<Rightarrow> group \<Rightarrow> sample multiset" where
  "group_total f g = mset (gr_sent g) + (\<Sum>t\<leftarrow>gr_running g. mset (task_samples f t))
     + (\<Sum>z\<leftarrow>gr_waiting g. mset (f z))"

fun task_ok :: "Zone list \<Rightarrow> zone_task \<Rightarrow> bool" where
  "task_ok zs (Fetching z) \<longleftrightarrow> z \<in> set zs"
| "task_ok zs (Sending xs s) \<longleftrightarrow> s = Done"

definition group_ok :: "int \<Rightarrow> Zone list \<Rightarrow> group \<Rightarrow> bool" where
  "group_ok limit zs g \<longleftrightarrow> gr_error g = None \<and> set (gr_waiting g) \<subseteq> set zs \<and>
     list_all (task_ok zs) (gr_running g) \<and> (0 \<le> limit \<longrightarrow> int (length (gr_running g)) \<le> limit)"

lemma list_all_update: "list_all P ts \<Longrightarrow> P t \<Longrightarrow> list_all P (ts[i := t])"
  using set_update_subset_insert [of ts i t] by (auto simp: list_all_iff)

lemma sum_list_mset_update:
  "i < length ts \<Longrightarrow> (\<Sum>t\<leftarrow>ts[i := t']. mset (h t)) + mset (h (ts ! i))
     = (\<Sum>t\<leftarrow>ts. mset (h t)) + mset (h t')"
  by (induction ts arbitrary: i) (auto simp: nth_Cons ac_simps split: nat.splits)

lemma group_step_ok:
  assumes "group_step limit body api g h" and "group_ok limit zs g"
    and "\<And>z. z \<in> set zs \<Longrightarrow> body z (api (zo_ID z)) = (f z, Done)"
  shows "group_ok limit zs h \<and> group_total f h = group_total f g"
  using assms(1)
proof (cases rule: group_step.cases)
  case (go z rest)
  with assms(2) show ?thesis
    by (auto simp: group_ok_def group_total_def may_start_def ac_simps)
next
  case (fetch i z r xs s)
  have z: "z \<in> set zs"
    using fetch(2,3) assms(2) by (metis group_ok_def list_all_length task_ok.simps(1))
  have "r = api (zo_ID z)" using fetch(4) assms(2) by (auto simp: group_ok_def)
  then have xs: "xs = f z" "s = Done" using fetch(5) assms(3) [OF z] by simp_all
  have "(\<Sum>t\<leftarrow>(gr_running g)[i := Sending xs s]. mset (task_samples f t))
      = (\<Sum>t\<leftarrow>gr_running g. mset (task_samples f t))"
    using sum_list_mset_update [OF fetch(2), of "task_samples f" "Sending xs s"] fetch(3) xs by simp
  moreover have "group_ok limit zs h"
    using assms(2) unfolding fetch(1) group_ok_def by (simp add: list_all_update xs)
  ultimately show ?thesis by (simp add: fetch(1) group_total_def)
next
  case (send i x xs s)
  have s: "s = Done"
    using send(2,3) assms(2) by (metis group_ok_def list_all_length task_ok.simps(2))
  let ?t = "\<lambda>ts. \<Sum>t\<leftarrow>ts. mset (task_samples f t)"
  have "?t ((gr_running g)[i := Sending xs s]) + mset (x # xs) = ?t (gr_running g) + mset xs"
    using sum_list_mset_update [OF send(2), of "task_samples f" "Sending xs s"] send(3) by simp
  then have "?t ((gr_running g)[i := Sending xs s]) + {#x#} = ?t (gr_running g)"
    by (simp add: add_eq_conv_ex)
  moreover have "group_ok limit zs h"
    using assms(2) unfolding send(1) group_ok_def by (simp add: list_all_update s)
  ultimately show ?thesis by (simp add: send(1) group_total_def ac_simps)
next
  case (return_ok as bs)
  with assms(2) show ?thesis by (auto simp: group_ok_def group_total_def)
next
  case (return_err as e bs)
  with assms(2) show ?thesis by (auto simp: group_ok_def)
qed

lemma group_reachable_ok:
  assumes "group_reachable limit body api (group_start zs xs) g"
    and "\<And>z. z \<in> set zs \<Longrightarrow> body z (api (zo_ID z)) = (f z, Done)"
  shows "group_ok limit zs g \<and> group_total f g = mset xs + (\<Sum>z\<leftarrow>zs. mset (f z))"
  using assms(1)
proof (induction rule: group_reachable.induct)
  case init
  show ?case by (simp add: group_ok_def group_start_def group_total_def)
next
  case (step g h)
  with group_step_ok [OF step.hyps(2), of zs f] assms(2) show ?case by simp
qed

text \<open>
  The limit holds in every state, and a state that is not done can move: the group never waits
  for ever, unless its limit is zero.
\<close>

lemma group_limit:
  assumes "group_reachable limit body api (group_start zs xs) g" and "0 \<le> limit"
  shows "int (length (gr_running g)) \<le> limit"
  using assms(1)
proof (induction rule: group_reachable.induct)
  case init
  then show ?case using assms(2) by (simp add: group_start_def)
next
  case (step g h)
  from step.hyps(2) step.IH assms(2) show ?case
    by (cases rule: group_step.cases) (auto simp: may_start_def)
qed

definition no_panic :: "group \<Rightarrow> bool" where
  "no_panic g \<longleftrightarrow> (\<forall>xs p. Sending xs (Panicked p) \<notin> set (gr_running g))"

lemma group_progress:
  assumes "\<not> group_done g" and "limit \<noteq> 0" and "no_panic g"
  shows "\<exists>h. group_step limit body api g h"
proof (cases "gr_running g")
  case Nil
  then obtain z zs where "gr_waiting g = z # zs" using assms(1) by (cases "gr_waiting g") (auto simp: group_done_def)
  moreover have "may_start limit g" using Nil assms(2) by (auto simp: may_start_def)
  ultimately show ?thesis by (blast intro: group_step.go)
next
  case (Cons t ts)
  then have t: "0 < length (gr_running g)" "gr_running g ! 0 = t" by simp_all
  show ?thesis
  proof (cases t)
    case (Fetching z)
    obtain xs s where "body z (api (zo_ID z)) = (xs, s)" by fastforce
    with t Fetching show ?thesis by (blast intro: group_step.fetch)
  next
    case (Sending xs s)
    show ?thesis
    proof (cases xs)
      case (Cons x rest)
      with t Sending show ?thesis by (blast intro: group_step.send)
    next
      case Nil
      then have "s = Done \<or> (\<exists>e. s = Failed e)"
        using Sending Cons assms(3) by (cases s) (auto simp: no_panic_def)
      moreover have "gr_running g = [] @ Sending [] s # ts" using Cons Sending Nil by simp
      ultimately show ?thesis by (blast intro: group_step.return_ok group_step.return_err)
    qed
  qed
qed

lemma group_zero_stuck:
  assumes "group_reachable 0 body api (group_start zs xs) g"
  shows "g = group_start zs xs"
  using assms
proof (induction rule: group_reachable.induct)
  case (step g h)
  from step.hyps(2) show ?case
    unfolding step.IH by (cases rule: group_step.cases) (auto simp: group_start_def may_start_def)
qed simp

text \<open>
  Every step takes something off the work that is left, whatever the requests answer: what a
  request for records gives after the group was cancelled is an error, and sends nothing.
\<close>

fun task_work :: "(Zone \<Rightarrow> sample list) \<Rightarrow> zone_task \<Rightarrow> nat" where
  "task_work f (Fetching z) = 2 + length (f z)"
| "task_work f (Sending xs s) = 1 + length xs"

definition group_work :: "(Zone \<Rightarrow> sample list) \<Rightarrow> group \<Rightarrow> nat" where
  "group_work f g = (\<Sum>t\<leftarrow>gr_running g. task_work f t) + (\<Sum>z\<leftarrow>gr_waiting g. 3 + length (f z))"

lemma sum_list_work_update:
  "i < length ts \<Longrightarrow> (\<Sum>t\<leftarrow>ts[i := t']. h t) + h (ts ! i) = (\<Sum>t\<leftarrow>ts. h t) + (h t' :: nat)"
  by (induction ts arbitrary: i) (auto simp: nth_Cons split: nat.splits)

lemma group_step_work:
  assumes "group_step limit body api g h" and "\<And>z e. fst (body z (Inl e)) = []"
  shows "group_work (\<lambda>z. fst (body z (api (zo_ID z)))) h < group_work (\<lambda>z. fst (body z (api (zo_ID z)))) g"
    (is "group_work ?f h < group_work ?f g")
  using assms(1)
proof (cases rule: group_step.cases)
  case (fetch i z r xs s)
  then have "xs = ?f z \<or> xs = []" using assms(2) by (metis fst_conv)
  then show ?thesis
    using sum_list_work_update [OF fetch(2), of "task_work ?f" "Sending xs s"] fetch(3)
    by (auto simp: fetch(1) group_work_def)
next
  case (send i x xs s)
  then show ?thesis
    using sum_list_work_update [OF send(2), of "task_work ?f" "Sending xs s"]
    by (simp add: group_work_def)
qed (simp_all add: group_work_def)

lemma group_no_infinite_run:
  assumes "\<And>z e. fst (body z (Inl e)) = []"
  shows "\<not> (\<exists>run. \<forall>n. group_step limit body api (run n) (run (Suc n)))"
proof
  let ?w = "group_work (\<lambda>z. fst (body z (api (zo_ID z))))"
  assume "\<exists>run. \<forall>n. group_step limit body api (run n) (run (Suc n))"
  then obtain run where "\<And>n. group_step limit body api (run n) (run (Suc n))" by blast
  then have "(run (Suc n), run n) \<in> measure ?w" for n
    using group_step_work assms by (simp only: in_measure) blast
  then show False using wf_no_infinite_down_chainE [OF wf_measure [of ?w], of run] by blast
qed

lemma group_no_panic:
  assumes "group_reachable limit body api (group_start zs xs) g"
    and "\<And>z r p. snd (body z r) \<noteq> Panicked p"
  shows "no_panic g"
  using assms(1)
proof (induction rule: group_reachable.induct)
  case init
  show ?case by (simp add: no_panic_def group_start_def)
next
  case (step g h)
  note IH = step.IH [unfolded no_panic_def, rule_format]
  from step.hyps(2) show ?case
  proof (cases rule: group_step.cases)
    case (fetch i z r xs s)
    have "s \<noteq> Panicked p" for p using assms(2) [of z r] fetch(5) by auto
    moreover have "set (gr_running h) \<subseteq> insert (Sending xs s) (set (gr_running g))"
      by (simp add: fetch(1) set_update_subset_insert)
    ultimately show ?thesis using IH unfolding no_panic_def by blast
  next
    case (send i x xs s)
    have "s \<noteq> Panicked p" for p using IH nth_mem [OF send(2)] unfolding send(3) by metis
    moreover have "set (gr_running h) \<subseteq> insert (Sending xs s) (set (gr_running g))"
      by (simp add: send(1) set_update_subset_insert)
    ultimately show ?thesis using IH unfolding no_panic_def by blast
  qed (use IH in \<open>auto simp: no_panic_def\<close>)
qed

lemma group_returns:
  assumes "limit \<noteq> 0" and "\<And>z e. fst (body z (Inl e)) = []" and "\<And>z r p. snd (body z r) \<noteq> Panicked p"
    and "group_reachable limit body api (group_start zs xs) g"
  shows "\<exists>h. group_reachable limit body api (group_start zs xs) h \<and> group_done h"
  using assms(4)
proof (induction "group_work (\<lambda>z. fst (body z (api (zo_ID z)))) g" arbitrary: g rule: less_induct)
  case less
  show ?case
  proof (cases "group_done g")
    case False
    then obtain h where h: "group_step limit body api g h"
      using group_progress assms(1) group_no_panic [OF less.prems assms(3)] by blast
    with less.hyps [OF group_step_work [OF h assms(2)]] group_reachable.step [OF less.prems h]
    show ?thesis by blast
  qed (use less.prems in blast)
qed

text \<open>With its metrics registered, the goroutine of a zone cannot panic.\<close>

lemma zone_body_stops:
  assumes "wired ex defaultDesignateMetrics" and "accepts_arity pr"
  shows "snd (zone_body pr to_lower ex z r) \<noteq> Panicked p"
    and "fst (zone_body pr to_lower ex z (Inl e)) = []"
  by (cases r; simp add: zone_body_ok [OF assms] zone_body_error) (simp add: zone_body_error)

section \<open>Properties\<close>


definition sample_zone :: Zone where
  "sample_zone = \<lparr>zo_ID = ''z1'', zo_Name = ''example.org.'', zo_Status = ''ACTIVE'', zo_ProjectID = ''p'',
     zo_Type = ''PRIMARY''\<rparr>"

definition dns_sample :: exporter where
  "dns_sample = NewDesignateExporter sample_prom sample_config"

lemma dns_sample_wired: "wired dns_sample defaultDesignateMetrics"
  unfolding dns_sample_def by (rule NewDesignate_wired)

lemma dns_sample_limit: "GetDnsConcurrencyCount dns_sample = 10"
  by (simp add: dns_sample_def NewDesignateExporter_def GetDnsConcurrencyCount_def sample_config_def)

lemma dns_run:
  assumes "wired ex defaultDesignateMetrics" and "accepts_arity pr" and "GetDnsConcurrencyCount ex \<noteq> 0"
  shows "\<exists>c. ListZonesAndRecordsets pr to_lower zones_api api ex c"
proof (cases zones_api)
  case (Inr zs)
  let ?body = "zone_body pr to_lower ex" and ?z = "samp ex ''zones'' (f64_of_nat (length zs)) []"
  have "emit pr ex ''zones'' (f64_of_nat (length zs)) [] = ([?z], Done)"
    using assms(1,2) by (simp add: wired_def defaultDesignateMetrics_def emit_ok)
  moreover obtain h where "group_reachable (GetDnsConcurrencyCount ex) ?body api (group_start zs [?z]) h"
    "group_done h"
    using group_returns [OF assms(3), of ?body] zone_body_stops [OF assms(1,2)] group_reachable.init
    by metis
  ultimately have "ListZonesAndRecordsets pr to_lower zones_api api ex (group_result h)"
    by (simp add: ListZonesAndRecordsets_def Inr) blast
  then show ?thesis ..
qed (simp add: ListZonesAndRecordsets_def)

text \<open>
  Property C20. With a concurrency other than zero, whatever the requests answer, the collection of
  the zones can always return: no goroutine of the group panics, the group cannot come to a stand
  before its last goroutine is done, and it has no infinite run.
\<close>

theorem dns_returns:
  assumes "wired ex defaultDesignateMetrics" and "accepts_arity pr" and "GetDnsConcurrencyCount ex \<noteq> 0"
  shows "(\<exists>c. ListZonesAndRecordsets pr to_lower zones_api api ex c) \<and>
    \<not> (\<exists>run. \<forall>n. group_step (GetDnsConcurrencyCount ex) (zone_body pr to_lower ex) api (run n) (run (Suc n))) \<and>
    (\<forall>g. group_reachable (GetDnsConcurrencyCount ex) (zone_body pr to_lower ex) api (group_start zs xs) g
      \<longrightarrow> group_done g \<or> (\<exists>h. group_step (GetDnsConcurrencyCount ex) (zone_body pr to_lower ex) api g h))"
proof (intro conjI allI impI)
  show "\<exists>c. ListZonesAndRecordsets pr to_lower zones_api api ex c" by (rule dns_run [OF assms])
  show "\<not> (\<exists>run. \<forall>n. group_step (GetDnsConcurrencyCount ex) (zone_body pr to_lower ex) api
      (run n) (run (Suc n)))"
    by (rule group_no_infinite_run) (rule zone_body_stops [OF assms(1,2)])
next
  fix g
  assume "group_reachable (GetDnsConcurrencyCount ex) (zone_body pr to_lower ex) api (group_start zs xs) g"
  then have "no_panic g" by (rule group_no_panic) (rule zone_body_stops [OF assms(1,2)])
  then show "group_done g \<or> (\<exists>h. group_step (GetDnsConcurrencyCount ex) (zone_body pr to_lower ex) api g h)"
    using group_progress assms(3) by blast
qed

theorem dns_returns_witness:
  "\<exists>c. ListZonesAndRecordsets sample_prom (\<lambda>s. s) (Inr [sample_zone])
     (\<lambda>i. Inl (Msg_error ''no answer'')) dns_sample c"
  by (rule conjunct1 [OF dns_returns [OF dns_sample_wired sample_prom_accepts]]) (simp add: dns_sample_limit)


text \<open>
  Property C21. With the concurrency set to zero the collection never returns once there is a zone:
  the group can start no goroutine, so the only state it reaches is its first.
\<close>

theorem dns_zero_concurrency_blocks:
  assumes "GetDnsConcurrencyCount ex = 0" and "zs \<noteq> []" and "wired ex defaultDesignateMetrics"
    and "accepts_arity pr"
  shows "\<not> ListZonesAndRecordsets pr to_lower (Inr zs) api ex c"
proof
  assume "ListZonesAndRecordsets pr to_lower (Inr zs) api ex c"
  moreover have "emit pr ex ''zones'' (f64_of_nat (length zs)) []
      = ([samp ex ''zones'' (f64_of_nat (length zs)) []], Done)"
    using assms(3,4) by (simp add: wired_def defaultDesignateMetrics_def emit_ok)
  ultimately obtain xs g where "group_reachable 0 (zone_body pr to_lower ex) api (group_start zs xs) g"
    "group_done g"
    using assms(1) by (auto simp: ListZonesAndRecordsets_def)
  with group_zero_stuck [OF this(1)] assms(2) show False
    by (simp add: group_done_def group_start_def)
qed

theorem dns_zero_concurrency_blocks_witness:
  "\<not> ListZonesAndRecordsets sample_prom (\<lambda>s. s) (Inr [sample_zone]) (\<lambda>i. Inr [])
      (dns_sample\<lparr>DnsConcurrentCount := 0\<rparr>) ([samp dns_sample ''zones'' 1 []], Done)"
proof -
  have "wired (dns_sample\<lparr>DnsConcurrentCount := 0\<rparr>) defaultDesignateMetrics"
    using dns_sample_wired by (simp add: wired_def registered_def metrics_of_def)
  then show ?thesis
    by (intro dns_zero_concurrency_blocks) (simp_all add: GetDnsConcurrencyCount_def)
qed

end
