(* ===== verification/Baremetal.thy ===== *)
theory Baremetal
  imports Base_Exporter Go_Time Go_Any Microversion
begin

text \<open>
  \<^verbatim>\<open>exporters/ironic.go\<close>: the nodes of the bare metal service. Extra properties are untyped JSON;
  the helpers read a string out of them and give the empty string for anything else.
\<close>

record Node =
  no_UUID :: string
  no_Name :: string
  no_ProvisionState :: string
  no_PowerState :: string
  no_Maintenance :: bool
  no_MaintenanceReason :: string
  no_ConductorGroup :: string
  no_Traits :: "string list"
  no_InstanceUUID :: string
  no_Lessee :: string
  no_LastError :: string
  no_ConsoleEnabled :: bool
  no_ResourceClass :: string
  no_Retired :: bool
  no_RetiredReason :: string
  no_DriverInfo :: "(string \<times> any) list option"
  no_Extra :: "(string \<times> any) list option"
  no_UpdatedAt :: Time
  no_ProvisionUpdatedAt :: Time

definition ironicLatestSupportedMicroversion :: string where
  "ironicLatestSupportedMicroversion = ''1.90''"

definition defaultIronicMetrics :: "Metric list" where
  "defaultIronicMetrics =
    [metric ''node'' [''id'', ''name'', ''provision_state'', ''power_state'',
         ''maintenance'', ''maintenance_reason'', ''conductor_group'', ''traits'',
         ''instance_uuid'', ''lessee'', ''last_error'', ''serial_number'', ''console_enabled'',
         ''resource_class'', ''deploy_kernel'', ''deploy_ramdisk'', ''retired'',
         ''retired_reason'', ''ironic_self_healing_state''] (Some ''ListNodes''),
     metric ''node_updated_at'' [''id'', ''name'', ''provision_state''] None,
     metric ''node_provision_updated_at'' [''id'', ''name'', ''provision_state''] None]"

definition NewIronicExporter ::
  "prom \<Rightarrow> SupportedVersion list fallible \<Rightarrow> string option \<Rightarrow> ExporterConfig \<Rightarrow> exporter fallible" where
  "NewIronicExporter pr versions env config =
     (case SetupClientMicroversionV2 versions env ironicLatestSupportedMicroversion (ClientV2 config) of
        Inl e \<Rightarrow> Inl e
      | Inr client \<Rightarrow>
          Inr (register_table pr defaultIronicMetrics (new_base ''ironic'' (config\<lparr>ClientV2 := client\<rparr>))))"

definition getExtraString :: "(string \<times> any) list option \<Rightarrow> string \<Rightarrow> string" where
  "getExtraString extra key =
     (if extra = None then []
      else case go_lookup extra key of
             None \<Rightarrow> []
           | Some (Any_string s) \<Rightarrow> s
           | Some _ \<Rightarrow> [])"

definition getNestedExtraString :: "(string \<times> any) list option \<Rightarrow> string \<Rightarrow> string \<Rightarrow> string" where
  "getNestedExtraString extra key nestedKey =
     (if extra = None then []
      else case go_lookup extra key of
             Some (Any_map nested) \<Rightarrow> getExtraString nested nestedKey
           | _ \<Rightarrow> [])"

definition sanitizeMetricString :: "string \<Rightarrow> string" where
  "sanitizeMetricString v = strings_TrimSpace (strings_ReplaceAll v (CHR 0x0A) (CHR '' ''))"

definition getDriverInfoString :: "(string \<times> any) list option \<Rightarrow> string \<Rightarrow> string" where
  "getDriverInfoString driverInfo key =
     (case go_lookup driverInfo key of
        None \<Rightarrow> []
      | Some (Any_string s) \<Rightarrow> s
      | Some _ \<Rightarrow> [])"

definition node_labels :: "Node \<Rightarrow> string list" where
  "node_labels n =
     (let deployKernel = getDriverInfoString (no_DriverInfo n) ''deploy_kernel'';
          deployRamdisk = getDriverInfoString (no_DriverInfo n) ''deploy_ramdisk'';
          serialNumber = getNestedExtraString (no_Extra n) ''system_vendor'' ''serial_number'';
          ironicSelfHealingState = getExtraString (no_Extra n) ''ironic_self_healing_state''
      in [no_UUID n, no_Name n, no_ProvisionState n, no_PowerState n,
          strconv_FormatBool (no_Maintenance n), sanitizeMetricString (no_MaintenanceReason n),
          no_ConductorGroup n, strings_Join (no_Traits n) '' '', no_InstanceUUID n, no_Lessee n,
          sanitizeMetricString (no_LastError n), serialNumber, strconv_FormatBool (no_ConsoleEnabled n),
          no_ResourceClass n, deployKernel, deployRamdisk, strconv_FormatBool (no_Retired n),
          no_RetiredReason n, ironicSelfHealingState])"

definition ListNodes :: "prom \<Rightarrow> Node list fallible \<Rightarrow> exporter \<Rightarrow> coll" where
  "ListNodes pr api ex = try_get api (\<lambda>allNodes. for_each allNodes (\<lambda>n. in_order
     [emit pr ex ''node'' 1 (node_labels n),
      (if \<not> time_IsZero (no_UpdatedAt n) then
         emit pr ex ''node_updated_at'' (f64_of_int (time_Unix (no_UpdatedAt n)))
           [no_UUID n, no_Name n, no_ProvisionState n]
       else finish),
      (if \<not> time_IsZero (no_ProvisionUpdatedAt n) then
         emit pr ex ''node_provision_updated_at'' (f64_of_int (time_Unix (no_ProvisionUpdatedAt n)))
           [no_UUID n, no_Name n, no_ProvisionState n]
       else finish)]))"

interpretation ironic: metric_table defaultIronicMetrics
  by unfold_locales (simp_all add: defaultIronicMetrics_def reserved_def)

section \<open>Properties\<close>

text \<open>
  A sanitised text is one line without space at either end, and a second pass leaves
  it as it is.
\<close>

theorem sanitized_text:
  "CHR 0x0A \<notin> set (sanitizeMetricString v) \<and>
   \<not> prefix '' '' (sanitizeMetricString v) \<and> \<not> suffix '' '' (sanitizeMetricString v) \<and>
   sanitizeMetricString (sanitizeMetricString v) = sanitizeMetricString v"
proof -
  let ?r = "strings_ReplaceAll v (CHR 0x0A) (CHR '' '')"
  have nl: "CHR 0x0A \<notin> set (strings_TrimSpace ?r)"
    using TrimSpace_subset [of ?r] by (auto simp: strings_ReplaceAll_def split: if_splits)
  then have "strings_ReplaceAll (strings_TrimSpace ?r) (CHR 0x0A) (CHR '' '') = strings_TrimSpace ?r"
    unfolding strings_ReplaceAll_def by (intro map_idI) auto
  moreover have "\<not> prefix '' '' (strings_TrimSpace ?r) \<and> \<not> suffix '' '' (strings_TrimSpace ?r)"
    by (rule TrimSpace_starts) (simp_all add: space_runes_def)
  ultimately show ?thesis using nl by (simp add: sanitizeMetricString_def TrimSpace_idem)
qed

definition node_samples :: "exporter \<Rightarrow> Node \<Rightarrow> sample list" where
  "node_samples ex n = samp ex ''node'' 1 (node_labels n) #
     (if time_IsZero (no_UpdatedAt n) then [] else
        [samp ex ''node_updated_at'' (f64_of_int (time_Unix (no_UpdatedAt n)))
           [no_UUID n, no_Name n, no_ProvisionState n]]) @
     (if time_IsZero (no_ProvisionUpdatedAt n) then [] else
        [samp ex ''node_provision_updated_at'' (f64_of_int (time_Unix (no_ProvisionUpdatedAt n)))
           [no_UUID n, no_Name n, no_ProvisionState n]])"

lemma node_labels_length: "length (node_labels n) = 19"
  by (simp add: node_labels_def Let_def)

text \<open>
  Every node is reported with its nineteen labels, whatever its untyped properties
  hold, and its two times only where they are set; no node makes the collection fail.
\<close>

theorem ironic_nodes:
  assumes "wired ex defaultIronicMetrics" and "accepts_arity pr"
  shows "ListNodes pr (Inr ns) ex = (concat (map (node_samples ex) ns), Done)"
proof -
  have reg: "registered ex ''node'' 19" "registered ex ''node_updated_at'' 3"
    "registered ex ''node_provision_updated_at'' 3"
    using assms(1) by (simp_all add: wired_def defaultIronicMetrics_def eval_nat_numeral)
  then have "emit pr ex ''node'' 1 (node_labels n) = ([samp ex ''node'' 1 (node_labels n)], Done)" for n
    using emit_ok [OF assms(2), of ex _ "node_labels n"] by (simp add: node_labels_length)
  then show ?thesis using reg assms(2)
    unfolding ListNodes_def try_get_simps
    by (intro for_each_Done) (simp add: node_samples_def emit_ok eval_nat_numeral)
qed

definition sample_node :: Node where
  "sample_node = \<lparr>no_UUID = ''1'', no_Name = ''n'', no_ProvisionState = ''active'', no_PowerState = [],
     no_Maintenance = False, no_MaintenanceReason = [], no_ConductorGroup = [], no_Traits = [''a'', ''b''],
     no_InstanceUUID = [], no_Lessee = [], no_LastError = [], no_ConsoleEnabled = False,
     no_ResourceClass = [], no_Retired = False, no_RetiredReason = [],
     no_DriverInfo = Some [(''deploy_kernel'', Any_other ''7'')], no_Extra = None,
     no_UpdatedAt = \<lparr>tm_ns = 5 * 10 ^ 9, tm_offset = 0\<rparr>,
     no_ProvisionUpdatedAt = \<lparr>tm_ns = zero_unix * 10 ^ 9, tm_offset = 0\<rparr>\<rparr>"

theorem ironic_nodes_witness:
  "\<exists>ex. NewIronicExporter sample_prom
        (Inr [\<lparr>v_MaxMajor = 1, v_MaxMinor = 90, v_IsSupported = (\<lambda>v. True)\<rparr>]) None sample_config = Inr ex \<and>
      ListNodes sample_prom (Inr [sample_node]) ex
        = ([samp ex ''node'' 1 (node_labels sample_node),
            samp ex ''node_updated_at'' (Finite 5) [''1'', ''n'', ''active'']], Done)"
proof -
  let ?cfg = "sample_config\<lparr>ClientV2 := (ClientV2 sample_config)\<lparr>cl_Microversion := ''1.90''\<rparr>\<rparr>"
  let ?ex = "register_table sample_prom defaultIronicMetrics (new_base ''ironic'' ?cfg)"
  have "NewIronicExporter sample_prom
      (Inr [\<lparr>v_MaxMajor = 1, v_MaxMinor = 90, v_IsSupported = (\<lambda>v. True)\<rparr>]) None sample_config = Inr ?ex"
    by (simp add: NewIronicExporter_def SetupClientMicroversionV2_def
        ironicLatestSupportedMicroversion_def)
  moreover have "wired ?ex defaultIronicMetrics"
    by (rule ironic.wired_register) (simp_all add: enabled_default sample_config_def)
  note ironic_nodes [OF this sample_prom_accepts, of "[sample_node]"]
  then have "ListNodes sample_prom (Inr [sample_node]) ?ex
      = ([samp ?ex ''node'' 1 (node_labels sample_node),
          samp ?ex ''node_updated_at'' (Finite 5) [''1'', ''n'', ''active'']], Done)"
    by (simp add: node_samples_def sample_node_def time_IsZero_def time_Unix_def zero_unix_def
        f64_of_int_exact)
  ultimately show ?thesis by blast
qed

end
