(* ===== verification/Gnocchi.thy ===== *)
theory Gnocchi
  imports Base_Exporter
begin

text \<open>
  \<^verbatim>\<open>exporters/gnocchi.go\<close>: the number of metrics and the status of the metric daemon.
\<close>

record MetricStatus =
  ms_Processors :: "string list"
  ms_Metrics :: int
  ms_Measures :: int

definition defaultGnocchiMetrics :: "Metric list" where
  "defaultGnocchiMetrics =
    [metric ''status_metricd_processors'' [] (Some ''getMetricStatus''),
     metric ''status_metric_having_measures_to_process'' [] None,
     metric ''status_measures_to_process'' [] None,
     metric ''total_metrics'' [] (Some ''ListAllMetrics'')]"

definition NewGnocchiExporter :: "prom \<Rightarrow> ExporterConfig \<Rightarrow> exporter" where
  "NewGnocchiExporter pr config = register_table pr defaultGnocchiMetrics (new_base ''gnocchi'' config)"

definition ListAllMetrics :: "prom \<Rightarrow> 'm list fallible \<Rightarrow> exporter \<Rightarrow> coll" where
  "ListAllMetrics pr api ex = try_get api (\<lambda>allMetrics.
     emit pr ex ''total_metrics'' (f64_of_nat (length allMetrics)) [])"

definition getMetricStatus :: "prom \<Rightarrow> MetricStatus fallible \<Rightarrow> exporter \<Rightarrow> coll" where
  "getMetricStatus pr api ex = try_get api (\<lambda>metricStatus. in_order
     [emit pr ex ''status_metricd_processors'' (f64_of_nat (length (ms_Processors metricStatus))) [],
      emit pr ex ''status_metric_having_measures_to_process'' (f64_of_int (ms_Metrics metricStatus)) [],
      emit pr ex ''status_measures_to_process'' (f64_of_int (ms_Measures metricStatus)) []])"

interpretation gnocchi: metric_table defaultGnocchiMetrics
  by unfold_locales (simp_all add: defaultGnocchiMetrics_def reserved_def)

lemma ListAllMetrics_ok:
  "wired ex defaultGnocchiMetrics \<Longrightarrow> accepts_arity pr \<Longrightarrow>
     ListAllMetrics pr (Inr ms) ex = ([samp ex ''total_metrics'' (f64_of_nat (length ms)) []], Done)"
  by (simp add: ListAllMetrics_def wired_def defaultGnocchiMetrics_def emit_ok)

lemma getMetricStatus_ok:
  "wired ex defaultGnocchiMetrics \<Longrightarrow> accepts_arity pr \<Longrightarrow>
     getMetricStatus pr (Inr st) ex =
       ([samp ex ''status_metricd_processors'' (f64_of_nat (length (ms_Processors st))) [],
         samp ex ''status_metric_having_measures_to_process'' (f64_of_int (ms_Metrics st)) [],
         samp ex ''status_measures_to_process'' (f64_of_int (ms_Measures st)) []], Done)"
  by (simp add: getMetricStatus_def wired_def defaultGnocchiMetrics_def emit_ok)

end
