(* ===== verification/Database.thy ===== *)
theory Database
  imports Status_Map
begin

text \<open>
  \<^verbatim>\<open>exporters/trove.go\<close>: the database instances, their status and volumes. The request is
  \<^verbatim>\<open>listDBInstances\<close> with \<^verbatim>\<open>extractDBInstances\<close>, whose result is the parameter \<open>api\<close>.
\<close>

record instanceAttributesExt =
  in_ID :: string
  in_Name :: string
  in_Status :: string
  in_VolumeSize :: int
  in_VolumeUsed :: f64
  in_DatastoreType :: string
  in_DatastoreVersion :: string
  in_Region :: string
  in_HealthStatus :: string
  in_TenantID :: string

definition knownDBInstanceStatuses :: status_codes where
  "knownDBInstanceStatuses =
    [(''NEW'', 0),
     (''BUILD'', 1),
     (''ACTIVE'', 2),
     (''REBOOT'', 3),
     (''RESIZE'', 4),
     (''UPGRADE'', 5),
     (''RESTART_REQUIRED'', 6),
     (''PROMOTE'', 7),
     (''EJECT'', 8),
     (''DETACH'', 9),
     (''SHUTDOWN'', 10),
     (''BACKUP'', 11),
     (''ERROR'', 12)]"

definition defaultTroveMetrics :: "Metric list" where
  "defaultTroveMetrics =
    [metric ''total_instances'' [] (Some ''ListAllInstances''),
     metric ''instance_status'' [''datastore_type'', ''datastore_version'',
         ''health_status'', ''id'', ''name'', ''region'', ''status'', ''tenant_id''] None,
     metric ''instance_volume_size_gb'' [''datastore_type'', ''datastore_version'',
         ''health_status'', ''id'', ''name'', ''region'', ''status'', ''tenant_id''] None,
     metric ''instance_volume_used_gb'' [''datastore_type'', ''datastore_version'',
         ''health_status'', ''id'', ''name'', ''region'', ''status'', ''tenant_id''] None]"

definition mapDBInstanceStatus :: "string \<Rightarrow> int" where
  "mapDBInstanceStatus current = mapStatus knownDBInstanceStatuses current"

definition register_trove_metric :: "prom \<Rightarrow> Metric \<Rightarrow> exporter \<Rightarrow> exporter" where
  "register_trove_metric pr m ex =
     (if \<not> isSlowMetric ex m
      then AddMetric pr (m_Name m) (m_Fn m) (m_Labels m) (m_DeprecatedVersion m) None ex
      else ex)"

definition NewTroveExporter :: "prom \<Rightarrow> ExporterConfig \<Rightarrow> exporter" where
  "NewTroveExporter pr config =
     fold (register_trove_metric pr) defaultTroveMetrics (new_base ''trove'' config)"

text \<open>The request's path: the management listing, without clustered and deleted instances.\<close>

definition listDBInstances :: "(string list \<Rightarrow> 'r) \<Rightarrow> 'r" where
  "listDBInstances request = request [''mgmt'', ''instances?include_clustered=False&deleted=False'']"

definition ListAllInstances ::
  "prom \<Rightarrow> (string list \<Rightarrow> instanceAttributesExt list fallible) \<Rightarrow> exporter \<Rightarrow> coll" where
  "ListAllInstances pr request ex = try_get (listDBInstances request) (\<lambda>allInstances. and_then
     (emit pr ex ''total_instances'' (f64_of_nat (length allInstances)) [])
     (for_each allInstances (\<lambda>i.
        let labelValues = [in_DatastoreType i, in_DatastoreVersion i, in_HealthStatus i, in_ID i,
              in_Name i, in_Region i, in_Status i, in_TenantID i]
        in in_order
          [emit pr ex ''instance_status'' (f64_of_int (mapDBInstanceStatus (in_Status i))) labelValues,
           emit pr ex ''instance_volume_size_gb'' (f64_of_int (in_VolumeSize i)) labelValues,
           emit pr ex ''instance_volume_used_gb'' (in_VolumeUsed i) labelValues])))"

interpretation trove_statuses: status_table knownDBInstanceStatuses
  by unfold_locales (simp_all add: knownDBInstanceStatuses_def upt_rec)

interpretation trove: metric_table defaultTroveMetrics
  by unfold_locales (simp_all add: defaultTroveMetrics_def reserved_def)

lemma NewTroveExporter_register:
  "NewTroveExporter pr config = register_table pr defaultTroveMetrics (new_base ''trove'' config)"
  by (simp add: NewTroveExporter_def register_table_def defaultTroveMetrics_def register_trove_metric_def
      register_metric_def isDeprecatedMetric_def)

definition instance_samples :: "exporter \<Rightarrow> instanceAttributesExt \<Rightarrow> sample list" where
  "instance_samples ex i =
     map (\<lambda>(n, v). samp ex n v [in_DatastoreType i, in_DatastoreVersion i, in_HealthStatus i, in_ID i,
            in_Name i, in_Region i, in_Status i, in_TenantID i])
       [(''instance_status'', f64_of_int (mapDBInstanceStatus (in_Status i))),
        (''instance_volume_size_gb'', f64_of_int (in_VolumeSize i)),
        (''instance_volume_used_gb'', in_VolumeUsed i)]"

lemma ListAllInstances_ok:
  assumes "wired ex defaultTroveMetrics" and "accepts_arity pr"
    and "request [''mgmt'', ''instances?include_clustered=False&deleted=False''] = Inr is"
  shows "ListAllInstances pr request ex
    = (samp ex ''total_instances'' (f64_of_nat (length is)) [] # concat (map (instance_samples ex) is), Done)"
  using assms
  by (simp add: ListAllInstances_def listDBInstances_def wired_def defaultTroveMetrics_def emit_ok
      for_each_Done instance_samples_def [abs_def] Let_def)

end
