(* ===== verification/Orchestration.thy ===== *)
theory Orchestration
  imports Status_Counter
begin

text \<open>
  \<^verbatim>\<open>exporters/heat.go\<close>: the status of every stack and the number of stacks per status. The request
  (\<^verbatim>\<open>stacks.List ... AllPages\<close> with \<^verbatim>\<open>extractStacks\<close>) is the parameter \<open>api\<close>.
\<close>

record listedStack =
  st_ID :: string
  st_Name :: string
  st_Status :: string
  st_Project :: string

definition knownStackStatuses :: status_codes where
  "knownStackStatuses =
    [(''INIT_IN_PROGRESS'', 0),
     (''INIT_FAILED'', 1),
     (''INIT_COMPLETE'', 2),
     (''CREATE_IN_PROGRESS'', 3),
     (''CREATE_FAILED'', 4),
     (''CREATE_COMPLETE'', 5),
     (''DELETE_IN_PROGRESS'', 6),
     (''DELETE_FAILED'', 7),
     (''DELETE_COMPLETE'', 8),
     (''UPDATE_IN_PROGRESS'', 9),
     (''UPDATE_FAILED'', 10),
     (''UPDATE_COMPLETE'', 11),
     (''ROLLBACK_IN_PROGRESS'', 12),
     (''ROLLBACK_FAILED'', 13),
     (''ROLLBACK_COMPLETE'', 14),
     (''SUSPEND_IN_PROGRESS'', 15),
     (''SUSPEND_FAILED'', 16),
     (''SUSPEND_COMPLETE'', 17),
     (''RESUME_IN_PROGRESS'', 18),
     (''RESUME_FAILED'', 19),
     (''RESUME_COMPLETE'', 20),
     (''ADOPT_IN_PROGRESS'', 21),
     (''ADOPT_FAILED'', 22),
     (''ADOPT_COMPLETE'', 23),
     (''SNAPSHOT_IN_PROGRESS'', 24),
     (''SNAPSHOT_FAILED'', 25),
     (''SNAPSHOT_COMPLETE'', 26),
     (''CHECK_IN_PROGRESS'', 27),
     (''CHECK_FAILED'', 28),
     (''CHECK_COMPLETE'', 29)]"

definition defaultHeatMetrics :: "Metric list" where
  "defaultHeatMetrics =
    [metric ''stack_status'' [''id'', ''name'', ''project_id'', ''status''] (Some
         ''ListAllStacks''),
     metric ''stack_status_counter'' [''status''] None]"

definition mapHeatStatus :: "string \<Rightarrow> int" where
  "mapHeatStatus current = mapStatus knownStackStatuses current"

text \<open>The constructor looks at the slow flag only; deprecated metrics are registered.\<close>

definition register_heat_metric :: "prom \<Rightarrow> Metric \<Rightarrow> exporter \<Rightarrow> exporter" where
  "register_heat_metric pr m ex =
     (if \<not> isSlowMetric ex m
      then AddMetric pr (m_Name m) (m_Fn m) (m_Labels m) (m_DeprecatedVersion m) None ex
      else ex)"

definition NewHeatExporter :: "prom \<Rightarrow> ExporterConfig \<Rightarrow> exporter" where
  "NewHeatExporter pr config =
     fold (register_heat_metric pr) defaultHeatMetrics (new_base ''heat'' config)"

definition ListAllStacks ::
  "prom \<Rightarrow> (string \<times> int) order \<Rightarrow> listedStack list fallible \<Rightarrow> exporter \<Rightarrow> coll" where
  "ListAllStacks pr ord api ex = try_get api (\<lambda>allStacks.
     let stackStatusCounter = status_counter (map fst knownStackStatuses) (map st_Status allStacks)
     in and_then
       (for_each allStacks (\<lambda>stack. emit pr ex ''stack_status'' (f64_of_int (mapHeatStatus (st_Status stack)))
          [st_ID stack, st_Name stack, st_Project stack, st_Status stack]))
       (emit_counter pr ex ''stack_status_counter'' ord stackStatusCounter))"

section \<open>Tables\<close>

interpretation heat_statuses: status_table knownStackStatuses
  by unfold_locales (simp_all add: knownStackStatuses_def upt_rec)

interpretation heat: metric_table defaultHeatMetrics
  by unfold_locales (simp_all add: defaultHeatMetrics_def reserved_def)

text \<open>No entry of the table is deprecated, so the shorter loop registers what the usual one does.\<close>

lemma NewHeatExporter_register:
  "NewHeatExporter pr config = register_table pr defaultHeatMetrics (new_base ''heat'' config)"
  by (simp add: NewHeatExporter_def register_table_def defaultHeatMetrics_def register_heat_metric_def
      register_metric_def isDeprecatedMetric_def)

lemma heat_wired: "wired (NewHeatExporter pr sample_config) defaultHeatMetrics"
  by (simp add: NewHeatExporter_register heat.wired_register)

section \<open>Properties\<close>

definition stack_sample :: "exporter \<Rightarrow> listedStack \<Rightarrow> sample" where
  "stack_sample ex s = samp ex ''stack_status'' (f64_of_int (mapHeatStatus (st_Status s)))
     [st_ID s, st_Name s, st_Project s, st_Status s]"

lemma ListAllStacks_ok:
  assumes "wired ex defaultHeatMetrics" and "accepts_arity pr"
  shows "ListAllStacks pr ord (Inr stacks) ex
    = (map (stack_sample ex) stacks @
       counter_samples ex ''stack_status_counter'' ord (map fst knownStackStatuses) (map st_Status stacks), Done)"
  using assms
  by (simp add: ListAllStacks_def wired_def defaultHeatMetrics_def for_each_emit emit_counter_ok
      stack_sample_def [abs_def] Let_def)

text \<open>
  The orchestration service sends one status sample per stack, in the order listed,
  and after them one counter sample per status that is known or occurs, with the number of
  stacks in that status; the counters add up to the number of stacks.
\<close>

theorem heat_stack_counters:
  assumes "wired ex defaultHeatMetrics" and "accepts_arity pr" and "permutes_order ord"
    and "int (length stacks) < 2 ^ 63"
  shows "\<exists>cs. ListAllStacks pr ord (Inr stacks) ex = (map (stack_sample ex) stacks @ cs, Done) \<and>
    distinct (map s_labels cs) \<and>
    set cs = (\<lambda>k. samp ex ''stack_status_counter'' (f64_of_nat (count_list (map st_Status stacks) k)) [k])
      ` (fst ` set knownStackStatuses \<union> st_Status ` set stacks) \<and>
    (\<Sum>k \<in> fst ` set knownStackStatuses \<union> st_Status ` set stacks. count_list (map st_Status stacks) k)
      = length stacks"
proof -
  let ?cs = "counter_samples ex ''stack_status_counter'' ord (map fst knownStackStatuses) (map st_Status stacks)"
  let ?K = "fst ` set knownStackStatuses \<union> st_Status ` set stacks"
  have "sum (count_list (map st_Status stacks)) ?K = sum (count_list (map st_Status stacks)) (st_Status ` set stacks)"
    by (rule sum.mono_neutral_right) (auto simp: count_list_0_iff)
  also have "\<dots> = length stacks"
    using sum_count_set [of "map st_Status stacks" "st_Status ` set stacks"] by simp
  finally have "sum (count_list (map st_Status stacks)) ?K = length stacks" .
  moreover have "distinct (map s_labels ?cs)" "set ?cs
      = (\<lambda>k. samp ex ''stack_status_counter'' (f64_of_nat (count_list (map st_Status stacks) k)) [k]) ` ?K"
    using counter_samples_exact [OF heat_statuses.keys_distinct, of "map st_Status stacks" ord]
      assms(3,4) by simp_all
  ultimately show ?thesis using ListAllStacks_ok [OF assms(1,2)] by blast
qed

theorem heat_stack_counters_witness:
  "\<exists>cs. ListAllStacks sample_prom (\<lambda>xs. xs)
      (Inr [\<lparr>st_ID = ''1'', st_Name = ''n'', st_Status = ''CREATE_COMPLETE'', st_Project = ''p''\<rparr>])
      (NewHeatExporter sample_prom sample_config)
    = (stack_sample (NewHeatExporter sample_prom sample_config)
         \<lparr>st_ID = ''1'', st_Name = ''n'', st_Status = ''CREATE_COMPLETE'', st_Project = ''p''\<rparr> # cs, Done)"
  using heat_stack_counters [OF heat_wired sample_prom_accepts permutes_order_id,
      where stacks = "[\<lparr>st_ID = ''1'', st_Name = ''n'', st_Status = ''CREATE_COMPLETE'', st_Project = ''p''\<rparr>]"]
  by auto

end
