(* ===== verification/Placement.thy ===== *)
theory Placement
  imports Base_Exporter
begin

text \<open>
  \<^verbatim>\<open>exporters/placement.go\<close>: the inventories, usages and allocations of every resource provider.
  The three requests per provider are functions of its UUID; the maps in their answers are
  association lists, visited in the order that \<open>ord_*\<close> gives.
\<close>

record Inventory =
  iv_Total :: int
  iv_AllocationRatio :: f64
  iv_Reserved :: int

record Inventories =
  ivs_Generation :: int
  ivs_Inventories :: "(string \<times> Inventory) list"

record ResourceProvider =
  rp_UUID :: string
  rp_Name :: string

record placement_api =
  pl_providers :: "ResourceProvider list fallible"
  pl_inventories :: "string \<Rightarrow> Inventories fallible"
  pl_usages :: "string \<Rightarrow> (string \<times> int) list fallible"
  pl_allocations :: "string \<Rightarrow> (string \<times> (string \<times> int) list) list fallible"

record placement_orders =
  ord_inventories :: "(string \<times> Inventory) order"
  ord_usages :: "(string \<times> int) order"
  ord_allocations :: "(string \<times> (string \<times> int) list) order"
  ord_resources :: "(string \<times> int) order"

definition placementResourceLabels :: "string list" where
  "placementResourceLabels = [''hostname'', ''resourcetype'']"

definition placementAllocationLabels :: "string list" where
  "placementAllocationLabels = [''hostname'', ''uuid'', ''resourcetype'']"

definition defaultPlacementMetrics :: "Metric list" where
  "defaultPlacementMetrics =
    [metric ''resource_total'' placementResourceLabels (Some
         ''ListPlacementResourceProviders''),
     metric ''resource_allocation_ratio'' placementResourceLabels None,
     metric ''resource_generation'' placementResourceLabels None,
     metric ''resource_reserved'' placementResourceLabels None,
     metric ''resource_usage'' placementResourceLabels None,
     metric ''resource_provider_allocations'' placementAllocationLabels None]"

definition NewPlacementExporter :: "prom \<Rightarrow> ExporterConfig \<Rightarrow> exporter" where
  "NewPlacementExporter pr config =
     register_table pr defaultPlacementMetrics (new_base ''placement'' config)"

definition emitPlacementResourceMetric ::
  "prom \<Rightarrow> exporter \<Rightarrow> string \<Rightarrow> f64 \<Rightarrow> string \<Rightarrow> string \<Rightarrow> coll" where
  "emitPlacementResourceMetric pr ex metricName val hostname resourceType =
     emit pr ex metricName val [hostname, resourceType]"

definition emit_inventory :: "prom \<Rightarrow> exporter \<Rightarrow> string \<Rightarrow> int \<Rightarrow> string \<times> Inventory \<Rightarrow> coll" where
  "emit_inventory pr ex host generation kv = (let (k, v) = kv in in_order
     [emitPlacementResourceMetric pr ex ''resource_total'' (f64_of_int (iv_Total v)) host k,
      emitPlacementResourceMetric pr ex ''resource_allocation_ratio'' (iv_AllocationRatio v) host k,
      emitPlacementResourceMetric pr ex ''resource_generation'' (f64_of_int generation) host k,
      emitPlacementResourceMetric pr ex ''resource_reserved'' (f64_of_int (iv_Reserved v)) host k])"

definition emit_allocations ::
  "prom \<Rightarrow> placement_orders \<Rightarrow> exporter \<Rightarrow> string \<Rightarrow> (string \<times> (string \<times> int) list) list \<Rightarrow> coll" where
  "emit_allocations pr os ex host allocations =
     for_each (ord_allocations os allocations) (\<lambda>(consumerID, resources).
       for_each (ord_resources os resources) (\<lambda>(resourceClass, amount).
         emit pr ex ''resource_provider_allocations'' (f64_of_int amount) [host, consumerID, resourceClass]))"

definition placement_provider ::
  "prom \<Rightarrow> placement_api \<Rightarrow> placement_orders \<Rightarrow> exporter \<Rightarrow> ResourceProvider \<Rightarrow> coll" where
  "placement_provider pr api os ex rp =
     try_get (pl_inventories api (rp_UUID rp)) (\<lambda>inventoryResult. and_then
       (for_each (ord_inventories os (ivs_Inventories inventoryResult))
          (emit_inventory pr ex (rp_Name rp) (ivs_Generation inventoryResult)))
       (try_get (pl_usages api (rp_UUID rp)) (\<lambda>usages. and_then
          (for_each (ord_usages os usages) (\<lambda>(k, v).
             emitPlacementResourceMetric pr ex ''resource_usage'' (f64_of_int v) (rp_Name rp) k))
          (if map_of (metrics_of ex) ''resource_provider_allocations'' \<noteq> None
           then try_get (pl_allocations api (rp_UUID rp)) (emit_allocations pr os ex (rp_Name rp))
           else finish))))"

definition ListPlacementResourceProviders ::
  "prom \<Rightarrow> placement_api \<Rightarrow> placement_orders \<Rightarrow> exporter \<Rightarrow> coll" where
  "ListPlacementResourceProviders pr api os ex = try_get (pl_providers api)
     (\<lambda>allResourceProviders. for_each allResourceProviders (placement_provider pr api os ex))"

interpretation placement: metric_table defaultPlacementMetrics
  by unfold_locales
    (simp_all add: defaultPlacementMetrics_def reserved_def)

lemma placement_wired: "wired (NewPlacementExporter pr sample_config) defaultPlacementMetrics"
  by (simp add: NewPlacementExporter_def placement.wired_register)

section \<open>Functional behaviour\<close>

definition inventory_samples :: "exporter \<Rightarrow> string \<Rightarrow> int \<Rightarrow> string \<times> Inventory \<Rightarrow> sample list" where
  "inventory_samples ex host generation kv =
     map (\<lambda>(n, v). samp ex n v [host, fst kv])
       [(''resource_total'', f64_of_int (iv_Total (snd kv))),
        (''resource_allocation_ratio'', iv_AllocationRatio (snd kv)),
        (''resource_generation'', f64_of_int generation),
        (''resource_reserved'', f64_of_int (iv_Reserved (snd kv)))]"

definition usage_samples :: "exporter \<Rightarrow> string \<Rightarrow> (string \<times> int) list \<Rightarrow> sample list" where
  "usage_samples ex host us = map (\<lambda>(k, v). samp ex ''resource_usage'' (f64_of_int v) [host, k]) us"

definition allocation_samples ::
  "placement_orders \<Rightarrow> exporter \<Rightarrow> string \<Rightarrow> (string \<times> (string \<times> int) list) list \<Rightarrow> sample list" where
  "allocation_samples os ex host as = concat (map (\<lambda>(consumer, rs).
     map (\<lambda>(c, n). samp ex ''resource_provider_allocations'' (f64_of_int n) [host, consumer, c])
       (ord_resources os rs)) (ord_allocations os as))"

text \<open>The five metrics that every provider reports; the allocations are the sixth.\<close>

definition placement_core :: "Metric list" where
  "placement_core = butlast defaultPlacementMetrics"

lemma placement_core_registered:
  "wired ex placement_core \<Longrightarrow>
     registered ex ''resource_total'' 2 \<and> registered ex ''resource_allocation_ratio'' 2 \<and>
     registered ex ''resource_generation'' 2 \<and> registered ex ''resource_reserved'' 2 \<and>
     registered ex ''resource_usage'' 2"
  by (simp add: wired_def placement_core_def defaultPlacementMetrics_def placementResourceLabels_def
      numeral_2_eq_2)

lemma emit_inventory_ok:
  "wired ex placement_core \<Longrightarrow> accepts_arity pr \<Longrightarrow>
     emit_inventory pr ex host g kv = (inventory_samples ex host g kv, Done)"
  using placement_core_registered [of ex]
  by (simp add: emit_inventory_def emitPlacementResourceMetric_def inventory_samples_def emit_ok
      numeral_2_eq_2 case_prod_unfold)

lemma usages_ok:
  "wired ex placement_core \<Longrightarrow> accepts_arity pr \<Longrightarrow>
     for_each us (\<lambda>(k, v). emitPlacementResourceMetric pr ex ''resource_usage'' (f64_of_int v) host k)
       = (usage_samples ex host us, Done)"
  using placement_core_registered [of ex]
  by (simp add: emitPlacementResourceMetric_def usage_samples_def case_prod_unfold for_each_emit
      numeral_2_eq_2)

lemma emit_allocations_ok:
  "registered ex ''resource_provider_allocations'' 3 \<Longrightarrow> accepts_arity pr \<Longrightarrow>
     emit_allocations pr os ex host as = (allocation_samples os ex host as, Done)"
  by (simp add: emit_allocations_def allocation_samples_def case_prod_unfold for_each_emit
      for_each_Done numeral_3_eq_3)

lemma placement_provider_ok:
  assumes "wired ex placement_core" and "accepts_arity pr"
    and "pl_inventories api (rp_UUID rp) = Inr ivt" and "pl_usages api (rp_UUID rp) = Inr us"
  shows "placement_provider pr api os ex rp = and_then
    (concat (map (inventory_samples ex (rp_Name rp) (ivs_Generation ivt))
        (ord_inventories os (ivs_Inventories ivt))) @ usage_samples ex (rp_Name rp) (ord_usages os us), Done)
    (if map_of (metrics_of ex) ''resource_provider_allocations'' \<noteq> None
     then try_get (pl_allocations api (rp_UUID rp)) (emit_allocations pr os ex (rp_Name rp)) else finish)"
  using assms
  by (simp add: placement_provider_def for_each_Done emit_inventory_ok usages_ok and_then_assoc [symmetric])

section \<open>Properties\<close>

text \<open>
  With the allocations disabled, a provider's allocations are never asked for: the
  collection does not depend on that request, and it completes with the inventories and usages
  of all providers even where the request would fail.
\<close>

theorem placement_without_allocations:
  assumes "wired ex placement_core" and "accepts_arity pr"
    and "map_of (metrics_of ex) ''resource_provider_allocations'' = None"
    and "pl_providers api = Inr rps"
    and "\<And>rp. rp \<in> set rps \<Longrightarrow> pl_inventories api (rp_UUID rp) = Inr (ivt rp)"
    and "\<And>rp. rp \<in> set rps \<Longrightarrow> pl_usages api (rp_UUID rp) = Inr (us rp)"
  shows "ListPlacementResourceProviders pr api os ex
    = (concat (map (\<lambda>rp. concat (map (inventory_samples ex (rp_Name rp) (ivs_Generation (ivt rp)))
          (ord_inventories os (ivs_Inventories (ivt rp)))) @
        usage_samples ex (rp_Name rp) (ord_usages os (us rp))) rps), Done)"
proof -
  have "placement_provider pr api os ex rp
      = (concat (map (inventory_samples ex (rp_Name rp) (ivs_Generation (ivt rp)))
          (ord_inventories os (ivs_Inventories (ivt rp)))) @
        usage_samples ex (rp_Name rp) (ord_usages os (us rp)), Done)" if "rp \<in> set rps" for rp
    using placement_provider_ok [OF assms(1,2) assms(5,6) [OF that], of os] assms(3) by simp
  then have "for_each rps (placement_provider pr api os ex)
    = (concat (map (\<lambda>rp. concat (map (inventory_samples ex (rp_Name rp) (ivs_Generation (ivt rp)))
          (ord_inventories os (ivs_Inventories (ivt rp)))) @
        usage_samples ex (rp_Name rp) (ord_usages os (us rp))) rps), Done)"
    by (rule for_each_Done)
  with assms(4) show ?thesis by (simp add: ListPlacementResourceProviders_def)
qed

definition no_allocations_config :: ExporterConfig where
  "no_allocations_config =
     sample_config\<lparr>DisabledMetrics := [''placement-resource_provider_allocations'']\<rparr>"

definition failing_allocations :: placement_api where
  "failing_allocations = \<lparr>pl_providers = Inr [\<lparr>rp_UUID = ''1'', rp_Name = ''h''\<rparr>],
     pl_inventories = (\<lambda>u. Inr \<lparr>ivs_Generation = 4, ivs_Inventories = []\<rparr>),
     pl_usages = (\<lambda>u. Inr [(''VCPU'', 3)]), pl_allocations = (\<lambda>u. Inl (Msg_error ''down''))\<rparr>"

definition as_listed :: placement_orders where
  "as_listed = \<lparr>ord_inventories = (\<lambda>xs. xs), ord_usages = (\<lambda>xs. xs), ord_allocations = (\<lambda>xs. xs),
     ord_resources = (\<lambda>xs. xs)\<rparr>"

lemma no_allocations_enabled:
  "enabled (new_base ''placement'' no_allocations_config) m
    \<longleftrightarrow> m_Name m \<noteq> ''resource_provider_allocations''"
  by (simp add: enabled_def MetricIsDisabled_iff isSlowMetric_def isDeprecatedMetric_def
      no_allocations_config_def sample_config_def)

lemma no_allocations_exporter:
  "wired (NewPlacementExporter pr no_allocations_config) placement_core"
  "map_of (metrics_of (NewPlacementExporter pr no_allocations_config)) ''resource_provider_allocations'' = None"
proof -
  let ?ex = "NewPlacementExporter pr no_allocations_config"
  have "registered ?ex (m_Name m) (length (m_Labels m))" if "m \<in> set placement_core" for m
  proof -
    have "m \<in> set defaultPlacementMetrics \<and> m_Name m \<noteq> ''resource_provider_allocations''"
      using that by (auto simp: placement_core_def defaultPlacementMetrics_def)
    then show ?thesis
      by (auto simp: NewPlacementExporter_def registered_def placement.lookup_enabled
          no_allocations_enabled entry_def)
  qed
  then show "wired ?ex placement_core" by (simp add: wired_def)
  show "map_of (metrics_of ?ex) ''resource_provider_allocations'' = None"
    unfolding NewPlacementExporter_def
    by (rule placement.lookup_absent) (simp_all add: reserved_def no_allocations_enabled)
qed

theorem placement_without_allocations_witness:
  "ListPlacementResourceProviders sample_prom failing_allocations as_listed
      (NewPlacementExporter sample_prom no_allocations_config)
    = ([samp (NewPlacementExporter sample_prom no_allocations_config) ''resource_usage'' (Finite 3)
          [''h'', ''VCPU'']], Done)"
  using placement_without_allocations [OF no_allocations_exporter(1) sample_prom_accepts
      no_allocations_exporter(2), where api = failing_allocations and os = as_listed
        and rps = "[\<lparr>rp_UUID = ''1'', rp_Name = ''h''\<rparr>]"
        and ivt = "\<lambda>rp. \<lparr>ivs_Generation = 4, ivs_Inventories = []\<rparr>" and us = "\<lambda>rp. [(''VCPU'', 3)]"]
  by (simp add: failing_allocations_def as_listed_def usage_samples_def f64_of_int_exact)

text \<open>
  With all metrics registered, a provider whose allocations cannot be read ends the
  collection with that error, after the samples of the providers before it and its own
  inventories and usages; the providers after it are not asked.
\<close>

theorem placement_allocation_error:
  assumes "wired ex defaultPlacementMetrics" and "accepts_arity pr"
    and "pl_providers api = Inr (rp # rps)"
    and "pl_inventories api (rp_UUID rp) = Inr ivt" and "pl_usages api (rp_UUID rp) = Inr us"
    and "pl_allocations api (rp_UUID rp) = Inl e"
  shows "ListPlacementResourceProviders pr api os ex
    = (concat (map (inventory_samples ex (rp_Name rp) (ivs_Generation ivt))
          (ord_inventories os (ivs_Inventories ivt))) @ usage_samples ex (rp_Name rp) (ord_usages os us), Failed e)"
proof -
  have "wired ex placement_core"
    using assms(1) by (auto simp: wired_def placement_core_def intro: in_set_butlastD)
  moreover have "map_of (metrics_of ex) ''resource_provider_allocations'' \<noteq> None"
    using assms(1) by (auto simp: wired_def defaultPlacementMetrics_def registered_def)
  ultimately show ?thesis
    using placement_provider_ok [of ex pr api rp ivt us os] assms(2-6)
    by (simp add: ListPlacementResourceProviders_def return_error_def)
qed

theorem placement_allocation_error_witness:
  "ListPlacementResourceProviders sample_prom failing_allocations as_listed
      (NewPlacementExporter sample_prom sample_config)
    = ([samp (NewPlacementExporter sample_prom sample_config) ''resource_usage'' (Finite 3)
          [''h'', ''VCPU'']], Failed (Msg_error ''down''))"
  using placement_allocation_error [OF placement_wired sample_prom_accepts,
      where api = failing_allocations and os = as_listed and rp = "\<lparr>rp_UUID = ''1'', rp_Name = ''h''\<rparr>"
        and rps = "[]" and ivt = "\<lparr>ivs_Generation = 4, ivs_Inventories = []\<rparr>" and us = "[(''VCPU'', 3)]"]
  by (simp add: failing_allocations_def as_listed_def usage_samples_def f64_of_int_exact)

end
