(* ===== verification/Share.thy ===== *)
theory Share
  imports Volume
begin

text \<open>
  \<^verbatim>\<open>exporters/manila.go\<close>: the shares, their size and status. \<^verbatim>\<open>ListShareStatus\<close> encodes the status of a
  share with the volume service's table, as the code does.
\<close>

record Share =
  sh_ID :: string
  sh_Name :: string
  sh_Status :: string
  sh_Size :: int
  sh_AvailabilityZone :: string
  sh_ShareType :: string
  sh_ShareProto :: string
  sh_ShareTypeName :: string
  sh_ProjectID :: string

definition defaultManilaMetrics :: "Metric list" where
  "defaultManilaMetrics =
    [metric ''shares_counter'' [] (Some ''CountShares''),
     metric ''share_gb'' [''id'', ''name'', ''status'', ''availability_zone'',
         ''share_type'', ''share_proto'', ''share_type_name'', ''project_id''] None,
     metric ''share_status'' [''id'', ''name'', ''status'', ''size'', ''share_type'',
         ''share_proto'', ''share_type_name'', ''project_id''] (Some ''ListShareStatus''),
     metric ''share_status_counter'' [''status''] None]"

definition share_statuses :: "string list" where
  "share_statuses = [''creating'', ''available'', ''updating'', ''migrating'', ''migration_error'',
     ''extending'', ''deleting'', ''shrinking'', ''error'', ''error_deleting'', ''shrinking_error'',
     ''reverting_error'', ''restoring'', ''reverting'', ''managing'', ''unmanaging'',
     ''reverting_to_snapshot'', ''soft_deleting'', ''inactive'']"

definition NewManilaExporter :: "prom \<Rightarrow> ExporterConfig \<Rightarrow> exporter" where
  "NewManilaExporter pr config = register_table pr defaultManilaMetrics (new_base ''sharev2'' config)"

definition CountShares ::
  "prom \<Rightarrow> (string \<times> int) order \<Rightarrow> Share list fallible \<Rightarrow> exporter \<Rightarrow> coll" where
  "CountShares pr ord api ex = try_get api (\<lambda>allShares. in_order
     [emit pr ex ''shares_counter'' (f64_of_nat (length allShares)) [],
      for_each allShares (\<lambda>share. emit pr ex ''share_gb'' (f64_of_int (sh_Size share))
        [sh_ID share, sh_Name share, sh_Status share, sh_AvailabilityZone share, sh_ShareType share,
         sh_ShareProto share, sh_ShareTypeName share, sh_ProjectID share]),
      emit_counter pr ex ''share_status_counter'' ord
        (status_counter share_statuses (map sh_Status allShares))])"

definition ListShareStatus :: "prom \<Rightarrow> Share list fallible \<Rightarrow> exporter \<Rightarrow> coll" where
  "ListShareStatus pr api ex = try_get api (\<lambda>allShares.
     for_each allShares (\<lambda>share. emit pr ex ''share_status'' (f64_of_int (mapVolumeStatus (sh_Status share)))
       [sh_ID share, sh_Name share, sh_Status share, strconv_Itoa (sh_Size share), sh_ShareType share,
        sh_ShareProto share, sh_ShareTypeName share, sh_ProjectID share]))"

interpretation manila: metric_table defaultManilaMetrics
  by unfold_locales (simp_all add: defaultManilaMetrics_def reserved_def)

lemma manila_wired: "wired (NewManilaExporter pr sample_config) defaultManilaMetrics"
  by (simp add: NewManilaExporter_def manila.wired_register)

lemma share_statuses_distinct: "distinct share_statuses"
  by (simp add: share_statuses_def)

definition share_gb_sample :: "exporter \<Rightarrow> Share \<Rightarrow> sample" where
  "share_gb_sample ex s = samp ex ''share_gb'' (f64_of_int (sh_Size s))
     [sh_ID s, sh_Name s, sh_Status s, sh_AvailabilityZone s, sh_ShareType s, sh_ShareProto s,
      sh_ShareTypeName s, sh_ProjectID s]"

lemma CountShares_ok:
  "wired ex defaultManilaMetrics \<Longrightarrow> accepts_arity pr \<Longrightarrow>
     CountShares pr ord (Inr shares) ex
       = (samp ex ''shares_counter'' (f64_of_nat (length shares)) [] # map (share_gb_sample ex) shares @
          counter_samples ex ''share_status_counter'' ord share_statuses (map sh_Status shares), Done)"
  by (simp add: CountShares_def wired_def defaultManilaMetrics_def emit_ok for_each_emit emit_counter_ok
      share_gb_sample_def [abs_def])

definition share_status_sample :: "exporter \<Rightarrow> Share \<Rightarrow> sample" where
  "share_status_sample ex s = samp ex ''share_status'' (f64_of_int (mapVolumeStatus (sh_Status s)))
     [sh_ID s, sh_Name s, sh_Status s, strconv_Itoa (sh_Size s), sh_ShareType s, sh_ShareProto s,
      sh_ShareTypeName s, sh_ProjectID s]"

lemma ListShareStatus_ok:
  "wired ex defaultManilaMetrics \<Longrightarrow> accepts_arity pr \<Longrightarrow>
     ListShareStatus pr (Inr shares) ex = (map (share_status_sample ex) shares, Done)"
  by (simp add: ListShareStatus_def wired_def defaultManilaMetrics_def for_each_emit
      share_status_sample_def [abs_def])

section \<open>Properties\<close>

text \<open>
  The status value of a share is \<open>-1\<close> for thirteen of the nineteen share states that
  the same file counts: the code is taken from the volume states, of which only six are share
  states; so a share that migrates and one that shrinks have the same status value.
\<close>

theorem share_status_unknown:
  "filter (\<lambda>s. mapVolumeStatus s \<noteq> -1) share_statuses
     = [''creating'', ''available'', ''extending'', ''deleting'', ''error'', ''error_deleting''] \<and>
   mapVolumeStatus ''migrating'' = mapVolumeStatus ''shrinking''"
  by (simp add: share_statuses_def mapVolumeStatus_def mapStatus_def knownVolumeStatuses_def)

end
