(* ===== verification/Factory.thy ===== *)
theory Factory
  imports Service_Client Network Compute Image Volume Identity Object_Store Load_Balancer
    Container_Infra Dns Baremetal Gnocchi Database Orchestration Placement Share
begin

text \<open>
  \<^verbatim>\<open>NewExporter\<close> and \<^verbatim>\<open>EnableExporter\<close> of \<^verbatim>\<open>exporters/exporter.go\<close>: from the name of a service to
  its exporter, through the TLS settings of the cloud and the client of the service.

  Parameters: the files and the client library (\<open>fs\<close>, \<open>gp\<close>), \<^verbatim>\<open>tls.X509KeyPair\<close>, whether
  \<^verbatim>\<open>OS_DEBUG\<close> is set, and what the two services with microversions answer (\<open>versions\<close>, \<open>env\<close>, by
  service). The default of the UUID generator is the generator parameter of the collectors.
\<close>

record exporter_args =
  xa_Prefix :: string
  xa_Cloud :: string
  xa_DisabledMetrics :: "string list"
  xa_EndpointType :: string
  xa_CollectTime :: bool
  xa_DisableSlowMetrics :: bool
  xa_DisableDeprecatedMetrics :: bool
  xa_DisableCinderAgentUUID :: bool
  xa_DomainID :: string
  xa_TenantID :: string
  xa_NovaMetadataMapping :: LabelMappingFlag
  xa_DnsConcurrentCount :: int

section \<open>The transport\<close>

definition no_tls :: tlsConfig where
  "no_tls = \<lparr>tls_InsecureSkipVerify = False, tls_RootCAs = None, tls_Certificates = []\<rparr>"

definition verify_settings :: "files \<Rightarrow> Cloud \<Rightarrow> tlsConfig \<times> bool" where
  "verify_settings fs config =
     (if \<not> cloud_Verify config then (no_tls\<lparr>tls_InsecureSkipVerify := True\<rparr>, True)
      else if cloud_CACertFile config \<noteq> [] then
        (no_tls\<lparr>tls_RootCAs := (case additionalTLSTrust fs (cloud_CACertFile config) of
           Inl e \<Rightarrow> None | Inr pool \<Rightarrow> Some pool)\<rparr>, True)
      else (no_tls, False))"

definition client_certificate ::
  "files \<Rightarrow> (string \<Rightarrow> string \<Rightarrow> (string \<times> string) fallible) \<Rightarrow> Cloud \<Rightarrow> (string \<times> string) option fallible" where
  "client_certificate fs key_pair config =
     (if cloud_ClientCertFile config \<noteq> [] \<and> cloud_ClientKeyFile config \<noteq> [] then
        (case pathOrContents fs (cloud_ClientCertFile config) of
           Inl e \<Rightarrow> Inl (Msg_error (''error reading Client Cert: '' @ err_text e))
         | Inr (clientCert, _) \<Rightarrow>
             (case pathOrContents fs (cloud_ClientKeyFile config) of
                Inl e \<Rightarrow> Inl (Msg_error (''error reading Client Key: '' @ err_text e))
              | Inr (clientKey, _) \<Rightarrow>
                  (case key_pair clientCert clientKey of Inl e \<Rightarrow> Inl e | Inr cert \<Rightarrow> Inr (Some cert))))
      else Inr None)"

definition choose_transport ::
  "files \<Rightarrow> (string \<Rightarrow> string \<Rightarrow> (string \<times> string) fallible) \<Rightarrow> bool \<Rightarrow> Cloud \<Rightarrow> transport option fallible" where
  "choose_transport fs key_pair os_debug config =
     (case client_certificate fs key_pair config of
        Inl e \<Rightarrow> Inl e
      | Inr cert \<Rightarrow>
          (let (tls, configureTransport) = verify_settings fs config;
               tls = (case cert of None \<Rightarrow> tls | Some c \<Rightarrow> tls\<lparr>tls_Certificates := [c]\<rparr>);
               configureTransport = (configureTransport \<or> cert \<noteq> None);
               tr = (if configureTransport then Some (Http_Transport tls False) else None)
           in Inr (if os_debug
                   then Some (Logging_RoundTripper (case tr of None \<Rightarrow> Default_Transport | Some t \<Rightarrow> t))
                   else tr)))"

section \<open>The exporter of a service\<close>

definition exporter_config :: "ServiceClient \<Rightarrow> string \<Rightarrow> exporter_args \<Rightarrow> ExporterConfig" where
  "exporter_config clientV2 name a =
     \<lparr>ClientV2 = clientV2, ServiceName = name, Prefix = xa_Prefix a,
      DisabledMetrics = xa_DisabledMetrics a, CollectTime = xa_CollectTime a,
      DisableSlowMetrics = xa_DisableSlowMetrics a,
      DisableDeprecatedMetrics = xa_DisableDeprecatedMetrics a,
      DisableCinderAgentUUID = xa_DisableCinderAgentUUID a, DomainID = xa_DomainID a,
      TenantID = xa_TenantID a, NovaMetadataMapping = xa_NovaMetadataMapping a,
      DnsConcurrentCount = xa_DnsConcurrentCount a\<rparr>"

text \<open>The switch on the name; the flag of the result says whether a handler was found.\<close>

definition construct ::
  "prom \<Rightarrow> (string \<Rightarrow> SupportedVersion list fallible) \<Rightarrow> (string \<Rightarrow> string option) \<Rightarrow> string \<Rightarrow>
   ExporterConfig \<Rightarrow> exporter fallible option" where
  "construct pr versions env name cfg =
     (if name = ''network'' then Some (Inr (NewNeutronExporter pr cfg))
      else if name = ''compute''
      then Some (NewNovaExporter pr (versions name) (env ''OS_COMPUTE_API_VERSION'') cfg)
      else if name = ''image'' then Some (Inr (NewGlanceExporter pr cfg))
      else if name = ''volume'' then Some (Inr (NewCinderExporter pr cfg))
      else if name = ''identity'' then Some (Inr (NewKeystoneExporter pr cfg))
      else if name = ''object-store'' then Some (Inr (NewObjectStoreExporter pr cfg))
      else if name = ''load-balancer'' then Some (Inr (NewLoadbalancerExporter pr cfg))
      else if name = ''container-infra'' then Some (Inr (NewContainerInfraExporter pr cfg))
      else if name = ''dns'' then Some (Inr (NewDesignateExporter pr cfg))
      else if name = ''baremetal''
      then Some (NewIronicExporter pr (versions name) (env ''OS_BAREMETAL_API_VERSION'') cfg)
      else if name = ''gnocchi'' then Some (Inr (NewGnocchiExporter pr cfg))
      else if name = ''database'' then Some (Inr (NewTroveExporter pr cfg))
      else if name = ''orchestration'' then Some (Inr (NewHeatExporter pr cfg))
      else if name = ''placement'' then Some (Inr (NewPlacementExporter pr cfg))
      else if name = ''sharev2'' then Some (Inr (NewManilaExporter pr cfg))
      else None)"

record factory =
  fa_prom :: prom
  fa_gopher :: gopher
  fa_files :: files
  fa_key_pair :: "string \<Rightarrow> string \<Rightarrow> (string \<times> string) fallible"
  fa_os_debug :: bool
  fa_versions :: "string \<Rightarrow> SupportedVersion list fallible"
  fa_env :: "string \<Rightarrow> string option"

definition NewExporter ::
  "factory \<Rightarrow> string \<Rightarrow> exporter_args \<Rightarrow> endpoint_map \<Rightarrow> exporter fallible \<times> endpoint_map" where
  "NewExporter fa name a endpointOptsV2 =
     (let optsv2 = \<lparr>opt_Cloud = xa_Cloud a, opt_EnvPrefix = [], opt_RegionName = []\<rparr> in
      case gp_GetCloudFromYAML (fa_gopher fa) optsv2 of
        Inl e \<Rightarrow> (Inl e, endpointOptsV2)
      | Inr config \<Rightarrow>
          (case choose_transport (fa_files fa) (fa_key_pair fa) (fa_os_debug fa) config of
             Inl e \<Rightarrow> (Inl e, endpointOptsV2)
           | Inr tr \<Rightarrow>
               (case NewServiceClientV2 (fa_gopher fa) name (Some optsv2) tr (xa_EndpointType a) endpointOptsV2 of
                  (Inl e, m) \<Rightarrow> (Inl e, m)
                | (Inr clientV2, m) \<Rightarrow>
                    (case construct (fa_prom fa) (fa_versions fa) (fa_env fa) name (exporter_config clientV2 name a) of
                       None \<Rightarrow> (Inl (Msg_error (''couldn't find a handler for '' @ name @ '' exporter'')), m)
                     | Some r \<Rightarrow> (r, m)))))"

definition EnableExporter ::
  "factory \<Rightarrow> string \<Rightarrow> exporter_args \<Rightarrow> endpoint_map \<Rightarrow> exporter fallible \<times> endpoint_map" where
  "EnableExporter fa name a endpointOptsV2 =
     (case NewExporter fa name a endpointOptsV2 of (Inl e, m) \<Rightarrow> (Inl e, m) | (Inr ex, m) \<Rightarrow> (Inr ex, m))"

section \<open>The lists of services\<close>

definition unknown_service :: "string \<Rightarrow> go_error" where
  "unknown_service name = Msg_error (''unable to create a service client for '' @ name)"

lemma catalog_knows_supported: "(name \<in> set SupportedExporters) = IsExporterNameValid name"
  by (auto simp: SupportedExporters_def IsExporterNameValid_def serviceCatalogTypesByExporterService_def)

lemma construct_supported:
  "(name \<in> set SupportedExporters) = (construct pr versions env name cfg \<noteq> None)"
  by (simp add: SupportedExporters_def construct_def)

lemma service_client_supported:
  "(name \<in> set SupportedExporters) = (\<exists>cl. service_client two_clouds pClient new_cloud eo name = Inr cl)"
  by (auto simp: SupportedExporters_def service_client_def two_clouds_def new_cloud_def Let_def)

lemma service_client_unknown:
  "name \<notin> set SupportedExporters \<Longrightarrow>
     service_client gp pClient cloud eo name = Inl (unknown_service name)"
  by (auto simp: SupportedExporters_def service_client_def unknown_service_def)

text \<open>
  The four places that list the services agree: a name is supported exactly when the
  catalog table knows it, exactly when \<^verbatim>\<open>NewExporter\<close> has a handler for it, and exactly when the
  client switch has a constructor for it; a name outside is rejected as unknown by the client switch,
  so that the error of \<^verbatim>\<open>NewExporter\<close> about a missing handler is never the one reported.
\<close>

theorem service_tables_agree:
  "(name \<in> set SupportedExporters) = IsExporterNameValid name \<and>
   (name \<in> set SupportedExporters) = (construct pr versions env name cfg \<noteq> None) \<and>
   (name \<in> set SupportedExporters) =
      (\<exists>cl. service_client two_clouds pClient new_cloud eo name = Inr cl) \<and>
   (if name \<in> set SupportedExporters then True
    else service_client gp pClient cloud eo name = Inl (unknown_service name))"
  using catalog_knows_supported construct_supported service_client_supported service_client_unknown
  by simp

section \<open>The registry of an exporter\<close>

definition table_of :: "string \<Rightarrow> exporter_args \<Rightarrow> Metric list" where
  "table_of name a =
     (if name = ''network'' then defaultNeutronMetrics
      else if name = ''compute'' then nova_table (xa_NovaMetadataMapping a)
      else if name = ''image'' then defaultGlanceMetrics
      else if name = ''volume'' then defaultCinderMetrics
      else if name = ''identity'' then defaultKeystoneMetrics
      else if name = ''object-store'' then defaultObjectStoreMetrics
      else if name = ''load-balancer'' then defaultLoadbalancerMetrics
      else if name = ''container-infra'' then defaultContainerInfraMetrics
      else if name = ''dns'' then defaultDesignateMetrics
      else if name = ''baremetal'' then defaultIronicMetrics
      else if name = ''gnocchi'' then defaultGnocchiMetrics
      else if name = ''database'' then defaultTroveMetrics
      else if name = ''orchestration'' then defaultHeatMetrics
      else if name = ''placement'' then defaultPlacementMetrics
      else defaultManilaMetrics)"

lemma table_of_metric_table: "metric_table (table_of name a)"
  unfolding table_of_def
  by (simp add: neutron.metric_table_axioms nova.metric_table_axioms glance.metric_table_axioms
      cinder.metric_table_axioms keystone.metric_table_axioms object_store.metric_table_axioms
      loadbalancer.metric_table_axioms container_infra.metric_table_axioms designate.metric_table_axioms
      ironic.metric_table_axioms gnocchi.metric_table_axioms trove.metric_table_axioms
      heat.metric_table_axioms placement.metric_table_axioms manila.metric_table_axioms)

text \<open>The name each constructor gives its exporter.\<close>

definition base_name :: "string \<Rightarrow> string" where
  "base_name name =
     (if name = ''network'' then ''neutron'' else if name = ''compute'' then ''nova''
      else if name = ''image'' then ''glance'' else if name = ''volume'' then ''cinder''
      else if name = ''identity'' then ''identity'' else if name = ''object-store'' then ''object_store''
      else if name = ''load-balancer'' then ''loadbalancer''
      else if name = ''container-infra'' then ''container_infra''
      else if name = ''dns'' then ''designate'' else if name = ''baremetal'' then ''ironic''
      else if name = ''gnocchi'' then ''gnocchi'' else if name = ''database'' then ''trove''
      else if name = ''orchestration'' then ''heat'' else if name = ''placement'' then ''placement''
      else ''sharev2'')"

lemma exporter_config_ClientV2:
  "(exporter_config cl name a)\<lparr>ClientV2 := c\<rparr> = exporter_config c name a"
  by (simp add: exporter_config_def)

lemma exporter_config_mapping:
  "NovaMetadataMapping (exporter_config cl name a) = xa_NovaMetadataMapping a"
  by (simp add: exporter_config_def)

lemma construct_registers:
  assumes "construct pr versions env name (exporter_config cl name a) = Some (Inr ex)"
  shows "\<exists>cl'. ex = register_table pr (table_of name a)
    (new_base (base_name name) (exporter_config cl' name a))"
  using assms unfolding construct_def
  by (auto simp: table_of_def base_name_def NewNeutronExporter_def NewNovaExporter_def NewGlanceExporter_def
      NewCinderExporter_def NewKeystoneExporter_def NewObjectStoreExporter_def
      NewLoadbalancerExporter_register NewContainerInfraExporter_def NewDesignateExporter_def Let_def
      NewIronicExporter_def NewGnocchiExporter_def NewTroveExporter_register NewHeatExporter_register
      NewPlacementExporter_def NewManilaExporter_def exporter_config_ClientV2 exporter_config_mapping
      split: if_splits sum.splits)

lemma NewExporter_registers:
  assumes "fst (NewExporter fa name a m) = Inr ex"
  shows "name \<in> set SupportedExporters \<and>
    (\<exists>cl. ex = register_table (fa_prom fa) (table_of name a)
       (new_base (base_name name) (exporter_config cl name a)))"
proof -
  obtain cl where "construct (fa_prom fa) (fa_versions fa) (fa_env fa) name (exporter_config cl name a)
      = Some (Inr ex)"
    using assms by (auto simp: NewExporter_def Let_def split: sum.splits prod.splits option.splits)
  then show ?thesis
    using construct_supported construct_registers by blast
qed

lemma exporter_config_fields [simp]:
  "ServiceName (exporter_config cl name a) = name"
  "TenantID (exporter_config cl name a) = xa_TenantID a"
  "DisabledMetrics (exporter_config cl name a) = xa_DisabledMetrics a"
  by (simp_all add: exporter_config_def)

lemma exporter_config_Prefix [simp]: "Prefix (exporter_config cl name a) = xa_Prefix a"
  by (simp add: exporter_config_def)

lemma enabled_register_table: "enabled (register_table pr ms ex) = enabled ex"
  by (simp add: fun_eq_iff enabled_def MetricIsDisabled_iff isSlowMetric_def isDeprecatedMetric_def)

text \<open>
  Property C7. An exporter that \<^verbatim>\<open>NewExporter\<close> returns carries the configuration it was asked for,
  and its map of metrics holds exactly the enabled entries of its service's table (or is nil where
  there is none): nothing disabled, slow or deprecated by the flags is registered.
\<close>

theorem exporter_registry:
  assumes "fst (NewExporter fa name a m) = Inr ex"
  shows "name \<in> set SupportedExporters \<and> ServiceName ex = name \<and> TenantID ex = xa_TenantID a \<and>
    (let on = filter (enabled ex) (table_of name a) in
     map fst (metrics_of ex) = (if on = [] then [] else reserved @ map m_Name on) \<and>
     (\<forall>t \<in> set on. (ex_Name ex @ ''-'' @ m_Name t) \<notin> set (xa_DisabledMetrics a) \<and>
        (\<exists>pm. map_of (metrics_of ex) (m_Name t) = Some pm \<and> pm_Fn pm = m_Fn t \<and>
           d_variableLabels (pm_Metric pm) = m_Labels t)))"
proof -
  from NewExporter_registers [OF assms] obtain cl where sup: "name \<in> set SupportedExporters" and
    ex: "ex = register_table (fa_prom fa) (table_of name a)
      (new_base (base_name name) (exporter_config cl name a))"
    by blast
  let ?b = "new_base (base_name name) (exporter_config cl name a)"
  have on: "enabled ex = enabled ?b" by (simp add: ex enabled_register_table)
  have look: "map_of (metrics_of ex) (m_Name t) = Some (snd (entry (fa_prom fa) ?b t))"
    if "t \<in> set (table_of name a)" "enabled ?b t" for t
    unfolding ex using that by (intro metric_table.lookup_enabled [OF table_of_metric_table]) simp_all
  have names: "map fst (metrics_of ex) = (if filter (enabled ?b) (table_of name a) = [] then []
      else reserved @ map m_Name (filter (enabled ?b) (table_of name a)))"
    unfolding ex by (intro metric_table.names_registered [OF table_of_metric_table]) simp
  have "(ex_Name ex @ ''-'' @ m_Name t) \<notin> set (xa_DisabledMetrics a)" if "enabled ?b t" for t
    using that by (simp add: ex enabled_def MetricIsDisabled_iff)
  then show ?thesis
    using look unfolding Let_def on names by (auto simp: ex sup entry_def)
qed

definition sample_factory :: factory where
  "sample_factory = \<lparr>fa_prom = sample_prom, fa_gopher = two_clouds,
     fa_files = \<lparr>fs_SystemCertPool = Some [], fs_AppendCertsFromPEM = (\<lambda>cs p. (p # cs, True)),
       fs_ReadFile = (\<lambda>p. Inr []), fs_Stat_ok = (\<lambda>p. True), fs_Expand = Inr\<rparr>,
     fa_key_pair = (\<lambda>c k. Inr (c, k)), fa_os_debug = False,
     fa_versions = (\<lambda>n. Inr []), fa_env = (\<lambda>n. None)\<rparr>"

definition sample_args :: exporter_args where
  "sample_args = \<lparr>xa_Prefix = ''openstack'', xa_Cloud = ''a'', xa_DisabledMetrics = [''object_store-bytes''],
     xa_EndpointType = ''public'', xa_CollectTime = False, xa_DisableSlowMetrics = False,
     xa_DisableDeprecatedMetrics = False, xa_DisableCinderAgentUUID = False, xa_DomainID = [],
     xa_TenantID = ''t'', xa_NovaMetadataMapping = \<lparr>lm_Labels = [], lm_Keys = []\<rparr>,
     xa_DnsConcurrentCount = 10\<rparr>"

theorem exporter_registry_witness:
  "map_sum id (\<lambda>ex. (ServiceName ex, map fst (metrics_of ex)))
     (fst (NewExporter sample_factory ''object-store'' sample_args Map.empty))
   = Inr (''object-store'', reserved @ [''objects''])"
proof -
  obtain ex where ex: "fst (NewExporter sample_factory ''object-store'' sample_args Map.empty) = Inr ex"
    and n: "ex_Name ex = ''object_store''" "DisabledMetrics ex = [''object_store-bytes'']"
      "\<not> DisableSlowMetrics ex"  "\<not> DisableDeprecatedMetrics ex"
    by (simp add: NewExporter_def sample_factory_def sample_args_def two_clouds_def Let_def new_cloud_def
        choose_transport_def client_certificate_def verify_settings_def NewServiceClientV2_def
        newAuthenticatedProviderClient_def AuthenticatedClientV2_def service_client_def construct_def
        NewObjectStoreExporter_def exporter_config_def)
  have "filter (enabled ex) (table_of ''object-store'' sample_args)
      = [metric ''objects'' [''container_name''] (Some ''ListContainers'')]"
    by (simp add: table_of_def defaultObjectStoreMetrics_def enabled_def MetricIsDisabled_iff n
        isSlowMetric_def isDeprecatedMetric_def)
  with exporter_registry [OF ex] show ?thesis by (simp add: ex Let_def)
qed

end
