(* ===== verification/Main_App.thy ===== *)
theory Main_App
  imports Factory Service_Selection Cache_Service Go_Any
begin

text \<open>
  \<^verbatim>\<open>main.go\<close>: the start of the process, the routes of its HTTP server and the two handlers. The
  services of the process and of a request are in \<open>Service_Selection\<close>, the background service of
  the cache is in \<open>Cache_Service\<close>.

  The environment is an explicit map; \<open>fac env\<close> is what the factory's libraries do under it.
  \<open>refused reg c\<close> says that the registry \<open>reg\<close> does not take the collector \<open>c\<close>, where
  \<^verbatim>\<open>MustRegister\<close> panics. The running process, with its signals and its shutdown, is in
  \<open>Process_Run\<close>.
\<close>

section \<open>Flags and handlers\<close>

type_synonym environment = "string \<rightharpoonup> string"

definition DEFAULT_OS_CLIENT_CONFIG :: string where
  "DEFAULT_OS_CLIENT_CONFIG = ''/etc/openstack/clouds.yaml''"

text \<open>The flags; those that are handed on to \<^verbatim>\<open>EnableExporter\<close> are in \<open>fl_args\<close>.\<close>

record flags =
  fl_metrics :: string
  fl_osClientConfig :: string
  fl_multiCloud :: bool
  fl_cloud :: string
  fl_cacheEnable :: bool
  fl_disableServiceAutodetect :: bool
  fl_args :: exporter_args

definition set_client_config :: "flags \<Rightarrow> environment \<Rightarrow> environment" where
  "set_client_config fl env =
     (if fl_osClientConfig fl \<noteq> DEFAULT_OS_CLIENT_CONFIG
      then env(''OS_CLIENT_CONFIG_FILE'' \<mapsto> fl_osClientConfig fl) else env)"

datatype collector = Exporter_collector exporter | Version_collector

text \<open>
  How a handler ends: it wrote its answer itself, it handed a registry to \<^verbatim>\<open>promhttp\<close>, it ended the
  process, or it panicked (\<^verbatim>\<open>net/http\<close> then drops the connection).
\<close>

datatype handler_end =
  Answered "http_action list" | Gathered "collector list" | Process_exit int | Handler_panic go_panic

fun enable_loop ::
  "factory \<Rightarrow> (collector list \<Rightarrow> collector \<Rightarrow> bool) \<Rightarrow> exporter_args \<Rightarrow> string list \<Rightarrow>
   collector list \<Rightarrow> endpoint_map \<Rightarrow> (go_panic + collector list) \<times> endpoint_map" where
  "enable_loop fa refused a [] reg m = (Inr reg, m)"
| "enable_loop fa refused a (service # services) reg m =
     (case EnableExporter fa service a m of
        (Inl e, m') \<Rightarrow> enable_loop fa refused a services reg m'
      | (Inr ex, m') \<Rightarrow>
          if refused reg (Exporter_collector ex) then (Inl Collector_refused, m')
          else enable_loop fa refused a services (reg @ [Exporter_collector ex]) m')"

text \<open>What \<^verbatim>\<open>WriteCacheToResponse\<close> reads in a request: the cache and the library's side of it.\<close>

record 'mf cache_side =
  ch_order :: "(string \<times> 'mf MetricFamilyCache) order"
  ch_to_text :: "'mf \<Rightarrow> string \<times> go_error option"
  ch_negotiated :: string
  ch_write_error :: "string \<Rightarrow> go_error option"
  ch_backend :: "'mf InMemoryCache"

definition cached_answer :: "'mf cache_side \<Rightarrow> string \<Rightarrow> string list \<Rightarrow> handler_end" where
  "cached_answer ch cloud enabledServices =
     Answered (fst (WriteCacheToResponse (ch_order ch) (ch_to_text ch) (ch_negotiated ch)
       (ch_write_error ch) cloud enabledServices (ch_backend ch)))"

text \<open>The request's query parameters are strings, empty where the request has none.\<close>

definition probeHandler ::
  "factory \<Rightarrow> (collector list \<Rightarrow> collector \<Rightarrow> bool) \<Rightarrow> flags \<Rightarrow> 'mf cache_side \<Rightarrow> string list \<Rightarrow>
   string \<Rightarrow> string \<Rightarrow> string \<Rightarrow> endpoint_map \<Rightarrow> handler_end \<times> endpoint_map" where
  "probeHandler fa refused fl ch configuredServices cloud includeServices excludeServices m =
     (if cloud = [] then (Answered [Http_error (CHR 0x27 # ''cloud'' @ CHR 0x27 # '' parameter is missing'') 400], m)
      else
        (case selectServicesForRequest configuredServices includeServices excludeServices of
           Inl e \<Rightarrow> (Answered [Http_error (err_text e) 400], m)
         | Inr enabledServices \<Rightarrow>
             if fl_cacheEnable fl then (cached_answer ch cloud enabledServices, m)
             else
               (case enable_loop fa refused ((fl_args fl)\<lparr>xa_Cloud := cloud\<rparr>) enabledServices [] m of
                  (Inl p, m') \<Rightarrow> (Handler_panic p, m')
                | (Inr reg, m') \<Rightarrow> (Gathered reg, m'))))"

definition metricHandler ::
  "(environment \<Rightarrow> factory) \<Rightarrow> (collector list \<Rightarrow> collector \<Rightarrow> bool) \<Rightarrow> flags \<Rightarrow> 'mf cache_side \<Rightarrow>
   string list \<Rightarrow> environment \<Rightarrow> endpoint_map \<Rightarrow> handler_end \<times> environment \<times> endpoint_map" where
  "metricHandler fac refused fl ch configuredServices env m =
     (let env = set_client_config fl env in
      if fl_cacheEnable fl then (cached_answer ch (fl_cloud fl) configuredServices, env, m)
      else
        (case enable_loop (fac env) refused ((fl_args fl)\<lparr>xa_Cloud := fl_cloud fl\<rparr>)
            configuredServices [] m of
           (Inl p, m') \<Rightarrow> (Handler_panic p, env, m')
         | (Inr reg, m') \<Rightarrow>
             if length reg = 0 then (Process_exit (- 1), env, m')
             else if refused reg Version_collector
             then (Handler_panic Collector_refused, env, m')
             else (Gathered (reg @ [Version_collector]), env, m')))"

section \<open>The password from Vault\<close>

record VaultConfig =
  UseVault :: bool
  VaultAddress :: string
  VaultRoleID :: string
  VaultSecretID :: string
  VaultSecretPath :: string
  VaultSecretMountPath :: string
  CredentialNameInVaultSecret :: string

text \<open>
  The calls into the file system, the YAML library and the Vault client. A login answers with the
  client token, if the response has an \<^verbatim>\<open>Auth\<close> part; a read gives the map of the secret.
\<close>

record 'client vault_api =
  va_ReadFile :: "string \<Rightarrow> string fallible"
  va_Unmarshal :: "string \<Rightarrow> VaultConfig fallible"
  va_New :: "string \<Rightarrow> 'client fallible"
  va_AppRoleLogin :: "'client \<Rightarrow> string \<Rightarrow> string \<Rightarrow> string option fallible"
  va_SetToken :: "'client \<Rightarrow> string \<Rightarrow> 'client fallible"
  va_KvV2Read :: "'client \<Rightarrow> string \<Rightarrow> string \<Rightarrow> (string \<times> any) list option fallible"

datatype start_up = Running environment | Exits int | Start_panic go_panic

definition SetPasswordIfVaultIsUsed :: "'client vault_api \<Rightarrow> flags \<Rightarrow> environment \<Rightarrow> start_up" where
  "SetPasswordIfVaultIsUsed va fl env =
     (case va_ReadFile va (fl_osClientConfig fl) of
        Inl e \<Rightarrow> Exits 1
      | Inr configFileData \<Rightarrow>
          (case va_Unmarshal va configFileData of
             Inl e \<Rightarrow> Exits 1
           | Inr vaultConfig \<Rightarrow>
               if \<not> UseVault vaultConfig then Running env
               else (case va_New va (VaultAddress vaultConfig) of
                  Inl e \<Rightarrow> Exits 1
                | Inr client \<Rightarrow>
                    (case va_AppRoleLogin va client (VaultRoleID vaultConfig) (VaultSecretID vaultConfig) of
                       Inl e \<Rightarrow> Exits 1
                     | Inr None \<Rightarrow> Start_panic Nil_deref
                     | Inr (Some token) \<Rightarrow>
                         (case va_SetToken va client token of
                            Inl e \<Rightarrow> Exits 1
                          | Inr client \<Rightarrow>
                              (case va_KvV2Read va client (VaultSecretPath vaultConfig)
                                  (VaultSecretMountPath vaultConfig) of
                                 Inl e \<Rightarrow> Exits 1
                               | Inr secret \<Rightarrow>
                                   (case go_lookup secret (CredentialNameInVaultSecret vaultConfig) of
                                      Some (Any_string pw) \<Rightarrow> Running (env(''OS_PASSWORD'' \<mapsto> pw))
                                    | _ \<Rightarrow> Start_panic Type_assertion)))))))"

section \<open>The start of the process\<close>

datatype main_end = Started "string list" environment | Main_exit int | Main_panic go_panic

text \<open>
  \<open>actions\<close> are the service flags in the order of the command line, \<open>stat_ok\<close> whether the
  configuration file is there, \<open>autodetect env\<close> the result of \<^verbatim>\<open>autodetectServices\<close>. A missing
  \<^verbatim>\<open>cloud\<close> argument is only logged.
\<close>

definition main_start ::
  "'client vault_api \<Rightarrow> (string \<Rightarrow> bool) \<Rightarrow> (environment \<Rightarrow> string list fallible) \<Rightarrow>
   (string \<times> bool) list \<Rightarrow> flags \<Rightarrow> environment \<Rightarrow> main_end" where
  "main_start va stat_ok autodetect actions fl env =
     (let serviceStates = fold (\<lambda>(s, b). service_flag_action s b) actions initial_states;
          env = set_client_config fl env
      in case SetPasswordIfVaultIsUsed va fl env of
           Exits c \<Rightarrow> Main_exit c
         | Start_panic p \<Rightarrow> Main_panic p
         | Running env \<Rightarrow>
             if \<not> stat_ok (fl_osClientConfig fl) then Main_exit 1
             else (case resolveServiceConfig (fl_multiCloud fl) (fl_disableServiceAutodetect fl)
                 serviceStates (autodetect env) of
                Inl e \<Rightarrow> Main_exit 1
              | Inr services \<Rightarrow> Started services env))"

definition autodetectServices ::
  "(string \<Rightarrow> EndpointOpts \<Rightarrow> EndpointOpts) \<Rightarrow> gopher \<Rightarrow> (ProviderClient \<Rightarrow> EndpointOpts \<Rightarrow> string fallible) \<Rightarrow>
   flags \<Rightarrow> string list fallible" where
  "autodetectServices apply_defaults gp locate fl =
     AutodetectServicesFromCatalog apply_defaults
       (case newAuthenticatedProviderClient gp
           (Some \<lparr>opt_Cloud = fl_cloud fl, opt_EnvPrefix = [], opt_RegionName = []\<rparr>) None
           (xa_EndpointType (fl_args fl)) of
          Inl e \<Rightarrow> Inl e
        | Inr (providerClient, c, eo) \<Rightarrow> Inr (locate providerClient, eo))"

section \<open>The routes of the server\<close>

datatype route = Probe_route | Process_metrics_route | Metrics_route | Landing_route

text \<open>
  \<open>clashes\<close> is the library's rule that a pattern cannot be added beside one that is there (a
  pattern clashes with itself), \<open>pattern_ok\<close> its syntax of patterns; \<^verbatim>\<open>http.Handle\<close> panics on both.
\<close>

type_synonym mux = "(string \<times> route) list"

definition Handle ::
  "(string \<Rightarrow> bool) \<Rightarrow> (string \<Rightarrow> string \<Rightarrow> bool) \<Rightarrow> string \<Rightarrow> route \<Rightarrow> mux option \<Rightarrow> mux option" where
  "Handle pattern_ok clashes p r routes =
     (case routes of None \<Rightarrow> None
      | Some rs \<Rightarrow> if pattern_ok p \<and> (\<forall>q \<in> set (map fst rs). \<not> clashes p q) then Some (rs @ [(p, r)])
          else None)"

datatype server_start = Serves mux | Not_started go_error | Server_panic go_panic

definition startHTTPServer ::
  "(string \<Rightarrow> bool) \<Rightarrow> (string \<Rightarrow> string \<Rightarrow> bool) \<Rightarrow> unit fallible \<Rightarrow> flags \<Rightarrow> server_start" where
  "startHTTPServer pattern_ok clashes landing fl =
     (let routes = (if fl_multiCloud fl
        then Handle pattern_ok clashes (fl_metrics fl) Process_metrics_route
          (Handle pattern_ok clashes ''/probe'' Probe_route (Some []))
        else Handle pattern_ok clashes (fl_metrics fl) Metrics_route (Some []))
      in case routes of
           None \<Rightarrow> Server_panic Route_refused
         | Some rs \<Rightarrow>
             if fl_metrics fl \<noteq> ''/'' \<and> fl_metrics fl \<noteq> [] then
               (case landing of
                  Inl e \<Rightarrow> Not_started e
                | Inr u \<Rightarrow>
                    (case Handle pattern_ok clashes ''/'' Landing_route (Some rs) of
                       None \<Rightarrow> Server_panic Route_refused
                     | Some rs' \<Rightarrow> Serves rs'))
             else Serves rs)"

section \<open>Enabling exporters one after the other\<close>

lemma EnableExporter_map:
  "fst (EnableExporter fa s a m) = fst (EnableExporter fa s a m') \<and>
   (\<forall>k. k \<noteq> s \<longrightarrow> snd (EnableExporter fa s a m) k = m k)"
  by (auto simp: EnableExporter_def NewExporter_def NewServiceClientV2_def Let_def
      split: sum.splits option.splits prod.splits)

text \<open>The exporters that can be enabled, in the order of the services.\<close>

definition exporters_of :: "factory \<Rightarrow> exporter_args \<Rightarrow> string list \<Rightarrow> collector list" where
  "exporters_of fa a services = List.map_filter
     (\<lambda>s. case fst (EnableExporter fa s a Map.empty) of
        Inl e \<Rightarrow> None | Inr ex \<Rightarrow> Some (Exporter_collector ex)) services"

fun registers :: "(collector list \<Rightarrow> collector \<Rightarrow> bool) \<Rightarrow> collector list \<Rightarrow> collector list \<Rightarrow> bool" where
  "registers refused reg [] = True"
| "registers refused reg (c # cs) = (\<not> refused reg c \<and> registers refused (reg @ [c]) cs)"

lemma enable_loop_spec:
  "fst (enable_loop fa refused a services reg m) =
     (if registers refused reg (exporters_of fa a services)
      then Inr (reg @ exporters_of fa a services) else Inl Collector_refused) \<and>
   (\<forall>k. k \<notin> set services \<longrightarrow> snd (enable_loop fa refused a services reg m) k = m k)"
proof (induction services arbitrary: reg m)
  case Nil
  then show ?case by (simp add: exporters_of_def List.map_filter_def)
next
  case (Cons s ss)
  obtain r m' where en: "EnableExporter fa s a m = (r, m')" by (cases "EnableExporter fa s a m")
  have r: "fst (EnableExporter fa s a Map.empty) = r" and m': "k \<noteq> s \<Longrightarrow> m' k = m k" for k
    using EnableExporter_map [of fa s a m Map.empty] en by auto
  show ?case
    using Cons.IH [of reg m'] Cons.IH [of "reg @ [c]" m' for c] m'
    by (cases r) (auto simp: en r exporters_of_def List.map_filter_def)
qed

section \<open>The services of a started process\<close>

lemma service_flags:
  "state_of (fold (\<lambda>(s, b). service_flag_action s b) actions st) s =
     (case map_of (rev actions) s of None \<Rightarrow> state_of st s
      | Some b \<Rightarrow> if b then serviceDisabled else serviceEnabled)"
  by (induction actions arbitrary: st) (auto simp: service_flag_action_def map_add_def split: option.splits)

lemma resolved_filter:
  "resolveServiceConfig multi dis st auto = Inr services \<Longrightarrow> services \<noteq> [] \<and>
     (\<exists>P. services = filter P SupportedExporters \<and> (\<forall>s. P s \<longrightarrow> state_of st s \<noteq> serviceDisabled))"
  by (auto simp: resolveServiceConfig_def strict_services autodetected_services Let_def
      split: if_splits sum.splits)

lemma vault_env:
  "case SetPasswordIfVaultIsUsed va fl env of
     Running env' \<Rightarrow> \<forall>v. v \<noteq> ''OS_PASSWORD'' \<longrightarrow> env' v = env v
   | Exits c \<Rightarrow> c = 1 | Start_panic p \<Rightarrow> p = Type_assertion \<or> p = Nil_deref"
  by (auto simp: SetPasswordIfVaultIsUsed_def split: sum.splits option.splits any.splits)

section \<open>Properties\<close>

text \<open>
  Property C6. The answer of \<^verbatim>\<open>/probe\<close>: 400 without a cloud and for service lists with an unknown
  name; the cached text with the cache on; otherwise a registry with the exporters of the selected
  services that could be enabled, in the order selected, or a panic where the registry refuses one
  of them. A service that fails is left out of the answer and does not change the others, nor does
  any request before this one; and the request touches the endpoint options of no other service.
\<close>

theorem probe_answer:
  "fst (probeHandler fa refused fl ch configured cloud inc exc m) =
     (if cloud = [] then Answered [Http_error (CHR 0x27 # ''cloud'' @ CHR 0x27 # '' parameter is missing'') 400]
      else case selectServicesForRequest configured inc exc of
        Inl e \<Rightarrow> Answered [Http_error (err_text e) 400]
      | Inr services \<Rightarrow>
          (let found = exporters_of fa ((fl_args fl)\<lparr>xa_Cloud := cloud\<rparr>) services in
           if fl_cacheEnable fl then cached_answer ch cloud services
           else if registers refused [] found then Gathered found
           else Handler_panic Collector_refused)) \<and>
   {k. snd (probeHandler fa refused fl ch configured cloud inc exc m) k \<noteq> m k}
     \<subseteq> set (case selectServicesForRequest configured inc exc of Inl e \<Rightarrow> [] | Inr services \<Rightarrow> services)"
proof (cases "selectServicesForRequest configured inc exc")
  case (Inl e)
  then show ?thesis by (simp add: probeHandler_def)
next
  case (Inr services)
  let ?r = "enable_loop fa refused ((fl_args fl)\<lparr>xa_Cloud := cloud\<rparr>) services [] m"
  show ?thesis
    using enable_loop_spec [of fa refused "(fl_args fl)\<lparr>xa_Cloud := cloud\<rparr>" services "[]" m]
    by (auto simp: probeHandler_def Inr Let_def split: prod.splits sum.splits if_splits)
qed

text \<open>
  Property C22. A scrape in single-cloud mode ends the whole process exactly when the cache is off
  and none of the configured services could be enabled; when at least one can be, the failing ones
  are left out and the registry holds the others and, last, the version collector.
\<close>

theorem metrics_scrape:
  "(fst (metricHandler fac refused fl ch configured env m) = Process_exit (- 1)) =
     (\<not> fl_cacheEnable fl \<and> exporters_of (fac (set_client_config fl env))
        ((fl_args fl)\<lparr>xa_Cloud := fl_cloud fl\<rparr>) configured = []) \<and>
   (case fst (metricHandler fac refused fl ch configured env m) of
      Gathered cs \<Rightarrow> cs = exporters_of (fac (set_client_config fl env))
        ((fl_args fl)\<lparr>xa_Cloud := fl_cloud fl\<rparr>) configured @ [Version_collector] \<and> registers refused [] cs
    | Answered xs \<Rightarrow> fl_cacheEnable fl \<and> Answered xs = cached_answer ch (fl_cloud fl) configured
    | Process_exit c \<Rightarrow> c = - 1
    | Handler_panic p \<Rightarrow> p = Collector_refused)"
proof -
  have snoc: "registers refused reg (cs @ [c]) = (registers refused reg cs \<and> \<not> refused (reg @ cs) c)"
    for reg cs c by (induction cs arbitrary: reg) auto
  show ?thesis
    using enable_loop_spec [of "fac (set_client_config fl env)" refused
        "(fl_args fl)\<lparr>xa_Cloud := fl_cloud fl\<rparr>" configured "[]" m]
    by (auto simp: metricHandler_def cached_answer_def snoc Let_def split: prod.splits sum.splits if_splits)
qed

text \<open>
  A secret that lacks the configured credential, or has it under a type other than
  string, ends the start of the process in a failed type assertion, not in the logged error and
  exit code 1 of every other failure; the environment is only ever changed in \<^verbatim>\<open>OS_PASSWORD\<close>, and
  only when Vault is used.
\<close>

theorem vault_password:
  assumes "va_ReadFile va (fl_osClientConfig fl) = Inr d" and "va_Unmarshal va d = Inr vc"
    and "va_New va (VaultAddress vc) = Inr c"
    and "va_AppRoleLogin va c (VaultRoleID vc) (VaultSecretID vc) = Inr (Some token)"
    and "va_SetToken va c token = Inr c'"
    and "va_KvV2Read va c' (VaultSecretPath vc) (VaultSecretMountPath vc) = Inr secret"
  shows "SetPasswordIfVaultIsUsed va fl env =
    (if \<not> UseVault vc then Running env
     else case go_lookup secret (CredentialNameInVaultSecret vc) of
       Some (Any_string pw) \<Rightarrow> Running (env(''OS_PASSWORD'' \<mapsto> pw))
     | Some (Any_map v) \<Rightarrow> Start_panic Type_assertion
     | Some (Any_other t) \<Rightarrow> Start_panic Type_assertion
     | None \<Rightarrow> Start_panic Type_assertion)"
  using assms by (simp add: SetPasswordIfVaultIsUsed_def split: option.splits any.splits)

definition sample_vault :: "unit vault_api" where
  "sample_vault = \<lparr>va_ReadFile = Inr,
     va_Unmarshal = (\<lambda>d. Inr \<lparr>UseVault = True, VaultAddress = ''v'', VaultRoleID = ''r'',
        VaultSecretID = ''s'', VaultSecretPath = ''p'', VaultSecretMountPath = ''m'',
        CredentialNameInVaultSecret = ''password''\<rparr>),
     va_New = (\<lambda>d. Inr ()), va_AppRoleLogin = (\<lambda>c r s. Inr (Some ''t'')), va_SetToken = (\<lambda>c t. Inr c),
     va_KvV2Read = (\<lambda>c p m. Inr (Some [(''user'', Any_string ''u'')]))\<rparr>"

definition sample_flags :: flags where
  "sample_flags = \<lparr>fl_metrics = ''/metrics'', fl_osClientConfig = ''clouds.yaml'', fl_multiCloud = False,
     fl_cloud = [], fl_cacheEnable = False, fl_disableServiceAutodetect = True, fl_args = sample_args\<rparr>"

theorem vault_password_witness:
  "SetPasswordIfVaultIsUsed sample_vault sample_flags Map.empty = Start_panic Type_assertion"
  by (subst vault_password [of sample_vault sample_flags "fl_osClientConfig sample_flags"
        "\<lparr>UseVault = True, VaultAddress = ''v'', VaultRoleID = ''r'', VaultSecretID = ''s'',
          VaultSecretPath = ''p'', VaultSecretMountPath = ''m'', CredentialNameInVaultSecret = ''password''\<rparr>"
        "()" "''t''" "()" "Some [(''user'', Any_string ''u'')]"])
    (simp_all add: sample_vault_def go_lookup_def)

text \<open>
  Property C39. A process that starts has at least one service, all of them known, none twice and none
  that a flag disabled last; and its environment differs at most in the two variables it sets.
\<close>

theorem process_start:
  "case main_start va stat_ok autodetect actions fl env of
     Started services env' \<Rightarrow>
       services \<noteq> [] \<and> distinct services \<and> set services \<subseteq> set SupportedExporters \<and>
       {s. map_of (rev actions) s = Some True} \<inter> set services = {} \<and>
       {v. env' v \<noteq> env v} \<subseteq> {''OS_CLIENT_CONFIG_FILE'', ''OS_PASSWORD''}
   | Main_exit c \<Rightarrow> c = 1
   | Main_panic p \<Rightarrow> p = Type_assertion \<or> p = Nil_deref"
proof -
  let ?st = "fold (\<lambda>(s, b). service_flag_action s b) actions initial_states"
  have flags: "state_of ?st s = serviceDisabled" if "map_of (rev actions) s = Some True" for s
    using that by (simp add: service_flags)
  have env: "set_client_config fl env v = env v" if "v \<noteq> ''OS_CLIENT_CONFIG_FILE''" for v
    using that by (simp add: set_client_config_def)
  have "distinct (filter P SupportedExporters)" for P
    using SupportedExporters_distinct by simp
  then show ?thesis
    using vault_env [where va = va and fl = fl and env = "set_client_config fl env"] flags env
    by (auto simp: main_start_def Let_def dest!: resolved_filter
        split: start_up.splits sum.splits if_splits)
qed

text \<open>
  The routes of the server: a telemetry path that is the probe's path cannot be served
  in multi-cloud mode (the second registration of the pattern panics), and with the default path
  both modes serve the metrics and the landing page, and only the multi-cloud mode serves probes.
\<close>

theorem server_routes:
  assumes "\<And>p. clashes p p" and "\<not> clashes ''/metrics'' ''/probe''"
    and "\<not> clashes ''/'' ''/metrics''" and "\<not> clashes ''/'' ''/probe''"
    and "pattern_ok ''/''" and "pattern_ok ''/probe''" and "pattern_ok ''/metrics''"
  shows "startHTTPServer pattern_ok clashes (Inr ()) (fl\<lparr>fl_multiCloud := True, fl_metrics := ''/probe''\<rparr>)
      = Server_panic Route_refused
    \<and> startHTTPServer pattern_ok clashes (Inr ()) (fl\<lparr>fl_multiCloud := True, fl_metrics := ''/metrics''\<rparr>)
      = Serves [(''/probe'', Probe_route), (''/metrics'', Process_metrics_route), (''/'', Landing_route)]
    \<and> startHTTPServer pattern_ok clashes (Inr ()) (fl\<lparr>fl_multiCloud := False, fl_metrics := ''/metrics''\<rparr>)
      = Serves [(''/metrics'', Metrics_route), (''/'', Landing_route)]"
  using assms by (simp add: startHTTPServer_def Handle_def Let_def)

theorem server_routes_witness:
  "startHTTPServer (\<lambda>p. True) (=) (Inr ()) (sample_flags\<lparr>fl_multiCloud := True, fl_metrics := ''/probe''\<rparr>)
     = Server_panic Route_refused"
  using server_routes [of "(=)" "\<lambda>p. True" sample_flags] by simp

end
