(* ===== verification/Metric_Names.thy ===== *)
theory Metric_Names
  imports Factory
begin

text \<open>
  The names that the exporters of the services give their metrics: exporters of different services
  never describe the same metric, so one registry can hold all of them.
\<close>

section \<open>Names\<close>

text \<open>
  The documented \<^verbatim>\<open>BuildFQName\<close>, as far as the code uses it: the non-empty parts joined with an
  underscore; the code's subsystem is always empty.
\<close>

definition documented_fqname :: "prom \<Rightarrow> bool" where
  "documented_fqname pr \<longleftrightarrow>
     (\<forall>ns n. ns \<noteq> [] \<longrightarrow> n \<noteq> [] \<longrightarrow> BuildFQName pr ns [] n = ns @ ''_'' @ n)"

abbreviation base_names :: "string list" where
  "base_names \<equiv> map base_name SupportedExporters"

lemma base_names_eval:
  "base_names = [''neutron'', ''nova'', ''glance'', ''cinder'', ''identity'', ''object_store'',
     ''loadbalancer'', ''container_infra'', ''designate'', ''ironic'', ''gnocchi'', ''trove'', ''heat'',
     ''placement'', ''sharev2'']"
  by (simp add: SupportedExporters_def base_name_def)

lemma base_name_inj: "inj_on base_name (set SupportedExporters)"
proof -
  have "distinct base_names" unfolding base_names_eval by simp
  then show ?thesis by (simp only: distinct_map)
qed

lemma base_names_prefix_free:
  assumes "b \<in> set base_names" and "c \<in> set base_names" and "b @ ''_'' @ m = c @ ''_'' @ n"
  shows "b = c"
proof -
  have "list_all (\<lambda>b. list_all (\<lambda>c. b = c \<or> \<not> prefix (b @ ''_'') (c @ ''_'')) base_names) base_names"
    unfolding base_names_eval by code_simp
  then have free: "prefix (x @ ''_'') (y @ ''_'') \<Longrightarrow> x \<in> set base_names \<Longrightarrow> y \<in> set base_names \<Longrightarrow> x = y"
    for x y unfolding list_all_iff by blast
  have own: "prefix (x @ ''_'') (x @ ''_'' @ k)" for x k :: string
    unfolding append_assoc [symmetric] by (rule prefixI) (rule refl)
  have "prefix (c @ ''_'') (b @ ''_'' @ m)" unfolding assms(3) by (rule own)
  then have "prefix (b @ ''_'') (c @ ''_'') \<or> prefix (c @ ''_'') (b @ ''_'')"
    using own [of b m] by (blast dest: prefix_same_cases)
  then consider "prefix (b @ ''_'') (c @ ''_'')" | "prefix (c @ ''_'') (b @ ''_'')"
    by (blast dest: prefix_same_cases)
  then show ?thesis using free assms(1,2) by cases (blast dest: sym)+
qed

lemma fqname_not_collect_seconds:
  assumes "b \<in> set base_names"
  shows "p @ ''_'' @ b @ ''_'' @ m \<noteq> ''openstack_metric_collect_seconds''"
proof
  assume "p @ ''_'' @ b @ ''_'' @ m = ''openstack_metric_collect_seconds''"
  then have "sublist (''_'' @ b @ ''_'') ''openstack_metric_collect_seconds''"
    unfolding sublist_def by (metis append.assoc)
  moreover have "list_all (\<lambda>b. \<not> sublist (''_'' @ b @ ''_'') ''openstack_metric_collect_seconds'') base_names"
    unfolding base_names_eval by code_simp
  ultimately show False using assms unfolding list_all_iff by blast
qed

lemma base_name_mem: "name \<in> set SupportedExporters \<Longrightarrow> base_name name \<in> set base_names"
  by simp

lemma table_of_named: "[] \<notin> set (map m_Name (table_of name a))"
  unfolding table_of_def
  by (simp add: defaultNeutronMetrics_def nova_table_names defaultNovaMetrics_def defaultGlanceMetrics_def
      defaultCinderMetrics_def defaultKeystoneMetrics_def defaultObjectStoreMetrics_def
      defaultLoadbalancerMetrics_def defaultContainerInfraMetrics_def defaultDesignateMetrics_def
      defaultIronicMetrics_def defaultGnocchiMetrics_def defaultTroveMetrics_def defaultHeatMetrics_def
      defaultPlacementMetrics_def defaultManilaMetrics_def del: set_map)

lemma metrics_cases:
  "(k, pm) \<in> set (metrics_of (register_table pr (table_of name a) (new_base n cfg))) \<Longrightarrow>
     (k, pm) \<in> set (base_metrics pr None (new_base n cfg)) \<or>
     (\<exists>t \<in> set (table_of name a). (k, pm) = entry pr (new_base n cfg) t)"
  by (auto simp: metric_table.registry_exact [OF table_of_metric_table] metrics_of_def registry_def
      split: if_splits)

text \<open>The descriptors of a constructed exporter.\<close>

lemma descriptor_cases:
  assumes "fst (NewExporter fa name a m) = Inr ex" and "documented_fqname (fa_prom fa)"
    and "permutes_order ord" and "d \<in> set (Describe ord ex)"
  shows "(\<exists>n. d_fqName d = xa_Prefix a @ ''_'' @ base_name name @ ''_'' @ n) \<or>
    (d_fqName d = ''openstack_metric_collect_seconds'' \<and>
     d_constLabels d = [(''openstack_service'', xa_Prefix a @ ''_'' @ base_name name)])"
proof -
  from NewExporter_registers [OF assms(1)] obtain cl where
    ex: "ex = register_table (fa_prom fa) (table_of name a)
      (new_base (base_name name) (exporter_config cl name a))" by blast
  let ?b = "new_base (base_name name) (exporter_config cl name a)"
  have named: "GetName ?b = xa_Prefix a @ ''_'' @ base_name name"
    by (simp add: GetName_def)
  have tbl: "m_Name t \<noteq> []" if "t \<in> set (table_of name a)" for t
    using that table_of_named [of name a] by (metis image_eqI list.set_map)
  have "d \<in> (\<lambda>e. pm_Metric (snd e)) ` set (metrics_of ex)"
    using assms(3,4) by (simp add: Describe_def permutes_order_set o_def)
  then obtain k pm where pm: "(k, pm) \<in> set (metrics_of ex)" and d: "d = pm_Metric pm"
    by force
  have "(k, pm) \<in> set (base_metrics (fa_prom fa) None ?b) \<or>
      (\<exists>t \<in> set (table_of name a). (k, pm) = entry (fa_prom fa) ?b t)"
    using metrics_cases pm unfolding ex .
  then show ?thesis
    using assms(2) tbl
    by (auto simp: base_metrics_def entry_def d named documented_fqname_def)
qed

lemma descriptors_differ:
  assumes "fst (NewExporter fa name1 a m1) = Inr ex1" and "fst (NewExporter fa name2 a m2) = Inr ex2"
    and "name1 \<noteq> name2" and "documented_fqname (fa_prom fa)"
    and "permutes_order ord1" and "permutes_order ord2"
    and "d1 \<in> set (Describe ord1 ex1)" and "d2 \<in> set (Describe ord2 ex2)"
  shows "(d_fqName d1, d_constLabels d1) \<noteq> (d_fqName d2, d_constLabels d2) \<and>
    (d_fqName d1 = d_fqName d2 \<longrightarrow> d_fqName d1 = ''openstack_metric_collect_seconds'')"
proof -
  have sup: "name1 \<in> set SupportedExporters" "name2 \<in> set SupportedExporters"
    using NewExporter_registers [OF assms(1)] NewExporter_registers [OF assms(2)] by blast+
  let ?p = "xa_Prefix a @ ''_''" and ?b1 = "base_name name1" and ?b2 = "base_name name2"
  have ne: "?b1 \<noteq> ?b2"
    using sup assms(3) base_name_inj by (auto dest: inj_onD)
  have free: "?b1 @ ''_'' @ m \<noteq> ?b2 @ ''_'' @ n" for m n
    using base_names_prefix_free [OF base_name_mem [OF sup(1)] base_name_mem [OF sup(2)]] ne by blast
  from descriptor_cases [OF assms(1,4,5,7)] show ?thesis
  proof (elim disjE exE conjE)
    fix n assume d1: "d_fqName d1 = xa_Prefix a @ ''_'' @ ?b1 @ ''_'' @ n"
    then have "d_fqName d1 \<noteq> ''openstack_metric_collect_seconds''"
      using fqname_not_collect_seconds [OF base_name_mem [OF sup(1)]] by metis
    moreover have "d_fqName d1 \<noteq> xa_Prefix a @ ''_'' @ ?b2 @ ''_'' @ n'" for n'
      unfolding d1 same_append_eq by (rule free)
    ultimately have "d_fqName d1 \<noteq> d_fqName d2"
      using descriptor_cases [OF assms(2,4,6,8)] by (elim disjE exE conjE) simp_all
    then show ?thesis by simp
  next
    assume d1: "d_fqName d1 = ''openstack_metric_collect_seconds''"
      "d_constLabels d1 = [(''openstack_service'', xa_Prefix a @ ''_'' @ ?b1)]"
    have "d_fqName d2 \<noteq> d_fqName d1 \<or> d_constLabels d2 \<noteq> d_constLabels d1"
      using descriptor_cases [OF assms(2,4,6,8)] ne
        fqname_not_collect_seconds [OF base_name_mem [OF sup(2)]]
      by (elim disjE exE conjE) (simp_all add: d1)
    then show ?thesis using d1(1) by auto
  qed
qed

text \<open>
  Property C5. Exporters of two different services never describe the same metric: their
  descriptors' names differ, except for the collection time, where the constant labels do. So the
  registry of a request, which gets one exporter per service, has no reason to refuse one of them
  for a duplicate, whatever the prefix, the cloud or the disabled metrics.
\<close>

theorem services_do_not_clash:
  assumes "fst (NewExporter fa name1 a m1) = Inr ex1" and "fst (NewExporter fa name2 a m2) = Inr ex2"
    and "name1 \<noteq> name2" and "documented_fqname (fa_prom fa)"
    and "permutes_order ord1" and "permutes_order ord2"
    and "d1 \<in> set (Describe ord1 ex1)" and "d2 \<in> set (Describe ord2 ex2)"
  shows "(d_fqName d1, d_constLabels d1) \<noteq> (d_fqName d2, d_constLabels d2) \<and>
    (d_fqName d1 = d_fqName d2 \<longrightarrow> d_fqName d1 = ''openstack_metric_collect_seconds'')"
  using assms by (rule descriptors_differ)

definition sample_described :: "string \<Rightarrow> exporter \<Rightarrow> bool" where
  "sample_described name ex \<longleftrightarrow> fst (NewExporter sample_factory name sample_args Map.empty) = Inr ex"

lemma sample_factory_makes:
  "\<exists>ex. sample_described ''object-store'' ex" "\<exists>ex. sample_described ''image'' ex"
  by (simp_all add: sample_described_def NewExporter_def sample_factory_def sample_args_def two_clouds_def
      Let_def new_cloud_def choose_transport_def client_certificate_def verify_settings_def
      NewServiceClientV2_def newAuthenticatedProviderClient_def AuthenticatedClientV2_def
      service_client_def construct_def)

theorem services_do_not_clash_witness:
  "\<exists>ex1 ex2. sample_described ''object-store'' ex1 \<and> sample_described ''image'' ex2 \<and>
     (\<lambda>d. (d_fqName d, d_constLabels d)) ` set (Describe (\<lambda>es. es) ex1)
     \<inter> (\<lambda>d. (d_fqName d, d_constLabels d)) ` set (Describe (\<lambda>es. es) ex2) = {}"
proof -
  obtain ex1 ex2 where ex: "sample_described ''object-store'' ex1" "sample_described ''image'' ex2"
    using sample_factory_makes by blast
  have pr: "documented_fqname (fa_prom sample_factory)"
    by (simp add: documented_fqname_def sample_factory_def sample_prom_def)
  show ?thesis
    using ex services_do_not_clash [OF ex(1) [unfolded sample_described_def]
        ex(2) [unfolded sample_described_def] _ pr permutes_order_id permutes_order_id]
    by blast
qed

end
