(* ===== verification/Safe_Runs.thy ===== *)
theory Safe_Runs
  imports Collect_Run
begin

text \<open>
  Collections that do not panic, and what follows for a whole run: the interface of a service is its
  table and the list functions that the table names.
\<close>

named_theorems safe_intros "rules that take a collection apart into the samples it sends"

definition safe :: "coll \<Rightarrow> bool" where
  "safe c \<longleftrightarrow> \<not> panicking c"

lemma safe_stop: "safe (xs, Done)" "safe (xs, Failed e)" "\<not> safe (xs, Panicked p)"
  by (simp_all add: safe_def panicking_def)

lemma safe_finish [safe_intros]: "safe finish"
  by (simp add: finish_def safe_stop)

lemma safe_return_error [safe_intros]: "safe (return_error e)"
  by (simp add: return_error_def safe_stop)

lemma safe_and_then [safe_intros]: "safe a \<Longrightarrow> safe b \<Longrightarrow> safe (and_then a b)"
  by (cases a; cases b; cases "snd a"; cases "snd b") (auto simp: safe_stop)

lemma safe_in_order_Nil [safe_intros]: "safe (in_order [])"
  by (simp add: safe_finish)

lemma safe_in_order_Cons [safe_intros]: "safe c \<Longrightarrow> safe (in_order cs) \<Longrightarrow> safe (in_order (c # cs))"
  by (simp add: safe_and_then)

lemma safe_for_each [safe_intros]: "(\<And>x. x \<in> set xs \<Longrightarrow> safe (f x)) \<Longrightarrow> safe (for_each xs f)"
  by (induction xs) (auto intro: safe_intros)

lemma safe_try_get [safe_intros]: "(\<And>x. r = Inr x \<Longrightarrow> safe (k x)) \<Longrightarrow> safe (try_get r k)"
  by (cases r) (auto intro: safe_intros)

lemma safe_if [safe_intros]: "(b \<Longrightarrow> safe c) \<Longrightarrow> (\<not> b \<Longrightarrow> safe d) \<Longrightarrow> safe (if b then c else d)"
  by simp

lemma safe_Let [safe_intros]: "safe (f x) \<Longrightarrow> safe (let y = x in f y)"
  by simp

lemma safe_case_prod [safe_intros]:
  "(\<And>a b. x = (a, b) \<Longrightarrow> safe (f a b)) \<Longrightarrow> safe (case x of (a, b) \<Rightarrow> f a b)"
  by (cases x) simp

lemma safe_case_option [safe_intros]:
  "safe c \<Longrightarrow> (\<And>y. x = Some y \<Longrightarrow> safe (f y)) \<Longrightarrow> safe (case x of None \<Rightarrow> c | Some y \<Rightarrow> f y)"
  by (cases x) simp_all

lemma safe_case_sum [safe_intros]:
  "(\<And>y. x = Inl y \<Longrightarrow> safe (f y)) \<Longrightarrow> (\<And>y. x = Inr y \<Longrightarrow> safe (g y)) \<Longrightarrow>
     safe (case x of Inl y \<Rightarrow> f y | Inr y \<Rightarrow> g y)"
  by (cases x) simp_all

lemma safe_emit [safe_intros]:
  "accepts_arity pr \<Longrightarrow> registered ex n (length ls) \<Longrightarrow> safe (emit pr ex n v ls)"
  by (simp add: emit_ok safe_stop)

lemma safe_emit_desc [safe_intros]:
  "accepts_arity pr \<Longrightarrow> registered ex n (length ls) \<Longrightarrow> safe (emit_desc pr (desc_at ex n) v ls)"
  by (simp add: emit_desc_ok safe_stop)

lemma safe_with_desc: "registered ex n k \<Longrightarrow> safe (f (desc_at ex n)) \<Longrightarrow> safe (with_desc ex n f)"
  by (simp add: with_desc_ok)

lemma wired_Nil [simp]: "wired ex []"
  by (simp add: wired_def)

lemma wired_Cons [simp]:
  "wired ex (m # ms) \<longleftrightarrow> registered ex (m_Name m) (length (m_Labels m)) \<and> wired ex ms"
  by (simp add: wired_def)


section \<open>The list functions of a service\<close>

text \<open>
  The list functions that a table names, with what each of them sends; a name that no function has
  would be a nil function value.
\<close>

type_synonym fn_results = "(ListFunc \<times> coll) list"

definition dispatch :: "fn_results \<Rightarrow> ListFunc \<Rightarrow> coll" where
  "dispatch fs f = (case map_of fs f of Some c \<Rightarrow> c | None \<Rightarrow> ([], Panicked Nil_deref))"

text \<open>
  \<open>needs\<close> lists, by list function, the metrics that it sends under. \<open>needs_ok\<close> checks it against a
  table: every function named there is listed, and the rows it needs are there whenever its own row
  is, whatever the flags for slow and deprecated metrics.
\<close>

type_synonym needs = "(ListFunc \<times> string list) list"

type_synonym row = "string \<times> ListFunc option \<times> bool \<times> bool"

definition rows :: "Metric list \<Rightarrow> row list" where
  "rows table = map (\<lambda>m. (m_Name m, m_Fn m, m_Slow m, m_DeprecatedVersion m \<noteq> [])) table"

definition row_implies :: "row \<Rightarrow> row \<Rightarrow> bool" where
  "row_implies r r' \<longleftrightarrow> (case r of (n, fn, slow, deprecated) \<Rightarrow> case r' of (n', fn', slow', deprecated') \<Rightarrow>
     (slow' \<longrightarrow> slow) \<and> (deprecated' \<longrightarrow> deprecated))"

definition needs_ok :: "row list \<Rightarrow> needs \<Rightarrow> bool" where
  "needs_ok rs needs \<longleftrightarrow> list_all (\<lambda>r. case fst (snd r) of None \<Rightarrow> True | Some f \<Rightarrow>
     (case map_of needs f of None \<Rightarrow> False
      | Some ns \<Rightarrow> list_all (\<lambda>r'. fst r' \<notin> set ns \<or> row_implies r r') rs)) rs"

definition wired_on :: "exporter \<Rightarrow> Metric list \<Rightarrow> string list \<Rightarrow> bool" where
  "wired_on ex table ns \<longleftrightarrow>
     (\<forall>m \<in> set table. m_Name m \<in> set ns \<longrightarrow> registered ex (m_Name m) (length (m_Labels m)))"

lemma wired_on_Nil [simp]: "wired_on ex [] ns"
  by (simp add: wired_on_def)

lemma wired_on_Cons [simp]:
  "wired_on ex (m # ms) ns \<longleftrightarrow>
     (m_Name m \<in> set ns \<longrightarrow> registered ex (m_Name m) (length (m_Labels m))) \<and> wired_on ex ms ns"
  by (auto simp: wired_on_def)

text \<open>The number of labels of the rows of a table, by name.\<close>

definition arities :: "Metric list \<Rightarrow> string \<rightharpoonup> nat" where
  "arities table = map_of (map (\<lambda>m. (m_Name m, length (m_Labels m))) table)"

lemma arities_simps [simp]:
  "arities [] = Map.empty"
  "arities (m # ms) = (arities ms)(m_Name m \<mapsto> length (m_Labels m))"
  by (simp_all add: arities_def)

lemma wired_on_row:
  "wired_on ex table ns \<Longrightarrow> arities table n = Some k \<Longrightarrow> n \<in> set ns \<Longrightarrow> registered ex n k"
  unfolding wired_on_def arities_def by (drule map_of_SomeD) auto

definition functions_safe :: "exporter \<Rightarrow> Metric list \<Rightarrow> needs \<Rightarrow> fn_results \<Rightarrow> bool" where
  "functions_safe ex table needs fs \<longleftrightarrow>
     list_all2 (\<lambda>(f, ns) (g, c). f = g \<and> (wired_on ex table ns \<longrightarrow> safe c)) needs fs"

lemma functions_safe_simps [simp]:
  "functions_safe ex table [] []"
  "functions_safe ex table ((f, ns) # needs) ((g, c) # fs) \<longleftrightarrow>
     f = g \<and> (wired_on ex table ns \<longrightarrow> safe c) \<and> functions_safe ex table needs fs"
  by (auto simp: functions_safe_def)

lemma functions_safe_Nil [safe_intros]: "functions_safe ex table [] []"
  by simp

lemma functions_safe_Cons [safe_intros]:
  "(wired_on ex table ns \<Longrightarrow> safe c) \<Longrightarrow> functions_safe ex table needs fs \<Longrightarrow>
     functions_safe ex table ((f, ns) # needs) ((f, c) # fs)"
  by simp

lemma functions_safe_dispatch:
  "functions_safe ex table needs fs \<Longrightarrow> map_of needs f = Some ns \<Longrightarrow> wired_on ex table ns \<Longrightarrow>
     safe (dispatch fs f)"
  unfolding functions_safe_def
  by (induction needs fs rule: list_all2_induct) (auto simp: dispatch_def split: if_splits)

text \<open>A set of enabled rows that is closed: each function's rows are enabled with it.\<close>

definition closed_rows :: "exporter \<Rightarrow> Metric list \<Rightarrow> needs \<Rightarrow> bool" where
  "closed_rows ex table needs \<longleftrightarrow>
     (\<forall>m \<in> set table. \<forall>f ns. enabled ex m \<and> m_Fn m = Some f \<and> map_of needs f = Some ns \<longrightarrow>
        (\<forall>m' \<in> set table. m_Name m' \<in> set ns \<longrightarrow> enabled ex m'))"

lemma needs_ok_row:
  assumes "needs_ok (rows table) needs" and "m \<in> set table" and "m_Fn m = Some f"
  shows "\<exists>ns. map_of needs f = Some ns \<and> (\<forall>m' \<in> set table. m_Name m' \<in> set ns \<longrightarrow>
      (m_Slow m' \<longrightarrow> m_Slow m) \<and> (m_DeprecatedVersion m' \<noteq> [] \<longrightarrow> m_DeprecatedVersion m \<noteq> []))"
proof -
  let ?r = "\<lambda>m. (m_Name m, m_Fn m, m_Slow m, m_DeprecatedVersion m \<noteq> [])"
  have "?r m \<in> set (rows table)" using assms(2) by (auto simp: rows_def)
  with assms(1) have "case fst (snd (?r m)) of None \<Rightarrow> True | Some f \<Rightarrow>
     (case map_of needs f of None \<Rightarrow> False
      | Some ns \<Rightarrow> \<forall>r' \<in> set (rows table). fst r' \<notin> set ns \<or> row_implies (?r m) r')"
    unfolding needs_ok_def list_all_iff by (rule bspec)
  then show ?thesis
    using assms(3) by (auto simp: rows_def row_implies_def split: option.splits)
qed

text \<open>With no metric disabled by name, the flags for slow and deprecated metrics leave a closed set.\<close>

lemma closed_rows_flags:
  assumes "needs_ok (rows table) needs" and "DisabledMetrics ex = []"
  shows "closed_rows ex table needs"
  unfolding closed_rows_def
proof (intro ballI allI impI, elim conjE)
  fix m f ns m'
  assume m: "m \<in> set table" "enabled ex m" "m_Fn m = Some f" "map_of needs f = Some ns"
    and m': "m' \<in> set table" "m_Name m' \<in> set ns"
  with needs_ok_row [OF assms(1) m(1,3)] have
    "(m_Slow m' \<longrightarrow> m_Slow m) \<and> (m_DeprecatedVersion m' \<noteq> [] \<longrightarrow> m_DeprecatedVersion m \<noteq> [])"
    by auto
  with m(2) assms(2) show "enabled ex m'"
    by (auto simp: enabled_def MetricIsDisabled_iff isSlowMetric_def isDeprecatedMetric_def)
qed

text \<open>
  The interface of a service: its table, the rows its functions need, and its functions, which do
  not panic while those rows are registered.
\<close>

locale service_scrape = metric_table table for table :: "Metric list" +
  fixes pr :: prom and needs :: needs and fns :: "exporter \<Rightarrow> fn_results"
    and ok :: "exporter \<Rightarrow> bool"
  assumes rows_needed: "needs_ok (rows table) needs"
    and safe_functions: "accepts_arity pr \<Longrightarrow> ok ex \<Longrightarrow> functions_safe ex table needs (fns ex)"
begin

lemma registered_base:
  assumes "ex_Metrics b = None" and "m \<in> set table" and "enabled b m"
  shows "registered (register_table pr table b) ''up'' 0"
    and "registered (register_table pr table b) ''openstack_metric_collect_seconds'' 1"
proof -
  have "filter (enabled b) table \<noteq> []" using assms(2,3) by (metis filter_empty_conv)
  from metrics_exact [OF assms(1) this, of pr]
  show "registered (register_table pr table b) ''up'' 0"
    "registered (register_table pr table b) ''openstack_metric_collect_seconds'' 1"
    by (simp_all add: registered_def base_metrics_def)
qed

lemma entry_of_row:
  assumes "ex_Metrics b = None" and "e \<in> set (metrics_of (register_table pr table b))" and "has_fn e"
  shows "\<exists>m \<in> set table. enabled b m \<and> e = entry pr b m \<and> m_Fn m \<noteq> None"
proof (cases "filter (enabled b) table = []")
  case True
  with assms show ?thesis by (simp add: registry_exact metrics_of_def registry_def)
next
  case False
  have "e \<notin> set (base_metrics pr None b)" using assms(3) by (auto simp: has_fn_def base_metrics_def)
  with assms(2) have "e \<in> entry pr b ` set (filter (enabled b) table)"
    unfolding metrics_exact [OF assms(1) False] by simp
  with assms(3) show ?thesis by (auto simp: has_fn_def entry_def)
qed

lemma body_safe:
  assumes "accepts_arity pr" and "ex_Metrics b = None" and "closed_rows b table needs"
    and "ok (register_table pr table b)" and "e \<in> set (metrics_of (register_table pr table b))" and "has_fn e"
  shows "\<not> panicking (collect_body pr (dispatch (fns (register_table pr table b))) secs
    (register_table pr table b) e)"
proof -
  let ?ex = "register_table pr table b"
  obtain m where m: "m \<in> set table" "enabled b m" "e = entry pr b m" "m_Fn m \<noteq> None"
    using entry_of_row [OF assms(2,5,6)] by blast
  then obtain f where f: "m_Fn m = Some f" by blast
  obtain ns where ns: "map_of needs f = Some ns" using needs_ok_row [OF rows_needed m(1) f] by blast
  have "registered ?ex (m_Name m') (length (m_Labels m'))" if "m' \<in> set table" "m_Name m' \<in> set ns" for m'
  proof -
    have "enabled b m'" using assms(3) m(1,2) f ns that unfolding closed_rows_def by blast
    then show ?thesis using assms(2) that by (simp add: registered_def lookup_enabled entry_def)
  qed
  then have "wired_on ?ex table ns" by (simp add: wired_on_def)
  then have "safe (dispatch (fns ?ex) f)"
    using functions_safe_dispatch safe_functions assms(1,4) ns by blast
  moreover have "pm_Fn (snd e) = Some f" by (simp add: m(3) entry_def f)
  note RunCollection_fails [OF this assms(1) registered_base(2) [OF assms(2) m(1,2)]]
  ultimately show ?thesis by (simp add: collect_body_def safe_def)
qed

lemma scrape:
  assumes "accepts_arity pr" and "ex_Metrics b = None" and "closed_rows b table needs"
    and "ok (register_table pr table b)" and "\<exists>m \<in> set table. enabled b m"
    and "permutes_order ord" and "length table < 2 ^ 30"
  defines "ex \<equiv> register_table pr table b"
  shows "\<exists>t. Collect pr (dispatch (fns ex)) secs ord ex t \<and> cs_phase t = Returned"
    and "Collect pr (dispatch (fns ex)) secs ord ex t \<Longrightarrow> \<not> (\<exists>p. cs_phase t = Crashed p)"
proof -
  obtain m where m: "m \<in> set table" "enabled b m" using assms(5) by blast
  have up: "registered ex ''up'' 0" unfolding ex_def by (rule registered_base [OF assms(2) m])
  have bodies: "\<not> panicking c"
    if "c \<in> set (map (collect_body pr (dispatch (fns ex)) secs ex) (filter has_fn (metrics_of ex)))" for c
    using that body_safe [OF assms(1-4)] unfolding ex_def by auto
  have "length (metrics_of ex) \<le> 2 + length table"
    using length_filter_le [of "enabled b" table] assms(2)
    by (auto simp: ex_def registry_exact metrics_of_def registry_def base_metrics_def)
  then have len: "length (metrics_of ex) < 2 ^ 31" using assms(7) by simp
  show "\<exists>t. Collect pr (dispatch (fns ex)) secs ord ex t \<and> cs_phase t = Returned"
    using assms(6) len assms(1) up bodies by (rule Collect_can_return)
  show "\<not> (\<exists>p. cs_phase t = Crashed p)" if "Collect pr (dispatch (fns ex)) secs ord ex t"
    using that unfolding Collect_def
    by (rule collect_no_crash)
      (use assms(1,6) len up bodies in \<open>auto simp: bodies_def permutes_order_length permutes_order_set\<close>)
qed

end

end
