(* ===== verification/Scrape_Functions.thy ===== *)
theory Scrape_Functions
  imports Safe_Runs Factory Subnet_Pools
begin

text \<open>
  The list functions of every service, by the name that its table gives, applied to what the cloud
  answers to their requests; and for every service the proof that none of them can panic while the
  metrics it sends under are registered.
\<close>

section \<open>What a cloud answers\<close>

record shared_answers =
  ca_identity :: identity_api
  ca_endpoints :: endpoint_map
  ca_uuid :: "nat \<Rightarrow> string fallible"
  ca_status_order :: "(string \<times> int) order"

record network_answers = shared_answers +
  ca_floating_ips :: "FloatingIP list fallible"
  ca_networks :: "NetworkWithExt list fallible"
  ca_security_groups :: "unit list fallible"
  ca_subnets :: "Subnet list fallible"
  ca_ports :: "PortBinding list fallible"
  ca_routers :: "Router list fallible"
  ca_ovn_agents :: "Agent list fallible"
  ca_l3_agents :: "string \<Rightarrow> L3Agent list fallible"
  ca_vpn_groups :: "unit list fallible"
  ca_ike_policies :: "unit list fallible"
  ca_ipsec_policies :: "unit list fallible"
  ca_vpn_services :: "VpnService list fallible"
  ca_vpn_connections :: "VpnConnection list fallible"
  ca_network_agents :: "Agent list fallible"
  ca_parse_float :: "string \<Rightarrow> f64 option"
  ca_marshal :: "string \<Rightarrow> string fallible"
  ca_unmarshal :: "string \<Rightarrow> NetworkIPAvailability list fallible"
  ca_availabilities :: "string body fallible"
  ca_parse_prefix :: "string \<Rightarrow> Prefix fallible"
  ca_show_prefix :: "Prefix \<Rightarrow> string"
  ca_ipset :: ipset_builder
  ca_pool_subnets :: "Subnet list fallible"
  ca_subnet_pools :: "SubnetPool list fallible"
  ca_network_quota :: "string \<Rightarrow> (string \<Rightarrow> NetworkQuota) fallible"

record compute_answers = network_answers +
  ca_flavors :: "Flavor list fallible"
  ca_zones :: "unit list fallible"
  ca_compute_groups :: "unit list fallible"
  ca_parse_microversion :: "string \<Rightarrow> (int \<times> int) fallible"
  ca_fmt_map :: "(string \<times> any) list option \<Rightarrow> string"
  ca_vm_order :: "(novaRunningVMLabels \<times> int) order"
  ca_servers :: "list_options \<Rightarrow> Server list fallible"
  ca_mapper_flavors :: "Flavor list fallible"
  ca_compute_services :: "Service list fallible"
  ca_hypervisors :: "int option \<Rightarrow> Hypervisor list fallible"
  ca_aggregates :: "Aggregate list fallible"
  ca_limits :: "string \<Rightarrow> AbsoluteLimits fallible"
  ca_usage :: "TenantUsage list fallible"
  ca_compute_quota :: "string \<Rightarrow> (string \<Rightarrow> QuotaDetail) fallible"

record storage_answers = compute_answers +
  ca_image_pages :: "string fallible"
  ca_property_pages :: "string fallible"
  ca_extract_images :: "string \<Rightarrow> Image list fallible"
  ca_volumes :: "list_options \<Rightarrow> Volume list fallible"
  ca_status_volumes :: "list_options \<Rightarrow> Volume list fallible"
  ca_snapshots :: "list_options \<Rightarrow> unit list fallible"
  ca_volume_services :: "Service list fallible"
  ca_storage_pools :: "StoragePool list fallible"
  ca_volume_usage :: "string \<Rightarrow> QuotaUsageSet fallible"
  ca_volume_extra :: "string \<Rightarrow> (string \<times> extra_value) list fallible"
  ca_extra_order :: "(string \<times> extra_value) order"
  ca_containers :: pages
  ca_shares :: "Share list fallible"
  ca_status_shares :: "Share list fallible"

record cloud_answers = storage_answers +
  ca_domains :: "Domain list fallible"
  ca_users :: "string \<Rightarrow> unit list fallible"
  ca_groups :: "string \<Rightarrow> unit list fallible"
  ca_regions :: "unit list fallible"
  ca_loadbalancers :: "LoadBalancer list fallible"
  ca_amphorae :: "Amphora list fallible"
  ca_pools :: "Pool list fallible"
  ca_clusters :: "Cluster list fallible"
  ca_to_lower :: "string \<Rightarrow> string"
  ca_dns_zones :: "Zone list fallible"
  ca_recordsets :: "string \<Rightarrow> RecordSet list fallible"
  ca_dns_result :: coll
  ca_nodes :: "Node list fallible"
  ca_metric_status :: "MetricStatus fallible"
  ca_metrics :: "unit list fallible"
  ca_instances :: "string list \<Rightarrow> instanceAttributesExt list fallible"
  ca_stacks :: "listedStack list fallible"
  ca_placement :: placement_api
  ca_placement_orders :: placement_orders

section \<open>The functions and the metrics they send under\<close>

definition neutron_needs :: needs where
  "neutron_needs =
     [(''ListFloatingIps'', [''floating_ips'', ''floating_ips_associated_not_active'', ''floating_ip'']),
      (''ListNetworks'', [''networks'', ''network'']),
      (''ListSecGroups'', [''security_groups'']),
      (''ListSubnets'', [''subnets'', ''subnet'']),
      (''ListPorts'', [''port'', ''ports'', ''ports_no_ips'', ''ports_lb_not_active'']),
      (''ListRouters'', [''router'', ''routers'', ''routers_not_active'', ''l3_agent_of_router'']),
      (''ListVpnEndpointGroups'', [''vpn_endpoint_groups'']),
      (''ListIkePolicies'', [''vpn_ike_policies'']),
      (''ListIpsecPolicies'', [''vpn_ipsec_policies'']),
      (''ListVpnServices'', [''vpn_services'', ''vpn_service'']),
      (''ListVpnSiteConnections'', [''vpn_siteconnections'', ''vpn_siteconnection'']),
      (''ListAgentStates'', [''agent_state'']),
      (''ListNetworkIPAvailabilities'', [''network_ip_availabilities_total'',
          ''network_ip_availabilities_used'']),
      (''ListSubnetsPerPool'', [''subnets_total'', ''subnets_used'', ''subnets_free'']),
      (''ListNetworkQuotas'', [''quota_network'', ''quota_subnet'', ''quota_subnetpool'',
          ''quota_port'', ''quota_router'', ''quota_floatingip'', ''quota_security_group'',
          ''quota_security_group_rule'', ''quota_rbac_policy''])]"

definition neutron_functions :: "prom \<Rightarrow> cloud_answers \<Rightarrow> exporter \<Rightarrow> fn_results" where
  "neutron_functions pr ca ex =
     [(''ListFloatingIps'', ListFloatingIps pr (ca_floating_ips ca) ex),
      (''ListNetworks'', ListNetworks pr (ca_networks ca) ex),
      (''ListSecGroups'', ListSecGroups pr (ca_security_groups ca) ex),
      (''ListSubnets'', ListSubnets pr (ca_subnets ca) ex),
      (''ListPorts'', ListPorts pr (ca_ports ca) ex),
      (''ListRouters'', ListRouters pr (ca_routers ca) (ca_ovn_agents ca) (ca_l3_agents ca) ex),
      (''ListVpnEndpointGroups'', ListVpnEndpointGroups pr (ca_vpn_groups ca) ex),
      (''ListIkePolicies'', ListIkePolicies pr (ca_ike_policies ca) ex),
      (''ListIpsecPolicies'', ListIpsecPolicies pr (ca_ipsec_policies ca) ex),
      (''ListVpnServices'', ListVpnServices pr (ca_vpn_services ca) ex),
      (''ListVpnSiteConnections'', ListVpnSiteConnections pr (ca_vpn_connections ca) ex),
      (''ListAgentStates'', ListAgentStates pr (ca_uuid ca) (ca_network_agents ca) ex),
      (''ListNetworkIPAvailabilities'', ListNetworkIPAvailabilities pr (ca_parse_float ca) (ca_marshal
          ca) (ca_unmarshal ca) (ca_availabilities ca) ex),
      (''ListSubnetsPerPool'', ListSubnetsPerPool pr (ca_parse_prefix ca) (ca_show_prefix ca) (ca_ipset
          ca) (ca_pool_subnets ca) (ca_subnet_pools ca) ex),
      (''ListNetworkQuotas'', ListNetworkQuotas pr (ca_identity ca) (ca_endpoints ca) (ca_network_quota
          ca) ex)]"

definition nova_needs :: needs where
  "nova_needs =
     [(''ListFlavors'', [''flavors'', ''flavor'']),
      (''ListAZs'', [''availability_zones'']),
      (''ListComputeSecGroups'', [''security_groups'']),
      (''ListAllServers'', [''total_vms'', ''running_vms'', ''server_status'']),
      (''ListNovaAgentState'', [''agent_state'']),
      (''ListHypervisors'', [''current_workload'', ''vcpus_available'', ''vcpus_used'',
          ''memory_available_bytes'', ''memory_used_bytes'', ''local_storage_available_bytes'',
          ''local_storage_used_bytes'', ''free_disk_bytes'']),
      (''ListComputeLimits'', [''limits_vcpus_max'', ''limits_vcpus_used'', ''limits_memory_max'',
          ''limits_memory_used'', ''limits_instances_used'', ''limits_instances_max'']),
      (''ListUsage'', [''server_local_gb'']),
      (''ListQuotas'', [''quota_cores'', ''quota_instances'', ''quota_key_pairs'',
          ''quota_metadata_items'', ''quota_ram'', ''quota_server_groups'',
          ''quota_server_group_members'', ''quota_fixed_ips'', ''quota_floating_ips'',
          ''quota_security_group_rules'', ''quota_security_groups'',
          ''quota_injected_file_content_bytes'', ''quota_injected_file_path_bytes'',
          ''quota_injected_files''])]"

definition nova_functions :: "prom \<Rightarrow> cloud_answers \<Rightarrow> exporter \<Rightarrow> fn_results" where
  "nova_functions pr ca ex =
     [(''ListFlavors'', ListFlavors pr (ca_flavors ca) ex),
      (''ListAZs'', ListAZs pr (ca_zones ca) ex),
      (''ListComputeSecGroups'', ListComputeSecGroups pr (ca_compute_groups ca) ex),
      (''ListAllServers'', ListAllServers pr (ca_parse_microversion ca) (ca_fmt_map ca) (ca_vm_order ca)
          (ca_servers ca) (ca_mapper_flavors ca) ex),
      (''ListNovaAgentState'', ListNovaAgentState pr (ca_compute_services ca) ex),
      (''ListHypervisors'', ListHypervisors pr (ca_parse_microversion ca) (ca_hypervisors ca)
          (ca_aggregates ca) ex),
      (''ListComputeLimits'', ListComputeLimits pr (ca_identity ca) (ca_endpoints ca) (ca_limits ca) ex),
      (''ListUsage'', ListUsage pr (ca_usage ca) ex),
      (''ListQuotas'', ListQuotas pr (ca_identity ca) (ca_endpoints ca) (ca_compute_quota ca) ex)]"

definition glance_needs :: needs where
  "glance_needs =
     [(''ListImages'', [''images'']),
      (''ListImageProperties'', [''image_bytes'', ''image_created_at''])]"

definition glance_functions :: "prom \<Rightarrow> cloud_answers \<Rightarrow> exporter \<Rightarrow> fn_results" where
  "glance_functions pr ca ex =
     [(''ListImages'', ListImages pr (ca_image_pages ca) (ca_extract_images ca) ex),
      (''ListImageProperties'', ListImageProperties pr (ca_property_pages ca) (ca_extract_images ca) ex)]"

definition cinder_needs :: needs where
  "cinder_needs =
     [(''ListVolumes'', [''volumes'', ''volume_gb'', ''volume_status_counter'']),
      (''ListSnapshots'', [''snapshots'']),
      (''ListCinderAgentState'', [''agent_state'']),
      (''ListVolumesStatus'', [''volume_status'']),
      (''ListCinderPoolCapacityFree'', [''pool_capacity_free_gb'', ''pool_capacity_total_gb'']),
      (''ListVolumeLimits'', [''limits_volume_max_gb'', ''limits_volume_used_gb'',
          ''limits_backup_max_gb'', ''limits_backup_used_gb'', ''volume_type_quota_gigabytes''])]"

definition cinder_functions :: "prom \<Rightarrow> cloud_answers \<Rightarrow> exporter \<Rightarrow> fn_results" where
  "cinder_functions pr ca ex =
     [(''ListVolumes'', ListVolumes pr (ca_status_order ca) (ca_volumes ca) ex),
      (''ListSnapshots'', ListSnapshots pr (ca_snapshots ca) ex),
      (''ListCinderAgentState'', ListCinderAgentState pr (ca_uuid ca) (ca_volume_services ca) ex),
      (''ListVolumesStatus'', ListVolumesStatus pr (ca_status_volumes ca) ex),
      (''ListCinderPoolCapacityFree'', ListCinderPoolCapacityFree pr (ca_storage_pools ca) ex),
      (''ListVolumeLimits'', ListVolumeLimits pr (ca_identity ca) (ca_endpoints ca) (ca_volume_usage ca)
          (ca_volume_extra ca) (ca_extra_order ca) ex)]"

definition keystone_needs :: needs where
  "keystone_needs =
     [(''ListDomains'', [''domains'', ''domain_info'']),
      (''ListUsers'', [''users'']),
      (''ListGroups'', [''groups'']),
      (''ListProjects'', [''projects'', ''project_info'']),
      (''ListRegions'', [''regions''])]"

definition keystone_functions :: "prom \<Rightarrow> cloud_answers \<Rightarrow> exporter \<Rightarrow> fn_results" where
  "keystone_functions pr ca ex =
     [(''ListDomains'', ListDomains pr (ca_domains ca) ex),
      (''ListUsers'', ListUsers pr (ca_users ca) ex),
      (''ListGroups'', ListGroups pr (ca_groups ca) ex),
      (''ListProjects'', ListProjects pr (ca_identity ca) (ca_endpoints ca) ex),
      (''ListRegions'', ListRegions pr (ca_regions ca) ex)]"

definition object_store_needs :: needs where
  "object_store_needs =
     [(''ListContainers'', [''objects'', ''bytes''])]"

definition object_store_functions :: "prom \<Rightarrow> cloud_answers \<Rightarrow> exporter \<Rightarrow> fn_results" where
  "object_store_functions pr ca ex =
     [(''ListContainers'', ListContainers pr (ca_containers ca) ex)]"

definition loadbalancer_needs :: needs where
  "loadbalancer_needs =
     [(''ListAllLoadbalancers'', [''total_loadbalancers'', ''loadbalancer_status'']),
      (''ListAllAmphorae'', [''total_amphorae'', ''amphora_status'']),
      (''ListAllPools'', [''total_pools'', ''pool_status''])]"

definition loadbalancer_functions :: "prom \<Rightarrow> cloud_answers \<Rightarrow> exporter \<Rightarrow> fn_results" where
  "loadbalancer_functions pr ca ex =
     [(''ListAllLoadbalancers'', ListAllLoadbalancers pr (ca_loadbalancers ca) ex),
      (''ListAllAmphorae'', ListAllAmphorae pr (ca_amphorae ca) ex),
      (''ListAllPools'', ListAllPools pr (ca_pools ca) ex)]"

definition container_infra_needs :: needs where
  "container_infra_needs =
     [(''ListAllClusters'', [''total_clusters'', ''cluster_masters'', ''cluster_nodes'',
         ''cluster_status''])]"

definition container_infra_functions :: "prom \<Rightarrow> cloud_answers \<Rightarrow> exporter \<Rightarrow> fn_results" where
  "container_infra_functions pr ca ex =
     [(''ListAllClusters'', ListAllClusters pr (ca_clusters ca) ex)]"

definition designate_needs :: needs where
  "designate_needs =
     [(''ListZonesAndRecordsets'', [''zones'', ''zone_status'', ''recordsets'', ''recordsets_status''])]"

definition designate_functions :: "prom \<Rightarrow> cloud_answers \<Rightarrow> exporter \<Rightarrow> fn_results" where
  "designate_functions pr ca ex =
     [(''ListZonesAndRecordsets'', ca_dns_result ca)]"

definition ironic_needs :: needs where
  "ironic_needs =
     [(''ListNodes'', [''node'', ''node_updated_at'', ''node_provision_updated_at''])]"

definition ironic_functions :: "prom \<Rightarrow> cloud_answers \<Rightarrow> exporter \<Rightarrow> fn_results" where
  "ironic_functions pr ca ex =
     [(''ListNodes'', ListNodes pr (ca_nodes ca) ex)]"

definition gnocchi_needs :: needs where
  "gnocchi_needs =
     [(''getMetricStatus'', [''status_metricd_processors'',
         ''status_metric_having_measures_to_process'', ''status_measures_to_process'']),
      (''ListAllMetrics'', [''total_metrics''])]"

definition gnocchi_functions :: "prom \<Rightarrow> cloud_answers \<Rightarrow> exporter \<Rightarrow> fn_results" where
  "gnocchi_functions pr ca ex =
     [(''getMetricStatus'', getMetricStatus pr (ca_metric_status ca) ex),
      (''ListAllMetrics'', ListAllMetrics pr (ca_metrics ca) ex)]"

definition trove_needs :: needs where
  "trove_needs =
     [(''ListAllInstances'', [''total_instances'', ''instance_status'', ''instance_volume_size_gb'',
         ''instance_volume_used_gb''])]"

definition trove_functions :: "prom \<Rightarrow> cloud_answers \<Rightarrow> exporter \<Rightarrow> fn_results" where
  "trove_functions pr ca ex =
     [(''ListAllInstances'', ListAllInstances pr (ca_instances ca) ex)]"

definition heat_needs :: needs where
  "heat_needs =
     [(''ListAllStacks'', [''stack_status'', ''stack_status_counter''])]"

definition heat_functions :: "prom \<Rightarrow> cloud_answers \<Rightarrow> exporter \<Rightarrow> fn_results" where
  "heat_functions pr ca ex =
     [(''ListAllStacks'', ListAllStacks pr (ca_status_order ca) (ca_stacks ca) ex)]"

definition placement_needs :: needs where
  "placement_needs =
     [(''ListPlacementResourceProviders'', [''resource_total'', ''resource_allocation_ratio'',
         ''resource_generation'', ''resource_reserved'', ''resource_usage'',
         ''resource_provider_allocations''])]"

definition placement_functions :: "prom \<Rightarrow> cloud_answers \<Rightarrow> exporter \<Rightarrow> fn_results" where
  "placement_functions pr ca ex =
     [(''ListPlacementResourceProviders'', ListPlacementResourceProviders pr (ca_placement ca)
         (ca_placement_orders ca) ex)]"

definition manila_needs :: needs where
  "manila_needs =
     [(''CountShares'', [''shares_counter'', ''share_gb'', ''share_status_counter'']),
      (''ListShareStatus'', [''share_status''])]"

definition manila_functions :: "prom \<Rightarrow> cloud_answers \<Rightarrow> exporter \<Rightarrow> fn_results" where
  "manila_functions pr ca ex =
     [(''CountShares'', CountShares pr (ca_status_order ca) (ca_shares ca) ex),
      (''ListShareStatus'', ListShareStatus pr (ca_status_shares ca) ex)]"

end
