(* ===== verification/Scrape_Safe.thy ===== *)
theory Scrape_Safe
  imports Scrape_Functions
begin

text \<open>
  For every service: none of its list functions can panic while the metrics that it sends under
  are registered, and its table registers them together. Each service's table and functions
  interpret the interface of \<open>Safe_Runs\<close>, so that a scrape of any service can return and never ends
  the process.
\<close>

section \<open>Rules for the loops and the types of the services\<close>

lemma safe_case_body [safe_intros]:
  "(\<And>y. x = Body_map y \<Longrightarrow> safe (f y)) \<Longrightarrow> (\<And>y. x = Body_other y \<Longrightarrow> safe (g y)) \<Longrightarrow>
     safe (case x of Body_map y \<Rightarrow> f y | Body_other y \<Rightarrow> g y)"
  by (cases x) simp_all

lemma safe_case_extra_value [safe_intros]:
  "(\<And>y. x = Extra_float y \<Longrightarrow> safe (f y)) \<Longrightarrow> safe d \<Longrightarrow>
     safe (case x of Extra_float y \<Rightarrow> f y | Extra_other \<Rightarrow> d)"
  by (cases x) simp_all

lemma safe_ports_loop [safe_intros]:
  assumes "accepts_arity pr" and "registered ex ''port'' 9" and "\<And>a b. safe (k a b)"
  shows "safe (ports_loop pr ex ports m n k)"
  using assms
  by (induction ports arbitrary: m n) (auto simp: Let_def eval_nat_numeral intro!: safe_intros)

lemma safe_neutron_agents [safe_intros]:
  assumes "accepts_arity pr" and "registered ex ''agent_state'' 5"
  shows "safe (neutron_agents pr uuid ex n agents)"
  using assms
  by (induction agents arbitrary: n) (auto simp: Let_def eval_nat_numeral intro!: safe_intros)

lemma safe_cinder_agents [safe_intros]:
  assumes "accepts_arity pr" and "registered ex ''agent_state'' 6"
  shows "safe (cinder_agents pr uuid ex n services)"
  using assms
  by (induction services arbitrary: n) (auto simp: Let_def eval_nat_numeral intro!: safe_intros)

lemma safe_neutron_quota [safe_intros]:
  assumes "accepts_arity pr" and "registered ex n 3"
  shows "safe (with_desc ex n (collectNeutronQuotaDetail pr q p i))"
  unfolding with_desc_ok [OF assms(2)] collectNeutronQuotaDetail_def
  using assms by (intro safe_intros) (simp_all add: numeral_3_eq_3)

lemma safe_nova_quota [safe_intros]:
  assumes "accepts_arity pr" and "registered ex n 3"
  shows "safe (with_desc ex n (collectNovaQuotaDetail pr q p i))"
  unfolding with_desc_ok [OF assms(2)] collectNovaQuotaDetail_def
  using assms by (intro safe_intros) (simp_all add: numeral_3_eq_3)

section \<open>The functions of each service\<close>

lemma neutron_quota_rows:
  assumes "wired_on ex defaultNeutronMetrics neutron_quotas" and "q \<in> set neutron_quotas"
  shows "registered ex q (Suc (Suc (Suc 0)))"
proof -
  have "list_all (\<lambda>q. list_ex (\<lambda>m. m_Name m = q \<and> length (m_Labels m) = 3) defaultNeutronMetrics) neutron_quotas"
    by code_simp
  then obtain m where "m \<in> set defaultNeutronMetrics" "m_Name m = q" "length (m_Labels m) = 3"
    using assms(2) by (auto simp: list_all_iff list_ex_iff)
  then have "registered ex q 3" using assms by (auto simp: wired_on_def)
  then show ?thesis by (simp add: eval_nat_numeral)
qed

lemmas neutron_arities = arg_cong [OF defaultNeutronMetrics_def, of arities, unfolded neutron_label_defs, simplified]

lemma neutron_functions_safe:
  "accepts_arity pr \<Longrightarrow> functions_safe ex defaultNeutronMetrics neutron_needs (neutron_functions pr ca ex)"
  unfolding neutron_needs_def neutron_functions_def ListFloatingIps_def ListNetworks_def ListSecGroups_def
    ListSubnets_def ListPorts_def ListRouters_def ListVpnEndpointGroups_def ListIkePolicies_def
    ListIpsecPolicies_def ListVpnServices_def ListVpnSiteConnections_def ListAgentStates_def
    ListNetworkIPAvailabilities_def ListSubnetsPerPool_def ListNetworkQuotas_def router_body_def
    router_agents_def availability_subnet_def pool_length_def
  by (intro safe_intros, simp_all only: neutron_quotas_def [symmetric])
    (simp_all add: neutron_quota_rows wired_on_row neutron_arities eval_nat_numeral)

lemma glance_functions_safe:
  "accepts_arity pr \<Longrightarrow> functions_safe ex defaultGlanceMetrics glance_needs (glance_functions pr ca ex)"
  unfolding glance_needs_def glance_functions_def ListImages_def ListImageProperties_def
  by (intro safe_intros) (simp_all add: defaultGlanceMetrics_def)

lemma cinder_functions_safe:
  "accepts_arity pr \<Longrightarrow> functions_safe ex defaultCinderMetrics cinder_needs (cinder_functions pr ca ex)"
  unfolding cinder_needs_def cinder_functions_def ListVolumes_def ListSnapshots_def
    ListCinderAgentState_def ListVolumesStatus_def ListCinderPoolCapacityFree_def
    ListVolumeLimits_def volume_type_quota_def emit_counter_def
  by (intro safe_intros) (simp_all add: defaultCinderMetrics_def eval_nat_numeral)

lemma keystone_functions_safe:
  "accepts_arity pr \<Longrightarrow> functions_safe ex defaultKeystoneMetrics keystone_needs (keystone_functions pr ca ex)"
  unfolding keystone_needs_def keystone_functions_def ListDomains_def ListUsers_def ListGroups_def
    ListProjects_def ListRegions_def
  by (intro safe_intros) (simp_all add: defaultKeystoneMetrics_def)

lemma object_store_functions_safe:
  "accepts_arity pr \<Longrightarrow> functions_safe ex defaultObjectStoreMetrics object_store_needs (object_store_functions pr ca ex)"
  unfolding object_store_needs_def object_store_functions_def ListContainers_def container_page_def
  by (intro safe_intros) (simp_all add: defaultObjectStoreMetrics_def)

lemma loadbalancer_functions_safe:
  "accepts_arity pr \<Longrightarrow> functions_safe ex defaultLoadbalancerMetrics loadbalancer_needs (loadbalancer_functions pr ca ex)"
  unfolding loadbalancer_needs_def loadbalancer_functions_def ListAllLoadbalancers_def ListAllAmphorae_def
    ListAllPools_def
  by (intro safe_intros) (simp_all add: defaultLoadbalancerMetrics_def)

lemma container_infra_functions_safe:
  "accepts_arity pr \<Longrightarrow> functions_safe ex defaultContainerInfraMetrics container_infra_needs (container_infra_functions pr ca ex)"
  unfolding container_infra_needs_def container_infra_functions_def ListAllClusters_def
  by (intro safe_intros) (simp_all add: defaultContainerInfraMetrics_def)

lemma ironic_functions_safe:
  "accepts_arity pr \<Longrightarrow> functions_safe ex defaultIronicMetrics ironic_needs (ironic_functions pr ca ex)"
  unfolding ironic_needs_def ironic_functions_def ListNodes_def
  by (intro safe_intros) (simp_all add: defaultIronicMetrics_def node_labels_def)

lemma gnocchi_functions_safe:
  "accepts_arity pr \<Longrightarrow> functions_safe ex defaultGnocchiMetrics gnocchi_needs (gnocchi_functions pr ca ex)"
  unfolding gnocchi_needs_def gnocchi_functions_def getMetricStatus_def ListAllMetrics_def
  by (intro safe_intros) (simp_all add: defaultGnocchiMetrics_def)

lemma trove_functions_safe:
  "accepts_arity pr \<Longrightarrow> functions_safe ex defaultTroveMetrics trove_needs (trove_functions pr ca ex)"
  unfolding trove_needs_def trove_functions_def ListAllInstances_def
  by (intro safe_intros) (simp_all add: defaultTroveMetrics_def)

lemma heat_functions_safe:
  "accepts_arity pr \<Longrightarrow> functions_safe ex defaultHeatMetrics heat_needs (heat_functions pr ca ex)"
  unfolding heat_needs_def heat_functions_def ListAllStacks_def emit_counter_def
  by (intro safe_intros) (simp_all add: defaultHeatMetrics_def)

lemma placement_functions_safe:
  "accepts_arity pr \<Longrightarrow> functions_safe ex defaultPlacementMetrics placement_needs (placement_functions pr ca ex)"
  unfolding placement_needs_def placement_functions_def ListPlacementResourceProviders_def
    placement_provider_def emit_inventory_def emitPlacementResourceMetric_def emit_allocations_def
  by (intro safe_intros) (simp_all add: defaultPlacementMetrics_def placementResourceLabels_def placementAllocationLabels_def)

lemma manila_functions_safe:
  "accepts_arity pr \<Longrightarrow> functions_safe ex defaultManilaMetrics manila_needs (manila_functions pr ca ex)"
  unfolding manila_needs_def manila_functions_def CountShares_def ListShareStatus_def emit_counter_def
  by (intro safe_intros) (simp_all add: defaultManilaMetrics_def)

text \<open>The table of compute has as many labels for a server as its mapping gives values.\<close>

text \<open>The table of compute, by the number of labels of its rows.\<close>

lemma nova_arity:
  "arities (nova_table mapping) = map_of (map (\<lambda>m. (m_Name m, if m_Name m = ''server_status''
     then length defaultNovaServerStatusLabels + length (lm_Labels mapping)
     else length (m_Labels m))) defaultNovaMetrics)"
  by (simp add: arities_def nova_table_def o_def if_distrib cong: if_cong)

lemmas nova_arities = nova_arity [unfolded defaultNovaMetrics_def nova_label_defs, simplified]

lemma nova_quota_rows:
  assumes "wired_on ex (nova_table mapping) nova_quotas" and "q \<in> set nova_quotas"
  shows "registered ex q (Suc (Suc (Suc 0)))"
proof -
  have "list_all (\<lambda>q. list_ex (\<lambda>m. m_Name m = q \<and> m_Name m \<noteq> ''server_status'' \<and>
      length (m_Labels m) = 3) defaultNovaMetrics) nova_quotas" by code_simp
  then obtain m where "m \<in> set defaultNovaMetrics" "m_Name m = q" "m_Name m \<noteq> ''server_status''"
      "length (m_Labels m) = 3"
    using assms(2) by (auto simp: list_all_iff list_ex_iff)
  then have "m \<in> set (nova_table mapping)" by (force simp: nova_table_def)
  then have "registered ex q 3"
    using assms \<open>m_Name m = q\<close> \<open>length (m_Labels m) = 3\<close> by (auto simp: wired_on_def)
  then show ?thesis by (simp add: eval_nat_numeral)
qed

lemma nova_functions_safe:
  assumes "accepts_arity pr" and "NovaMetadataMapping ex = mapping"
    and "length (lm_Labels mapping) = length (lm_Keys mapping)"
  shows "functions_safe ex (nova_table mapping) nova_needs (nova_functions pr ca ex)"
  using assms
  unfolding nova_needs_def nova_functions_def ListFlavors_def ListAZs_def ListComputeSecGroups_def
    ListAllServers_def ListNovaAgentState_def ListHypervisors_def ListComputeLimits_def ListUsage_def
    ListQuotas_def hypervisor_body_def
  by (intro safe_intros, simp_all only: nova_quotas_def [symmetric])
    (simp_all add: nova_quota_rows wired_on_row nova_arities
      eval_nat_numeral server_labels_def LabelMapping_Extract_def safe_emit split: prod.split)

section \<open>The interface, for every service\<close>

text \<open>Every row that a function sends under is there when the row that names the function is.\<close>

lemma needs_rows:
  "needs_ok (rows defaultNeutronMetrics) neutron_needs"
  "needs_ok (rows defaultNovaMetrics) nova_needs"
  "needs_ok (rows defaultGlanceMetrics) glance_needs"
  "needs_ok (rows defaultCinderMetrics) cinder_needs"
  "needs_ok (rows defaultKeystoneMetrics) keystone_needs"
  "needs_ok (rows defaultObjectStoreMetrics) object_store_needs"
  "needs_ok (rows defaultLoadbalancerMetrics) loadbalancer_needs"
  "needs_ok (rows defaultContainerInfraMetrics) container_infra_needs"
  "needs_ok (rows defaultDesignateMetrics) designate_needs"
  "needs_ok (rows defaultIronicMetrics) ironic_needs"
  "needs_ok (rows defaultGnocchiMetrics) gnocchi_needs"
  "needs_ok (rows defaultTroveMetrics) trove_needs"
  "needs_ok (rows defaultHeatMetrics) heat_needs"
  "needs_ok (rows defaultPlacementMetrics) placement_needs"
  "needs_ok (rows defaultManilaMetrics) manila_needs"
  by code_simp+

lemma nova_rows: "rows (nova_table mapping) = rows defaultNovaMetrics"
  by (simp add: rows_def nova_table_def o_def cong: if_cong)

interpretation neutron_scrape: service_scrape defaultNeutronMetrics pr neutron_needs "neutron_functions pr ca" "\<lambda>ex. True"
  for pr ca
  by unfold_locales (rule needs_rows, rule neutron_functions_safe)

interpretation glance_scrape: service_scrape defaultGlanceMetrics pr glance_needs "glance_functions pr ca" "\<lambda>ex. True"
  for pr ca
  by unfold_locales (rule needs_rows, rule glance_functions_safe)

interpretation cinder_scrape: service_scrape defaultCinderMetrics pr cinder_needs "cinder_functions pr ca" "\<lambda>ex. True"
  for pr ca
  by unfold_locales (rule needs_rows, rule cinder_functions_safe)

interpretation keystone_scrape: service_scrape defaultKeystoneMetrics pr keystone_needs "keystone_functions pr ca" "\<lambda>ex. True"
  for pr ca
  by unfold_locales (rule needs_rows, rule keystone_functions_safe)

interpretation object_store_scrape: service_scrape defaultObjectStoreMetrics pr object_store_needs "object_store_functions pr ca" "\<lambda>ex. True"
  for pr ca
  by unfold_locales (rule needs_rows, rule object_store_functions_safe)

interpretation loadbalancer_scrape: service_scrape defaultLoadbalancerMetrics pr loadbalancer_needs "loadbalancer_functions pr ca" "\<lambda>ex. True"
  for pr ca
  by unfold_locales (rule needs_rows, rule loadbalancer_functions_safe)

interpretation container_infra_scrape: service_scrape defaultContainerInfraMetrics pr container_infra_needs "container_infra_functions pr ca" "\<lambda>ex. True"
  for pr ca
  by unfold_locales (rule needs_rows, rule container_infra_functions_safe)

interpretation ironic_scrape: service_scrape defaultIronicMetrics pr ironic_needs "ironic_functions pr ca" "\<lambda>ex. True"
  for pr ca
  by unfold_locales (rule needs_rows, rule ironic_functions_safe)

interpretation gnocchi_scrape: service_scrape defaultGnocchiMetrics pr gnocchi_needs "gnocchi_functions pr ca" "\<lambda>ex. True"
  for pr ca
  by unfold_locales (rule needs_rows, rule gnocchi_functions_safe)

interpretation trove_scrape: service_scrape defaultTroveMetrics pr trove_needs "trove_functions pr ca" "\<lambda>ex. True"
  for pr ca
  by unfold_locales (rule needs_rows, rule trove_functions_safe)

interpretation heat_scrape: service_scrape defaultHeatMetrics pr heat_needs "heat_functions pr ca" "\<lambda>ex. True"
  for pr ca
  by unfold_locales (rule needs_rows, rule heat_functions_safe)

interpretation placement_scrape: service_scrape defaultPlacementMetrics pr placement_needs "placement_functions pr ca" "\<lambda>ex. True"
  for pr ca
  by unfold_locales (rule needs_rows, rule placement_functions_safe)

interpretation manila_scrape: service_scrape defaultManilaMetrics pr manila_needs "manila_functions pr ca" "\<lambda>ex. True"
  for pr ca
  by unfold_locales (rule needs_rows, rule manila_functions_safe)

interpretation nova_scrape: service_scrape "nova_table mapping" pr nova_needs "nova_functions pr ca"
  "\<lambda>ex. NovaMetadataMapping ex = mapping \<and> length (lm_Labels mapping) = length (lm_Keys mapping)"
  for mapping pr ca
  by unfold_locales (simp_all add: nova_rows needs_rows nova_functions_safe)

lemma designate_functions_safe:
  assumes "accepts_arity pr"
    and "ListZonesAndRecordsets pr (ca_to_lower ca) (ca_dns_zones ca) (ca_recordsets ca) ex (ca_dns_result ca)"
  shows "functions_safe ex defaultDesignateMetrics designate_needs (designate_functions pr ca ex)"
  unfolding designate_needs_def designate_functions_def
proof (intro safe_intros)
  assume "wired_on ex defaultDesignateMetrics [''zones'', ''zone_status'', ''recordsets'', ''recordsets_status'']"
  then have "registered ex ''zones'' 0" by (simp add: defaultDesignateMetrics_def)
  with assms show "safe (ca_dns_result ca)"
    by (auto simp: ListZonesAndRecordsets_def return_error_def emit_ok group_result_def safe_stop
        split: sum.splits option.splits)
qed

interpretation designate_scrape: service_scrape defaultDesignateMetrics pr designate_needs
  "designate_functions pr ca"
  "\<lambda>ex. ListZonesAndRecordsets pr (ca_to_lower ca) (ca_dns_zones ca) (ca_recordsets ca) ex (ca_dns_result ca)"
  for pr ca
  by unfold_locales (rule needs_rows, rule designate_functions_safe)

end
