(* ===== verification/Scrape_Service.thy ===== *)
theory Scrape_Service
  imports Scrape_Safe
begin

text \<open>
  A scrape of an exporter that \<^verbatim>\<open>NewExporter\<close> made, for any service: the interface of \<open>Safe_Runs\<close>
  chosen by the name of the service, as the switch of \<^verbatim>\<open>NewExporter\<close> does, and what follows for the
  runs of \<^verbatim>\<open>Collect\<close>.
\<close>

section \<open>A scrape of any service\<close>

text \<open>What the names in the table of a service run, by the name the exporter is made for.\<close>

definition service_functions :: "prom \<Rightarrow> cloud_answers \<Rightarrow> string \<Rightarrow> exporter \<Rightarrow> fn_results" where
  "service_functions pr ca name =
     (if name = ''network'' then neutron_functions pr ca
      else if name = ''compute'' then nova_functions pr ca
      else if name = ''image'' then glance_functions pr ca
      else if name = ''volume'' then cinder_functions pr ca
      else if name = ''identity'' then keystone_functions pr ca
      else if name = ''object-store'' then object_store_functions pr ca
      else if name = ''load-balancer'' then loadbalancer_functions pr ca
      else if name = ''container-infra'' then container_infra_functions pr ca
      else if name = ''dns'' then designate_functions pr ca
      else if name = ''baremetal'' then ironic_functions pr ca
      else if name = ''gnocchi'' then gnocchi_functions pr ca
      else if name = ''database'' then trove_functions pr ca
      else if name = ''orchestration'' then heat_functions pr ca
      else if name = ''placement'' then placement_functions pr ca
      else manila_functions pr ca)"

definition needs_of :: "string \<Rightarrow> needs" where
  "needs_of name =
     (if name = ''network'' then neutron_needs else if name = ''compute'' then nova_needs
      else if name = ''image'' then glance_needs else if name = ''volume'' then cinder_needs
      else if name = ''identity'' then keystone_needs
      else if name = ''object-store'' then object_store_needs
      else if name = ''load-balancer'' then loadbalancer_needs
      else if name = ''container-infra'' then container_infra_needs
      else if name = ''dns'' then designate_needs else if name = ''baremetal'' then ironic_needs
      else if name = ''gnocchi'' then gnocchi_needs else if name = ''database'' then trove_needs
      else if name = ''orchestration'' then heat_needs
      else if name = ''placement'' then placement_needs else manila_needs)"

text \<open>
  What the answers have to satisfy: the mapping of server metadata is one that the flag can build,
  and what the group of DNS goroutines ends with is one of its results.
\<close>

definition dns_answers_fit :: "prom \<Rightarrow> cloud_answers \<Rightarrow> exporter \<Rightarrow> bool" where
  "dns_answers_fit pr ca ex \<longleftrightarrow>
     ListZonesAndRecordsets pr (ca_to_lower ca) (ca_dns_zones ca) (ca_recordsets ca) ex (ca_dns_result ca)"

definition answers_fit :: "prom \<Rightarrow> cloud_answers \<Rightarrow> string \<Rightarrow> exporter_args \<Rightarrow> exporter \<Rightarrow> bool" where
  "answers_fit pr ca name a =
     (if name = ''compute'' then (\<lambda>ex. NovaMetadataMapping ex = xa_NovaMetadataMapping a \<and>
        length (lm_Labels (xa_NovaMetadataMapping a)) = length (lm_Keys (xa_NovaMetadataMapping a)))
      else if name = ''dns''
      then dns_answers_fit pr ca
      else (\<lambda>ex. True))"

lemma service_interface:
  "service_scrape (table_of name a) pr (needs_of name) (service_functions pr ca name)
     (answers_fit pr ca name a)"
  unfolding table_of_def needs_of_def service_functions_def answers_fit_def dns_answers_fit_def [abs_def]
  by (simp add: neutron_scrape.service_scrape_axioms nova_scrape.service_scrape_axioms
      glance_scrape.service_scrape_axioms cinder_scrape.service_scrape_axioms
      keystone_scrape.service_scrape_axioms object_store_scrape.service_scrape_axioms
      loadbalancer_scrape.service_scrape_axioms container_infra_scrape.service_scrape_axioms
      designate_scrape.service_scrape_axioms ironic_scrape.service_scrape_axioms
      gnocchi_scrape.service_scrape_axioms trove_scrape.service_scrape_axioms
      heat_scrape.service_scrape_axioms placement_scrape.service_scrape_axioms
      manila_scrape.service_scrape_axioms)

lemmas service_table_defs = defaultNeutronMetrics_def nova_table_def defaultNovaMetrics_def
  defaultGlanceMetrics_def defaultCinderMetrics_def defaultKeystoneMetrics_def
  defaultObjectStoreMetrics_def defaultLoadbalancerMetrics_def defaultContainerInfraMetrics_def
  defaultDesignateMetrics_def defaultIronicMetrics_def defaultGnocchiMetrics_def
  defaultTroveMetrics_def defaultHeatMetrics_def defaultPlacementMetrics_def defaultManilaMetrics_def

lemma table_of_size: "length (table_of name a) < 2 ^ 30"
  unfolding table_of_def by (simp add: service_table_defs)

text \<open>No flag empties a table: each has a row that is neither slow nor deprecated.\<close>

lemma table_of_plain: "\<exists>m \<in> set (table_of name a). \<not> m_Slow m \<and> m_DeprecatedVersion m = []"
  unfolding table_of_def by (simp add: service_table_defs)

lemma scrape_safe:
  assumes "fst (NewExporter fa name a m) = Inr ex" and "xa_DisabledMetrics a = []"
    and "wf_flag (xa_NovaMetadataMapping a)" and "accepts_arity (fa_prom fa)" and "permutes_order ord"
    and "name = ''dns'' \<Longrightarrow> dns_answers_fit (fa_prom fa) ca ex"
  shows "(\<exists>t. Collect (fa_prom fa) (dispatch (service_functions (fa_prom fa) ca name ex)) secs ord ex t
      \<and> cs_phase t = Returned)
    \<and> \<not> (\<exists>t p. Collect (fa_prom fa) (dispatch (service_functions (fa_prom fa) ca name ex)) secs ord ex t
      \<and> cs_phase t = Crashed p)"
proof -
  obtain cl where ex: "ex = register_table (fa_prom fa) (table_of name a)
      (new_base (base_name name) (exporter_config cl name a))"
    using NewExporter_registers [OF assms(1)] by blast
  let ?b = "new_base (base_name name) (exporter_config cl name a)"
  note service = service_interface [of name a "fa_prom fa" ca]
  have none: "DisabledMetrics ?b = []" using assms(2) by simp
  have closed: "closed_rows ?b (table_of name a) (needs_of name)"
    using service_scrape.rows_needed [OF service] none by (rule closed_rows_flags)
  have fit: "answers_fit (fa_prom fa) ca name a (register_table (fa_prom fa) (table_of name a) ?b)"
    using assms(3,6) unfolding ex by (auto simp: answers_fit_def wf_flag_def exporter_config_mapping)
  have row: "\<exists>t \<in> set (table_of name a). enabled ?b t"
    using table_of_plain [of name a] none
    by (auto simp: enabled_def MetricIsDisabled_iff isSlowMetric_def isDeprecatedMetric_def)
  note run = service_scrape.scrape [OF service assms(4) _ closed fit row assms(5) table_of_size]
  show ?thesis using run unfolding ex by simp
qed


text \<open>A cloud with one container, and nothing else in it.\<close>

definition small_cloud :: cloud_answers where
  "small_cloud = \<lparr>ca_identity = sample_identity, ca_endpoints = Map.empty, ca_uuid = (\<lambda>n. Inr ''u''),
     ca_status_order = (\<lambda>es. es), ca_floating_ips = Inr [], ca_networks = Inr [],
     ca_security_groups = Inr [], ca_subnets = Inr [], ca_ports = Inr [], ca_routers = Inr [],
     ca_ovn_agents = Inr [], ca_l3_agents = (\<lambda>i. Inr []), ca_vpn_groups = Inr [],
     ca_ike_policies = Inr [], ca_ipsec_policies = Inr [], ca_vpn_services = Inr [],
     ca_vpn_connections = Inr [], ca_network_agents = Inr [], ca_parse_float = (\<lambda>s. Some 0),
     ca_marshal = Inr, ca_unmarshal = (\<lambda>s. Inr []), ca_availabilities = Inr (Body_map []),
     ca_parse_prefix = (\<lambda>s. Inl (Msg_error s)), ca_show_prefix = (\<lambda>p. []), ca_ipset = (\<lambda>p ps. Inr ps),
     ca_pool_subnets = Inr [], ca_subnet_pools = Inr [], ca_network_quota = (\<lambda>i. Inl (Msg_error i)),
     ca_flavors = Inr [], ca_zones = Inr [], ca_compute_groups = Inr [],
     ca_parse_microversion = (\<lambda>s. Inr (2, 1)), ca_fmt_map = (\<lambda>m. []), ca_vm_order = (\<lambda>es. es),
     ca_servers = (\<lambda>q. Inr []), ca_mapper_flavors = Inr [], ca_compute_services = Inr [],
     ca_hypervisors = (\<lambda>l. Inr []), ca_aggregates = Inr [], ca_limits = (\<lambda>i. Inl (Msg_error i)),
     ca_usage = Inr [], ca_compute_quota = (\<lambda>i. Inl (Msg_error i)),
     ca_image_pages = Inr [], ca_property_pages = Inr [], ca_extract_images = (\<lambda>s. Inr []),
     ca_volumes = (\<lambda>q. Inr []), ca_status_volumes = (\<lambda>q. Inr []), ca_snapshots = (\<lambda>q. Inr []),
     ca_volume_services = Inr [], ca_storage_pools = Inr [], ca_volume_usage = (\<lambda>i. Inl (Msg_error i)),
     ca_volume_extra = (\<lambda>i. Inr []), ca_extra_order = (\<lambda>es. es),
     ca_containers = ([Inr [\<lparr>co_Name = ''c'', co_Count = 2, co_Bytes = 7\<rparr>]], None),
     ca_shares = Inr [], ca_status_shares = Inr [], ca_domains = Inr [], ca_users = (\<lambda>d. Inr []),
     ca_groups = (\<lambda>d. Inr []), ca_regions = Inr [], ca_loadbalancers = Inr [], ca_amphorae = Inr [],
     ca_pools = Inr [], ca_clusters = Inr [], ca_to_lower = (\<lambda>s. s), ca_dns_zones = Inr [],
     ca_recordsets = (\<lambda>z. Inr []), ca_dns_result = finish, ca_nodes = Inr [],
     ca_metric_status = Inl (Msg_error ''none''), ca_metrics = Inr [], ca_instances = (\<lambda>q. Inr []),
     ca_stacks = Inr [], ca_placement = \<lparr>pl_providers = Inr [], pl_inventories = (\<lambda>u. Inl (Msg_error u)),
       pl_usages = (\<lambda>u. Inr []), pl_allocations = (\<lambda>u. Inr [])\<rparr>,
     ca_placement_orders = \<lparr>ord_inventories = (\<lambda>es. es), ord_usages = (\<lambda>es. es),
       ord_allocations = (\<lambda>es. es), ord_resources = (\<lambda>es. es)\<rparr>\<rparr>"

lemma sample_makes_objects:
  "\<exists>ex. fst (NewExporter sample_factory ''object-store'' (sample_args\<lparr>xa_DisabledMetrics := []\<rparr>) Map.empty)
     = Inr ex"
  by (simp add: NewExporter_def sample_factory_def sample_args_def two_clouds_def
      Let_def new_cloud_def choose_transport_def client_certificate_def verify_settings_def
      NewServiceClientV2_def newAuthenticatedProviderClient_def AuthenticatedClientV2_def
      service_client_def construct_def)


text \<open>
  Property C35. A metric disabled by name can end the process: floating IPs are sent under
  \<^verbatim>\<open>floating_ip\<close> without asking whether it is registered. With that metric disabled, its list
  function's row not, and a floating IP in the cloud, no run of a scrape of the network service
  returns, and every run comes to its end in a crash.
\<close>

theorem disabled_metric_ends_process:
  assumes "fst (NewExporter fa ''network'' a m) = Inr ex"
    and "''neutron-floating_ip'' \<in> set (xa_DisabledMetrics a)"
    and "''neutron-floating_ips'' \<notin> set (xa_DisabledMetrics a)"
    and "ca_floating_ips ca = Inr (fip # fips)" and "permutes_order ord"
  shows "\<not> (\<exists>t. Collect (fa_prom fa) (dispatch (service_functions (fa_prom fa) ca ''network'' ex)) secs ord ex t
      \<and> cs_phase t = Returned)
    \<and> (\<exists>t p. Collect (fa_prom fa) (dispatch (service_functions (fa_prom fa) ca ''network'' ex)) secs ord ex t
      \<and> cs_phase t = Crashed p)"
proof -
  let ?run = "dispatch (service_functions (fa_prom fa) ca ''network'' ex)"
  obtain cl where ex: "ex = NewNeutronExporter (fa_prom fa) (exporter_config cl ''network'' a)"
    using NewExporter_registers [OF assms(1)] by (auto simp: NewNeutronExporter_def table_of_def base_name_def)
  let ?b = "new_base ''neutron'' (exporter_config cl ''network'' a)"
    and ?row = "metric ''floating_ips'' [] (Some ''ListFloatingIps'')"
  have on: "enabled ?b ?row" using assms(3)
    by (simp add: enabled_def MetricIsDisabled_iff isSlowMetric_def isDeprecatedMetric_def)
  have row: "?row \<in> set defaultNeutronMetrics" by (simp add: defaultNeutronMetrics_def)
  have look: "map_of (metrics_of ex) ''floating_ips'' = Some (snd (entry (fa_prom fa) ?b ?row))"
    using neutron.lookup_enabled [OF _ row on, of "fa_prom fa"] by (simp add: ex NewNeutronExporter_def)
  let ?e = "(''floating_ips'', snd (entry (fa_prom fa) ?b ?row))"
  have e: "?e \<in> set (metrics_of ex)" "has_fn ?e"
    using look by (auto simp: has_fn_def entry_def dest: map_of_SomeD)
  have "?run ''ListFloatingIps'' = ([], Panicked Nil_deref)"
    using floating_ip_listing_panics [of "exporter_config cl ''network'' a"] assms(2,4)
    by (simp add: dispatch_def service_functions_def neutron_functions_def ex)
  then have "panicking (collect_body (fa_prom fa) ?run secs ex ?e)"
    by (simp add: collect_body_def RunCollection_def entry_def panicking_def)
  note ends = Collect_panics [OF e this assms(5)]
  have "length (metrics_of ex) \<le> 2 + length defaultNeutronMetrics"
    using length_filter_le [of "enabled ?b" defaultNeutronMetrics]
    by (auto simp: ex NewNeutronExporter_def neutron.registry_exact metrics_of_def registry_def base_metrics_def)
  then have "length (metrics_of ex) < 2 ^ 31" by (simp add: defaultNeutronMetrics_def)
  with ends show ?thesis by blast
qed

lemma sample_makes_network:
  "\<exists>ex. fst (NewExporter sample_factory ''network''
     (sample_args\<lparr>xa_DisabledMetrics := [''neutron-floating_ip'']\<rparr>) Map.empty) = Inr ex"
  by (simp add: NewExporter_def sample_factory_def sample_args_def two_clouds_def
      Let_def new_cloud_def choose_transport_def client_certificate_def verify_settings_def
      NewServiceClientV2_def newAuthenticatedProviderClient_def AuthenticatedClientV2_def
      service_client_def construct_def)

theorem disabled_metric_ends_process_witness:
  "\<exists>ex t p. fst (NewExporter sample_factory ''network''
       (sample_args\<lparr>xa_DisabledMetrics := [''neutron-floating_ip'']\<rparr>) Map.empty) = Inr ex
     \<and> Collect sample_prom (dispatch (service_functions sample_prom
         (small_cloud\<lparr>ca_floating_ips := Inr [sample_fip ''ACTIVE'']\<rparr>) ''network'' ex))
         (\<lambda>n. 0) (\<lambda>es. es) ex t
     \<and> cs_phase t = Crashed p"
proof -
  obtain ex where ex: "fst (NewExporter sample_factory ''network''
      (sample_args\<lparr>xa_DisabledMetrics := [''neutron-floating_ip'']\<rparr>) Map.empty) = Inr ex"
    using sample_makes_network by blast
  have pr: "fa_prom sample_factory = sample_prom" by (simp add: sample_factory_def)
  from disabled_metric_ends_process [OF ex, where ord = "\<lambda>es. es" and secs = "\<lambda>n. 0"
      and ca = "small_cloud\<lparr>ca_floating_ips := Inr [sample_fip ''ACTIVE'']\<rparr>"]
  show ?thesis using ex by (simp add: pr permutes_order_def)
qed

end
