(* ===== verification/Registration.thy ===== *)
theory Registration
  imports Metric_Names Main_App Scrape_Service
begin

text \<open>
  What a Prometheus registry takes, by the documented contract of \<^verbatim>\<open>NewDesc\<close> and \<^verbatim>\<open>Register\<close>, and
  what follows for the exporters of a request: which of them it takes, and that a whole request of
  several services goes through.
\<close>

section \<open>The contract of the registry\<close>

definition label_names :: "desc \<Rightarrow> string list" where
  "label_names d = d_variableLabels d @ map fst (d_constLabels d)"

text \<open>
  A descriptor is valid when its name and its labels are (\<open>name_ok\<close>, \<open>label_ok\<close>), and no label comes
  twice. Descriptors of one name have to agree in help text and labels.
\<close>

definition valid_desc :: "(string \<Rightarrow> bool) \<Rightarrow> (string \<Rightarrow> bool) \<Rightarrow> desc \<Rightarrow> bool" where
  "valid_desc name_ok label_ok d \<longleftrightarrow>
     name_ok (d_fqName d) \<and> list_all label_ok (label_names d) \<and> distinct (label_names d)"

definition consistent :: "desc \<Rightarrow> desc \<Rightarrow> bool" where
  "consistent d e \<longleftrightarrow> d_fqName d = d_fqName e \<longrightarrow>
     d_help d = d_help e \<and> set (d_variableLabels d) = set (d_variableLabels e) \<and>
     fst ` set (d_constLabels d) = fst ` set (d_constLabels e)"

definition same_metric :: "desc \<Rightarrow> desc \<Rightarrow> bool" where
  "same_metric d e \<longleftrightarrow> d_fqName d = d_fqName e \<and> set (d_constLabels d) = set (d_constLabels e)"

definition descs :: "exporter \<Rightarrow> desc set" where
  "descs ex = set (Describe (\<lambda>es. es) ex)"

text \<open>
  A registry that holds exporters refuses one more exactly when it describes something invalid, is not
  consistent with itself or with what is there, or describes a metric that is there.
\<close>

definition documented_registry ::
  "(string \<Rightarrow> bool) \<Rightarrow> (string \<Rightarrow> bool) \<Rightarrow> (collector list \<Rightarrow> collector \<Rightarrow> bool) \<Rightarrow> bool" where
  "documented_registry name_ok label_ok refused \<longleftrightarrow>
     (\<forall>exs ex. refused (map Exporter_collector exs) (Exporter_collector ex) \<longleftrightarrow>
        (\<exists>d \<in> descs ex. \<not> valid_desc name_ok label_ok d) \<or>
        (\<exists>d \<in> descs ex. \<exists>e \<in> descs ex \<union> \<Union> (descs ` set exs). \<not> consistent d e) \<or>
        (\<exists>d \<in> descs ex. \<exists>e \<in> \<Union> (descs ` set exs). same_metric d e))"

text \<open>The documented form of names and labels that every validation scheme takes.\<close>

definition plain_name :: "string \<Rightarrow> bool" where
  "plain_name s \<longleftrightarrow> (case s of [] \<Rightarrow> False | c # cs \<Rightarrow> (is_letter c \<or> c = CHR ''_'') \<and> word_tail cs)"

definition plain_label :: "string \<Rightarrow> bool" where
  "plain_label l \<longleftrightarrow> plain_name l \<and> take 2 l \<noteq> ''__''"

section \<open>What an exporter describes\<close>

lemma desc_mem: "(k, pm) \<in> set (metrics_of ex) \<Longrightarrow> pm_Metric pm \<in> descs ex"
  unfolding descs_def Describe_def by (simp add: image_iff) (metis snd_conv)

definition up_desc :: "string \<Rightarrow> desc" where
  "up_desc n = \<lparr>d_fqName = n @ ''_up'', d_help = ''up'', d_variableLabels = [], d_constLabels = []\<rparr>"

definition seconds_desc :: "string \<Rightarrow> desc" where
  "seconds_desc n = \<lparr>d_fqName = ''openstack_metric_collect_seconds'',
     d_help = ''Time needed to collect metric from OpenStack API'',
     d_variableLabels = [''openstack_metric''], d_constLabels = [(''openstack_service'', n)]\<rparr>"

definition row_desc :: "string \<Rightarrow> Metric \<Rightarrow> desc" where
  "row_desc n t = \<lparr>d_fqName = n @ ''_'' @ m_Name t, d_help = m_Name t, d_variableLabels = m_Labels t,
     d_constLabels = []\<rparr>"

definition full_name :: "exporter_args \<Rightarrow> string \<Rightarrow> string" where
  "full_name a name = xa_Prefix a @ ''_'' @ base_name name"

lemma made_descs:
  assumes "fst (NewExporter fa name a m) = Inr ex" and "documented_fqname (fa_prom fa)" and "d \<in> descs ex"
  shows "d = up_desc (full_name a name) \<or> d = seconds_desc (full_name a name) \<or>
    (\<exists>t \<in> set (table_of name a). d = row_desc (full_name a name) t)"
proof -
  from NewExporter_registers [OF assms(1)] obtain cl where
    ex: "ex = register_table (fa_prom fa) (table_of name a)
      (new_base (base_name name) (exporter_config cl name a))" by blast
  let ?b = "new_base (base_name name) (exporter_config cl name a)"
  have named: "GetName ?b = full_name a name" by (simp add: GetName_def full_name_def)
  have tbl: "m_Name t \<noteq> []" if "t \<in> set (table_of name a)" for t
    using that table_of_named [of name a] by (metis image_eqI list.set_map)
  obtain k pm where pm: "(k, pm) \<in> set (metrics_of ex)" and d: "d = pm_Metric pm"
    using assms(3) by (force simp: descs_def Describe_def)
  have "(k, pm) \<in> set (base_metrics (fa_prom fa) None ?b) \<or>
      (\<exists>t \<in> set (table_of name a). (k, pm) = entry (fa_prom fa) ?b t)"
    using metrics_cases pm unfolding ex .
  moreover have "BuildFQName (fa_prom fa) (full_name a name) [] n = full_name a name @ ''_'' @ n" if "n \<noteq> []" for n
    using assms(2) that by (simp add: documented_fqname_def full_name_def)
  ultimately show ?thesis
    using tbl by (auto simp: base_metrics_def entry_def d named up_desc_def seconds_desc_def row_desc_def)
qed

text \<open>Every row of every table has a plain name and plain labels, none of them twice.\<close>

definition plain_row :: "Metric \<Rightarrow> bool" where
  "plain_row t \<longleftrightarrow> word_tail (m_Name t) \<and> list_all plain_label (m_Labels t) \<and> distinct (m_Labels t)"

lemma is_word_chars:
  "list_all is_word ''abcdefghijklmnopqrstuvwxyzABCDEFGHIJKLMNOPQRSTUVWXYZ0123456789_''"
  by code_simp

lemma is_letter_chars:
  "list_all is_letter ''abcdefghijklmnopqrstuvwxyzABCDEFGHIJKLMNOPQRSTUVWXYZ''"
  by code_simp

lemmas plain_simps = is_word_chars [simplified] is_letter_chars [simplified] plain_row_def plain_label_def
  plain_name_def word_tail_def

lemma plain_tables:
  "list_all plain_row defaultNeutronMetrics" "list_all plain_row defaultNovaMetrics"
  "list_all plain_row defaultGlanceMetrics" "list_all plain_row defaultCinderMetrics"
  "list_all plain_row defaultKeystoneMetrics" "list_all plain_row defaultObjectStoreMetrics"
  "list_all plain_row defaultLoadbalancerMetrics" "list_all plain_row defaultContainerInfraMetrics"
  "list_all plain_row defaultDesignateMetrics" "list_all plain_row defaultIronicMetrics"
  "list_all plain_row defaultGnocchiMetrics" "list_all plain_row defaultTroveMetrics"
  "list_all plain_row defaultHeatMetrics" "list_all plain_row defaultPlacementMetrics"
  "list_all plain_row defaultManilaMetrics"
  by (simp_all add: service_table_defs nova_label_defs neutron_label_defs
      placementResourceLabels_def placementAllocationLabels_def plain_simps)

definition accepts_plain :: "(string \<Rightarrow> bool) \<Rightarrow> (string \<Rightarrow> bool) \<Rightarrow> bool" where
  "accepts_plain name_ok label_ok \<longleftrightarrow>
     (\<forall>s. plain_name s \<longrightarrow> name_ok s) \<and> (\<forall>l. plain_label l \<longrightarrow> label_ok l)"

text \<open>The mapped labels of the metadata flag that fit beside the labels of \<^verbatim>\<open>server_status\<close>.\<close>

definition mapping_fits :: "(string \<Rightarrow> bool) \<Rightarrow> LabelMappingFlag \<Rightarrow> bool" where
  "mapping_fits label_ok mapping \<longleftrightarrow>
     distinct (defaultNovaServerStatusLabels @ lm_Labels mapping) \<and> list_all label_ok (lm_Labels mapping)"

lemma status_labels_plain: "list_all plain_label defaultNovaServerStatusLabels"
  by (simp add: defaultNovaServerStatusLabels_def plain_simps)

lemma table_rows_fit:
  assumes "accepts_plain name_ok label_ok" and "mapping_fits label_ok (xa_NovaMetadataMapping a)"
    and "t \<in> set (table_of name a)"
  shows "word_tail (m_Name t) \<and> list_all label_ok (m_Labels t) \<and> distinct (m_Labels t)"
proof -
  have plain: "word_tail (m_Name t) \<and> list_all label_ok (m_Labels t) \<and> distinct (m_Labels t)"
    if "list_all plain_row ts" "t \<in> set ts" for t ts
    using that assms(1) by (auto simp: list_all_iff plain_row_def accepts_plain_def)
  show ?thesis
  proof (cases "name = ''compute''")
    case True
    then obtain t' where t': "t' \<in> set defaultNovaMetrics" and
      t: "t = (if m_Name t' = ''server_status''
        then t'\<lparr>m_Labels := defaultNovaServerStatusLabels @ lm_Labels (xa_NovaMetadataMapping a)\<rparr> else t')"
      using assms(3) by (auto simp: table_of_def nova_table_def)
    have "list_all label_ok defaultNovaServerStatusLabels"
      using status_labels_plain assms(1) by (auto simp: list_all_iff accepts_plain_def)
    moreover have "word_tail (m_Name t')" using plain [OF plain_tables(2) t'] by blast
    moreover have "m_Name t = m_Name t'" using t by simp
    ultimately show ?thesis
      using t plain [OF plain_tables(2) t'] assms(2) by (simp add: mapping_fits_def split: if_splits)
  next
    case False
    then have "list_all plain_row (table_of name a)"
      unfolding table_of_def by (simp add: plain_tables)
    with plain assms(3) show ?thesis by blast
  qed
qed

lemma plain_name_append: "plain_name p \<Longrightarrow> word_tail q \<Longrightarrow> plain_name (p @ q)"
  by (cases p) (auto simp: plain_name_def word_tail_def)

lemma full_name_plain:
  assumes "plain_name (xa_Prefix a)" and "word_tail n"
  shows "plain_name (full_name a name @ ''_'' @ n)"
proof -
  have "word_tail (''_'' @ base_name name @ ''_'' @ n)"
    using assms(2) unfolding base_name_def by (simp add: plain_simps)
  then show ?thesis using plain_name_append [OF assms(1)] by (simp add: full_name_def)
qed

section \<open>What the registry takes\<close>

text \<open>What the theorems suppose of a registry, its library and the flags.\<close>

definition registry_fits ::
  "factory \<Rightarrow> exporter_args \<Rightarrow> (string \<Rightarrow> bool) \<Rightarrow> (string \<Rightarrow> bool) \<Rightarrow> (collector list \<Rightarrow> collector \<Rightarrow> bool) \<Rightarrow> bool"
where
  "registry_fits fa a name_ok label_ok refused \<longleftrightarrow>
     documented_registry name_ok label_ok refused \<and> accepts_plain name_ok label_ok \<and>
     documented_fqname (fa_prom fa) \<and> plain_name (xa_Prefix a)"

lemma descs_valid:
  assumes "fst (NewExporter fa name a m) = Inr ex" and "registry_fits fa a name_ok label_ok refused"
    and "mapping_fits label_ok (xa_NovaMetadataMapping a)" and "d \<in> descs ex"
  shows "valid_desc name_ok label_ok d"
proof -
  have plain: "accepts_plain name_ok label_ok" and fq: "documented_fqname (fa_prom fa)"
    and name: "name_ok (full_name a name @ ''_'' @ n)" if "word_tail n" for n
    using assms(2) full_name_plain [of a] that by (auto simp: registry_fits_def accepts_plain_def)
  have "plain_name ''openstack_metric_collect_seconds''" "word_tail ''up''"
      "plain_label ''openstack_metric''" "plain_label ''openstack_service''"
    by (simp_all add: plain_simps)
  then have "valid_desc name_ok label_ok (up_desc (full_name a name))"
      "valid_desc name_ok label_ok (seconds_desc (full_name a name))"
    using plain [of "[]"] name [of "''up''"]
    by (simp_all add: valid_desc_def up_desc_def seconds_desc_def label_names_def accepts_plain_def word_tail_def)
  moreover have "valid_desc name_ok label_ok (row_desc (full_name a name) t)" if "t \<in> set (table_of name a)" for t
    using table_rows_fit [OF _ assms(3) that, of name_ok] plain [of "[]"] name [of "m_Name t"]
    by (auto simp: valid_desc_def row_desc_def label_names_def word_tail_def)
  moreover have "documented_fqname (fa_prom fa)" using fq [of "[]"] by (simp add: word_tail_def)
  ultimately show ?thesis using made_descs [OF assms(1) _ assms(4)] by blast
qed

lemma own_descs_consistent:
  assumes "fst (NewExporter fa name a m) = Inr ex" and "documented_fqname (fa_prom fa)"
    and "d \<in> descs ex" and "e \<in> descs ex"
  shows "consistent d e"
proof -
  let ?n = "full_name a name"
  have names: "m_Name t \<noteq> ''up''" if "t \<in> set (table_of name a)" for t
    using that metric_table.names_free [OF table_of_metric_table [of name a]] by (force simp: reserved_def)
  have rows: "t = u" if "t \<in> set (table_of name a)" "u \<in> set (table_of name a)" "m_Name t = m_Name u" for t u
    using that metric_table.names_distinct [OF table_of_metric_table [of name a]]
    by (auto simp: distinct_map dest: inj_onD)
  have seconds: "?n @ ''_'' @ k \<noteq> ''openstack_metric_collect_seconds''" for k
    using fqname_not_collect_seconds [OF base_name_mem] NewExporter_registers [OF assms(1)]
    by (simp add: full_name_def)
  have neq: "?n @ CHR ''_'' # k \<noteq> ''openstack_metric_collect_seconds''"
      "''openstack_metric_collect_seconds'' \<noteq> ?n @ CHR ''_'' # k" for k
    using seconds [of k] by auto
  from made_descs [OF assms(1,2,3)] made_descs [OF assms(1,2,4)] show ?thesis
    by (elim disjE bexE)
      (auto simp: consistent_def up_desc_def seconds_desc_def row_desc_def neq names names [symmetric] dest: rows)
qed

lemma other_descs:
  assumes "fst (NewExporter fa name1 a m1) = Inr ex1" and "fst (NewExporter fa name2 a m2) = Inr ex2"
    and "name1 \<noteq> name2" and "documented_fqname (fa_prom fa)"
    and "d \<in> descs ex1" and "e \<in> descs ex2"
  shows "consistent d e \<and> \<not> same_metric d e"
proof -
  have differ: "(d_fqName d, d_constLabels d) \<noteq> (d_fqName e, d_constLabels e)"
      "d_fqName d = d_fqName e \<longrightarrow> d_fqName d = ''openstack_metric_collect_seconds''"
    using descriptors_differ [OF assms(1-4) permutes_order_id permutes_order_id] assms(5,6)
    by (auto simp: descs_def)
  have seconds: "x = seconds_desc (full_name a name)"
    if "fst (NewExporter fa name a m) = Inr ex" "x \<in> descs ex"
      "d_fqName x = ''openstack_metric_collect_seconds''" for x name m ex
  proof -
    have "full_name a name @ ''_'' @ k \<noteq> ''openstack_metric_collect_seconds''" for k
      using fqname_not_collect_seconds [OF base_name_mem] NewExporter_registers [OF that(1)]
      by (simp add: full_name_def)
    from this [of "''up''"] this show ?thesis
      using made_descs [OF that(1) assms(4) that(2)] that(3) by (auto simp: up_desc_def row_desc_def)
  qed
  show ?thesis
  proof (cases "d_fqName d = d_fqName e")
    case True
    then have "d = seconds_desc (full_name a name1)" "e = seconds_desc (full_name a name2)"
      using seconds [OF assms(1,5)] seconds [OF assms(2,6)] differ(2) by simp_all
    with differ(1) show ?thesis by (auto simp: consistent_def same_metric_def seconds_desc_def)
  qed (simp add: consistent_def same_metric_def)
qed

text \<open>The exporters of different services, made with one set of arguments, are taken one after the other.\<close>

lemma exporters_of_Cons:
  "exporters_of fa a (s # services) = (case fst (EnableExporter fa s a Map.empty) of
     Inl e \<Rightarrow> exporters_of fa a services | Inr ex \<Rightarrow> Exporter_collector ex # exporters_of fa a services)"
  by (simp add: exporters_of_def List.map_filter_simps split: sum.split)

lemma EnableExporter_New: "fst (EnableExporter fa s a m) = fst (NewExporter fa s a m)"
  by (simp add: EnableExporter_def split: prod.split sum.split)

definition made_for :: "factory \<Rightarrow> exporter_args \<Rightarrow> string set \<Rightarrow> exporter \<Rightarrow> bool" where
  "made_for fa a A ex \<longleftrightarrow> (\<exists>s \<in> A. fst (NewExporter fa s a Map.empty) = Inr ex)"

lemma exporter_not_refused:
  assumes "registry_fits fa a name_ok label_ok refused"
    and "mapping_fits label_ok (xa_NovaMetadataMapping a)"
    and "fst (NewExporter fa s a Map.empty) = Inr ex" and "list_all (made_for fa a A) exs" and "s \<notin> A"
  shows "\<not> refused (map Exporter_collector exs) (Exporter_collector ex)"
proof -
  have fq: "documented_fqname (fa_prom fa)" and reg: "documented_registry name_ok label_ok refused"
    using assms(1) by (simp_all add: registry_fits_def)
  have others: "consistent d e \<and> \<not> same_metric d e" if d: "d \<in> descs ex" and x: "x \<in> set exs" and e: "e \<in> descs x" for d e x
  proof -
    obtain s' where "s' \<in> A" "fst (NewExporter fa s' a Map.empty) = Inr x"
      using assms(4) x by (auto simp: list_all_iff made_for_def)
    then show ?thesis using other_descs [OF assms(3) _ _ fq d e] assms(5) by blast
  qed
  show ?thesis
    using reg descs_valid [OF assms(3,1,2)] own_descs_consistent [OF assms(3) fq] others
    unfolding documented_registry_def by blast
qed

lemma registers_made:
  assumes "registry_fits fa a name_ok label_ok refused"
    and "mapping_fits label_ok (xa_NovaMetadataMapping a)"
    and "distinct services" and "list_all (made_for fa a A) exs" and "A \<inter> set services = {}"
  shows "registers refused (map Exporter_collector exs) (exporters_of fa a services)"
  using assms(3-5)
proof (induction services arbitrary: exs A)
  case Nil
  then show ?case by (simp add: exporters_of_def List.map_filter_simps)
next
  case (Cons s services)
  show ?case
  proof (cases "fst (EnableExporter fa s a Map.empty)")
    case (Inl e)
    with Cons show ?thesis by (simp add: exporters_of_Cons)
  next
    case (Inr ex)
    then have ex: "fst (NewExporter fa s a Map.empty) = Inr ex" by (simp add: EnableExporter_New)
    have "list_all (made_for fa a (insert s A)) (exs @ [ex])"
      using Cons.prems(2) ex by (auto simp: list_all_iff made_for_def)
    moreover have "insert s A \<inter> set services = {}" using Cons.prems(1,3) by simp
    ultimately have "registers refused (map Exporter_collector (exs @ [ex])) (exporters_of fa a services)"
      using Cons.prems(1) Cons.IH [where A = "insert s A" and exs = "exs @ [ex]"] by simp
    with exporter_not_refused [OF assms(1,2) ex Cons.prems(2)] Cons.prems(3) Inr
    show ?thesis by (simp add: exporters_of_Cons)
  qed
qed

section \<open>Whole requests\<close>


lemma server_status_row:
  "metric ''server_status'' (defaultNovaServerStatusLabels @ lm_Labels mapping) None \<in> set (nova_table mapping)"
  by (simp add: nova_table_def defaultNovaMetrics_def)

lemma compute_refused:
  assumes "documented_registry name_ok label_ok refused"
    and "fst (NewExporter fa ''compute'' a m) = Inr ex"
    and "\<not> distinct (defaultNovaServerStatusLabels @ lm_Labels (xa_NovaMetadataMapping a))"
    and "''nova-server_status'' \<notin> set (xa_DisabledMetrics a)"
  shows "refused (map Exporter_collector exs) (Exporter_collector ex)"
proof -
  let ?row = "metric ''server_status'' (defaultNovaServerStatusLabels @ lm_Labels (xa_NovaMetadataMapping a)) None"
  obtain cl where ex: "ex = register_table (fa_prom fa) (table_of ''compute'' a)
      (new_base (base_name ''compute'') (exporter_config cl ''compute'' a))"
    using NewExporter_registers [OF assms(2)] by blast
  let ?b = "new_base (base_name ''compute'') (exporter_config cl ''compute'' a)"
  have row: "?row \<in> set (table_of ''compute'' a)" by (simp add: table_of_def server_status_row)
  have "enabled ?b ?row"
    using assms(4) by (simp add: enabled_def MetricIsDisabled_iff base_name_def isSlowMetric_def isDeprecatedMetric_def)
  then have "map_of (metrics_of ex) ''server_status'' = Some (snd (entry (fa_prom fa) ?b ?row))"
    using metric_table.lookup_enabled [OF table_of_metric_table _ row, of ?b] unfolding ex by simp
  from map_of_SomeD [OF this] have "pm_Metric (snd (entry (fa_prom fa) ?b ?row)) \<in> descs ex"
    by (rule desc_mem)
  moreover have "\<not> valid_desc name_ok label_ok (pm_Metric (snd (entry (fa_prom fa) ?b ?row)))"
    using assms(3) by (simp add: valid_desc_def label_names_def entry_def)
  ultimately show ?thesis using assms(1) unfolding documented_registry_def by blast
qed

lemma registers_refused:
  assumes "c \<in> set cs" and "\<And>exs. refused (map Exporter_collector exs) c"
    and "list_all (\<lambda>c. \<exists>ex. c = Exporter_collector ex) cs"
  shows "\<not> registers refused (map Exporter_collector exs) cs"
  using assms
proof (induction cs arbitrary: exs)
  case (Cons c' cs)
  obtain ex where "c' = Exporter_collector ex" using Cons.prems(3) by auto
  then have "\<not> registers refused (map Exporter_collector (exs @ [ex])) cs" if "c \<noteq> c'"
    using Cons.prems that by (intro Cons.IH) simp_all
  then show ?case using Cons.prems(2) \<open>c' = Exporter_collector ex\<close> by (cases "c = c'") auto
qed simp

lemma status_labels_set:
  "list_all (\<lambda>l. LabelMapping_Set l new_flag = (\<lparr>lm_Labels = [l], lm_Keys = [l]\<rparr>, None)) defaultNovaServerStatusLabels"
  by code_simp

text \<open>
  Property C25. The flag for metadata labels takes labels that \<^verbatim>\<open>server_status\<close> has already: with such a
  mapping every request that selects the compute service, alone or with others, panics in its handler as
  soon as the service can be enabled, instead of the flag being refused at the start.
\<close>

theorem mapped_label_panics:
  assumes "documented_registry name_ok label_ok refused" and "l \<in> set defaultNovaServerStatusLabels"
    and "xa_NovaMetadataMapping (fl_args fl) = fst (LabelMapping_Set l new_flag)"
    and "''nova-server_status'' \<notin> set (xa_DisabledMetrics (fl_args fl))"
    and "\<not> fl_cacheEnable fl" and "cloud \<noteq> []"
    and "selectServicesForRequest configured inc exc = Inr services" and "''compute'' \<in> set services"
    and "fst (NewExporter fa ''compute'' ((fl_args fl)\<lparr>xa_Cloud := cloud\<rparr>) Map.empty) = Inr ex"
  shows "snd (LabelMapping_Set l new_flag) = None \<and>
    fst (probeHandler fa refused fl ch configured cloud inc exc m) = Handler_panic Collector_refused"
proof -
  let ?a = "(fl_args fl)\<lparr>xa_Cloud := cloud\<rparr>"
  have set: "LabelMapping_Set l new_flag = (\<lparr>lm_Labels = [l], lm_Keys = [l]\<rparr>, None)"
    using status_labels_set assms(2) by (simp add: list_all_iff)
  then have "\<not> distinct (defaultNovaServerStatusLabels @ lm_Labels (xa_NovaMetadataMapping ?a))"
    using assms(2,3) by simp
  then have "refused (map Exporter_collector exs) (Exporter_collector ex)" for exs
    using compute_refused [OF assms(1,9)] assms(4) by simp
  moreover have "Exporter_collector ex \<in> set (exporters_of fa ?a services)"
    using assms(8,9) by (force simp: exporters_of_def map_filter_def EnableExporter_New)
  moreover have "list_all (\<lambda>c. \<exists>ex. c = Exporter_collector ex) (exporters_of fa ?a services)"
    by (auto simp: list_all_iff exporters_of_def map_filter_def split: sum.splits)
  ultimately have "\<not> registers refused [] (exporters_of fa ?a services)"
    using registers_refused [where exs = "[]"] by fastforce
  then have "fst (enable_loop fa refused ?a services [] m) = Inl Collector_refused"
    by (simp add: enable_loop_spec)
  then show ?thesis
    using assms(5-7) set
    by (cases "enable_loop fa refused ?a services [] m") (simp add: probeHandler_def)
qed

section \<open>A registry that keeps the contract\<close>

definition sample_refused :: "collector list \<Rightarrow> collector \<Rightarrow> bool" where
  "sample_refused reg c =
     (let held = (\<Union>c' \<in> set reg. case c' of Exporter_collector x \<Rightarrow> descs x | Version_collector \<Rightarrow> {}) in
      case c of
        Version_collector \<Rightarrow> False
      | Exporter_collector ex \<Rightarrow>
          (\<exists>d \<in> descs ex. \<not> valid_desc plain_name plain_label d) \<or>
          (\<exists>d \<in> descs ex. \<exists>e \<in> descs ex \<union> held. \<not> consistent d e) \<or>
          (\<exists>d \<in> descs ex. \<exists>e \<in> held. same_metric d e))"

lemma sample_registry: "documented_registry plain_name plain_label sample_refused"
  by (simp add: documented_registry_def sample_refused_def)

definition flags_with :: "LabelMappingFlag \<Rightarrow> flags" where
  "flags_with mapping = sample_flags\<lparr>fl_multiCloud := True,
     fl_args := sample_args\<lparr>xa_DisabledMetrics := [], xa_NovaMetadataMapping := mapping\<rparr>\<rparr>"

definition versioned_factory :: factory where
  "versioned_factory = sample_factory\<lparr>fa_versions :=
     (\<lambda>n. Inr [\<lparr>v_MaxMajor = 2, v_MaxMinor = 90, v_IsSupported = (\<lambda>s. True)\<rparr>])\<rparr>"

definition empty_side :: "string cache_side" where
  "empty_side = \<lparr>ch_order = id, ch_to_text = (\<lambda>mf. (mf, None)), ch_negotiated = [],
     ch_write_error = (\<lambda>b. None), ch_backend = GetCache None\<rparr>"

lemma sample_compute:
  "\<exists>ex. fst (NewExporter versioned_factory ''compute''
     ((fl_args (flags_with mapping))\<lparr>xa_Cloud := ''a''\<rparr>) Map.empty) = Inr ex"
  by (simp add: NewExporter_def versioned_factory_def sample_factory_def sample_args_def two_clouds_def
      flags_with_def Let_def new_cloud_def choose_transport_def client_certificate_def verify_settings_def
      NewServiceClientV2_def newAuthenticatedProviderClient_def AuthenticatedClientV2_def
      service_client_def construct_def NewNovaExporter_def SetupClientMicroversionV2_def)

text \<open>Mapping the key \<^verbatim>\<open>id\<close> of the metadata to a label of that name.\<close>

theorem mapped_label_panics_witness:
  "fst (probeHandler versioned_factory sample_refused (flags_with (fst (LabelMapping_Set ''id'' new_flag)))
     empty_side [''compute''] ''a'' [] [] Map.empty) = Handler_panic Collector_refused"
proof -
  let ?fl = "flags_with (fst (LabelMapping_Set ''id'' new_flag))"
  obtain ex where ex: "fst (NewExporter versioned_factory ''compute'' ((fl_args ?fl)\<lparr>xa_Cloud := ''a''\<rparr>) Map.empty)
      = Inr ex" using sample_compute by blast
  have "selectServicesForRequest [''compute''] [] [] = Inr [''compute'']" by code_simp
  from mapped_label_panics [OF sample_registry _ _ _ _ _ this _ ex, where l = "''id''" and ch = empty_side
      and m = Map.empty] show ?thesis
    by (simp add: defaultNovaServerStatusLabels_def flags_with_def sample_args_def sample_flags_def)
qed


end
