(* ===== verification/Process_Run.thy ===== *)
theory Process_Run
  imports Main_App
begin

text \<open>
  \<^verbatim>\<open>main.go\<close> after its start: the goroutines of the process (the main one, the background service of
  the cache, the server with the goroutine that listens, the requests) and the two contexts that end
  it, as a labelled step relation.

  A context is kept as the cause of its cancellation. The first cause stays, and cancelling the first
  context cancels the second, which is made from it. The library gives \<open>pe_signal_cause\<close> as the cause
  when a signal comes, and \<open>pe_is_canceled\<close> is \<^verbatim>\<open>errors.Is(err, context.Canceled)\<close>. A listener can end
  at any time, with or without an error; when the server shuts down it ends with an error. A
  request ends as its handler says. When a goroutine of a scrape panics, or the background service while
  it collects, the process ends (\<open>pe_can_panic\<close> says whether they can); \<^verbatim>\<open>net/http\<close> catches what a
  handler itself panics with.
\<close>

section \<open>The process and its events\<close>

datatype process_end = Exited int | Crash_end

datatype server_phase = Server_new | Server_up | Shutting_down | Server_done

record 'mf process =
  pr_cause1 :: "go_error option"
  pr_cause2 :: "go_error option"
  pr_service :: "'mf service_state"
  pr_server :: server_phase
  pr_listening :: bool
  pr_requests :: nat
  pr_end :: "process_end option"

record 'mf process_env =
  pe_flags :: flags
  pe_services :: "string list"
  pe_ttl :: int
  pe_mf_name :: "'mf \<Rightarrow> string"
  pe_factory :: "environment \<Rightarrow> factory"
  pe_refused :: "collector list \<Rightarrow> collector \<Rightarrow> bool"
  pe_cache_side :: "'mf cache_side"
  pe_pattern_ok :: "string \<Rightarrow> bool"
  pe_clashes :: "string \<Rightarrow> string \<Rightarrow> bool"
  pe_landing :: "unit fallible"
  pe_signal_cause :: go_error
  pe_is_canceled :: "go_error \<Rightarrow> bool"
  pe_can_panic :: bool

datatype event =
  Signal | Service_event service_phase | Server_event server_start | Listener_ends "go_error option"
| Request | Answer handler_end | Shutdown | Shutdown_returns | Main_returns | Crash

definition cancel1 :: "go_error \<Rightarrow> 'mf process \<Rightarrow> 'mf process" where
  "cancel1 err p =
     (case pr_cause1 p of
        Some c \<Rightarrow> p
      | None \<Rightarrow> p\<lparr>pr_cause1 := Some err,
          pr_cause2 := (case pr_cause2 p of None \<Rightarrow> Some err | Some c \<Rightarrow> Some c)\<rparr>)"

definition signal_arrives :: "go_error \<Rightarrow> 'mf process \<Rightarrow> 'mf process" where
  "signal_arrives sig p = p\<lparr>pr_cause2 := (case pr_cause2 p of None \<Rightarrow> Some sig | Some c \<Rightarrow> Some c)\<rparr>"

text \<open>Where the background service cancels, it hands on its error and returns.\<close>

definition service_goes :: "'mf service_state \<Rightarrow> 'mf process \<Rightarrow> 'mf process" where
  "service_goes t p =
     (case sv_phase t of
        Cancelled err \<Rightarrow> cancel1 err (p\<lparr>pr_service := t\<rparr>)
      | Ticker_panic \<Rightarrow> p\<lparr>pr_service := t, pr_end := Some Crash_end\<rparr>
      | _ \<Rightarrow> p\<lparr>pr_service := t\<rparr>)"

definition server_goes :: "server_start \<Rightarrow> 'mf process \<Rightarrow> 'mf process" where
  "server_goes r p =
     (case r of
        Serves routes \<Rightarrow> p\<lparr>pr_server := Server_up, pr_listening := True\<rparr>
      | Not_started err \<Rightarrow> cancel1 err (p\<lparr>pr_server := Server_done\<rparr>)
      | Server_panic e \<Rightarrow> p\<lparr>pr_end := Some Crash_end\<rparr>)"

definition listener_goes :: "go_error option \<Rightarrow> 'mf process \<Rightarrow> 'mf process" where
  "listener_goes r p =
     (case r of None \<Rightarrow> p\<lparr>pr_listening := False\<rparr> | Some err \<Rightarrow> cancel1 err (p\<lparr>pr_listening := False\<rparr>))"

definition answer_goes :: "handler_end \<Rightarrow> 'mf process \<Rightarrow> 'mf process" where
  "answer_goes h p =
     (case h of
        Process_exit c \<Rightarrow> p\<lparr>pr_end := Some (Exited c)\<rparr>
      | _ \<Rightarrow> p\<lparr>pr_requests := pr_requests p - 1\<rparr>)"

definition main_status :: "(go_error \<Rightarrow> bool) \<Rightarrow> go_error \<Rightarrow> int" where
  "main_status is_canceled err = (if \<not> is_canceled err then 1 else 0)"

text \<open>The end of a request, which reads the cache of the process when the cache is on.\<close>

definition handler_ends :: "'mf process_env \<Rightarrow> 'mf process \<Rightarrow> handler_end \<Rightarrow> bool" where
  "handler_ends pe p h \<longleftrightarrow>
     (let fl = pe_flags pe; ch = (pe_cache_side pe)\<lparr>ch_backend := sv_cache (pr_service p)\<rparr> in
      if fl_multiCloud fl
      then (\<exists>cloud inc exc env m.
        fst (probeHandler (pe_factory pe env) (pe_refused pe) fl ch (pe_services pe) cloud inc exc m) = h)
      else (\<exists>env m. fst (metricHandler (pe_factory pe) (pe_refused pe) fl ch (pe_services pe) env m) = h))"

inductive process_step ::
  "'mf process_env \<Rightarrow> 'exp itself \<Rightarrow> 'mf process \<Rightarrow> event \<Rightarrow> 'mf process \<Rightarrow> bool"
  for pe :: "'mf process_env" and ty :: "'exp itself" where
  signal: "pr_end p = None \<Longrightarrow>
    process_step pe ty p Signal (signal_arrives (pe_signal_cause pe) p)"
| ticker: "pr_end p = None \<Longrightarrow> fl_cacheEnable (pe_flags pe) \<Longrightarrow> sv_phase (pr_service p) = Ticker_panic \<Longrightarrow>
    process_step pe ty p (Service_event Ticker_panic) (service_goes (pr_service p) p)"
| service: "pr_end p = None \<Longrightarrow> fl_cacheEnable (pe_flags pe) \<Longrightarrow> sv_phase (pr_service p) \<noteq> Ticker_panic \<Longrightarrow>
    service_step (pe_mf_name pe) (pe_ttl pe) (fl_multiCloud (pe_flags pe)) (pe_services pe)
      (fl_cloud (pe_flags pe)) ty (pr_service p) t \<Longrightarrow>
    sv_phase t \<noteq> Stopped \<or> pr_cause2 p \<noteq> None \<Longrightarrow>
    process_step pe ty p (Service_event (sv_phase t)) (service_goes t p)"
| server: "pr_end p = None \<Longrightarrow> pr_server p = Server_new \<Longrightarrow>
    startHTTPServer (pe_pattern_ok pe) (pe_clashes pe) (pe_landing pe) (pe_flags pe) = r \<Longrightarrow>
    process_step pe ty p (Server_event r) (server_goes r p)"
| listener: "pr_end p = None \<Longrightarrow> pr_listening p \<Longrightarrow>
    process_step pe ty p (Listener_ends r) (listener_goes r p)"
| request: "pr_end p = None \<Longrightarrow> pr_listening p \<Longrightarrow> pr_server p = Server_up \<Longrightarrow>
    process_step pe ty p Request (p\<lparr>pr_requests := pr_requests p + 1\<rparr>)"
| answer: "pr_end p = None \<Longrightarrow> 0 < pr_requests p \<Longrightarrow> handler_ends pe p h \<Longrightarrow>
    process_step pe ty p (Answer h) (answer_goes h p)"
| shutdown: "pr_end p = None \<Longrightarrow> pr_server p = Server_up \<Longrightarrow> pr_cause2 p \<noteq> None \<Longrightarrow>
    process_step pe ty p Shutdown (p\<lparr>pr_server := Shutting_down\<rparr>)"
| shutdown_returns: "pr_end p = None \<Longrightarrow> pr_server p = Shutting_down \<Longrightarrow> pr_requests p = 0 \<Longrightarrow>
    process_step pe ty p Shutdown_returns (p\<lparr>pr_server := Server_done\<rparr>)"
| main_returns: "pr_end p = None \<Longrightarrow> pr_cause2 p = Some err \<Longrightarrow>
    process_step pe ty p Main_returns (p\<lparr>pr_end := Some (Exited (main_status (pe_is_canceled pe) err))\<rparr>)"
| crash: "pr_end p = None \<Longrightarrow> pe_can_panic pe \<Longrightarrow>
    0 < pr_requests p \<or> fl_cacheEnable (pe_flags pe) \<and> sv_phase (pr_service p) \<in> {Starting, Serving} \<Longrightarrow>
    process_step pe ty p Crash (p\<lparr>pr_end := Some Crash_end\<rparr>)"

definition process_init :: "'mf process_env \<Rightarrow> int \<Rightarrow> 'mf process" where
  "process_init pe now =
     \<lparr>pr_cause1 = None, pr_cause2 = None, pr_service = service_start (pe_ttl pe) now,
      pr_server = Server_new, pr_listening = False, pr_requests = 0, pr_end = None\<rparr>"

inductive process_run ::
  "'mf process_env \<Rightarrow> 'exp itself \<Rightarrow> 'mf process \<Rightarrow> event list \<Rightarrow> 'mf process \<Rightarrow> bool"
  for pe :: "'mf process_env" and ty :: "'exp itself" and p0 :: "'mf process" where
  start: "process_run pe ty p0 [] p0"
| step: "process_run pe ty p0 evs p \<Longrightarrow> process_step pe ty p ev q \<Longrightarrow> process_run pe ty p0 (evs @ [ev]) q"

inductive_cases process_stepE: "process_step pe ty p ev q"

section \<open>Causes\<close>

text \<open>The error with which an event cancels, and the first one of a run.\<close>

fun cause_of :: "go_error \<Rightarrow> event \<Rightarrow> go_error option" where
  "cause_of sig Signal = Some sig"
| "cause_of sig (Service_event (Cancelled err)) = Some err"
| "cause_of sig (Server_event (Not_started err)) = Some err"
| "cause_of sig (Listener_ends r) = r"
| "cause_of sig ev = None"

fun first_cause :: "go_error \<Rightarrow> event list \<Rightarrow> go_error option" where
  "first_cause sig [] = None"
| "first_cause sig (ev # evs) = (case cause_of sig ev of None \<Rightarrow> first_cause sig evs | Some c \<Rightarrow> Some c)"

lemma first_cause_snoc [simp]:
  "first_cause sig (evs @ [ev]) = (case first_cause sig evs of None \<Rightarrow> cause_of sig ev | Some c \<Rightarrow> Some c)"
  by (induction evs) (auto split: option.splits)

text \<open>
  What a state with the causes \<open>c\<close> of its events has: the second context has the first of them, the
  first context is not cancelled unless the second is, the background service and the server only
  wind up once the second is, and a process that ended did it in one of four ways.
\<close>

definition undisturbed :: "'mf process \<Rightarrow> bool" where
  "undisturbed p \<longleftrightarrow> pr_cause1 p = None \<and> pr_cause2 p = None \<and>
     sv_phase (pr_service p) \<in> {Starting, Serving, Ticker_panic} \<and> pr_server p \<in> {Server_new, Server_up}"

definition may_crash :: "'mf process_env \<Rightarrow> bool" where
  "may_crash pe \<longleftrightarrow>
     pe_can_panic pe \<or> (fl_cacheEnable (pe_flags pe) \<and> pe_ttl pe < 2) \<or>
     (\<exists>e. startHTTPServer (pe_pattern_ok pe) (pe_clashes pe) (pe_landing pe) (pe_flags pe) = Server_panic e)"

definition ends_well :: "'mf process_env \<Rightarrow> go_error option \<Rightarrow> process_end option \<Rightarrow> bool" where
  "ends_well pe c e \<longleftrightarrow>
     e = None \<or> e = Some Crash_end \<and> may_crash pe \<or>
     e = Some (Exited (- 1)) \<and> \<not> fl_multiCloud (pe_flags pe) \<and> \<not> fl_cacheEnable (pe_flags pe) \<or>
     (\<exists>err. c = Some err \<and> e = Some (Exited (main_status (pe_is_canceled pe) err)))"

definition process_inv :: "'mf process_env \<Rightarrow> go_error option \<Rightarrow> 'mf process \<Rightarrow> bool" where
  "process_inv pe c p \<longleftrightarrow> pr_cause2 p = c \<and> (c = None \<longrightarrow> undisturbed p) \<and> ends_well pe c (pr_end p) \<and>
     (sv_phase (pr_service p) = Ticker_panic \<longrightarrow> pe_ttl pe < 2)"

lemma ends_well_simps [simp]:
  "ends_well pe c None" "ends_well pe c (Some Crash_end) = may_crash pe"
  "ends_well pe (Some err) (Some (Exited (main_status (pe_is_canceled pe) err)))"
  by (simp_all add: ends_well_def)

lemma handler_exit:
  assumes "handler_ends pe p (Process_exit k)"
  shows "k = - 1 \<and> \<not> fl_multiCloud (pe_flags pe) \<and> \<not> fl_cacheEnable (pe_flags pe)"
  using assms
  by (auto simp: handler_ends_def Let_def probeHandler_def metricHandler_def cached_answer_def
      split: if_splits sum.splits prod.splits)

lemma cancel1_fields [simp]:
  "pr_service (cancel1 err p) = pr_service p" "pr_server (cancel1 err p) = pr_server p"
  "pr_listening (cancel1 err p) = pr_listening p" "pr_requests (cancel1 err p) = pr_requests p"
  "pr_end (cancel1 err p) = pr_end p"
  by (simp_all add: cancel1_def split: option.split)

lemma cancel1_cause:
  "pr_cause2 p \<noteq> None \<or> pr_cause1 p = None \<Longrightarrow>
    pr_cause2 (cancel1 err p) = (case pr_cause2 p of None \<Rightarrow> Some err | Some c \<Rightarrow> Some c)"
  by (auto simp: cancel1_def split: option.split)

lemma service_step_no_ticker:
  "service_step mf_name ttl multi services cloud ty s t \<Longrightarrow> sv_phase t = Ticker_panic \<Longrightarrow> sv_phase s = Ticker_panic"
  by (auto elim!: service_step.cases split: option.splits)

lemma process_init_inv: "process_inv pe None (process_init pe now)"
proof -
  have "go_div ttl 2 \<le> 0 \<or> ttl \<le> 0 \<Longrightarrow> ttl < 2" for ttl :: int
    by (auto simp: go_div_def sgn_if split: if_splits)
  then show ?thesis by (auto simp: process_inv_def undisturbed_def process_init_def service_start_def)
qed

lemmas process_goes = signal_arrives_def service_goes_def server_goes_def listener_goes_def
  answer_goes_def

lemma process_step_ticker:
  assumes "process_step pe ty p ev q" and "sv_phase (pr_service p) = Ticker_panic \<longrightarrow> pe_ttl pe < 2"
  shows "sv_phase (pr_service q) = Ticker_panic \<longrightarrow> pe_ttl pe < 2"
  using assms
  by (cases rule: process_step.cases)
    (auto simp: process_goes dest: service_step_no_ticker
      split: server_start.splits service_phase.splits handler_end.splits option.splits)

lemma process_step_crash:
  assumes "process_step pe ty p ev q" and "sv_phase (pr_service p) = Ticker_panic \<longrightarrow> pe_ttl pe < 2"
    and "pr_end q = Some Crash_end"
  shows "may_crash pe"
  using assms(1)
proof (cases rule: process_step.cases)
  case (service t)
  then show ?thesis
    using assms(3) service_step_no_ticker [OF service(6)]
    by (auto simp: service_goes_def split: service_phase.splits)
next
  case (server r)
  then show ?thesis
    using assms(3) by (cases r) (auto simp: server_goes_def may_crash_def)
qed (use assms(2,3) in \<open>auto simp: process_goes may_crash_def split: handler_end.splits option.splits\<close>)

lemma process_step_exit:
  assumes "process_step pe ty p ev q" and "pr_end q = Some (Exited k)"
  shows "k = - 1 \<and> \<not> fl_multiCloud (pe_flags pe) \<and> \<not> fl_cacheEnable (pe_flags pe) \<or>
    (\<exists>err. pr_cause2 p = Some err \<and> pr_cause2 q = Some err \<and> k = main_status (pe_is_canceled pe) err)"
  using assms
  by (cases rule: process_step.cases)
    (auto simp: process_goes dest!: handler_exit
      split: server_start.splits service_phase.splits handler_end.splits option.splits)

lemma process_step_cause:
  assumes "process_step pe ty p ev q" and "pr_cause2 p = Some c"
  shows "pr_cause2 q = Some c"
  using assms
  by (cases rule: process_step.cases)
    (auto simp: process_goes cancel1_cause
      split: server_start.splits service_phase.splits handler_end.splits option.splits)

lemma process_step_first_cause:
  assumes "process_step pe ty p ev q" and "undisturbed p"
  shows "pr_cause2 q = cause_of (pe_signal_cause pe) ev \<and> (pr_cause2 q = None \<longrightarrow> undisturbed q)"
  using assms(1)
proof (cases rule: process_step.cases)
  case (service t)
  then show ?thesis
    using assms(2) by (cases "sv_phase t") (auto simp: undisturbed_def service_goes_def cancel1_cause)
next
  case (server r)
  then show ?thesis
    using assms(2) by (cases r) (auto simp: undisturbed_def server_goes_def cancel1_cause)
next
  case (listener r)
  then show ?thesis
    using assms(2) by (cases r) (auto simp: undisturbed_def listener_goes_def cancel1_cause)
next
  case (answer h)
  then show ?thesis
    using assms(2) by (cases h) (auto simp: undisturbed_def answer_goes_def)
qed (use assms(2) in \<open>auto simp: undisturbed_def signal_arrives_def service_goes_def\<close>)

lemma process_step_inv:
  assumes "process_step pe ty p ev q" and "process_inv pe c p"
  shows "process_inv pe (case c of None \<Rightarrow> cause_of (pe_signal_cause pe) ev | Some e \<Rightarrow> Some e) q"
proof -
  have p: "pr_cause2 p = c" "c = None \<longrightarrow> undisturbed p"
      "sv_phase (pr_service p) = Ticker_panic \<longrightarrow> pe_ttl pe < 2"
    using assms(2) by (simp_all add: process_inv_def)
  let ?c = "case c of None \<Rightarrow> cause_of (pe_signal_cause pe) ev | Some e \<Rightarrow> Some e"
  have cause: "pr_cause2 q = ?c \<and> (?c = None \<longrightarrow> undisturbed q)"
    using p process_step_cause [OF assms(1)] process_step_first_cause [OF assms(1)]
    by (auto split: option.split)
  moreover have "ends_well pe (pr_cause2 q) (pr_end q)"
    using process_step_crash [OF assms(1) p(3)] process_step_exit [OF assms(1)]
    by (cases "pr_end q"; cases "the (pr_end q)") (auto simp: ends_well_def)
  ultimately show ?thesis
    using process_step_ticker [OF assms(1) p(3)] by (simp add: process_inv_def)
qed

lemma process_run_inv:
  assumes "process_run pe ty (process_init pe now) evs p"
  shows "process_inv pe (first_cause (pe_signal_cause pe) evs) p"
  using assms
proof (induction rule: process_run.induct)
  case start
  show ?case by (simp add: process_init_inv)
next
  case (step evs p ev q)
  then show ?case using process_step_inv [OF step.hyps(2) step.IH] by simp
qed

text \<open>The background service of a process is the one of its own theory.\<close>

lemma process_run_service:
  assumes "process_run pe ty (process_init pe now) evs p"
  shows "service_reachable (pe_mf_name pe) (pe_ttl pe) (fl_multiCloud (pe_flags pe)) (pe_services pe)
    (fl_cloud (pe_flags pe)) ty now (pr_service p)"
  using assms
proof (induction rule: process_run.induct)
  case start
  show ?case by (simp add: process_init_def service_reachable.init)
next
  case (step evs p ev q)
  from step.hyps(2) show ?case
    by (cases rule: process_step.cases)
      (use step.IH in \<open>auto simp: process_goes intro: service_reachable.step split: option.splits
        server_start.splits service_phase.splits handler_end.splits\<close>)
qed

text \<open>So what the process caches is as fresh as there.\<close>

lemma process_cache_age:
  assumes "process_run pe ty (process_init pe now) evs p" and "0 \<le> pe_ttl pe"
    and "lookup_cloud (sv_cache (pr_service p)) k = Some d"
  shows "cc_Time d \<le> sv_now (pr_service p) \<and> sv_last_flush (pr_service p) \<le> cc_Time d + pe_ttl pe"
  using service_reachable_inv [OF process_run_service [OF assms(1)] assms(2)] assms(3)
  by (simp add: service_inv_def)

section \<open>How the process ends\<close>

text \<open>
  Property C23. The process ends with the status of the first cause: whatever events come in whatever
  order, the second context is cancelled exactly with the cause of the first cancelling event of the
  run (a signal, a failed collection of the cache, a server or listener that fails), and \<^verbatim>\<open>main\<close>
  returns 0 or exits with 1 as that cause is a cancellation or not, also when other causes come
  later. The two other ends are a handler of the single-cloud mode without the cache that enabled no
  exporter, which exits with -1, and a panic: of a scrape, of a ticker for a TTL below two
  nanoseconds, or of a route that is refused.
\<close>

theorem process_exit_status:
  assumes "process_run pe ty (process_init pe now) evs p"
  shows "pr_cause2 p = first_cause (pe_signal_cause pe) evs \<and>
    (case pr_end p of
       None \<Rightarrow> True
     | Some (Exited k) \<Rightarrow>
         (k = - 1 \<and> \<not> fl_multiCloud (pe_flags pe) \<and> \<not> fl_cacheEnable (pe_flags pe)) \<or>
         (\<exists>err. first_cause (pe_signal_cause pe) evs = Some err \<and>
            k = (if pe_is_canceled pe err then 0 else 1))
     | Some Crash_end \<Rightarrow>
         pe_can_panic pe \<or> (fl_cacheEnable (pe_flags pe) \<and> pe_ttl pe < 2) \<or>
         (\<exists>e. startHTTPServer (pe_pattern_ok pe) (pe_clashes pe) (pe_landing pe) (pe_flags pe)
            = Server_panic e))"
  using process_run_inv [OF assms]
  by (auto simp: process_inv_def ends_well_def may_crash_def main_status_def
      split: option.split process_end.split)

text \<open>A run that is interrupted by a signal while requests wait for their answers.\<close>

lemma process_run_requests:
  assumes "process_run pe ty p0 evs p" and "pr_end p = None" and "pr_listening p" and "pr_server p = Server_up"
  shows "process_run pe ty p0 (evs @ replicate k Request) (p\<lparr>pr_requests := pr_requests p + k\<rparr>)"
proof (induction k)
  case 0
  show ?case using assms(1) by simp
next
  case (Suc k)
  let ?q = "p\<lparr>pr_requests := pr_requests p + k\<rparr>"
  have "process_step pe ty ?q Request (?q\<lparr>pr_requests := pr_requests ?q + 1\<rparr>)"
    using assms by (intro process_step.request) simp_all
  from process_run.step [OF Suc.IH this] show ?case by (simp add: replicate_append_same)
qed

lemma interrupted_run:
  assumes "startHTTPServer (pe_pattern_ok pe) (pe_clashes pe) (pe_landing pe) (pe_flags pe) = Serves rs"
  shows "process_run pe ty (process_init pe now)
    (Server_event (Serves rs) # replicate k Request @ [Signal, Shutdown, Main_returns])
    ((process_init pe now)\<lparr>pr_cause2 := Some (pe_signal_cause pe), pr_server := Shutting_down,
       pr_listening := True, pr_requests := k,
       pr_end := Some (Exited (main_status (pe_is_canceled pe) (pe_signal_cause pe)))\<rparr>)"
proof -
  let ?p = "(process_init pe now)\<lparr>pr_server := Server_up, pr_listening := True\<rparr>"
  let ?q = "?p\<lparr>pr_requests := k\<rparr>"
  let ?c = "?q\<lparr>pr_cause2 := Some (pe_signal_cause pe)\<rparr>"
  let ?evs = "Server_event (Serves rs) # replicate k Request"
  have "process_step pe ty (process_init pe now) (Server_event (Serves rs)) ?p"
    using process_step.server [of "process_init pe now", OF _ _ assms]
    by (simp add: process_init_def server_goes_def)
  from process_run.step [OF process_run.start this]
  have "process_run pe ty (process_init pe now) [Server_event (Serves rs)] ?p" by simp
  from process_run_requests [OF this, of k]
  have "process_run pe ty (process_init pe now) ?evs ?q" by (simp add: process_init_def)
  moreover have "process_step pe ty ?q Signal ?c"
    using process_step.signal [of ?q pe ty] by (simp add: process_init_def signal_arrives_def)
  moreover have "process_step pe ty ?c Shutdown (?c\<lparr>pr_server := Shutting_down\<rparr>)"
    by (intro process_step.shutdown) (simp_all add: process_init_def)
  moreover have "process_step pe ty (?c\<lparr>pr_server := Shutting_down\<rparr>) Main_returns
      (?c\<lparr>pr_server := Shutting_down,
        pr_end := Some (Exited (main_status (pe_is_canceled pe) (pe_signal_cause pe)))\<rparr>)"
    using process_step.main_returns [of "?c\<lparr>pr_server := Shutting_down\<rparr>" "pe_signal_cause pe" pe ty]
    by (simp add: process_init_def)
  ultimately have "process_run pe ty (process_init pe now) (((?evs @ [Signal]) @ [Shutdown]) @ [Main_returns])
      (?c\<lparr>pr_server := Shutting_down,
        pr_end := Some (Exited (main_status (pe_is_canceled pe) (pe_signal_cause pe)))\<rparr>)"
    by (blast intro: process_run.step)
  then show ?thesis by (simp add: process_init_def)
qed


text \<open>A process for the witnesses, for which the cause of a signal is not a cancellation.\<close>

definition sample_process :: "string process_env" where
  "sample_process = \<lparr>pe_flags = sample_flags, pe_services = [''compute''], pe_ttl = 300, pe_mf_name = id,
     pe_factory = (\<lambda>env. sample_factory), pe_refused = (\<lambda>reg c. False),
     pe_cache_side = \<lparr>ch_order = id, ch_to_text = (\<lambda>mf. (mf, None)), ch_negotiated = [],
       ch_write_error = (\<lambda>b. None), ch_backend = GetCache None\<rparr>,
     pe_pattern_ok = (\<lambda>p. True), pe_clashes = (=), pe_landing = Inr (),
     pe_signal_cause = Msg_error ''interrupt signal received'', pe_is_canceled = (\<lambda>e. False),
     pe_can_panic = False\<rparr>"

lemma sample_process_serves:
  "startHTTPServer (pe_pattern_ok sample_process) (pe_clashes sample_process) (pe_landing sample_process)
     (pe_flags sample_process) = Serves [(''/metrics'', Metrics_route), (''/'', Landing_route)]"
  by (simp add: sample_process_def sample_flags_def startHTTPServer_def Handle_def Let_def)


theorem process_exit_status_witness:
  "\<exists>evs p. process_run sample_process TYPE(unit) (process_init sample_process 0) (evs @ [Main_returns]) p \<and>
     pr_cause2 p = Some (Msg_error ''interrupt signal received'') \<and>
     pr_end p \<noteq> None \<and> pr_end p \<noteq> Some Crash_end \<and> pr_end p \<noteq> Some (Exited 0)"
proof -
  let ?evs = "Server_event (Serves [(''/metrics'', Metrics_route), (''/'', Landing_route)]) #
    replicate 3 Request @ [Signal, Shutdown]"
  from interrupted_run [OF sample_process_serves, of "TYPE(unit)" 0 3]
  obtain p where run: "process_run sample_process TYPE(unit) (process_init sample_process 0) (?evs @ [Main_returns]) p"
    and "pr_end p \<noteq> None" "pr_end p \<noteq> Some Crash_end" by fastforce
  have "first_cause (pe_signal_cause sample_process) (?evs @ [Main_returns])
      = Some (Msg_error ''interrupt signal received'')"
    by (simp add: sample_process_def numeral_3_eq_3)
  with process_exit_status [OF run] \<open>pr_end p \<noteq> None\<close> \<open>pr_end p \<noteq> Some Crash_end\<close> run
  show ?thesis
    by (intro exI [of _ ?evs] exI [of _ p])
      (auto simp: sample_process_def split: option.splits process_end.splits)
qed

end
