(* ===== verification/Cached_Answers.thy ===== *)
theory Cached_Answers
  imports Cache_Service
begin

text \<open>
  Collecting and reading together: what a request is answered from the cache after a collection,
  compared with what the exporters of its services deliver.
\<close>

section \<open>What is stored\<close>

text \<open>The families that a service delivers for a cloud.\<close>

definition gathered :: "('exp, 'mf) world \<Rightarrow> string \<Rightarrow> string \<Rightarrow> 'mf list" where
  "gathered w cloud service =
     (case w_enable w service cloud of
        Inl e \<Rightarrow> []
      | Inr xp \<Rightarrow> (case w_gather w xp of Inl e \<Rightarrow> [] | Inr mfs \<Rightarrow> mfs))"

lemma delivered_gathered:
  "delivered mf_name w cloud service =
     map (\<lambda>mf. (mf_name mf, \<lparr>mfc_Service = service, mfc_MF = mf\<rparr>)) (gathered w cloud service)"
  by (simp add: delivered_def gathered_def split: sum.split)

lemma arrivals_selected:
  "map (\<lambda>e. mfc_MF (snd e)) (filter (\<lambda>e. mfc_Service (snd e) \<in> A) (arrivals mf_name w cloud services))
     = concat (map (gathered w cloud) (filter (\<lambda>s. s \<in> A) services))"
  by (induction services) (simp_all add: arrivals_def delivered_gathered filter_map o_def)

lemma arrivals_mem:
  "(n, d) \<in> set (arrivals mf_name w cloud services) \<longleftrightarrow>
     mfc_Service d \<in> set services \<and> mfc_MF d \<in> set (gathered w cloud (mfc_Service d)) \<and> n = mf_name (mfc_MF d)"
  by (cases d) (auto simp: arrivals_def delivered_gathered)

text \<open>The cache of a cloud after a collection: per family name, the last arrival under it.\<close>

lemma collected_stored:
  assumes "CollectCache mf_name w now_at multi services cl c = (None, c')" and "cache_inv c"
    and "targets w multi cl = Inr clouds" and "cloud \<in> set clouds"
  shows "\<exists>d. lookup_cloud c' cloud = Some d \<and> distinct (map fst (cc_MetricFamilyCaches d)) \<and>
    map_of (cc_MetricFamilyCaches d) = map_of (rev (arrivals mf_name w cloud services))"
proof -
  have c': "c' = fold (\<lambda>k. SetCloudCache (now_at k) k (collected mf_name w now_at services k)) clouds c"
    using assms(1,3) by (simp add: CollectCache_ok)
  have "lookup_cloud c' cloud = Some ((collected mf_name w now_at services cloud)\<lparr>cc_Time := now_at cloud\<rparr>)"
    unfolding c' using assms(4) by (simp add: in_memory.lookup_store_all [OF assms(2)])
  then show ?thesis
    by (simp add: collected_map) (simp add: collected_def store_families_distinct NewCloudCache_def)
qed

lemma stored_mset:
  assumes "distinct (map fst xs)" and "map_of xs = map_of (rev es)" and "distinct (map fst es)"
  shows "mset xs = mset es"
proof -
  have "distinct (map fst (rev es))" using assms(3) by (simp flip: rev_map)
  then have "(n, d) \<in> set xs \<longleftrightarrow> (n, d) \<in> set (rev es)" for n d
    using map_of_eq_Some_iff [OF assms(1), of n d] map_of_eq_Some_iff [of "rev es" n d] assms(2) by simp
  then have "set xs = set es" by auto
  then show ?thesis
    using assms(1,3) by (simp add: distinct_map set_eq_iff_mset_eq_distinct)
qed

section \<open>What is read\<close>

text \<open>
  A request after a collection, while all families of its services can be encoded: the texts of the
  stored families of its services, in the order of the range.
\<close>

lemma read_collected:
  assumes "CollectCache mf_name w now_at multi services cl c = (None, c')" and "cache_inv c"
    and "targets w multi cl = Inr clouds" and "cloud \<in> set clouds" and "permutes_order ord"
    and "\<And>s mf. s \<in> set requested \<Longrightarrow> mf \<in> set (gathered w cloud s) \<Longrightarrow> snd (to_text mf) = None"
  shows "\<exists>es. distinct (map fst es) \<and> map_of es = map_of (rev (arrivals mf_name w cloud services)) \<and>
    BufferFromCache ord to_text cloud requested c' =
      (concat (map (\<lambda>mf. fst (to_text mf))
         (map (\<lambda>e. mfc_MF (snd e)) (filter (\<lambda>e. mfc_Service (snd e) \<in> set requested) es))), None)"
proof -
  obtain d where d: "lookup_cloud c' cloud = Some d" "distinct (map fst (cc_MetricFamilyCaches d))"
      "map_of (cc_MetricFamilyCaches d) = map_of (rev (arrivals mf_name w cloud services))"
    using collected_stored [OF assms(1-4)] by blast
  let ?es = "ord (cc_MetricFamilyCaches d)"
  have es: "mset ?es = mset (cc_MetricFamilyCaches d)" using assms(5) by (simp add: permutes_order_def)
  then have keys: "distinct (map fst ?es)"
    using d(2) by (metis mset_map mset_eq_imp_distinct_iff)
  then have "map_of ?es = map_of (cc_MetricFamilyCaches d)"
    using d(2) es by (metis map_of_eqI set_mset_mset map_of_inject_set)
  moreover have "snd (to_text (mfc_MF (snd e))) = None"
    if "e \<in> set ?es" "mfc_Service (snd e) \<in> set requested" for e
  proof -
    have "e \<in> set (cc_MetricFamilyCaches d)" using that(1) es by (metis set_mset_mset)
    then have "map_of (rev (arrivals mf_name w cloud services)) (fst e) = Some (snd e)"
      using d(2,3) by (metis map_of_is_SomeI prod.collapse)
    then have "(fst e, snd e) \<in> set (arrivals mf_name w cloud services)" using map_of_SomeD by fastforce
    then have "mfc_MF (snd e) \<in> set (gathered w cloud (mfc_Service (snd e)))"
      unfolding arrivals_mem by blast
    then show ?thesis using that(2) assms(6) by blast
  qed
  ultimately show ?thesis
    using keys d buffer_from_cache [of c' cloud ord requested to_text]
    by (intro exI [of _ ?es]) (simp add: o_def)
qed

text \<open>
  Property C17. Collecting and then reading loses nothing when the services deliver families of
  different names: a request after a collection is answered with the texts of exactly the families
  that its services delivered, each once, whatever else is cached, in an order that depends on the
  range over the map; of a service that was not collected there is nothing.
\<close>

theorem collect_read_roundtrip:
  assumes "CollectCache mf_name w now_at multi services cl c = (None, c')" and "cache_inv c"
    and "targets w multi cl = Inr clouds" and "cloud \<in> set clouds" and "permutes_order ord"
    and "\<And>s mf. s \<in> set requested \<Longrightarrow> mf \<in> set (gathered w cloud s) \<Longrightarrow> snd (to_text mf) = None"
    and "distinct (map mf_name (concat (map (gathered w cloud) services)))"
  shows "\<exists>mfs. BufferFromCache ord to_text cloud requested c' =
      (concat (map (\<lambda>mf. fst (to_text mf)) mfs), None) \<and>
    mset mfs = mset (concat (map (gathered w cloud) (filter (\<lambda>s. s \<in> set requested) services)))"
proof -
  let ?as = "arrivals mf_name w cloud services"
  let ?sel = "filter (\<lambda>e. mfc_Service (snd e) \<in> set requested)"
  obtain es where es: "distinct (map fst es)" "map_of es = map_of (rev ?as)"
    and read: "BufferFromCache ord to_text cloud requested c' =
      (concat (map (\<lambda>mf. fst (to_text mf)) (map (\<lambda>e. mfc_MF (snd e)) (?sel es))), None)"
    using read_collected [OF assms(1-5), of requested to_text] assms(6) by blast
  have "map fst ?as = map mf_name (concat (map (gathered w cloud) services))"
    by (simp add: arrivals_def delivered_gathered map_concat o_def)
  with assms(7) have "mset es = mset ?as" by (intro stored_mset es) simp
  then have "mset (map (\<lambda>e. mfc_MF (snd e)) (?sel es)) = mset (map (\<lambda>e. mfc_MF (snd e)) (?sel ?as))"
    by (simp only: mset_map mset_filter)
  with read show ?thesis unfolding arrivals_selected by blast
qed

text \<open>
  Property C18. Families of one name from two services: the cache keeps the one of the service that is
  collected last, under that service, so a request for the earlier service alone reads no family of
  that name, although the service delivered it. The collection time of each service is such a family.
\<close>

theorem shared_family_lost:
  assumes "CollectCache mf_name w now_at multi (xs @ s1 # ys @ s2 # zs) cl c = (None, c')" and "cache_inv c"
    and "targets w multi cl = Inr clouds" and "cloud \<in> set clouds" and "permutes_order ord"
    and "\<And>mf. mf \<in> set (gathered w cloud s1) \<Longrightarrow> snd (to_text mf) = None"
    and "distinct (xs @ s1 # ys @ s2 # zs)" and "mf2 \<in> set (gathered w cloud s2)"
  shows "\<exists>mfs. BufferFromCache ord to_text cloud [s1] c' = (concat (map (\<lambda>mf. fst (to_text mf)) mfs), None) \<and>
    set mfs \<subseteq> set (gathered w cloud s1) \<and> mf_name mf2 \<notin> mf_name ` set mfs"
proof -
  let ?n = "mf_name mf2"
  let ?as = "arrivals mf_name w cloud"
  obtain es where es: "distinct (map fst es)" "map_of es = map_of (rev (?as (xs @ s1 # ys @ s2 # zs)))"
    and read: "BufferFromCache ord to_text cloud [s1] c' =
      (concat (map (\<lambda>mf. fst (to_text mf))
         (map (\<lambda>e. mfc_MF (snd e)) (filter (\<lambda>e. mfc_Service (snd e) \<in> set [s1]) es))), None)"
    using read_collected [OF assms(1-5), of "[s1]" to_text] assms(6) by auto
  let ?mfs = "map (\<lambda>e. mfc_MF (snd e)) (filter (\<lambda>e. mfc_Service (snd e) \<in> set [s1]) es)"
  have late: "?as (xs @ s1 # ys @ s2 # zs) = ?as (xs @ s1 # ys) @ ?as (s2 # zs)"
    by (simp add: arrivals_def)
  have "(?n, \<lparr>mfc_Service = s2, mfc_MF = mf2\<rparr>) \<in> set (?as (s2 # zs))"
    using assms(8) by (simp add: arrivals_mem)
  then have "?n \<in> fst ` set (rev (?as (s2 # zs)))" by force
  then obtain d where last: "map_of (rev (?as (s2 # zs))) ?n = Some d"
    by (metis map_of_eq_None_iff not_None_eq)
  then have "mfc_Service d \<in> set (s2 # zs)" using map_of_SomeD [OF last] by (simp add: arrivals_mem)
  then have other: "mfc_Service d \<noteq> s1" using assms(7) by auto
  have kept: "map_of es ?n = Some d" using es(2) last by (simp add: late map_add_def)
  have from_s1: "mf \<in> set (gathered w cloud s1) \<and> (mf_name mf, \<lparr>mfc_Service = s1, mfc_MF = mf\<rparr>) \<in> set es"
    if "(n, e) \<in> set es" "mfc_Service e = s1" "mf = mfc_MF e" for n e mf
  proof -
    have "map_of (rev (?as (xs @ s1 # ys @ s2 # zs))) n = Some e"
      using es that(1) by (metis map_of_is_SomeI)
    then have "(n, e) \<in> set (?as (xs @ s1 # ys @ s2 # zs))" using map_of_SomeD by fastforce
    then show ?thesis using that by (cases e) (auto simp: arrivals_mem)
  qed
  have own: "set ?mfs \<subseteq> set (gathered w cloud s1)" using from_s1 by auto
  have others: "mf_name mf \<noteq> ?n" if mf: "mf \<in> set ?mfs" for mf
  proof
    assume "mf_name mf = ?n"
    moreover obtain n e where "(n, e) \<in> set es" "mfc_Service e = s1" "mf = mfc_MF e" using mf by auto
    ultimately have "(?n, \<lparr>mfc_Service = s1, mfc_MF = mf\<rparr>) \<in> set es" using from_s1 by metis
    then have "d = \<lparr>mfc_Service = s1, mfc_MF = mf\<rparr>" using kept map_of_is_SomeI [OF es(1)] by fastforce
    with other show False by simp
  qed
  have "?n \<notin> mf_name ` set ?mfs"
  proof
    assume "?n \<in> mf_name ` set ?mfs"
    then show False by (rule imageE) (use others in metis)
  qed
  with read own show ?thesis by (intro exI [of _ ?mfs] conjI)
qed

text \<open>Two services for the witnesses: each delivers a family of its own and the families \<open>shared\<close>.\<close>

definition two_services :: "string list \<Rightarrow> (string, string) world" where
  "two_services shared = \<lparr>w_clouds = Inr [], w_enable = (\<lambda>s c. Inr s), w_gather = (\<lambda>s. Inr (s # shared))\<rparr>"

lemma two_services_gathered [simp]: "gathered (two_services shared) c s = s # shared"
  by (simp add: gathered_def two_services_def)

lemma two_services_targets: "targets (two_services shared) False ''c1'' = Inr [''c1'']"
  by (simp add: targets_def)

definition after_collect :: "string list \<Rightarrow> string InMemoryCache" where
  "after_collect shared = snd (CollectCache id (two_services shared) (\<lambda>k. 0) False
     [''compute'', ''image''] ''c1'' (GetCache None))"

lemma after_collect_eq:
  "CollectCache id (two_services shared) (\<lambda>k. 0) False [''compute'', ''image''] ''c1'' (GetCache None)
     = (None, after_collect shared)"
  by (simp add: after_collect_def CollectCache_def)

theorem collect_read_roundtrip_witness:
  "BufferFromCache (\<lambda>es. es) (\<lambda>mf. (mf, None)) ''c1'' [''image''] (after_collect []) = (''image'', None)"
proof -
  obtain mfs where "BufferFromCache (\<lambda>es. es) (\<lambda>mf. (mf, None)) ''c1'' [''image''] (after_collect [])
        = (concat mfs, None)" "mset mfs = {#''image''#}"
    using collect_read_roundtrip [where cloud = "''c1''" and ord = "\<lambda>es. es" and requested = "[''image'']"
        and to_text = "\<lambda>mf. (mf, None)", OF after_collect_eq [of "[]"] GetCache_inv two_services_targets]
    by auto
  then show ?thesis by (simp add: mset_single_iff_right)
qed

theorem shared_family_lost_witness:
  "\<exists>mfs. BufferFromCache (\<lambda>es. es) (\<lambda>mf. (mf, None)) ''c1'' [''compute''] (after_collect [''seconds''])
     = (concat mfs, None) \<and> ''seconds'' \<notin> set mfs"
  using shared_family_lost [where xs = "[]" and ys = "[]" and zs = "[]" and cloud = "''c1''"
      and ?s1.0 = "''compute''" and ?s2.0 = "''image''" and ord = "\<lambda>es. es" and to_text = "\<lambda>mf. (mf, None)"
      and ?mf2.0 = "''seconds''" and mf_name = id and now_at = "\<lambda>k. 0" and c' = "after_collect [''seconds'']",
      OF _ GetCache_inv two_services_targets [of "[''seconds'']"]]
    after_collect_eq [of "[''seconds'']"]
  by auto

end
