(* ===== verification/Common_Metrics.thy ===== *)
theory Common_Metrics
  imports Metric_Names
begin

text \<open>
  \<^verbatim>\<open>exporters/common_metrics.go\<close>: the exporter of metrics about the scrapes themselves. The program makes
  none; its tests do. The library's collectors are kept as what they are created with, a histogram
  with its buckets and the constant metric with its value; what they count is the library's.
\<close>

section \<open>The exporter\<close>

datatype common_metric =
  Counter (common_desc: desc) | Histogram (common_desc: desc) "int list" | Const_gauge (common_desc: desc) int

record CommonMetricsExporter =
  totalScrapes :: common_metric
  scrapeDuration :: common_metric
  scrapeErrors :: common_metric
  buildInfo :: common_metric

record build_version =
  bv_Version :: string
  bv_Revision :: string
  bv_Branch :: string
  bv_GoVersion :: string

definition plain_desc :: "string \<Rightarrow> string \<Rightarrow> (string \<times> string) list \<Rightarrow> desc" where
  "plain_desc name help labels =
     \<lparr>d_fqName = name, d_help = help, d_variableLabels = [], d_constLabels = labels\<rparr>"

definition NewCommonMetricsExporter :: "build_version \<Rightarrow> string \<Rightarrow> CommonMetricsExporter" where
  "NewCommonMetricsExporter version pre =
     \<lparr>totalScrapes = Counter (plain_desc (pre @ ''_exporter_scrapes_total'') ''Total number of scrapes'' []),
      scrapeDuration = Histogram (plain_desc (pre @ ''_exporter_scrape_duration_miliseconds'')
        ''Duration of scrapes'' []) [500, 750, 1000, 5000, 10000, 30000],
      scrapeErrors = Counter (plain_desc (pre @ ''_exporter_scrape_errors_total'')
        ''Total number of scrape errors'' []),
      buildInfo = Const_gauge (plain_desc (pre @ ''_exporter_build_info'')
        (''A metric with a constant '' @ CHR 0x27 # ''1'' @ CHR 0x27 #
           '' value labeled by version, revision, branch, and goversion.'')
        [(''version'', bv_Version version), (''revision'', bv_Revision version),
         (''branch'', bv_Branch version), (''goversion'', bv_GoVersion version)]) 1\<rparr>"

definition common_Describe :: "CommonMetricsExporter \<Rightarrow> desc list" where
  "common_Describe e = [common_desc (totalScrapes e), common_desc (scrapeDuration e),
     common_desc (scrapeErrors e), common_desc (buildInfo e)]"

definition common_Collect :: "CommonMetricsExporter \<Rightarrow> common_metric list" where
  "common_Collect e = [totalScrapes e, scrapeDuration e, scrapeErrors e, buildInfo e]"

definition common_MetricIsDisabled :: "CommonMetricsExporter \<Rightarrow> string \<Rightarrow> bool" where
  "common_MetricIsDisabled e name = False"

definition TotalScrapes :: "CommonMetricsExporter \<Rightarrow> common_metric" where
  "TotalScrapes e = totalScrapes e"

definition ScrapeDuration :: "CommonMetricsExporter \<Rightarrow> common_metric" where
  "ScrapeDuration e = scrapeDuration e"

definition ScrapeErrors :: "CommonMetricsExporter \<Rightarrow> common_metric" where
  "ScrapeErrors e = scrapeErrors e"

lemmas common_defs = NewCommonMetricsExporter_def plain_desc_def common_Describe_def common_Collect_def

section \<open>Beside the exporters of the services\<close>

text \<open>What is collected is what is described, in the same order, and no name comes twice.\<close>

lemma common_described:
  "map common_desc (common_Collect e) = common_Describe e"
  by (simp add: common_defs)

lemma common_names:
  "map d_fqName (common_Describe (NewCommonMetricsExporter version pre)) =
     map ((@) (pre @ ''_exporter_'')) [''scrapes_total'', ''scrape_duration_miliseconds'', ''scrape_errors_total'',
       ''build_info'']"
  by (simp add: common_defs)

lemma exporter_not_service:
  assumes "b \<in> set base_names"
  shows "p @ ''_'' @ b @ ''_'' @ n \<noteq> p @ ''_exporter_'' @ k"
proof -
  have "list_all (\<lambda>b. \<not> prefix (b @ ''_'') ''exporter_'' \<and> \<not> prefix ''exporter_'' (b @ ''_'')) base_names"
    unfolding base_names_eval by code_simp
  then have apart: "\<not> prefix (b @ ''_'') ''exporter_''" "\<not> prefix ''exporter_'' (b @ ''_'')"
    using assms unfolding list_all_iff by blast+
  have "b @ ''_'' @ n \<noteq> ''exporter_'' @ k"
  proof
    assume eq: "b @ ''_'' @ n = ''exporter_'' @ k"
    have "prefix (b @ ''_'') ((b @ ''_'') @ n)" "prefix ''exporter_'' (''exporter_'' @ k)"
      by (rule prefixI, rule refl)+
    then have "prefix (b @ ''_'') (''exporter_'' @ k)" using eq by (metis append.assoc)
    with \<open>prefix ''exporter_'' (''exporter_'' @ k)\<close> apart show False by (blast dest: prefix_same_cases)
  qed
  then show ?thesis by simp
qed

text \<open>An exporter of a service, with the same prefix, describes none of these metrics.\<close>

lemma common_metrics_apart:
  assumes "fst (NewExporter fa name a m) = Inr ex" and "documented_fqname (fa_prom fa)"
    and "permutes_order ord" and "d \<in> set (Describe ord ex)"
    and "e \<in> set (common_Describe (NewCommonMetricsExporter version (xa_Prefix a)))"
  shows "d_fqName d \<noteq> d_fqName e"
proof -
  have "d_fqName e \<in> set (map d_fqName (common_Describe (NewCommonMetricsExporter version (xa_Prefix a))))"
    using assms(5) by simp
  then obtain k where e: "d_fqName e = xa_Prefix a @ ''_exporter_'' @ k"
    unfolding common_names by auto
  have b: "base_name name \<in> set base_names"
    using base_name_mem NewExporter_registers [OF assms(1)] by blast
  from descriptor_cases [OF assms(1-4)] show ?thesis
  proof (elim disjE exE conjE)
    fix n assume "d_fqName d = xa_Prefix a @ ''_'' @ base_name name @ ''_'' @ n"
    then show ?thesis using exporter_not_service [OF b] e by metis
  next
    assume "d_fqName d = ''openstack_metric_collect_seconds''"
    moreover have "d_fqName e \<noteq> ''openstack_metric_collect_seconds''"
    proof
      assume "d_fqName e = ''openstack_metric_collect_seconds''"
      then have "sublist ''_exporter_'' ''openstack_metric_collect_seconds''"
        unfolding sublist_def e by metis
      moreover have "\<not> sublist ''_exporter_'' ''openstack_metric_collect_seconds''" by code_simp
      ultimately show False by blast
    qed
    ultimately show ?thesis by simp
  qed
qed

end
