(* ===== verification/Go_Testing.thy ===== *)
theory Go_Testing
  imports Go_Base
begin

text \<open>
  What the integration support uses of Go's \<^verbatim>\<open>testing\<close> package, and \<^verbatim>\<open>integration/tools/tools.go\<close>.

  A test is an action on a state: the cloud it works on, the number of random numbers drawn so
  far, the boolean variables that its closures share, the cleanup functions registered so far
  (latest first) and what has been reported. An action returns a value, ends the test's goroutine
  (\<^verbatim>\<open>FailNow\<close> and \<^verbatim>\<open>SkipNow\<close>), panics, or never returns. Log calls have no effect on any value and
  are left out. The cleanup functions run when the test is over, the latest first, every one of
  them whatever the others do; by then the test's context is cancelled.
\<close>

section \<open>Actions\<close>

record ('s, 'c) test_state =
  ts_cloud :: 's
  ts_draws :: nat
  ts_flags :: "bool list"
  ts_cleanups :: "'c list"
  ts_ended :: bool
  ts_failed :: bool
  ts_skipped :: bool

datatype 'a result = Value 'a | Goexit | Panic | Hang

type_synonym ('a, 's, 'c) action = "('s, 'c) test_state \<Rightarrow> 'a result \<times> ('s, 'c) test_state"

definition give :: "'a \<Rightarrow> ('a, 's, 'c) action" where
  "give x s = (Value x, s)"

definition seq :: "('a, 's, 'c) action \<Rightarrow> ('a \<Rightarrow> ('b, 's, 'c) action) \<Rightarrow> ('b, 's, 'c) action" where
  "seq m k s = (case m s of
     (Value x, s') \<Rightarrow> k x s' | (Goexit, s') \<Rightarrow> (Goexit, s') | (Panic, s') \<Rightarrow> (Panic, s') | (Hang, s') \<Rightarrow> (Hang, s'))"

definition t_Fatalf :: "('a, 's, 'c) action" where
  "t_Fatalf s = (Goexit, s\<lparr>ts_failed := True\<rparr>)"

definition t_Skipf :: "('a, 's, 'c) action" where
  "t_Skipf s = (Goexit, s\<lparr>ts_skipped := True\<rparr>)"

definition t_Cleanup :: "'c \<Rightarrow> (unit, 's, 'c) action" where
  "t_Cleanup c s = (Value (), s\<lparr>ts_cleanups := c # ts_cleanups s\<rparr>)"

text \<open>A new variable that is false, its value, and setting it.\<close>

definition new_flag :: "(nat, 's, 'c) action" where
  "new_flag s = (Value (length (ts_flags s)), s\<lparr>ts_flags := ts_flags s @ [False]\<rparr>)"

definition flag_set :: "nat \<Rightarrow> (bool, 's, 'c) action" where
  "flag_set i s = (Value (ts_flags s ! i), s)"

definition set_flag :: "nat \<Rightarrow> (unit, 's, 'c) action" where
  "set_flag i s = (Value (), s\<lparr>ts_flags := (ts_flags s)[i := True]\<rparr>)"

fun run_cleanups :: "('c \<Rightarrow> (unit, 's, 'c) action) \<Rightarrow> 'c list \<Rightarrow> ('s, 'c) test_state \<Rightarrow> ('s, 'c) test_state" where
  "run_cleanups run [] s = s"
| "run_cleanups run (c # cs) s = run_cleanups run cs (snd (run c s))"

definition end_test :: "('c \<Rightarrow> (unit, 's, 'c) action) \<Rightarrow> ('s, 'c) test_state \<Rightarrow> ('s, 'c) test_state" where
  "end_test run s = run_cleanups run (ts_cleanups s) (s\<lparr>ts_ended := True, ts_cleanups := []\<rparr>)"

section \<open>Requests\<close>

text \<open>
  A request is made under a context made from the test's, which is cancelled when the test is over,
  or under one that is cut off from that cancellation. Under a cancelled context a request gives the
  context's error and does not reach the cloud. The timeouts are among the errors a request can give.
\<close>

datatype ctx = Test_context | Uncancelled_context

definition context_canceled :: go_error where
  "context_canceled = Lib_error 0 ''context canceled''"

definition request :: "ctx \<Rightarrow> ('s \<Rightarrow> 'a fallible \<times> 's) \<Rightarrow> ('a fallible, 's, 'c) action" where
  "request ctx f s =
     (if ctx = Test_context \<and> ts_ended s then (Value (Inl context_canceled), s)
      else (case f (ts_cloud s) of (r, cloud) \<Rightarrow> (Value r, s\<lparr>ts_cloud := cloud\<rparr>)))"

section \<open>Random strings\<close>

text \<open>
  \<open>rnd k\<close> is what the \<open>k\<close>th call of the random source gives; \<^verbatim>\<open>rand.Intn(n)\<close> is a number below \<open>n\<close>
  made from it, and panics unless \<open>n\<close> is positive. A rune is a code point, written to a string in UTF-8.
\<close>

type_synonym source = "nat \<Rightarrow> nat"

definition utf8 :: "nat \<Rightarrow> string" where
  "utf8 r =
     (if r < 0x80 then [char_of r]
      else if r < 0x800 then [char_of (0xC0 + r div 64), char_of (0x80 + r mod 64)]
      else if r < 0x10000
      then [char_of (0xE0 + r div 4096), char_of (0x80 + r div 64 mod 64), char_of (0x80 + r mod 64)]
      else [char_of (0xF0 + r div 262144), char_of (0x80 + r div 4096 mod 64),
            char_of (0x80 + r div 64 mod 64), char_of (0x80 + r mod 64)])"

definition rand_Intn :: "source \<Rightarrow> int \<Rightarrow> nat \<Rightarrow> int option" where
  "rand_Intn rnd n k = (if n \<le> 0 then None else Some (int (rnd k) mod n))"

fun randomString_loop :: "source \<Rightarrow> nat list \<Rightarrow> nat \<Rightarrow> nat \<Rightarrow> string \<Rightarrow> string option \<times> nat" where
  "randomString_loop rnd charset 0 k s = (Some s, k)"
| "randomString_loop rnd charset (Suc n) k s =
     (case rand_Intn rnd (int (length charset)) k of
        None \<Rightarrow> (None, k)
      | Some i \<Rightarrow> randomString_loop rnd charset n (Suc k) (s @ utf8 (charset ! nat i)))"

definition randomString :: "source \<Rightarrow> nat list \<Rightarrow> int \<Rightarrow> nat \<Rightarrow> string option \<times> nat" where
  "randomString rnd charset n k = randomString_loop rnd charset (nat n) k []"

definition string_charset :: "nat list" where
  "string_charset = map of_char
     ''0123456789ABCDEFGHIJKLMNOPQRSTUVWXYZabcdefghijklmnopqrstuvwxyz''"

definition RandomString :: "source \<Rightarrow> string \<Rightarrow> int \<Rightarrow> nat \<Rightarrow> string option \<times> nat" where
  "RandomString rnd pre n k =
     (case randomString rnd string_charset n k of (r, k') \<Rightarrow> (map_option (\<lambda>s. pre @ s) r, k'))"

definition funny_charset :: "nat list" where
  "funny_charset = map of_char ''012abc '' @ [10, 9, 0x1F916, 0x1F47E, 0x1F469, 0x1F3FE, 0x200D, 0x1F680]
     @ map of_char ''+.,;:*`~|'' @ [0x22, 0x27, 0x2F, 0x5C] @ map of_char '']''
     @ [0xEA, 0xE0, 0xB2, 0xD7] @ map of_char ''c'' @ [0x5E2B, 0x2637]"

definition RandomFunnyString :: "source \<Rightarrow> int \<Rightarrow> nat \<Rightarrow> string option \<times> nat" where
  "RandomFunnyString rnd n k = randomString rnd funny_charset n k"

definition funny_charset_no_slash :: "nat list" where
  "funny_charset_no_slash = map of_char ''012abc ''
     @ [10, 9, 0x1F916, 0x1F47E, 0x1F469, 0x1F3FE, 0x200D, 0x1F680]
     @ map of_char ''+.,;:*`~|'' @ [0x22, 0x27, 0x5C] @ map of_char '']''
     @ [0xEA, 0xE0, 0xB2, 0xD7] @ map of_char ''c'' @ [0x5E2B, 0x2637]"

definition RandomFunnyStringNoSlash :: "source \<Rightarrow> int \<Rightarrow> nat \<Rightarrow> string option \<times> nat" where
  "RandomFunnyStringNoSlash rnd n k = randomString rnd funny_charset_no_slash n k"

definition RandomInt :: "source \<Rightarrow> int \<Rightarrow> int \<Rightarrow> nat \<Rightarrow> int option \<times> nat" where
  "RandomInt rnd lo hi k = (case rand_Intn rnd (i64 (hi - lo)) k of
     None \<Rightarrow> (None, k) | Some n \<Rightarrow> (Some (i64 (n + lo)), Suc k))"

text \<open>The loop of \<^verbatim>\<open>MakeNewPassword\<close> need not end; its result is the password and the draws made.\<close>

partial_function (option) new_password_loop ::
  "source \<Rightarrow> string \<Rightarrow> string option \<Rightarrow> nat \<Rightarrow> (string option \<times> nat) option" where
  "new_password_loop rnd oldPass randomPassword k =
     (if randomPassword = Some oldPass
      then new_password_loop rnd oldPass (fst (RandomString rnd [] 16 k)) (snd (RandomString rnd [] 16 k))
      else Some (randomPassword, k))"

definition MakeNewPassword :: "source \<Rightarrow> string \<Rightarrow> nat \<Rightarrow> (string option \<times> nat) option" where
  "MakeNewPassword rnd oldPass k =
     (case RandomString rnd [] 16 k of (randomPassword, k') \<Rightarrow> new_password_loop rnd oldPass randomPassword k')"

text \<open>Drawing within a test.\<close>

definition draw :: "(nat \<Rightarrow> 'a option \<times> nat) \<Rightarrow> ('a, 's, 'c) action" where
  "draw f s = (case f (ts_draws s) of
     (None, k) \<Rightarrow> (Panic, s\<lparr>ts_draws := k\<rparr>) | (Some x, k) \<Rightarrow> (Value x, s\<lparr>ts_draws := k\<rparr>))"

definition draw_loop :: "(nat \<Rightarrow> ('a option \<times> nat) option) \<Rightarrow> ('a, 's, 'c) action" where
  "draw_loop f s = (case f (ts_draws s) of None \<Rightarrow> (Hang, s) | Some r \<Rightarrow> draw (\<lambda>k. r) s)"

definition Elide :: "string \<Rightarrow> string" where
  "Elide value = (if length value > 40 then take 37 value @ ''...'' else value)"

section \<open>Waiting\<close>

text \<open>
  \<^verbatim>\<open>gophercloud.WaitFor\<close> is the parameter \<open>wt\<close>, given the seconds of the timeout. Its documented
  contract is the relation \<open>polled\<close>: it calls the predicate again and again until that is true or
  fails, or the context is done.
\<close>

type_synonym 's predicate = "'s \<Rightarrow> (bool \<times> go_error option) \<times> 's"

type_synonym 's waiter = "int \<Rightarrow> 's predicate \<Rightarrow> 's \<Rightarrow> go_error option \<times> 's"

inductive polled :: "'s predicate \<Rightarrow> 's \<Rightarrow> go_error option \<Rightarrow> 's \<Rightarrow> bool" for p :: "'s predicate" where
  true: "p s = ((True, None), s') \<Longrightarrow> polled p s None s'"
| fails: "p s = ((b, Some e), s') \<Longrightarrow> polled p s (Some e) s'"
| again: "p s = ((False, None), s1) \<Longrightarrow> polled p s1 r s' \<Longrightarrow> polled p s r s'"
| timeout: "polled p s (Some e) s"

definition polls :: "'s waiter \<Rightarrow> bool" where
  "polls wt \<longleftrightarrow> (\<forall>n p s. polled p s (fst (wt n p s)) (snd (wt n p s)))"

definition WaitForTimeout :: "'s waiter \<Rightarrow> 's predicate \<Rightarrow> int \<Rightarrow> 's \<Rightarrow> go_error option \<times> 's" where
  "WaitForTimeout wt predicate timeout s = wt timeout predicate s"

definition WaitFor :: "'s waiter \<Rightarrow> 's predicate \<Rightarrow> 's \<Rightarrow> go_error option \<times> 's" where
  "WaitFor wt predicate s = WaitForTimeout wt predicate 600 s"

section \<open>Laws of actions\<close>

named_theorems act_simps "evaluation of actions"

lemma seq_give [act_simps]: "seq (give x) k = k x"
  by (simp add: fun_eq_iff seq_def give_def)

text \<open>An action that returns a value returned from each of its parts.\<close>

lemma seq_Value [act_simps]:
  "seq m k s = (Value y, t) \<longleftrightarrow> (\<exists>x s'. m s = (Value x, s') \<and> k x s' = (Value y, t))"
  by (auto simp: seq_def split: prod.splits result.splits)

lemma act_Value [act_simps]:
  "give x s = (Value y, t) \<longleftrightarrow> x = y \<and> t = s"
  "t_Fatalf s = (Value y, t) \<longleftrightarrow> False"
  by (auto simp: give_def t_Fatalf_def)

lemma seq_assoc: "seq (seq m k) h = seq m (\<lambda>x. seq (k x) h)"
  by (simp add: fun_eq_iff seq_def split: prod.split result.split)

lemma request_ended [act_simps]:
  "ctx = Uncancelled_context \<Longrightarrow>
     request ctx f s = (Value (fst (f (ts_cloud s))), s\<lparr>ts_cloud := snd (f (ts_cloud s))\<rparr>)"
  by (simp add: request_def split: prod.split)

text \<open>A property of the state that an action keeps, whatever it returns.\<close>

definition keeps :: "(('s, 'c) test_state \<Rightarrow> bool) \<Rightarrow> ('a, 's, 'c) action \<Rightarrow> bool" where
  "keeps P m \<longleftrightarrow> (\<forall>s. P s \<longrightarrow> P (snd (m s)))"

lemma keeps_seq: "keeps P m \<Longrightarrow> (\<And>x. keeps P (k x)) \<Longrightarrow> keeps P (seq m k)"
  by (auto simp: keeps_def seq_def split: prod.split result.split)

lemma keeps_give: "keeps P (give x)"
  by (simp add: keeps_def give_def)

lemma end_test_Nil: "ts_cleanups s = [] \<Longrightarrow> end_test run s = s\<lparr>ts_ended := True\<rparr>"
  by (simp add: end_test_def)

section \<open>Random strings and waiting\<close>

lemma randomString_loop_length:
  assumes "charset \<noteq> []"
  shows "\<exists>w. set w \<subseteq> set charset \<and> length w = n \<and>
    randomString_loop rnd charset n k s = (Some (s @ concat (map utf8 w)), k + n)"
proof (induction n arbitrary: k s)
  case 0
  show ?case by (intro exI [of _ "[]"]) simp
next
  case (Suc n)
  let ?i = "int (rnd k) mod int (length charset)"
  have i: "nat ?i < length charset" using assms by (simp add: nat_less_iff)
  obtain w where w: "set w \<subseteq> set charset" "length w = n"
    "randomString_loop rnd charset n (Suc k) (s @ utf8 (charset ! nat ?i))
      = (Some ((s @ utf8 (charset ! nat ?i)) @ concat (map utf8 w)), Suc k + n)"
    using Suc.IH by blast
  show ?case
    by (intro exI [of _ "charset ! nat ?i # w"]) (use w i assms in \<open>auto simp: rand_Intn_def\<close>)
qed

lemma ascii_utf8: "set w \<subseteq> {r. r < 0x80} \<Longrightarrow> concat (map utf8 w) = map char_of w"
  by (induction w) (auto simp: utf8_def)

lemma string_charset_ascii: "set string_charset \<subseteq> {r. r < 0x80}"
  unfolding string_charset_def by simp

text \<open>
  A random string is its prefix and as many letters and digits as asked for (none for a negative
  number); it never panics, and takes as many draws.
\<close>

lemma RandomString_shape:
  "\<exists>w. set w \<subseteq> set ''0123456789ABCDEFGHIJKLMNOPQRSTUVWXYZabcdefghijklmnopqrstuvwxyz'' \<and>
     length w = nat n \<and> RandomString rnd pre n k = (Some (pre @ w), k + nat n)"
proof -
  have "string_charset \<noteq> []" by (simp add: string_charset_def)
  from randomString_loop_length [OF this, where n = "nat n" and k = k and s = "[]" and rnd = rnd]
  obtain w where w: "set w \<subseteq> set string_charset" "length w = nat n"
    "randomString_loop rnd string_charset (nat n) k [] = (Some ([] @ concat (map utf8 w)), k + nat n)"
    by blast
  have "concat (map utf8 w) = map char_of w"
    using w(1) string_charset_ascii by (intro ascii_utf8) blast
  moreover have "char_of ` set string_charset
      = set ''0123456789ABCDEFGHIJKLMNOPQRSTUVWXYZabcdefghijklmnopqrstuvwxyz''"
    unfolding string_charset_def set_map image_image by simp
  then have "set (map char_of w) \<subseteq> set ''0123456789ABCDEFGHIJKLMNOPQRSTUVWXYZabcdefghijklmnopqrstuvwxyz''"
    using w(1) unfolding set_map by blast
  ultimately show ?thesis
    using w(2,3) by (intro exI [of _ "map char_of w"]) (simp add: RandomString_def randomString_def)
qed

lemma RandomString_Some: "\<exists>w. RandomString rnd pre n k = (Some w, k + nat n)"
  using RandomString_shape by blast

lemma RandomInt_in_range:
  assumes "0 \<le> lo" and "lo < hi" and "hi < 2 ^ 63"
  shows "\<exists>n. RandomInt rnd lo hi k = (Some n, Suc k) \<and> lo \<le> n \<and> n < hi"
proof -
  have d: "i64 (hi - lo) = hi - lo" using assms by (intro i64_id) auto
  let ?n = "int (rnd k) mod (hi - lo)"
  have n: "0 \<le> ?n" "?n < hi - lo" using assms by simp_all
  then have "i64 (?n + lo) = ?n + lo" using assms by (intro i64_id) linarith+
  moreover have "lo \<le> ?n + lo" "?n + lo < hi" using n by linarith+
  ultimately show ?thesis using d assms by (simp add: RandomInt_def rand_Intn_def)
qed

lemma Elide_length: "length (Elide s) \<le> 40"
  by (simp add: Elide_def)

text \<open>A new password differs from the old one; it comes at once where the old one has not 16 bytes.\<close>

lemma new_password_differs:
  assumes "new_password_loop rnd old p k = Some r"
  shows "fst r \<noteq> Some old"
  using assms
  by (rule new_password_loop.raw_induct [rotated, where P = "\<lambda>rnd old p k r. fst r \<noteq> Some old"])
    (auto split: if_splits)

lemma MakeNewPassword_at_once:
  assumes "length old \<noteq> 16"
  shows "\<exists>w. MakeNewPassword rnd old k = Some (Some w, k + 16) \<and> length w = 16"
proof -
  obtain w where w: "length w = 16" "RandomString rnd [] 16 k = (Some w, k + 16)"
    using RandomString_shape [where n = 16 and rnd = rnd and pre = "[]" and k = k] by auto
  then have "w \<noteq> old" using assms by auto
  then show ?thesis using w
    by (simp add: MakeNewPassword_def new_password_loop.simps [of rnd old "Some w"])
qed

end
