(* ===== verification/Test_Clients.thy ===== *)
theory Test_Clients
  imports Service_Client Go_Testing
begin

text \<open>
  \<^verbatim>\<open>integration/clients/\<close>: the clients that the integration tests use, and the images, flavors and
  networks that they are told to use by the environment. The client library is the record \<open>test_gopher\<close>;
  \<open>env\<close> is \<^verbatim>\<open>os.Getenv\<close>, empty for a name that is not set.
\<close>

section \<open>Authenticated clients\<close>

datatype test_ctor =
  Service service_ctor | NewBareMetalIntrospectionV1 | NewContainerV1 | NewKeyManagerV1 | NewWorkflowV2

text \<open>The options made here; an availability that is not set is the empty text.\<close>

record test_opts =
  to_Region :: string
  to_Availability :: "Availability option"

record test_gopher =
  tg_AuthOptionsFromEnv :: "AuthOptions fallible"
  tg_AuthenticatedClient :: "AuthOptions \<Rightarrow> ProviderClient fallible"
  tg_NewClient :: "string \<Rightarrow> ProviderClient fallible"
  tg_construct :: "test_ctor \<Rightarrow> ProviderClient \<Rightarrow> test_opts \<Rightarrow> ServiceClient fallible"
  tg_NewMessagingV2 :: "ProviderClient \<Rightarrow> string \<Rightarrow> test_opts \<Rightarrow> ServiceClient fallible"
  tg_NoAuthClient :: "string \<Rightarrow> string \<Rightarrow> ProviderClient fallible"
  tg_NewBlockStorageNoAuthV3 :: "ProviderClient \<Rightarrow> string \<Rightarrow> ServiceClient fallible"
  tg_NewBareMetalNoAuth :: "string \<Rightarrow> ServiceClient fallible"
  tg_NewBareMetalHTTPBasic :: "string \<Rightarrow> string \<Rightarrow> string \<Rightarrow> ServiceClient fallible"

text \<open>The logging transport is a wrapper around a plain one, with no TLS settings and no proxy.\<close>

definition newLoggingRoundTripper :: transport where
  "newLoggingRoundTripper = Logging_RoundTripper (Http_Transport
     \<lparr>tls_InsecureSkipVerify = False, tls_RootCAs = None, tls_Certificates = []\<rparr> False)"

definition configureDebug :: "(string \<Rightarrow> string) \<Rightarrow> ProviderClient \<Rightarrow> ProviderClient" where
  "configureDebug env client =
     (if env ''OS_DEBUG'' \<noteq> [] then client\<lparr>pc_Transport := Some newLoggingRoundTripper\<rparr> else client)"

definition newAuthenticatedClient :: "(string \<Rightarrow> string) \<Rightarrow> test_gopher \<Rightarrow> ProviderClient fallible" where
  "newAuthenticatedClient env gp =
     (case tg_AuthOptionsFromEnv gp of
        Inl err \<Rightarrow> Inl err
      | Inr ao \<Rightarrow>
          (case tg_AuthenticatedClient gp ao of
             Inl err \<Rightarrow> Inl err
           | Inr client \<Rightarrow> Inr (configureDebug env client)))"

definition regionOpts :: "(string \<Rightarrow> string) \<Rightarrow> test_opts" where
  "regionOpts env = \<lparr>to_Region = env ''OS_REGION_NAME'', to_Availability = None\<rparr>"

definition newServiceClient ::
  "(string \<Rightarrow> string) \<Rightarrow> test_gopher \<Rightarrow> test_ctor \<Rightarrow> test_opts list \<Rightarrow> ServiceClient fallible" where
  "newServiceClient env gp newClient opts =
     (case newAuthenticatedClient env gp of
        Inl err \<Rightarrow> Inl err
      | Inr client \<Rightarrow>
          let opts = (if length opts = 0 then [regionOpts env] else opts)
          in tg_construct gp newClient client (opts ! 0))"

definition newUnauthenticatedIdentityClient ::
  "(string \<Rightarrow> string) \<Rightarrow> test_gopher \<Rightarrow> test_ctor \<Rightarrow> ServiceClient fallible" where
  "newUnauthenticatedIdentityClient env gp newClient =
     (case tg_AuthOptionsFromEnv gp of
        Inl err \<Rightarrow> Inl err
      | Inr ao \<Rightarrow>
          (case tg_NewClient gp (ao_IdentityEndpoint ao) of
             Inl err \<Rightarrow> Inl err
           | Inr client \<Rightarrow> tg_construct gp newClient (configureDebug env client)
             \<lparr>to_Region = [], to_Availability = None\<rparr>))"

section \<open>The clients of the services\<close>

definition NewComputeV2Client :: "(string \<Rightarrow> string) \<Rightarrow> test_gopher \<Rightarrow> ServiceClient fallible" where
  "NewComputeV2Client env gp = newServiceClient env gp (Service NewComputeV2) []"

definition NewBareMetalV1Client :: "(string \<Rightarrow> string) \<Rightarrow> test_gopher \<Rightarrow> ServiceClient fallible" where
  "NewBareMetalV1Client env gp = newServiceClient env gp (Service NewBareMetalV1) []"

definition NewBareMetalIntrospectionV1Client :: "(string \<Rightarrow> string) \<Rightarrow> test_gopher \<Rightarrow> ServiceClient fallible" where
  "NewBareMetalIntrospectionV1Client env gp = newServiceClient env gp NewBareMetalIntrospectionV1 []"

definition NewDBV1Client :: "(string \<Rightarrow> string) \<Rightarrow> test_gopher \<Rightarrow> ServiceClient fallible" where
  "NewDBV1Client env gp = newServiceClient env gp (Service NewDBV1) []"

definition NewDNSV2Client :: "(string \<Rightarrow> string) \<Rightarrow> test_gopher \<Rightarrow> ServiceClient fallible" where
  "NewDNSV2Client env gp = newServiceClient env gp (Service NewDNSV2) []"

definition NewIdentityV2Client :: "(string \<Rightarrow> string) \<Rightarrow> test_gopher \<Rightarrow> ServiceClient fallible" where
  "NewIdentityV2Client env gp = newServiceClient env gp (Service NewIdentityV2) []"

definition NewIdentityV3Client :: "(string \<Rightarrow> string) \<Rightarrow> test_gopher \<Rightarrow> ServiceClient fallible" where
  "NewIdentityV3Client env gp = newServiceClient env gp (Service NewIdentityV3) []"

definition NewImageV2Client :: "(string \<Rightarrow> string) \<Rightarrow> test_gopher \<Rightarrow> ServiceClient fallible" where
  "NewImageV2Client env gp = newServiceClient env gp (Service NewImageV2) []"

definition NewNetworkV2Client :: "(string \<Rightarrow> string) \<Rightarrow> test_gopher \<Rightarrow> ServiceClient fallible" where
  "NewNetworkV2Client env gp = newServiceClient env gp (Service NewNetworkV2) []"

definition NewObjectStorageV1Client :: "(string \<Rightarrow> string) \<Rightarrow> test_gopher \<Rightarrow> ServiceClient fallible" where
  "NewObjectStorageV1Client env gp = newServiceClient env gp (Service NewObjectStorageV1) []"

definition NewSharedFileSystemV2Client :: "(string \<Rightarrow> string) \<Rightarrow> test_gopher \<Rightarrow> ServiceClient fallible" where
  "NewSharedFileSystemV2Client env gp = newServiceClient env gp (Service NewSharedFileSystemV2) []"

definition NewLoadBalancerV2Client :: "(string \<Rightarrow> string) \<Rightarrow> test_gopher \<Rightarrow> ServiceClient fallible" where
  "NewLoadBalancerV2Client env gp = newServiceClient env gp (Service NewLoadBalancerV2) []"

definition NewContainerV1Client :: "(string \<Rightarrow> string) \<Rightarrow> test_gopher \<Rightarrow> ServiceClient fallible" where
  "NewContainerV1Client env gp = newServiceClient env gp NewContainerV1 []"

definition NewKeyManagerV1Client :: "(string \<Rightarrow> string) \<Rightarrow> test_gopher \<Rightarrow> ServiceClient fallible" where
  "NewKeyManagerV1Client env gp = newServiceClient env gp NewKeyManagerV1 []"

definition NewContainerInfraV1Client :: "(string \<Rightarrow> string) \<Rightarrow> test_gopher \<Rightarrow> ServiceClient fallible" where
  "NewContainerInfraV1Client env gp = newServiceClient env gp (Service NewContainerInfraV1) []"

definition NewWorkflowV2Client :: "(string \<Rightarrow> string) \<Rightarrow> test_gopher \<Rightarrow> ServiceClient fallible" where
  "NewWorkflowV2Client env gp = newServiceClient env gp NewWorkflowV2 []"

definition NewOrchestrationV1Client :: "(string \<Rightarrow> string) \<Rightarrow> test_gopher \<Rightarrow> ServiceClient fallible" where
  "NewOrchestrationV1Client env gp = newServiceClient env gp (Service NewOrchestrationV1) []"

definition NewPlacementV1Client :: "(string \<Rightarrow> string) \<Rightarrow> test_gopher \<Rightarrow> ServiceClient fallible" where
  "NewPlacementV1Client env gp = newServiceClient env gp (Service NewPlacementV1) []"

definition NewIdentityV2UnauthenticatedClient :: "(string \<Rightarrow> string) \<Rightarrow> test_gopher \<Rightarrow> ServiceClient fallible" where
  "NewIdentityV2UnauthenticatedClient env gp = newUnauthenticatedIdentityClient env gp (Service NewIdentityV2)"

definition NewIdentityV3UnauthenticatedClient :: "(string \<Rightarrow> string) \<Rightarrow> test_gopher \<Rightarrow> ServiceClient fallible" where
  "NewIdentityV3UnauthenticatedClient env gp = newUnauthenticatedIdentityClient env gp (Service NewIdentityV3)"

definition NewIdentityV2AdminClient :: "(string \<Rightarrow> string) \<Rightarrow> test_gopher \<Rightarrow> ServiceClient fallible" where
  "NewIdentityV2AdminClient env gp = newServiceClient env gp (Service NewIdentityV2)
     [\<lparr>to_Region = env ''OS_REGION_NAME'', to_Availability = Some AvailabilityAdmin\<rparr>]"

definition NewMessagingV2Client ::
  "(string \<Rightarrow> string) \<Rightarrow> test_gopher \<Rightarrow> string \<Rightarrow> ServiceClient fallible" where
  "NewMessagingV2Client env gp clientID =
     (case newAuthenticatedClient env gp of
        Inl err \<Rightarrow> Inl err
      | Inr client \<Rightarrow> tg_NewMessagingV2 gp client clientID (regionOpts env))"

definition NewBlockStorageV3NoAuthClient ::
  "(string \<Rightarrow> string) \<Rightarrow> test_gopher \<Rightarrow> ServiceClient fallible" where
  "NewBlockStorageV3NoAuthClient env gp =
     (case tg_NoAuthClient gp (env ''OS_USERNAME'') (env ''OS_TENANT_NAME'') of
        Inl err \<Rightarrow> Inl err
      | Inr client \<Rightarrow> tg_NewBlockStorageNoAuthV3 gp (configureDebug env client) (env ''CINDER_ENDPOINT''))"

definition NewBareMetalV1NoAuthClient :: "(string \<Rightarrow> string) \<Rightarrow> test_gopher \<Rightarrow> ServiceClient fallible" where
  "NewBareMetalV1NoAuthClient env gp = tg_NewBareMetalNoAuth gp (env ''IRONIC_ENDPOINT'')"

definition NewBareMetalV1HTTPBasic :: "(string \<Rightarrow> string) \<Rightarrow> test_gopher \<Rightarrow> ServiceClient fallible" where
  "NewBareMetalV1HTTPBasic env gp = tg_NewBareMetalHTTPBasic gp (env ''IRONIC_ENDPOINT'')
     (env ''OS_USERNAME'') (env ''OS_PASSWORD'')"

text \<open>The long tests are skipped in short mode.\<close>

definition RequireLong :: "bool \<Rightarrow> (unit, 's, 'c) action" where
  "RequireLong short = (if short then t_Skipf else give ())"

section \<open>What the environment chooses\<close>

record AcceptanceTestChoices =
  at_ImageID :: string
  at_FlavorID :: string
  at_FlavorIDResize :: string
  at_FloatingIPPoolName :: string
  at_MagnumKeypair :: string
  at_MagnumImageID :: string
  at_NetworkName :: string
  at_NetworkID :: string
  at_SubnetID :: string
  at_ExternalNetworkID :: string
  at_DBDatastoreType :: string
  at_DBDatastoreVersion :: string

definition setup_text :: string where
  "setup_text = ''you'' @ [CHR 0x27] @ ''re missing some important setup:'' @ [CHR 0x0A] @ '' * ''"

definition AcceptanceTestChoicesFromEnv :: "(string \<Rightarrow> string) \<Rightarrow> AcceptanceTestChoices fallible" where
  "AcceptanceTestChoicesFromEnv env =
     (let imageID = env ''OS_IMAGE_ID'';
          flavorID = env ''OS_FLAVOR_ID'';
          flavorIDResize = env ''OS_FLAVOR_ID_RESIZE'';
          magnumImageID = env ''OS_MAGNUM_IMAGE_ID'';
          magnumKeypair = env ''OS_MAGNUM_KEYPAIR'';
          networkName = env ''OS_NETWORK_NAME'';
          networkID = env ''OS_NETWORK_ID'';
          subnetID = env ''OS_SUBNET_ID'';
          floatingIPPoolName = env ''OS_POOL_NAME'';
          externalNetworkID = env ''OS_EXTGW_ID'';
          dbDatastoreType = env ''OS_DB_DATASTORE_TYPE'';
          dbDatastoreVersion = env ''OS_DB_DATASTORE_VERSION'';
          missing = [];
          missing = (if imageID = [] then missing @ [''OS_IMAGE_ID''] else missing);
          missing = (if flavorID = [] then missing @ [''OS_FLAVOR_ID''] else missing);
          missing = (if flavorIDResize = [] then missing @ [''OS_FLAVOR_ID_RESIZE''] else missing);
          missing = (if floatingIPPoolName = [] then missing @ [''OS_POOL_NAME''] else missing);
          missing = (if externalNetworkID = [] then missing @ [''OS_EXTGW_ID''] else missing);
          networkName = (if networkName = [] then ''private'' else networkName);
          notDistinct = (if flavorID = flavorIDResize
            then ''OS_FLAVOR_ID and OS_FLAVOR_ID_RESIZE must be distinct'' else [])
      in if length missing > 0 then
           Inl (Msg_error (setup_text @ ''these environment variables must be provided: ''
             @ strings_Join missing '', ''))
         else if notDistinct \<noteq> [] then Inl (Msg_error (setup_text @ notDistinct))
         else Inr \<lparr>at_ImageID = imageID, at_FlavorID = flavorID, at_FlavorIDResize = flavorIDResize,
           at_FloatingIPPoolName = floatingIPPoolName, at_MagnumKeypair = magnumKeypair,
           at_MagnumImageID = magnumImageID, at_NetworkName = networkName, at_NetworkID = networkID,
           at_SubnetID = subnetID, at_ExternalNetworkID = externalNetworkID,
           at_DBDatastoreType = dbDatastoreType, at_DBDatastoreVersion = dbDatastoreVersion\<rparr>)"

section \<open>Properties\<close>

definition required_names :: "string list" where
  "required_names = [''OS_IMAGE_ID'', ''OS_FLAVOR_ID'', ''OS_FLAVOR_ID_RESIZE'', ''OS_POOL_NAME'', ''OS_EXTGW_ID'']"

text \<open>
  The choices are taken from the environment exactly when the five variables that are
  needed are set and the two flavors differ; otherwise the error lists the missing ones, in order, or
  tells that the flavors are the same. The choices never lack an image, a flavor, a network or a pool.
\<close>

theorem test_choices:
  "case AcceptanceTestChoicesFromEnv env of
     Inl e \<Rightarrow> (let missing = filter (\<lambda>n. env n = []) required_names in
       if missing = [] then env ''OS_FLAVOR_ID'' = env ''OS_FLAVOR_ID_RESIZE'' \<and>
         e = Msg_error (setup_text @ ''OS_FLAVOR_ID and OS_FLAVOR_ID_RESIZE must be distinct'')
       else e = Msg_error (setup_text @ ''these environment variables must be provided: ''
             @ strings_Join missing '', ''))
   | Inr c \<Rightarrow> filter (\<lambda>n. env n = []) required_names = [] \<and>
       at_FlavorID c \<noteq> at_FlavorIDResize c \<and>
       [] \<notin> {at_ImageID c, at_FlavorID c, at_FlavorIDResize c, at_NetworkName c, at_FloatingIPPoolName c,
               at_ExternalNetworkID c}"
  by (simp add: AcceptanceTestChoicesFromEnv_def required_names_def Let_def)

text \<open>
  A client is made only once the authentication has succeeded, with the options given or else with the
  region of the environment, and through the logging transport exactly when \<^verbatim>\<open>OS_DEBUG\<close> is set.
\<close>

lemma newServiceClient_branches:
  "newServiceClient env gp ctor opts =
     (case tg_AuthOptionsFromEnv gp of Inl e \<Rightarrow> Inl e | Inr ao \<Rightarrow>
        case tg_AuthenticatedClient gp ao of Inl e \<Rightarrow> Inl e | Inr client \<Rightarrow>
          tg_construct gp ctor
            (if env ''OS_DEBUG'' = [] then client
             else client\<lparr>pc_Transport := Some newLoggingRoundTripper\<rparr>)
            (case opts of [] \<Rightarrow> regionOpts env | x # xs \<Rightarrow> x))"
  by (simp add: newServiceClient_def newAuthenticatedClient_def configureDebug_def split: sum.split list.split)

end
