(* ===== verification/Test_Network.thy ===== *)
theory Test_Network
  imports Test_Clients
begin

text \<open>
  \<^verbatim>\<open>integration/funcs/networking.go\<close>: creating Neutron resources for a test, and deleting them when the
  test is over. Of a created resource only its ID is read. The requests are the parameter \<open>api\<close>; the
  client library's constants are kept by name; \<open>env\<close> is \<^verbatim>\<open>os.Getenv\<close>, empty for a name that is not set.

  The function that a \<^verbatim>\<open>MustCreate\<close> function returns, and registers as a cleanup, is kept as the
  resource and the number of the variable \<^verbatim>\<open>deleted\<close> that its two copies share.
\<close>

section \<open>Requests\<close>

datatype resource =
    Network_res string | Subnet_res string | Port_res string | Router_res string
  | Interface_res string string | IKE_policy_res string | IPSec_policy_res string
  | Endpoint_group_res string | VPN_service_res string | Site_connection_res string

datatype create_opts =
    Network_opts (co_name: string) (co_AdminStateUp: bool)
  | Subnet_opts (co_NetworkID: string) (co_CIDR: string) (co_IPVersion: int) (co_name: string)
      (co_EnableDHCP: bool) (co_GatewayIP: string)
  | Port_opts (co_NetworkID: string) (co_name: string) (co_AdminStateUp: bool)
  | Router_opts (co_name: string) (co_AdminStateUp: bool) (co_GatewayInfo: "string option")
  | Interface_opts (co_RouterID: string) (co_SubnetID: string)
  | IKE_policy_opts (co_name: string) (co_AuthAlgorithm: string) (co_EncryptionAlgorithm: string)
      (co_PFS: string) (co_IKEVersion: string)
  | IPSec_policy_opts (co_name: string) (co_AuthAlgorithm: string) (co_EncapsulationMode: string)
      (co_EncryptionAlgorithm: string) (co_PFS: string) (co_TransformProtocol: string)
  | Endpoint_group_opts (co_name: string) (co_Type: string) (co_Endpoints: "string list")
  | VPN_service_opts (co_name: string) (co_AdminStateUp: bool) (co_RouterID: string)
  | Site_connection_opts (co_name: string) (co_PSK: string) (co_Initiator: string)
      (co_AdminStateUp: bool) (co_IPSecPolicyID: string) (co_PeerEPGroupID: string)
      (co_IKEPolicyID: string) (co_VPNServiceID: string) (co_LocalEPGroupID: string)
      (co_PeerAddress: string) (co_PeerID: string) (co_MTU: int)

record 's network_api =
  na_create :: "create_opts \<Rightarrow> 's \<Rightarrow> string fallible \<times> 's"
  na_delete :: "resource \<Rightarrow> 's \<Rightarrow> unit fallible \<times> 's"
  na_extension :: "string \<Rightarrow> 's \<Rightarrow> unit fallible \<times> 's"

type_synonym deleter = "resource \<times> nat"

type_synonym ('a, 's) net_action = "('a, 's, deleter) action"

definition TypeSubnet :: string where "TypeSubnet = ''subnet''"

definition TypeCIDR :: string where "TypeCIDR = ''cidr''"

definition random_name :: "source \<Rightarrow> (string, 's) net_action" where
  "random_name rnd = draw (RandomString rnd ''ACPTTEST'' 16)"

text \<open>The contexts: one made from the test's, and one that outlives the test.\<close>

definition RequestContext :: ctx where
  "RequestContext = Test_context"

definition CleanupContext :: ctx where
  "CleanupContext = Uncancelled_context"

section \<open>The environment\<close>

definition envOrDefault :: "(string \<Rightarrow> string) \<Rightarrow> string \<Rightarrow> string \<Rightarrow> string" where
  "envOrDefault env name fallback = (let value = env name in if value = [] then fallback else value)"

definition VPNPeerAddress :: "(string \<Rightarrow> string) \<Rightarrow> string" where
  "VPNPeerAddress env = envOrDefault env ''OS_VPN_PEER_ADDRESS'' ''172.24.4.233''"

definition VPNPeerCIDR :: "(string \<Rightarrow> string) \<Rightarrow> string" where
  "VPNPeerCIDR env = envOrDefault env ''OS_VPN_PEER_CIDR'' ''10.42.0.0/24''"

definition RequireExternalNetworkID :: "(string \<Rightarrow> string) \<Rightarrow> (string, 's) net_action" where
  "RequireExternalNetworkID env =
     (let externalNetworkID = env ''OS_EXTGW_ID''
      in if externalNetworkID = [] then t_Fatalf else give externalNetworkID)"

definition NewNetworkClient :: "(string \<Rightarrow> string) \<Rightarrow> test_gopher \<Rightarrow> (ServiceClient, 's) net_action" where
  "NewNetworkClient env gp =
     (case NewNetworkV2Client env gp of Inl err \<Rightarrow> t_Fatalf | Inr client \<Rightarrow> give client)"

definition RequireVPNaaSExtension :: "'s network_api \<Rightarrow> (unit, 's) net_action" where
  "RequireVPNaaSExtension api = seq (request RequestContext (na_extension api ''vpnaas''))
     (\<lambda>r. case r of
        Inl err \<Rightarrow> if err_status err = 404 then t_Skipf else t_Fatalf
      | Inr e \<Rightarrow> give ())"

section \<open>Creating\<close>

definition CreateNetwork :: "'s network_api \<Rightarrow> source \<Rightarrow> (string fallible, 's) net_action" where
  "CreateNetwork api rnd = seq (random_name rnd) (\<lambda>networkName.
     request RequestContext (na_create api (Network_opts networkName True)))"

definition CreateSubnet :: "'s network_api \<Rightarrow> source \<Rightarrow> string \<Rightarrow> (string fallible, 's) net_action" where
  "CreateSubnet api rnd networkID = seq (draw (RandomInt rnd 1 250)) (\<lambda>subnetOctet.
     let subnetCIDR = ''192.168.'' @ strconv_Itoa subnetOctet @ ''.0/24'';
         subnetGateway = ''192.168.'' @ strconv_Itoa subnetOctet @ ''.1''
     in seq (random_name rnd) (\<lambda>subnetName.
       request RequestContext (na_create api
         (Subnet_opts networkID subnetCIDR 4 subnetName False subnetGateway))))"

definition CreatePort :: "'s network_api \<Rightarrow> source \<Rightarrow> string \<Rightarrow> (string fallible, 's) net_action" where
  "CreatePort api rnd networkID = seq (random_name rnd) (\<lambda>portName.
     request RequestContext (na_create api (Port_opts networkID portName True)))"

definition CreateRouter :: "'s network_api \<Rightarrow> source \<Rightarrow> string \<Rightarrow> (string fallible, 's) net_action" where
  "CreateRouter api rnd externalNetworkID = seq (random_name rnd) (\<lambda>routerName.
     request RequestContext (na_create api (Router_opts routerName True
       (if externalNetworkID \<noteq> [] then Some externalNetworkID else None))))"

definition AddRouterInterface ::
  "'s network_api \<Rightarrow> string \<Rightarrow> string \<Rightarrow> (go_error option, 's) net_action" where
  "AddRouterInterface api routerID subnetID =
     seq (request RequestContext (na_create api (Interface_opts routerID subnetID)))
       (\<lambda>r. case r of Inl err \<Rightarrow> give (Some err) | Inr i \<Rightarrow> give None)"

definition CreateVPNIKEPolicy :: "'s network_api \<Rightarrow> source \<Rightarrow> (string fallible, 's) net_action" where
  "CreateVPNIKEPolicy api rnd = seq (random_name rnd) (\<lambda>policyName.
     request RequestContext (na_create api (IKE_policy_opts policyName ''AuthAlgorithmSHA256''
       ''EncryptionAlgorithmAES128'' ''PFSGroup14'' ''IKEVersionv2'')))"

definition CreateVPNIPSecPolicy :: "'s network_api \<Rightarrow> source \<Rightarrow> (string fallible, 's) net_action" where
  "CreateVPNIPSecPolicy api rnd = seq (random_name rnd) (\<lambda>policyName.
     request RequestContext (na_create api (IPSec_policy_opts policyName ''AuthAlgorithmSHA256''
       ''EncapsulationModeTunnel'' ''EncryptionAlgorithmAES128'' ''PFSGroup14'' ''TransformProtocolESP'')))"

definition CreateVPNEndpointGroup ::
  "'s network_api \<Rightarrow> source \<Rightarrow> string \<Rightarrow> string list \<Rightarrow> (string fallible, 's) net_action" where
  "CreateVPNEndpointGroup api rnd endpointType endpoints = seq (random_name rnd) (\<lambda>groupName.
     request RequestContext (na_create api (Endpoint_group_opts groupName endpointType endpoints)))"

definition CreateVPNService :: "'s network_api \<Rightarrow> source \<Rightarrow> string \<Rightarrow> (string fallible, 's) net_action" where
  "CreateVPNService api rnd routerID = seq (random_name rnd) (\<lambda>serviceName.
     request RequestContext (na_create api (VPN_service_opts serviceName True routerID)))"

definition CreateVPNSiteConnection ::
  "'s network_api \<Rightarrow> source \<Rightarrow> (string \<Rightarrow> string) \<Rightarrow> string \<Rightarrow> string \<Rightarrow> string \<Rightarrow> string \<Rightarrow> string \<Rightarrow>
   (string fallible, 's) net_action" where
  "CreateVPNSiteConnection api rnd env ikePolicyID ipsecPolicyID serviceID peerEndpointGroupID
       localEndpointGroupID = seq (random_name rnd) (\<lambda>connectionName.
     let peerAddress = VPNPeerAddress env
     in request RequestContext (na_create api (Site_connection_opts connectionName ''secret''
       ''InitiatorBiDirectional'' True ipsecPolicyID peerEndpointGroupID ikePolicyID serviceID
       localEndpointGroupID peerAddress peerAddress 1500)))"

section \<open>Deleting\<close>

text \<open>The shape of all deletions: a request under the context of cleanups, fatal if it fails.\<close>

definition delete_or_fail :: "'s network_api \<Rightarrow> ctx \<Rightarrow> resource \<Rightarrow> (unit, 's) net_action" where
  "delete_or_fail api ctx r = seq (request ctx (na_delete api r))
     (\<lambda>r. case r of Inl err \<Rightarrow> t_Fatalf | Inr u \<Rightarrow> give ())"

definition DeleteNetwork :: "'s network_api \<Rightarrow> string \<Rightarrow> (unit, 's) net_action" where
  "DeleteNetwork api networkID = delete_or_fail api CleanupContext (Network_res networkID)"

definition DeleteSubnet :: "'s network_api \<Rightarrow> string \<Rightarrow> (unit, 's) net_action" where
  "DeleteSubnet api subnetID = delete_or_fail api CleanupContext (Subnet_res subnetID)"

definition DeletePort :: "'s network_api \<Rightarrow> string \<Rightarrow> (unit, 's) net_action" where
  "DeletePort api portID = delete_or_fail api CleanupContext (Port_res portID)"

definition DeleteRouter :: "'s network_api \<Rightarrow> string \<Rightarrow> (unit, 's) net_action" where
  "DeleteRouter api routerID = delete_or_fail api CleanupContext (Router_res routerID)"

definition RemoveRouterInterface :: "'s network_api \<Rightarrow> string \<Rightarrow> string \<Rightarrow> (unit, 's) net_action" where
  "RemoveRouterInterface api routerID subnetID =
     delete_or_fail api CleanupContext (Interface_res routerID subnetID)"

definition DeleteVPNIKEPolicy :: "'s network_api \<Rightarrow> string \<Rightarrow> (unit, 's) net_action" where
  "DeleteVPNIKEPolicy api policyID = delete_or_fail api CleanupContext (IKE_policy_res policyID)"

definition DeleteVPNIPSecPolicy :: "'s network_api \<Rightarrow> string \<Rightarrow> (unit, 's) net_action" where
  "DeleteVPNIPSecPolicy api policyID = delete_or_fail api CleanupContext (IPSec_policy_res policyID)"

definition DeleteVPNEndpointGroup :: "'s network_api \<Rightarrow> string \<Rightarrow> (unit, 's) net_action" where
  "DeleteVPNEndpointGroup api groupID = delete_or_fail api CleanupContext (Endpoint_group_res groupID)"

definition DeleteVPNService :: "'s network_api \<Rightarrow> string \<Rightarrow> (unit, 's) net_action" where
  "DeleteVPNService api serviceID = delete_or_fail api CleanupContext (VPN_service_res serviceID)"

definition DeleteVPNSiteConnection :: "'s network_api \<Rightarrow> string \<Rightarrow> (unit, 's) net_action" where
  "DeleteVPNSiteConnection api connectionID =
     delete_or_fail api CleanupContext (Site_connection_res connectionID)"

fun delete_resource :: "'s network_api \<Rightarrow> resource \<Rightarrow> (unit, 's) net_action" where
  "delete_resource api (Network_res i) = DeleteNetwork api i"
| "delete_resource api (Subnet_res i) = DeleteSubnet api i"
| "delete_resource api (Port_res i) = DeletePort api i"
| "delete_resource api (Router_res i) = DeleteRouter api i"
| "delete_resource api (Interface_res i j) = RemoveRouterInterface api i j"
| "delete_resource api (IKE_policy_res i) = DeleteVPNIKEPolicy api i"
| "delete_resource api (IPSec_policy_res i) = DeleteVPNIPSecPolicy api i"
| "delete_resource api (Endpoint_group_res i) = DeleteVPNEndpointGroup api i"
| "delete_resource api (VPN_service_res i) = DeleteVPNService api i"
| "delete_resource api (Site_connection_res i) = DeleteVPNSiteConnection api i"

text \<open>The function returned and registered: it deletes once, unless it failed before.\<close>

definition call_deleter :: "'s network_api \<Rightarrow> deleter \<Rightarrow> (unit, 's) net_action" where
  "call_deleter api d = (case d of (r, i) \<Rightarrow> seq (flag_set i) (\<lambda>deleted.
     if \<not> deleted then seq (delete_resource api r) (\<lambda>u. set_flag i) else give ()))"

definition with_cleanup :: "resource \<Rightarrow> (deleter, 's) net_action" where
  "with_cleanup r = seq new_flag (\<lambda>i. seq (t_Cleanup (r, i)) (\<lambda>u. give (r, i)))"

definition must :: "(string fallible, 's) net_action \<Rightarrow> (string \<Rightarrow> resource) \<Rightarrow> (string \<times> deleter, 's) net_action" where
  "must create res = seq create (\<lambda>r. case r of
     Inl err \<Rightarrow> t_Fatalf
   | Inr i \<Rightarrow> seq (with_cleanup (res i)) (\<lambda>delete. give (i, delete)))"

section \<open>Creating with a cleanup\<close>

definition MustCreateNetwork :: "'s network_api \<Rightarrow> source \<Rightarrow> (string \<times> deleter, 's) net_action" where
  "MustCreateNetwork api rnd = must (CreateNetwork api rnd) Network_res"

definition MustCreateSubnet ::
  "'s network_api \<Rightarrow> source \<Rightarrow> string \<Rightarrow> (string \<times> deleter, 's) net_action" where
  "MustCreateSubnet api rnd networkID = must (CreateSubnet api rnd networkID) Subnet_res"

definition MustCreatePort ::
  "'s network_api \<Rightarrow> source \<Rightarrow> string \<Rightarrow> (string \<times> deleter, 's) net_action" where
  "MustCreatePort api rnd networkID = must (CreatePort api rnd networkID) Port_res"

definition MustCreateRouter ::
  "'s network_api \<Rightarrow> source \<Rightarrow> string \<Rightarrow> (string \<times> deleter, 's) net_action" where
  "MustCreateRouter api rnd externalNetworkID = must (CreateRouter api rnd externalNetworkID) Router_res"

definition MustAddRouterInterface ::
  "'s network_api \<Rightarrow> string \<Rightarrow> string \<Rightarrow> (deleter, 's) net_action" where
  "MustAddRouterInterface api routerID subnetID = seq (AddRouterInterface api routerID subnetID)
     (\<lambda>err. case err of Some e \<Rightarrow> t_Fatalf | None \<Rightarrow> with_cleanup (Interface_res routerID subnetID))"

definition MustCreateVPNIKEPolicy :: "'s network_api \<Rightarrow> source \<Rightarrow> (string \<times> deleter, 's) net_action" where
  "MustCreateVPNIKEPolicy api rnd = must (CreateVPNIKEPolicy api rnd) IKE_policy_res"

definition MustCreateVPNIPSecPolicy :: "'s network_api \<Rightarrow> source \<Rightarrow> (string \<times> deleter, 's) net_action" where
  "MustCreateVPNIPSecPolicy api rnd = must (CreateVPNIPSecPolicy api rnd) IPSec_policy_res"

definition MustCreateVPNEndpointGroup ::
  "'s network_api \<Rightarrow> source \<Rightarrow> string \<Rightarrow> string list \<Rightarrow> (string \<times> deleter, 's) net_action" where
  "MustCreateVPNEndpointGroup api rnd endpointType endpoints =
     must (CreateVPNEndpointGroup api rnd endpointType endpoints) Endpoint_group_res"

definition MustCreateVPNService ::
  "'s network_api \<Rightarrow> source \<Rightarrow> string \<Rightarrow> (string \<times> deleter, 's) net_action" where
  "MustCreateVPNService api rnd routerID = must (CreateVPNService api rnd routerID) VPN_service_res"

definition MustCreateVPNSiteConnection ::
  "'s network_api \<Rightarrow> source \<Rightarrow> (string \<Rightarrow> string) \<Rightarrow> string \<Rightarrow> string \<Rightarrow> string \<Rightarrow> string \<Rightarrow> string \<Rightarrow>
   (string \<times> deleter, 's) net_action" where
  "MustCreateVPNSiteConnection api rnd env ikePolicyID ipsecPolicyID serviceID peerEndpointGroupID
       localEndpointGroupID =
     must (CreateVPNSiteConnection api rnd env ikePolicyID ipsecPolicyID serviceID
       peerEndpointGroupID localEndpointGroupID) Site_connection_res"

section \<open>A test\<close>

text \<open>
  What a test can do with these functions, with any arguments and in any order: the calls that
  create with a cleanup, calls of the functions these returned, and ending itself.
\<close>

inductive test_call ::
  "'s network_api \<Rightarrow> source \<Rightarrow> (string \<Rightarrow> string) \<Rightarrow> ('s, deleter) test_state \<Rightarrow> ('s, deleter) test_state \<Rightarrow> bool"
  for api :: "'s network_api" and rnd :: source and env :: "string \<Rightarrow> string" where
  network: "test_call api rnd env s (snd (MustCreateNetwork api rnd s))"
| subnet: "test_call api rnd env s (snd (MustCreateSubnet api rnd network s))"
| port: "test_call api rnd env s (snd (MustCreatePort api rnd network s))"
| router: "test_call api rnd env s (snd (MustCreateRouter api rnd external s))"
| interface: "test_call api rnd env s (snd (MustAddRouterInterface api router subnet s))"
| ike_policy: "test_call api rnd env s (snd (MustCreateVPNIKEPolicy api rnd s))"
| ipsec_policy: "test_call api rnd env s (snd (MustCreateVPNIPSecPolicy api rnd s))"
| endpoint_group: "test_call api rnd env s (snd (MustCreateVPNEndpointGroup api rnd type endpoints s))"
| vpn_service: "test_call api rnd env s (snd (MustCreateVPNService api rnd router s))"
| site_connection:
    "test_call api rnd env s (snd (MustCreateVPNSiteConnection api rnd env ike ipsec service peer local s))"
| delete: "d \<in> set (ts_cleanups s) \<Longrightarrow> test_call api rnd env s (snd (call_deleter api d s))"
| external: "test_call api rnd env s (snd (RequireExternalNetworkID env s))"
| fatal: "test_call api rnd env s (snd ((t_Fatalf :: (unit, 's) net_action) s))"
| skip: "test_call api rnd env s (snd ((t_Skipf :: (unit, 's) net_action) s))"

inductive test_run ::
  "'s network_api \<Rightarrow> source \<Rightarrow> (string \<Rightarrow> string) \<Rightarrow> ('s, deleter) test_state \<Rightarrow> ('s, deleter) test_state \<Rightarrow> bool"
  for api rnd env s0 where
  start: "test_run api rnd env s0 s0"
| call: "test_run api rnd env s0 s \<Longrightarrow> test_call api rnd env s t \<Longrightarrow> test_run api rnd env s0 t"

definition fresh_test :: "('s, deleter) test_state \<Rightarrow> bool" where
  "fresh_test s \<longleftrightarrow> ts_cleanups s = [] \<and> ts_flags s = [] \<and> \<not> ts_ended s"


section \<open>A cloud that keeps track of what uses what\<close>

text \<open>The resources that a new one refers to.\<close>

fun uses :: "create_opts \<Rightarrow> resource set" where
  "uses (Subnet_opts network cidr v n dhcp gw) = {Network_res network}"
| "uses (Port_opts network n up) = {Network_res network}"
| "uses (Router_opts n up gw) = (case gw of None \<Rightarrow> {} | Some network \<Rightarrow> {Network_res network})"
| "uses (Interface_opts router subnet) = {Router_res router, Subnet_res subnet}"
| "uses (Endpoint_group_opts n t es) = (if t = TypeSubnet then Subnet_res ` set es else {})"
| "uses (VPN_service_opts n up router) = {Router_res router}"
| "uses (Site_connection_opts n psk ini up ipsec peer ike service loc addr pid mtu) =
     {IPSec_policy_res ipsec, Endpoint_group_res peer, IKE_policy_res ike, VPN_service_res service,
      Endpoint_group_res loc}"
| "uses opts = {}"

fun resource_of :: "create_opts \<Rightarrow> string \<Rightarrow> resource" where
  "resource_of (Network_opts n up) i = Network_res i"
| "resource_of (Subnet_opts network cidr v n dhcp gw) i = Subnet_res i"
| "resource_of (Port_opts network n up) i = Port_res i"
| "resource_of (Router_opts n up gw) i = Router_res i"
| "resource_of (Interface_opts router subnet) i = Interface_res router subnet"
| "resource_of (IKE_policy_opts n a e p v) i = IKE_policy_res i"
| "resource_of (IPSec_policy_opts n a m e p t) i = IPSec_policy_res i"
| "resource_of (Endpoint_group_opts n t es) i = Endpoint_group_res i"
| "resource_of (VPN_service_opts n up router) i = VPN_service_res i"
| "resource_of (Site_connection_opts n psk ini up ipsec peer ike service loc addr pid mtu) i =
     Site_connection_res i"

text \<open>
  What the tests rely on of Neutron, seen through \<open>view\<close>, the resources there are with those that each
  uses: a new resource is a new one and all that it uses is there; a resource in use is not deleted,
  one that is not in use is; and what fails changes nothing.
\<close>

type_synonym usage = "resource \<rightharpoonup> resource set"

definition in_use :: "usage \<Rightarrow> resource \<Rightarrow> bool" where
  "in_use V r \<longleftrightarrow> (\<exists>q d. V q = Some d \<and> r \<in> d)"

definition closed_usage :: "usage \<Rightarrow> bool" where
  "closed_usage V \<longleftrightarrow> (\<forall>q d. V q = Some d \<longrightarrow> d \<subseteq> dom V)"

definition honest_cloud :: "'s network_api \<Rightarrow> ('s \<Rightarrow> usage) \<Rightarrow> bool" where
  "honest_cloud api view \<longleftrightarrow>
     (\<forall>c. closed_usage (view c)) \<and>
     (\<forall>opts c. case na_create api opts c of
        (Inl e, c') \<Rightarrow> view c' = view c
      | (Inr i, c') \<Rightarrow> view c (resource_of opts i) = None \<and> uses opts \<subseteq> dom (view c) \<and>
          view c' = (view c)(resource_of opts i \<mapsto> uses opts)) \<and>
     (\<forall>r c. case na_delete api r c of
        (Inl e, c') \<Rightarrow> view c' = view c \<and> (r \<notin> dom (view c) \<or> in_use (view c) r)
      | (Inr u, c') \<Rightarrow> \<not> in_use (view c) r \<and> view c' = (view c)(r := None))"

lemma honest_create:
  assumes "honest_cloud api view"
  shows "na_create api opts c = (Inl e, c') \<Longrightarrow> view c' = view c"
    and "na_create api opts c = (Inr i, c') \<Longrightarrow> view c (resource_of opts i) = None
      \<and> uses opts \<subseteq> dom (view c) \<and> view c' = (view c)(resource_of opts i \<mapsto> uses opts)"
  using assms unfolding honest_cloud_def
  by (metis (mono_tags, lifting) case_prod_conv sum.case(1), metis (mono_tags, lifting) case_prod_conv sum.case(2))

lemma honest_delete:
  assumes "honest_cloud api view"
  shows "na_delete api r c = (Inl e, c') \<Longrightarrow> view c' = view c \<and> (r \<notin> dom (view c) \<or> in_use (view c) r)"
    and "na_delete api r c = (Inr u, c') \<Longrightarrow> \<not> in_use (view c) r \<and> view c' = (view c)(r := None)"
  using assms unfolding honest_cloud_def
  by (metis (mono_tags, lifting) case_prod_conv sum.case(1), metis (mono_tags, lifting) case_prod_conv sum.case(2))

section \<open>What a test has left to delete\<close>

text \<open>The resources whose cleanup has not run, latest first, and that each uses only earlier ones.\<close>

definition undeleted :: "bool list \<Rightarrow> deleter list \<Rightarrow> resource list" where
  "undeleted flags ds = map fst (filter (\<lambda>d. \<not> flags ! snd d) ds)"

fun stacked :: "usage \<Rightarrow> resource set \<Rightarrow> resource list \<Rightarrow> bool" where
  "stacked V D [] = True"
| "stacked V D (r # rs) \<longleftrightarrow> r \<notin> D \<union> set rs \<and> (\<exists>d. V r = Some d \<and> d \<subseteq> D \<union> set rs) \<and> stacked V D rs"

definition tracked :: "usage \<Rightarrow> usage \<Rightarrow> bool list \<Rightarrow> deleter list \<Rightarrow> bool" where
  "tracked V0 V flags ds \<longleftrightarrow>
     distinct (map snd ds) \<and> (\<forall>d \<in> set ds. snd d < length flags) \<and>
     stacked V (dom V0) (undeleted flags ds) \<and>
     dom V = dom V0 \<union> set (undeleted flags ds) \<and> V |` dom V0 = V0"

lemma stacked_distinct: "stacked V D rs \<Longrightarrow> distinct rs \<and> set rs \<inter> D = {}"
  by (induction rs) auto

lemma stacked_update: "r \<notin> set rs \<Longrightarrow> stacked (V(r := x)) D rs = stacked V D rs"
  by (induction rs) auto

text \<open>Only what a resource uses keeps the others from being taken out of the stack.\<close>

lemma stacked_remove:
  assumes "stacked V D rs" and "\<not> in_use V r"
  shows "stacked (V(r := None)) D (filter (\<lambda>q. q \<noteq> r) rs)"
  using assms
  by (induction rs) (auto simp: in_use_def subset_iff)

lemma undeleted_new_flag:
  "(\<And>d. d \<in> set ds \<Longrightarrow> snd d < length flags) \<Longrightarrow> undeleted (flags @ [False]) ds = undeleted flags ds"
  by (induction ds) (auto simp: undeleted_def nth_append)

lemma undeleted_set_flag:
  assumes "distinct (map snd ds)" and "(r, i) \<in> set ds" and "i < length flags" and "\<not> flags ! i"
    and "distinct (undeleted flags ds)"
  shows "undeleted (flags[i := True]) ds = filter (\<lambda>q. q \<noteq> r) (undeleted flags ds)"
  using assms
proof (induction ds)
  case (Cons d ds)
  show ?case
  proof (cases "d = (r, i)")
    case True
    then have "flags[i := True] ! snd e = flags ! snd e" if "e \<in> set ds" for e
      using Cons.prems(1) that by (intro nth_list_update_neq) force
    then have "undeleted (flags[i := True]) ds = undeleted flags ds"
      unfolding undeleted_def by (simp cong: filter_cong)
    moreover have "r \<notin> set (undeleted flags ds)"
      using Cons.prems(4,5) True by (simp add: undeleted_def)
    then have "filter (\<lambda>q. q \<noteq> r) (undeleted flags ds) = undeleted flags ds"
      by (auto simp: filter_id_conv)
    ultimately show ?thesis using True Cons.prems(3,4)
      by (simp add: undeleted_def)
  next
    case False
    then have in_ds: "(r, i) \<in> set ds" using Cons.prems(2) by simp
    then have "i \<in> snd ` set ds" by force
    then have "snd d \<noteq> i" using Cons.prems(1) by auto
    moreover have "distinct (undeleted flags ds)" using Cons.prems(5) by (auto simp: undeleted_def split: if_splits)
    moreover have "r \<in> set (undeleted flags ds)" using in_ds Cons.prems(4) by (force simp: undeleted_def)
    ultimately show ?thesis
      using Cons.IH in_ds Cons.prems by (auto simp: undeleted_def split: if_splits)
  qed
qed simp


lemma delete_resource_eq: "delete_resource api r = delete_or_fail api Uncancelled_context r"
  by (cases r) (simp_all add: DeleteNetwork_def DeleteSubnet_def DeletePort_def DeleteRouter_def
      RemoveRouterInterface_def DeleteVPNIKEPolicy_def DeleteVPNIPSecPolicy_def
      DeleteVPNEndpointGroup_def DeleteVPNService_def DeleteVPNSiteConnection_def CleanupContext_def)

text \<open>One call of a registered function, in a state and its effect.\<close>

lemma call_deleter_skips: "ts_flags s ! i \<Longrightarrow> call_deleter api (r, i) s = (Value (), s)"
  by (simp add: call_deleter_def seq_def flag_set_def give_def)

lemma call_deleter_ok:
  "\<not> ts_flags s ! i \<Longrightarrow> na_delete api r (ts_cloud s) = (Inr u, c) \<Longrightarrow>
     call_deleter api (r, i) s = (Value (), s\<lparr>ts_cloud := c, ts_flags := (ts_flags s)[i := True]\<rparr>)"
  by (simp add: call_deleter_def seq_def flag_set_def give_def delete_resource_eq delete_or_fail_def
      request_def set_flag_def)

lemma call_deleter_fails:
  "\<not> ts_flags s ! i \<Longrightarrow> na_delete api r (ts_cloud s) = (Inl e, c) \<Longrightarrow>
     call_deleter api (r, i) s = (Goexit, s\<lparr>ts_cloud := c, ts_failed := True\<rparr>)"
  by (simp add: call_deleter_def seq_def flag_set_def give_def delete_resource_eq delete_or_fail_def
      request_def t_Fatalf_def)

definition test_inv :: "('s \<Rightarrow> usage) \<Rightarrow> usage \<Rightarrow> ('s, deleter) test_state \<Rightarrow> bool" where
  "test_inv view V0 s \<longleftrightarrow>
     tracked V0 (view (ts_cloud s)) (ts_flags s) (ts_cleanups s) \<and> \<not> ts_ended s"

text \<open>A successful deletion of a tracked resource, and the creation of one.\<close>

lemma tracked_delete:
  assumes "tracked V0 V flags ds" and "(r, i) \<in> set ds" and "\<not> flags ! i" and "\<not> in_use V r"
  shows "tracked V0 (V(r := None)) (flags[i := True]) ds"
proof -
  have st: "stacked V (dom V0) (undeleted flags ds)" and bounds: "i < length flags"
    using assms(1,2) by (auto simp: tracked_def)
  note dist = stacked_distinct [OF st]
  have r: "r \<in> set (undeleted flags ds)" using assms(2,3) by (force simp: undeleted_def)
  have u: "undeleted (flags[i := True]) ds = filter (\<lambda>q. q \<noteq> r) (undeleted flags ds)"
    using assms dist bounds by (intro undeleted_set_flag) (auto simp: tracked_def)
  have "V(r := None) |` dom V0 = V |` dom V0"
    using r dist by (auto simp: restrict_map_def fun_eq_iff)
  moreover have "r \<notin> dom V0" using r dist by blast
  ultimately show ?thesis
    using assms(1) stacked_remove [OF st assms(4)] by (auto simp: tracked_def u)
qed

lemma tracked_create:
  assumes "tracked V0 V flags ds" and "V r = None" and "d \<subseteq> dom V"
  shows "tracked V0 (V(r \<mapsto> d)) (flags @ [False]) ((r, length flags) # ds)"
proof -
  have r: "r \<notin> dom V0 \<union> set (undeleted flags ds)" using assms(1,2) by (auto simp: tracked_def)
  have old: "undeleted (flags @ [False]) ds = undeleted flags ds"
    using assms(1) by (intro undeleted_new_flag) (auto simp: tracked_def)
  then have u: "undeleted (flags @ [False]) ((r, length flags) # ds) = r # undeleted flags ds"
    by (simp add: undeleted_def)
  have "(V(r \<mapsto> d)) |` dom V0 = V |` dom V0" using r by (auto simp: restrict_map_def fun_eq_iff)
  moreover have "length flags \<notin> snd ` set ds" using assms(1) by (auto simp: tracked_def)
  ultimately show ?thesis
    using assms(1,3) r by (auto simp: tracked_def u stacked_update less_Suc_eq)
qed


section \<open>Every call keeps what is left to delete tracked\<close>

named_theorems creates_intros "rules for the functions that create a resource"

definition same_frame :: "('s, deleter) test_state \<Rightarrow> ('s, deleter) test_state \<Rightarrow> bool" where
  "same_frame s t \<longleftrightarrow> ts_flags t = ts_flags s \<and> ts_cleanups t = ts_cleanups s \<and> ts_ended t = ts_ended s"

text \<open>An action that creates at most one resource and touches nothing else of the test.\<close>

definition created :: "'s network_api \<Rightarrow> (string \<Rightarrow> resource) \<Rightarrow> 's \<Rightarrow> string fallible result \<Rightarrow> 's \<Rightarrow> bool" where
  "created api res c r c' \<longleftrightarrow>
     (case r of
        Value (Inr i) \<Rightarrow> \<exists>opts. res i = resource_of opts i \<and> na_create api opts c = (Inr i, c')
      | Value (Inl e) \<Rightarrow> c' = c \<or> (\<exists>opts. na_create api opts c = (Inl e, c'))
      | _ \<Rightarrow> c' = c)"

definition creates :: "'s network_api \<Rightarrow> (string \<Rightarrow> resource) \<Rightarrow> (string fallible, 's) net_action \<Rightarrow> bool" where
  "creates api res m \<longleftrightarrow>
     (\<forall>s r t. m s = (r, t) \<longrightarrow> same_frame s t \<and> created api res (ts_cloud s) r (ts_cloud t))"

lemma creates_request [creates_intros]:
  "(\<And>i. res i = resource_of opts i) \<Longrightarrow> creates api res (request ctx (na_create api opts))"
  by (auto simp: creates_def created_def request_def same_frame_def split: prod.splits sum.splits if_splits)

lemma creates_draw [creates_intros]:
  assumes "\<And>x. creates api res (k x)"
  shows "creates api res (seq (draw f) k)"
  unfolding creates_def
proof (intro allI impI)
  fix s r t assume run: "seq (draw f) k s = (r, t)"
  obtain x n where x: "f (ts_draws s) = (x, n)" by fastforce
  show "same_frame s t \<and> created api res (ts_cloud s) r (ts_cloud t)"
  proof (cases x)
    case None
    with run x show ?thesis by (auto simp: seq_def draw_def same_frame_def created_def)
  next
    case (Some y)
    with run x have "k y (s\<lparr>ts_draws := n\<rparr>) = (r, t)" by (simp add: seq_def draw_def)
    with assms [of y] show ?thesis by (force simp: creates_def same_frame_def)
  qed
qed

lemma creates_all [creates_intros]:
  "creates api Network_res (CreateNetwork api rnd)"
  "creates api Subnet_res (CreateSubnet api rnd network)"
  "creates api Port_res (CreatePort api rnd network)"
  "creates api Router_res (CreateRouter api rnd ext)"
  "creates api IKE_policy_res (CreateVPNIKEPolicy api rnd)"
  "creates api IPSec_policy_res (CreateVPNIPSecPolicy api rnd)"
  "creates api Endpoint_group_res (CreateVPNEndpointGroup api rnd t es)"
  "creates api VPN_service_res (CreateVPNService api rnd router)"
  "creates api Site_connection_res (CreateVPNSiteConnection api rnd env ike ipsec service peer loc)"
  unfolding CreateNetwork_def CreateSubnet_def CreatePort_def CreateRouter_def CreateVPNIKEPolicy_def
    CreateVPNIPSecPolicy_def CreateVPNEndpointGroup_def CreateVPNService_def
    CreateVPNSiteConnection_def random_name_def Let_def
  by (intro creates_intros; simp)+

lemma with_cleanup_eq:
  "with_cleanup r s = (Value (r, length (ts_flags s)),
     s\<lparr>ts_flags := ts_flags s @ [False], ts_cleanups := (r, length (ts_flags s)) # ts_cleanups s\<rparr>)"
  by (simp add: with_cleanup_def seq_def new_flag_def t_Cleanup_def give_def)

lemma must_inv:
  assumes "honest_cloud api view" and "creates api res m"
  shows "keeps (test_inv view V0) (must m res)"
  unfolding keeps_def
proof (intro allI impI)
  fix s assume inv: "test_inv view V0 s"
  obtain r t where rt: "m s = (r, t)" by fastforce
  with assms(2) have fr: "same_frame s t" and cr: "created api res (ts_cloud s) r (ts_cloud t)"
    by (auto simp: creates_def)
  have same: "test_inv view V0 t'" if "same_frame s t'" "view (ts_cloud t') = view (ts_cloud s)" for t'
    using inv that by (simp add: test_inv_def same_frame_def)
  have failed: "view (ts_cloud t) = view (ts_cloud s)" if "\<forall>i. r \<noteq> Value (Inr i)"
    using cr honest_create(1) [OF assms(1)] that
    by (auto simp: created_def split: result.splits sum.splits)
  show "test_inv view V0 (snd (must m res s))"
  proof (cases r)
    case (Value x)
    show ?thesis
    proof (cases x)
      case (Inl e)
      then show ?thesis using rt Value failed fr
        by (intro same) (simp_all add: must_def seq_def t_Fatalf_def same_frame_def)
    next
      case (Inr i)
      then obtain opts where i: "res i = resource_of opts i" "na_create api opts (ts_cloud s) = (Inr i, ts_cloud t)"
        using cr Value by (auto simp: created_def)
      note new = honest_create(2) [OF assms(1) i(2)]
      have "tracked V0 (view (ts_cloud t)) (ts_flags s @ [False]) ((res i, length (ts_flags s)) # ts_cleanups s)"
        using tracked_create [of V0 "view (ts_cloud s)"] inv new i(1) by (simp add: test_inv_def)
      then show ?thesis using rt Value Inr fr inv
        by (simp add: must_def seq_def with_cleanup_eq give_def test_inv_def same_frame_def)
    qed
  qed (use rt failed fr same in \<open>simp_all add: must_def seq_def\<close>)
qed

lemma must_all_inv:
  assumes "honest_cloud api view"
  shows "keeps (test_inv view V0) (MustCreateNetwork api rnd)"
    and "keeps (test_inv view V0) (MustCreateSubnet api rnd network)"
    and "keeps (test_inv view V0) (MustCreatePort api rnd network)"
    and "keeps (test_inv view V0) (MustCreateRouter api rnd ext)"
    and "keeps (test_inv view V0) (MustCreateVPNIKEPolicy api rnd)"
    and "keeps (test_inv view V0) (MustCreateVPNIPSecPolicy api rnd)"
    and "keeps (test_inv view V0) (MustCreateVPNEndpointGroup api rnd t es)"
    and "keeps (test_inv view V0) (MustCreateVPNService api rnd router)"
    and "keeps (test_inv view V0) (MustCreateVPNSiteConnection api rnd env ike ipsec service peer loc)"
  unfolding MustCreateNetwork_def MustCreateSubnet_def MustCreatePort_def MustCreateRouter_def
    MustCreateVPNIKEPolicy_def MustCreateVPNIPSecPolicy_def MustCreateVPNEndpointGroup_def
    MustCreateVPNService_def MustCreateVPNSiteConnection_def
  by (intro must_inv [OF assms] creates_all)+

lemma interface_inv:
  assumes "honest_cloud api view"
  shows "keeps (test_inv view V0) (MustAddRouterInterface api router subnet)"
  unfolding keeps_def
proof (intro allI impI)
  fix s assume inv: "test_inv view V0 s"
  let ?opts = "Interface_opts router subnet" and ?r = "Interface_res router subnet"
  obtain r c where rc: "na_create api ?opts (ts_cloud s) = (r, c)" by fastforce
  have run: "MustAddRouterInterface api router subnet s = (case r of
      Inl e \<Rightarrow> (Goexit, s\<lparr>ts_cloud := c, ts_failed := True\<rparr>)
    | Inr i \<Rightarrow> with_cleanup ?r (s\<lparr>ts_cloud := c\<rparr>))"
    using rc inv by (simp add: MustAddRouterInterface_def AddRouterInterface_def seq_def request_def
        RequestContext_def give_def t_Fatalf_def test_inv_def split: sum.split)
  show "test_inv view V0 (snd (MustAddRouterInterface api router subnet s))"
  proof (cases r)
    case (Inl e)
    then show ?thesis using inv rc honest_create(1) [OF assms] by (simp add: run test_inv_def)
  next
    case (Inr i)
    note new = honest_create(2) [OF assms rc [unfolded Inr]]
    have "tracked V0 (view c) (ts_flags s @ [False]) ((?r, length (ts_flags s)) # ts_cleanups s)"
      using tracked_create [of V0 "view (ts_cloud s)"] inv new by (simp add: test_inv_def)
    then show ?thesis using inv Inr by (simp add: run with_cleanup_eq test_inv_def)
  qed
qed

lemma call_inv:
  assumes "honest_cloud api view" and "test_inv view V0 s" and "d \<in> set (ts_cleanups s)"
  shows "test_inv view V0 (snd (call_deleter api d s))"
proof (cases d)
  case (Pair r i)
  show ?thesis
  proof (cases "ts_flags s ! i")
    case True
    then show ?thesis using assms(2) Pair by (simp add: call_deleter_skips)
  next
    case False
    obtain x c where x: "na_delete api r (ts_cloud s) = (x, c)" by fastforce
    show ?thesis
    proof (cases x)
      case (Inl e)
      with x False honest_delete(1) [OF assms(1)] show ?thesis
        using assms(2) Pair by (auto simp: call_deleter_fails test_inv_def)
    next
      case (Inr u)
      with x False honest_delete(2) [OF assms(1)] tracked_delete show ?thesis
        using assms(2,3) Pair by (auto simp: call_deleter_ok test_inv_def)
    qed
  qed
qed

lemma test_call_inv:
  assumes "test_call api rnd env s t" and "honest_cloud api view" and "test_inv view V0 s"
  shows "test_inv view V0 t"
  using assms(1)
proof (cases rule: test_call.cases)
  case delete
  then show ?thesis using call_inv [OF assms(2,3)] by blast
qed (use must_all_inv [OF assms(2), unfolded keeps_def, rule_format, OF assms(3)]
      interface_inv [OF assms(2), unfolded keeps_def, rule_format, OF assms(3)] assms(3)
    in \<open>simp_all add: RequireExternalNetworkID_def Let_def t_Fatalf_def t_Skipf_def give_def test_inv_def\<close>)


section \<open>The end of a test\<close>

text \<open>
  The cleanups run from the latest: each resource is no longer in use when its turn comes, since what
  uses it was created later.
\<close>

lemma stacked_unused:
  assumes "stacked V D rs" and "dom V = D \<union> set rs" and "r = hd rs" and "rs \<noteq> []"
    and "\<And>q d. q \<in> D \<Longrightarrow> V q = Some d \<Longrightarrow> d \<subseteq> D"
  shows "\<not> in_use V r"
proof
  assume "in_use V r"
  then obtain q d where q: "V q = Some d" "r \<in> d" by (auto simp: in_use_def)
  have dist: "distinct rs" "set rs \<inter> D = {}" using stacked_distinct assms(1) by blast+
  have r: "r \<in> set rs" using assms(3,4) by simp
  have below: "d \<subseteq> D \<union> set (tl rs)" if "q \<in> set rs" "V q = Some d" for q d
    using assms(1) that
  proof (induction rs)
    case (Cons x xs)
    then show ?case by (cases xs) fastforce+
  qed simp
  have "q \<in> D \<or> q \<in> set rs" using q(1) assms(2) by blast
  moreover have "r \<notin> D \<union> set (tl rs)"
    using r dist assms(3,4) by (cases rs) auto
  ultimately show False using below q assms(5) r dist(2) by blast
qed

lemma cleanups_inv:
  assumes "honest_cloud api view" and "closed_usage V0"
    and "tracked V0 (view (ts_cloud s)) (ts_flags s) ds"
  shows "view (ts_cloud (run_cleanups (call_deleter api) ds s)) = V0 \<and>
    ts_failed (run_cleanups (call_deleter api) ds s) = ts_failed s"
  using assms(3)
proof (induction ds arbitrary: s)
  case Nil
  then have "dom (view (ts_cloud s)) = dom V0" "view (ts_cloud s) |` dom V0 = V0"
    by (auto simp: tracked_def undeleted_def)
  then have "view (ts_cloud s) = V0" by (metis restrict_map_def domIff ext)
  then show ?case by simp
next
  case (Cons d ds)
  obtain r i where d: "d = (r, i)" by fastforce
  show ?case
  proof (cases "ts_flags s ! i")
    case True
    with Cons.prems have "tracked V0 (view (ts_cloud s)) (ts_flags s) ds"
      by (simp add: tracked_def undeleted_def d)
    with Cons.IH True show ?thesis by (simp add: d call_deleter_skips)
  next
    case False
    let ?V = "view (ts_cloud s)"
    have u: "undeleted (ts_flags s) (d # ds) = r # undeleted (ts_flags s) ds"
      using False by (simp add: undeleted_def d)
    have D: "e \<subseteq> dom V0" if "q \<in> dom V0" "?V q = Some e" for q e
    proof -
      have "V0 q = Some e" using that Cons.prems by (metis tracked_def restrict_in)
      then show ?thesis using assms(2) by (auto simp: closed_usage_def)
    qed
    have free: "\<not> in_use ?V r"
      using Cons.prems D
      by (intro stacked_unused [of ?V "dom V0" "undeleted (ts_flags s) (d # ds)"]) (auto simp: tracked_def u)
    have there: "r \<in> dom ?V" using Cons.prems by (simp add: tracked_def u)
    obtain x c where x: "na_delete api r (ts_cloud s) = (x, c)" by fastforce
    then obtain w where w: "x = Inr w"
      using honest_delete(1) [OF assms(1)] free there by (cases x) blast+
    let ?t = "s\<lparr>ts_cloud := c, ts_flags := (ts_flags s)[i := True]\<rparr>"
    have "view c = ?V(r := None)" using honest_delete(2) [OF assms(1) x [unfolded w]] by simp
    moreover have "tracked V0 (?V(r := None)) ((ts_flags s)[i := True]) (d # ds)"
      using Cons.prems False free by (intro tracked_delete) (simp_all add: d)
    moreover have "i < length (ts_flags s)" using Cons.prems by (simp add: tracked_def d)
    ultimately have "tracked V0 (view (ts_cloud ?t)) (ts_flags ?t) ds"
      by (auto simp: tracked_def undeleted_def d)
    with Cons.IH [of ?t] False show ?thesis
      by (simp add: d call_deleter_ok [OF _ x [unfolded w]])
  qed
qed

lemma test_run_inv:
  assumes "test_run api rnd env s0 s" and "honest_cloud api view" and "fresh_test s0"
  shows "test_inv view (view (ts_cloud s0)) s"
  using assms(1)
proof (induction rule: test_run.induct)
  case start
  show ?case using assms(3)
    by (auto simp: test_inv_def tracked_def fresh_test_def undeleted_def restrict_map_def fun_eq_iff dom_def)
next
  case (call s t)
  then show ?case using test_call_inv assms(2) by blast
qed



text \<open>A cloud that keeps the contract: the log of what was made and removed, latest first.\<close>

datatype log_entry = Made create_opts string | Removed resource

fun log_view :: "log_entry list \<Rightarrow> usage" where
  "log_view [] = Map.empty"
| "log_view (Made opts i # es) =
     (if log_view es (resource_of opts i) = None \<and> uses opts \<subseteq> dom (log_view es)
      then (log_view es)(resource_of opts i \<mapsto> uses opts) else log_view es)"
| "log_view (Removed r # es) = (if in_use (log_view es) r then log_view es else (log_view es)(r := None))"

definition log_cloud :: "log_entry list network_api" where
  "log_cloud = \<lparr>
     na_create = (\<lambda>opts es. let i = replicate (length es) (CHR ''i'') in
       if log_view es (resource_of opts i) = None \<and> uses opts \<subseteq> dom (log_view es)
       then (Inr i, Made opts i # es) else (Inl (Lib_error 409 ''conflict''), es)),
     na_delete = (\<lambda>r es. if r \<in> dom (log_view es) \<and> \<not> in_use (log_view es) r
       then (Inr (), Removed r # es) else (Inl (Lib_error 409 ''conflict''), es)),
     na_extension = (\<lambda>n es. (Inr (), es))\<rparr>"

lemma log_view_closed: "closed_usage (log_view es)"
proof (induction es)
  case (Cons e es)
  then show ?case
    by (cases e) (auto simp: closed_usage_def in_use_def subset_iff split: if_splits)
qed (simp add: closed_usage_def)

lemma log_cloud_honest: "honest_cloud log_cloud log_view"
  by (auto simp: honest_cloud_def log_view_closed log_cloud_def Let_def)

definition empty_test :: "(log_entry list, deleter) test_state" where
  "empty_test = \<lparr>ts_cloud = [], ts_draws = 0, ts_flags = [], ts_cleanups = [], ts_ended = False,
     ts_failed = False, ts_skipped = False\<rparr>"


end
