(* ===== verification/Test_Servers.thy ===== *)
theory Test_Servers
  imports Test_Clients
begin

text \<open>
  \<^verbatim>\<open>integration/funcs/compute.go\<close> and \<^verbatim>\<open>integration/funcs/baremetal.go\<close>: the server and the bare metal
  node of the integration tests, with the states that they wait for. The requests are parameters; they
  are made under contexts of their own, so that the end of the test does not cancel them.
  The checks of gophercloud's \<^verbatim>\<open>testhelper\<close> end the test where they fail.
\<close>

type_synonym ('a, 's) run = "('a, 's, unit) action"

definition AssertNoErr :: "'a fallible \<Rightarrow> ('a, 's) run" where
  "AssertNoErr r = (case r of Inl err \<Rightarrow> t_Fatalf | Inr x \<Rightarrow> give x)"

definition AssertEquals :: "string \<Rightarrow> string \<Rightarrow> (unit, 's) run" where
  "AssertEquals expected actual = (if expected = actual then give () else t_Fatalf)"

section \<open>Servers\<close>

record test_server =
  tv_ID :: string
  tv_Name :: string
  tv_Status :: string
  tv_FlavorID :: string
  tv_ImageID :: string

record server_opts =
  cr_Name :: string
  cr_FlavorRef :: string
  cr_ImageRef :: string
  cr_AdminPass :: string
  cr_Networks :: "string list"
  cr_Metadata :: "(string \<times> string) list"
  cr_Personality :: "(string \<times> string) list"

text \<open>A network is its ID and its name; the pages of a listing are opaque.\<close>

record ('s, 'p) compute_api =
  cm_create :: "server_opts \<Rightarrow> 's \<Rightarrow> test_server fallible \<times> 's"
  cm_get :: "string \<Rightarrow> 's \<Rightarrow> test_server fallible \<times> 's"
  cm_delete :: "string \<Rightarrow> 's \<Rightarrow> unit fallible \<times> 's"
  cm_list_networks :: "ServiceClient \<Rightarrow> 's \<Rightarrow> 'p fallible \<times> 's"
  cm_ExtractNetworks :: "'p \<Rightarrow> (string \<times> string) list fallible"

definition compute_status :: "('s, 'p) compute_api \<Rightarrow> string \<Rightarrow> string \<Rightarrow> 's predicate" where
  "compute_status api serverID status c =
     (case cm_get api serverID c of
        (Inl err, c') \<Rightarrow> ((False, Some err), c')
      | (Inr latest, c') \<Rightarrow>
          if tv_Status latest = status then ((True, None), c')
          else if tv_Status latest = ''ERROR''
          then ((False, Some (Msg_error ''instance in ERROR state'')), c')
          else ((False, None), c'))"

definition WaitForComputeStatus ::
  "('s, 'p) compute_api \<Rightarrow> 's waiter \<Rightarrow> string \<Rightarrow> string \<Rightarrow> (go_error option, 's) run" where
  "WaitForComputeStatus api wt serverID status s =
     (case WaitFor wt (compute_status api serverID status) (ts_cloud s) of
        (r, c) \<Rightarrow> (Value r, s\<lparr>ts_cloud := c\<rparr>))"

fun find_network :: "(string \<times> string) list \<Rightarrow> string \<Rightarrow> string fallible" where
  "find_network [] networkName =
     Inl (Msg_error (''failed to obtain network ID for network '' @ networkName))"
| "find_network ((i, name) # networks) networkName =
     (if name = networkName then Inr i else find_network networks networkName)"

definition GetNetworkIDFromNetworks ::
  "('s, 'p) compute_api \<Rightarrow> (string \<Rightarrow> string) \<Rightarrow> test_gopher \<Rightarrow> string \<Rightarrow> (string fallible, 's) run" where
  "GetNetworkIDFromNetworks api env gp networkName =
     seq (AssertNoErr (NewNetworkV2Client env gp)) (\<lambda>networkClient.
     seq (request Uncancelled_context (cm_list_networks api networkClient)) (\<lambda>pages.
     seq (AssertNoErr pages) (\<lambda>allPages2.
     seq (AssertNoErr (cm_ExtractNetworks api allPages2)) (\<lambda>allNetworks.
       give (find_network allNetworks networkName)))))"

text \<open>What follows once the server was created.\<close>

definition await_server ::
  "('s, 'p) compute_api \<Rightarrow> 's waiter \<Rightarrow> AcceptanceTestChoices \<Rightarrow> string \<Rightarrow> test_server \<Rightarrow>
   (test_server fallible, 's) run" where
  "await_server api wt choices name server =
     seq (WaitForComputeStatus api wt (tv_ID server) ''ACTIVE'') (\<lambda>err.
     case err of Some e \<Rightarrow> give (Inl e) | None \<Rightarrow>
     seq (request Uncancelled_context (cm_get api (tv_ID server))) (\<lambda>r.
     case r of Inl e \<Rightarrow> give (Inl e) | Inr newServer \<Rightarrow>
     seq (AssertEquals name (tv_Name newServer)) (\<lambda>u.
     seq (AssertEquals (at_FlavorID choices) (tv_FlavorID newServer)) (\<lambda>u.
     seq (AssertEquals (at_ImageID choices) (tv_ImageID newServer)) (\<lambda>u.
       give (Inr newServer))))))"

definition CreateServer ::
  "('s, 'p) compute_api \<Rightarrow> (string \<Rightarrow> string) \<Rightarrow> test_gopher \<Rightarrow> source \<Rightarrow> 's waiter \<Rightarrow>
   (test_server fallible, 's) run" where
  "CreateServer api env gp rnd wt =
     (case AcceptanceTestChoicesFromEnv env of
        Inl err \<Rightarrow> t_Fatalf
      | Inr choices \<Rightarrow>
          seq (GetNetworkIDFromNetworks api env gp (at_NetworkName choices)) (\<lambda>r.
          case r of Inl err \<Rightarrow> give (Inl err) | Inr networkID \<Rightarrow>
          seq (draw (RandomString rnd ''ACPTTEST'' 16)) (\<lambda>name.
          seq (draw_loop (MakeNewPassword rnd [])) (\<lambda>pwd.
          seq (request Uncancelled_context (cm_create api
            \<lparr>cr_Name = name, cr_FlavorRef = at_FlavorID choices, cr_ImageRef = at_ImageID choices,
             cr_AdminPass = pwd, cr_Networks = [networkID], cr_Metadata = [(''abc'', ''def'')],
             cr_Personality = [(''/etc/test'', ''hello world'')]\<rparr>)) (\<lambda>created.
          case created of Inl err \<Rightarrow> give (Inl err) | Inr server \<Rightarrow>
            await_server api wt choices name server)))))"

definition DeleteServer :: "('s, 'p) compute_api \<Rightarrow> 's waiter \<Rightarrow> test_server \<Rightarrow> (unit, 's) run" where
  "DeleteServer api wt server =
     seq (request Uncancelled_context (cm_delete api (tv_ID server))) (\<lambda>r.
     case r of Inl err \<Rightarrow> t_Fatalf | Inr u \<Rightarrow>
     seq (WaitForComputeStatus api wt (tv_ID server) ''DELETED'') (\<lambda>err.
     case err of
       Some e \<Rightarrow> if err_status e = 404 then give () else t_Fatalf
     | None \<Rightarrow> give ()))"

section \<open>Bare metal nodes\<close>

record test_node =
  nd_UUID :: string
  nd_ProvisionState :: string

record node_opts =
  nc_Name :: string
  nc_Driver :: string
  nc_BootInterface :: string
  nc_DeployInterface :: string
  nc_DriverInfo :: "(string \<times> string) list"

record 's baremetal_api =
  bm_create :: "node_opts \<Rightarrow> 's \<Rightarrow> test_node fallible \<times> 's"
  bm_SetMaintenance :: "string \<Rightarrow> string \<Rightarrow> 's \<Rightarrow> unit fallible \<times> 's"
  bm_delete :: "string \<Rightarrow> 's \<Rightarrow> unit fallible \<times> 's"
  bm_ChangeProvisionState :: "string \<Rightarrow> string \<Rightarrow> 's \<Rightarrow> unit fallible \<times> 's"
  bm_WaitForProvisionState :: "string \<Rightarrow> string \<Rightarrow> 's \<Rightarrow> unit fallible \<times> 's"
  bm_get :: "string \<Rightarrow> 's \<Rightarrow> test_node fallible \<times> 's"

text \<open>\<open>on_ok r k\<close> is \<^verbatim>\<open>if err != nil { return node, err }\<close> followed by \<open>k\<close>.\<close>

definition on_ok :: "'a fallible \<Rightarrow> ('a \<Rightarrow> ('b fallible, 's) run) \<Rightarrow> ('b fallible, 's) run" where
  "on_ok r k = (case r of Inl err \<Rightarrow> give (Inl err) | Inr x \<Rightarrow> k x)"

abbreviation ask :: "('s \<Rightarrow> 'a fallible \<times> 's) \<Rightarrow> ('a fallible, 's) run" where
  "ask f \<equiv> request Uncancelled_context f"

definition DeleteNode :: "'s baremetal_api \<Rightarrow> test_node \<Rightarrow> (unit, 's) run" where
  "DeleteNode api node =
     seq (ask (bm_SetMaintenance api (nd_UUID node) ''forced deletion'')) (\<lambda>r.
     case r of Inl err \<Rightarrow> t_Fatalf | Inr u \<Rightarrow>
     seq (ask (bm_delete api (nd_UUID node))) (\<lambda>r.
     case r of Inl err \<Rightarrow> t_Fatalf | Inr u \<Rightarrow> give ()))"

definition CreateFakeNode :: "'s baremetal_api \<Rightarrow> source \<Rightarrow> (test_node fallible, 's) run" where
  "CreateFakeNode api rnd = seq (draw (RandomString rnd ''ACPTTEST'' 16)) (\<lambda>name.
     ask (bm_create api \<lparr>nc_Name = name, nc_Driver = ''fake-hardware'', nc_BootInterface = ''fake'',
       nc_DeployInterface = ''fake'', nc_DriverInfo =
         [(''ipmi_port'', ''6230''), (''ipmi_username'', ''admin''),
          (''deploy_kernel'', ''http://172.22.0.1/images/tinyipa-stable-rocky.vmlinuz''),
          (''ipmi_address'', ''192.168.122.1''),
          (''deploy_ramdisk'', ''http://172.22.0.1/images/tinyipa-stable-rocky.gz''),
          (''ipmi_password'', ''admin'')]\<rparr>))"

definition ChangeProvisionStateAndWait ::
  "'s baremetal_api \<Rightarrow> test_node \<Rightarrow> string \<Rightarrow> string \<Rightarrow> (test_node fallible, 's) run" where
  "ChangeProvisionStateAndWait api node change expectedState =
     seq (ask (bm_ChangeProvisionState api (nd_UUID node) change)) (\<lambda>r. on_ok r (\<lambda>u.
     seq (ask (bm_WaitForProvisionState api (nd_UUID node) expectedState)) (\<lambda>r. on_ok r (\<lambda>u.
       ask (bm_get api (nd_UUID node))))))"

definition DeployFakeNode :: "'s baremetal_api \<Rightarrow> test_node \<Rightarrow> (test_node fallible, 's) run" where
  "DeployFakeNode api node =
     (let deploy = ChangeProvisionStateAndWait api node ''active'' ''active'';
          provide = (\<lambda>currentState. if currentState = ''manageable'' then
            seq (ask (bm_ChangeProvisionState api (nd_UUID node) ''provide'')) (\<lambda>r. on_ok r (\<lambda>u.
            seq (ask (bm_WaitForProvisionState api (nd_UUID node) ''available'')) (\<lambda>r. on_ok r (\<lambda>u. deploy))))
            else deploy)
      in if nd_ProvisionState node = ''enroll'' then
           seq (ask (bm_ChangeProvisionState api (nd_UUID node) ''manage'')) (\<lambda>r. on_ok r (\<lambda>u.
           seq (ask (bm_WaitForProvisionState api (nd_UUID node) ''manageable'')) (\<lambda>r. on_ok r (\<lambda>u.
             provide ''manageable''))))
         else provide (nd_ProvisionState node))"

section \<open>Properties\<close>

text \<open>What the last answer of a waiting that succeeded was.\<close>

lemma polled_status:
  assumes "polled (compute_status api i status) c None c'"
  shows "\<exists>c0 sv. cm_get api i c0 = (Inr sv, c') \<and> tv_Status sv = status"
  using assms
proof (induction c "None :: go_error option" c' rule: polled.induct)
  case (true c c')
  then show ?case by (fastforce simp: compute_status_def split: prod.splits sum.splits if_splits)
qed simp

lemma WaitForComputeStatus_ok:
  assumes "polls wt" and "WaitForComputeStatus api wt i status s = (Value None, t)"
  shows "\<exists>c sv. cm_get api i c = (Inr sv, ts_cloud t) \<and> tv_Status sv = status"
proof -
  obtain c where c: "wt 600 (compute_status api i status) (ts_cloud s) = (None, c)" "ts_cloud t = c"
    using assms(2) by (auto simp: WaitForComputeStatus_def WaitFor_def WaitForTimeout_def split: prod.splits)
  then have "polled (compute_status api i status) (ts_cloud s) None c"
    using assms(1) unfolding polls_def by (metis fst_conv snd_conv)
  then show ?thesis unfolding c(2) by (rule polled_status)
qed

text \<open>A run that returns a result has passed every return of an error.\<close>

lemma past_error [act_simps]:
  "(case r of Inl e \<Rightarrow> give (Inl e) | Inr x \<Rightarrow> k x) s = (Value (Inr y), t) \<longleftrightarrow>
     (\<exists>x. r = Inr x \<and> k x s = (Value (Inr y), t))"
  "(case o1 of None \<Rightarrow> m | Some e \<Rightarrow> give (Inl e)) s = (Value (Inr y), t) \<longleftrightarrow>
     o1 = None \<and> m s = (Value (Inr y), t)"
  by (cases r; simp add: give_def; blast) (cases o1; simp add: give_def)

lemma request_Value [act_simps]:
  "request Uncancelled_context f s = (Value r, t) \<longleftrightarrow>
     (\<exists>c. f (ts_cloud s) = (r, c) \<and> t = s\<lparr>ts_cloud := c\<rparr>)"
  by (auto simp: request_def split: prod.split)

lemma AssertEquals_Value [act_simps]:
  "AssertEquals x y s = (Value u, t) \<longleftrightarrow> x = y \<and> t = s"
  by (auto simp: AssertEquals_def act_simps)

lemma await_server_ok:
  assumes "polls wt" and "await_server api wt choices name server s = (Value (Inr sv), t)"
  shows "\<exists>c c1 act. cm_get api (tv_ID server) c = (Inr act, c1) \<and> tv_Status act = ''ACTIVE'' \<and>
    cm_get api (tv_ID server) c1 = (Inr sv, ts_cloud t) \<and> tv_Name sv = name \<and>
    tv_FlavorID sv = at_FlavorID choices \<and> tv_ImageID sv = at_ImageID choices"
proof -
  obtain s1 where s1: "WaitForComputeStatus api wt (tv_ID server) ''ACTIVE'' s = (Value None, s1)"
    and get: "cm_get api (tv_ID server) (ts_cloud s1) = (Inr sv, ts_cloud t)" "tv_Name sv = name"
      "tv_FlavorID sv = at_FlavorID choices" "tv_ImageID sv = at_ImageID choices"
    using assms(2) by (auto simp: await_server_def act_simps simp del: request_ended)
  show ?thesis using WaitForComputeStatus_ok [OF assms(1) s1] get by blast
qed

text \<open>
  A server that \<^verbatim>\<open>CreateServer\<close> returns was created with the flavor and the image that the
  environment chose and on the network of that name, had been seen active when it was last waited for,
  and answered then with the name it was given, that flavor and that image.
\<close>

theorem create_server_active:
  assumes "polls wt" and "CreateServer api env gp rnd wt s = (Value (Inr sv), t)"
  shows "\<exists>choices networks network opts server c0 c1 c2 c3 act.
    AcceptanceTestChoicesFromEnv env = Inr choices \<and>
    find_network networks (at_NetworkName choices) = Inr network \<and> cr_Networks opts = [network] \<and>
    cr_FlavorRef opts = at_FlavorID choices \<and> cr_ImageRef opts = at_ImageID choices \<and>
    cm_create api opts c0 = (Inr server, c1) \<and>
    cm_get api (tv_ID server) c2 = (Inr act, c3) \<and> tv_Status act = ''ACTIVE'' \<and>
    cm_get api (tv_ID server) c3 = (Inr sv, ts_cloud t) \<and> tv_Name sv = cr_Name opts \<and>
    tv_FlavorID sv = cr_FlavorRef opts \<and> tv_ImageID sv = cr_ImageRef opts"
proof -
  obtain choices where ch: "AcceptanceTestChoicesFromEnv env = Inr choices"
    using assms(2) by (cases "AcceptanceTestChoicesFromEnv env") (auto simp: CreateServer_def act_simps)
  obtain name pwd network server s0 s1 c where
    nw: "GetNetworkIDFromNetworks api env gp (at_NetworkName choices) s = (Value (Inr network), s0)"
    and cr: "cm_create api \<lparr>cr_Name = name, cr_FlavorRef = at_FlavorID choices, cr_ImageRef = at_ImageID choices,
       cr_AdminPass = pwd, cr_Networks = [network], cr_Metadata = [(''abc'', ''def'')],
       cr_Personality = [(''/etc/test'', ''hello world'')]\<rparr> (ts_cloud s1) = (Inr server, c)"
    and aw: "await_server api wt choices name server (s1\<lparr>ts_cloud := c\<rparr>) = (Value (Inr sv), t)"
    using assms(2) unfolding CreateServer_def ch by (auto simp: act_simps simp del: request_ended)
  obtain networks where ns: "find_network networks (at_NetworkName choices) = Inr network"
    using nw by (auto simp: GetNetworkIDFromNetworks_def act_simps)
  let ?opts = "\<lparr>cr_Name = name, cr_FlavorRef = at_FlavorID choices, cr_ImageRef = at_ImageID choices,
       cr_AdminPass = pwd, cr_Networks = [network], cr_Metadata = [(''abc'', ''def'')],
       cr_Personality = [(''/etc/test'', ''hello world'')]\<rparr>"
  obtain c2 c3 act where "cm_get api (tv_ID server) c2 = (Inr act, c3)" "tv_Status act = ''ACTIVE''"
    "cm_get api (tv_ID server) c3 = (Inr sv, ts_cloud t)" "tv_Name sv = name"
    "tv_FlavorID sv = at_FlavorID choices" "tv_ImageID sv = at_ImageID choices"
    using await_server_ok [OF assms(1) aw] by blast
  with ch ns cr show ?thesis
    by (intro exI [of _ choices] exI [of _ networks] exI [of _ network] exI [of _ ?opts] exI [of _ server]
        exI [of _ "ts_cloud s1"] exI [of _ c] exI [of _ c2] exI [of _ c3] exI [of _ act]) simp
qed

text \<open>A waiter that polls once, and a cloud with at most one server, active from the start.\<close>

definition poll_once :: "'s waiter" where
  "poll_once n p s =
     (case p s of ((done, err), s') \<Rightarrow>
        (case err of Some e \<Rightarrow> (Some e, s')
         | None \<Rightarrow> if done then (None, s') else (Some (Lib_error 0 ''context deadline exceeded''), s')))"

lemma poll_once_polls: "polls (poll_once :: 's waiter)"
proof -
  have "polled p s (fst (poll_once n p s)) (snd (poll_once n p s))" for n and p :: "'s predicate" and s
  proof -
    obtain d e t where p: "p s = ((d, e), t)" by (metis prod.exhaust)
    show ?thesis
    proof (cases e)
      case (Some x)
      then show ?thesis using p by (auto simp: poll_once_def intro: polled.fails)
    next
      case None
      then show ?thesis using p
        by (cases d) (auto simp: poll_once_def intro: polled.true polled.again polled.timeout)
    qed
  qed
  then show ?thesis by (simp add: polls_def)
qed

definition one_server_cloud :: "(test_server list, unit) compute_api" where
  "one_server_cloud = \<lparr>
     cm_create = (\<lambda>opts c. let sv = \<lparr>tv_ID = ''s1'', tv_Name = cr_Name opts, tv_Status = ''ACTIVE'',
       tv_FlavorID = cr_FlavorRef opts, tv_ImageID = cr_ImageRef opts\<rparr> in (Inr sv, [sv])),
     cm_get = (\<lambda>i c. (case c of [] \<Rightarrow> Inl (Lib_error 404 ''not found'') | sv # svs \<Rightarrow> Inr sv, c)),
     cm_delete = (\<lambda>i c. (Inr (), [])),
     cm_list_networks = (\<lambda>cl c. (Inr (), c)),
     cm_ExtractNetworks = (\<lambda>p. Inr [(''n1'', ''private'')])\<rparr>"

definition sample_test_client :: ServiceClient where
  "sample_test_client = \<lparr>cl_Type = [], cl_Endpoint = [], cl_Microversion = [], cl_MoreHeaders = []\<rparr>"

definition sample_test_gopher :: test_gopher where
  "sample_test_gopher = (let auth = \<lparr>ao_IdentityEndpoint = [], ao_AllowReauth = False, ao_Credentials = []\<rparr>;
       provider = \<lparr>pc_Endpoint = [], pc_Transport = None, pc_TokenID = []\<rparr>; client = sample_test_client in
     \<lparr>tg_AuthOptionsFromEnv = Inr auth, tg_AuthenticatedClient = (\<lambda>a. Inr provider),
      tg_NewClient = (\<lambda>e. Inr provider), tg_construct = (\<lambda>c p eo. Inr client),
      tg_NewMessagingV2 = (\<lambda>p i eo. Inr client), tg_NoAuthClient = (\<lambda>u t. Inr provider),
      tg_NewBlockStorageNoAuthV3 = (\<lambda>p e. Inr client), tg_NewBareMetalNoAuth = (\<lambda>e. Inr client),
      tg_NewBareMetalHTTPBasic = (\<lambda>e u p. Inr client)\<rparr>)"

definition sample_test_env :: "string \<Rightarrow> string" where
  "sample_test_env n = (if n = ''OS_IMAGE_ID'' then ''i1'' else if n = ''OS_FLAVOR_ID'' then ''f1''
     else if n = ''OS_FLAVOR_ID_RESIZE'' then ''f2'' else if n = ''OS_POOL_NAME'' then ''public''
     else if n = ''OS_EXTGW_ID'' then ''n0'' else [])"

definition server_test :: "(test_server list, unit) test_state" where
  "server_test = \<lparr>ts_cloud = [], ts_draws = 0, ts_flags = [], ts_cleanups = [], ts_ended = False,
     ts_failed = False, ts_skipped = False\<rparr>"

lemma one_server_fields:
  "cm_create one_server_cloud opts c = (let sv = \<lparr>tv_ID = ''s1'', tv_Name = cr_Name opts, tv_Status = ''ACTIVE'',
     tv_FlavorID = cr_FlavorRef opts, tv_ImageID = cr_ImageRef opts\<rparr> in (Inr sv, [sv]))"
  "cm_get one_server_cloud i c = (case c of [] \<Rightarrow> Inl (Lib_error 404 ''not found'') | sv # svs \<Rightarrow> Inr sv, c)"
  "cm_list_networks one_server_cloud cl c = (Inr (), c)"
  "cm_ExtractNetworks one_server_cloud u = Inr [(''n1'', ''private'')]"
  "ts_cloud server_test = []" "ts_draws server_test = 0"
  by (simp_all add: one_server_cloud_def server_test_def)

lemma sample_choices:
  "AcceptanceTestChoicesFromEnv sample_test_env = Inr
     \<lparr>at_ImageID = ''i1'', at_FlavorID = ''f1'', at_FlavorIDResize = ''f2'',
      at_FloatingIPPoolName = ''public'', at_MagnumKeypair = [], at_MagnumImageID = [],
      at_NetworkName = ''private'', at_NetworkID = [], at_SubnetID = [], at_ExternalNetworkID = ''n0'',
      at_DBDatastoreType = [], at_DBDatastoreVersion = []\<rparr>"
  by (simp add: AcceptanceTestChoicesFromEnv_def sample_test_env_def Let_def)

lemma sample_server_made:
  "\<exists>sv t. CreateServer one_server_cloud sample_test_env sample_test_gopher (\<lambda>k. k) poll_once server_test
     = (Value (Inr sv), t)"
proof -
  obtain w where w: "RandomString (\<lambda>k. k) ''ACPTTEST'' 16 0 = (Some w, 16)"
    using RandomString_Some [of "\<lambda>k. k" "''ACPTTEST''" 16 0] by auto
  obtain p where p: "MakeNewPassword (\<lambda>k. k) [] 16 = Some (Some p, 32)"
    using MakeNewPassword_at_once [of "[]" "\<lambda>k. k" 16] by auto
  have nw: "GetNetworkIDFromNetworks one_server_cloud sample_test_env sample_test_gopher ''private'' server_test
      = (Value (Inr ''n1''), server_test)"
    by (simp add: GetNetworkIDFromNetworks_def seq_def AssertNoErr_def NewNetworkV2Client_def
        newServiceClient_def newAuthenticatedClient_def sample_test_gopher_def Let_def give_def
        request_def one_server_fields)
  show ?thesis
    by (simp add: CreateServer_def sample_choices seq_def nw draw_def draw_loop_def w p request_def
        one_server_fields Let_def give_def await_server_def WaitForComputeStatus_def
        WaitFor_def WaitForTimeout_def poll_once_def compute_status_def AssertEquals_def)
qed

theorem create_server_active_witness:
  "\<exists>sv t. CreateServer one_server_cloud sample_test_env sample_test_gopher (\<lambda>k. k) poll_once server_test
       = (Value (Inr sv), t) \<and> tv_FlavorID sv = ''f1'' \<and> tv_ImageID sv = ''i1''"
proof -
  obtain sv t where run: "CreateServer one_server_cloud sample_test_env sample_test_gopher (\<lambda>k. k) poll_once
      server_test = (Value (Inr sv), t)"
    using sample_server_made by blast
  from create_server_active [OF poll_once_polls run] show ?thesis
    using run by (auto simp: sample_choices)
qed

definition provision_path :: "string \<Rightarrow> (string \<times> string) list" where
  "provision_path st =
     (if st = ''enroll'' then [(''manage'', ''manageable'')] else []) @
     (if st \<in> {''enroll'', ''manageable''} then [(''provide'', ''available'')] else []) @
     [(''active'', ''active'')]"

fun walk_path :: "'s baremetal_api \<Rightarrow> string \<Rightarrow> (string \<times> string) list \<Rightarrow> (unit fallible, 's) run" where
  "walk_path api uuid [] = give (Inr ())"
| "walk_path api uuid ((target, expected) # path) =
     seq (ask (bm_ChangeProvisionState api uuid target)) (\<lambda>r. on_ok r (\<lambda>u.
     seq (ask (bm_WaitForProvisionState api uuid expected)) (\<lambda>r. on_ok r (\<lambda>u. walk_path api uuid path))))"

lemma on_ok_seq: "seq (on_ok r k) h = (case r of Inl e \<Rightarrow> h (Inl e) | Inr x \<Rightarrow> seq (k x) h)"
  by (simp add: on_ok_def seq_give split: sum.split)

lemma on_ok_simps [simp]: "on_ok (Inl e) k = give (Inl e)" "on_ok (Inr x) k = k x"
  by (simp_all add: on_ok_def)

text \<open>
  Property C32. A node is deployed along the path of its provisioning states: from the state it is in,
  every target on the way to \<^verbatim>\<open>active\<close> is requested and waited for, in order, up to the first that fails.
\<close>

theorem deploy_walks_path:
  "DeployFakeNode api node =
     seq (walk_path api (nd_UUID node) (provision_path (nd_ProvisionState node)))
       (\<lambda>r. on_ok r (\<lambda>u. ask (bm_get api (nd_UUID node))))"
  by (auto simp: fun_eq_iff DeployFakeNode_def ChangeProvisionStateAndWait_def provision_path_def Let_def
      seq_def on_ok_def give_def request_def split: prod.split sum.split result.split)

end
