(* ===== verification/Test_Exporter.thy ===== *)
theory Test_Exporter
  imports Main_App Test_Clients
begin

text \<open>
  \<^verbatim>\<open>integration/utils.go\<close>: reading the metrics of an exporter under test, and starting it. The network
  is the parameter \<open>get\<close>, one request in a state: it fails, or gives a status and what reading the body
  gives; \<open>listen\<close> is what starting the server does to that state.
\<close>

type_synonym 'w http_get = "'w \<Rightarrow> (int \<times> string fallible) fallible \<times> 'w"

section \<open>Reading the metrics\<close>

text \<open>The loop's variable \<^verbatim>\<open>err\<close> keeps the error of the last request, and nothing of a body that could not be read.\<close>

fun httpGetRetry_loop ::
  "'w http_get \<Rightarrow> nat \<Rightarrow> go_error option \<Rightarrow> 'w \<Rightarrow> ((int \<times> string) + go_error option) \<times> 'w" where
  "httpGetRetry_loop get 0 err w = (Inr err, w)"
| "httpGetRetry_loop get (Suc n) err w =
     (case get w of
        (Inl e, w') \<Rightarrow> httpGetRetry_loop get n (Some e) w'
      | (Inr (status, body), w') \<Rightarrow>
          if status = 200 then
            (case body of
               Inr b \<Rightarrow> (Inl (status, b), w')
             | Inl readErr \<Rightarrow> httpGetRetry_loop get n None w')
          else httpGetRetry_loop get n None w')"

definition httpGetRetry :: "'w http_get \<Rightarrow> int \<Rightarrow> 'w \<Rightarrow> (int \<times> string) fallible \<times> 'w" where
  "httpGetRetry get max_tries w =
     (case httpGetRetry_loop get (nat max_tries) None w of
        (Inl r, w') \<Rightarrow> (Inr r, w')
      | (Inr (Some err), w') \<Rightarrow> (Inl (Msg_error (''failed to get metrics after '' @ strconv_Itoa max_tries
          @ '' retries: '' @ err_text err)), w')
      | (Inr None, w') \<Rightarrow> (Inl (Msg_error (''failed to get metrics after '' @ strconv_Itoa max_tries
          @ '' retries'')), w'))"

section \<open>Starting the exporter\<close>

definition newEmptyNovaMetadataMapping :: LabelMappingFlag where
  "newEmptyNovaMetadataMapping = \<lparr>lm_Labels = [], lm_Keys = []\<rparr>"

definition test_exporter_args :: exporter_args where
  "test_exporter_args = \<lparr>xa_Prefix = ''openstack'', xa_Cloud = ''devstack-system-admin'',
     xa_DisabledMetrics = [], xa_EndpointType = ''public'', xa_CollectTime = False,
     xa_DisableSlowMetrics = False, xa_DisableDeprecatedMetrics = False,
     xa_DisableCinderAgentUUID = False, xa_DomainID = [], xa_TenantID = [],
     xa_NovaMetadataMapping = newEmptyNovaMetadataMapping, xa_DnsConcurrentCount = 10\<rparr>"

fun wait_until_up :: "'w http_get \<Rightarrow> nat \<Rightarrow> 'w \<Rightarrow> bool \<times> 'w" where
  "wait_until_up get 0 w = (False, w)"
| "wait_until_up get (Suc n) w =
     (case get w of
        (Inl err, w') \<Rightarrow> wait_until_up get n w'
      | (Inr (status, body), w') \<Rightarrow> if status = 200 then (True, w') else wait_until_up get n w')"

text \<open>The result is the address, and \<open>cleanup\<close> is what shutting the server down does to the state.\<close>

definition startOpenStackExporter ::
  "factory \<Rightarrow> (collector list \<Rightarrow> collector \<Rightarrow> bool) \<Rightarrow> (collector list \<Rightarrow> 'w \<Rightarrow> 'w) \<Rightarrow> 'w http_get \<Rightarrow>
   ('w \<Rightarrow> 'w) \<Rightarrow> string list \<Rightarrow> endpoint_map \<Rightarrow> 'w \<Rightarrow> (go_panic + string fallible) \<times> endpoint_map \<times> 'w" where
  "startOpenStackExporter fa refused listen get cleanup enabledServices m w =
     (case enable_loop fa refused test_exporter_args enabledServices [] m of
        (Inl p, m') \<Rightarrow> (Inl p, m', w)
      | (Inr reg, m') \<Rightarrow>
          if length reg = 0 then (Inr (Inl (Msg_error ''no exporter has been enabled'')), m', w)
          else
            (case wait_until_up get 10 (listen reg w) of
               (True, w') \<Rightarrow> (Inr (Inr '':9180''), m', w')
             | (False, w') \<Rightarrow>
                 (Inr (Inl (Msg_error ''failed to start OpenStack exporter in time'')), m', cleanup w')))"

section \<open>Properties\<close>

text \<open>The answers of the first \<open>n\<close> requests, and the state after them.\<close>

fun replies :: "'w http_get \<Rightarrow> nat \<Rightarrow> 'w \<Rightarrow> (int \<times> string fallible) fallible list \<times> 'w" where
  "replies get 0 w = ([], w)"
| "replies get (Suc n) w =
     (case get w of (r, w') \<Rightarrow> case replies get n w' of (rs, w'') \<Rightarrow> (r # rs, w''))"

fun readable :: "(int \<times> string fallible) fallible \<Rightarrow> (int \<times> string) option" where
  "readable (Inr (status, Inr b)) = (if status = 200 then Some (status, b) else None)"
| "readable (Inr (status, Inl e)) = None"
| "readable (Inl e) = None"

fun reply_error :: "(int \<times> string fallible) fallible \<Rightarrow> go_error option" where
  "reply_error (Inl e) = Some e"
| "reply_error (Inr x) = None"

abbreviation unreadable :: "(int \<times> string fallible) fallible \<Rightarrow> bool" where
  "unreadable r \<equiv> readable r = None"

lemma replies_length [simp]: "length (fst (replies get n w)) = n"
  by (induction n arbitrary: w) (simp_all add: case_prod_beta)

lemma httpGetRetry_loop_replies:
  "httpGetRetry_loop get n err w =
     (let rs = fst (replies get n w) in
      case dropWhile unreadable rs of
        r # others \<Rightarrow> (Inl (the (readable r)), snd (replies get (Suc (length (takeWhile unreadable rs))) w))
      | [] \<Rightarrow> (Inr (if n = 0 then err else reply_error (last rs)), snd (replies get n w)))"
proof (induction n arbitrary: err w)
  case (Suc n)
  obtain r w' where g: "get w = (r, w')" by fastforce
  obtain rs w'' where rs: "replies get n w' = (rs, w'')" by fastforce
  then have len: "length rs = n" using replies_length [of get n w'] by simp
  show ?case
  proof (cases "readable r")
    case None
    have "httpGetRetry_loop get (Suc n) err w = httpGetRetry_loop get n (reply_error r) w'"
      using None g by (cases r) (auto split: sum.split)
    note step = this [unfolded Suc.IH [of "reply_error r" w'] rs Let_def fst_conv snd_conv]
    have all: "replies get (Suc n) w = (r # rs, w'')" using g rs by simp
    show ?thesis
    proof (cases "dropWhile unreadable rs")
      case Nil
      then have d: "dropWhile unreadable (r # rs) = []" using None by simp
      show ?thesis unfolding step all Let_def fst_conv snd_conv Nil d list.case using len by auto
    next
      case (Cons q qs)
      then have d: "dropWhile unreadable (r # rs) = q # qs"
        "takeWhile unreadable (r # rs) = r # takeWhile unreadable rs" using None by simp_all
      show ?thesis unfolding step all Let_def fst_conv snd_conv d Cons using g by (simp add: case_prod_beta)
    qed
  next
    case (Some x)
    then obtain b where "r = Inr (200, Inr b)" "x = (200, b)"
      by (cases r rule: readable.cases) (auto split: if_splits)
    then show ?thesis using g rs Some by (simp add: Let_def)
  qed
qed simp

text \<open>
  Property C31. \<^verbatim>\<open>httpGetRetry\<close> gives the first readable answer with status 200 among at most as many
  requests as it may make, and makes none after it; otherwise it fails after all of them, with the
  error of the last request where that one had one.
\<close>

theorem http_get_retry:
  "httpGetRetry get tries w =
     (let rs = fst (replies get (nat tries) w);
          text = ''failed to get metrics after '' @ strconv_Itoa tries @ '' retries'' in
      case dropWhile unreadable rs of
        r # others \<Rightarrow> (Inr (the (readable r)), snd (replies get (Suc (length (takeWhile unreadable rs))) w))
      | [] \<Rightarrow> (Inl (Msg_error (if nat tries = 0 then text else
            (case reply_error (last rs) of None \<Rightarrow> text | Some e \<Rightarrow> text @ '': '' @ err_text e))),
          snd (replies get (nat tries) w)))"
proof (cases "dropWhile unreadable (fst (replies get (nat tries) w))")
  case Nil
  then show ?thesis
    unfolding httpGetRetry_def httpGetRetry_loop_replies Let_def Nil
    by (cases "nat tries = 0"; cases "reply_error (last (fst (replies get (nat tries) w)))") simp_all
next
  case (Cons r rs)
  then show ?thesis unfolding httpGetRetry_def httpGetRetry_loop_replies Let_def Cons by simp
qed

text \<open>
  The exporter starts exactly when one exporter could be enabled and the server answers with status
  200 within ten requests; the other ends tell which of the two failed, and only the second has a
  server to shut down.
\<close>

lemma wait_until_up_iff:
  "fst (wait_until_up get n w) \<longleftrightarrow>
     (\<exists>r \<in> set (fst (replies get n w)). case r of Inl e \<Rightarrow> False | Inr (status, body) \<Rightarrow> status = 200)"
  by (induction n arbitrary: w) (auto split: prod.split sum.split)

theorem exporter_under_test_starts:
  assumes "enable_loop fa refused test_exporter_args services [] m = (Inr reg, m')"
  shows "(\<exists>addr. fst (startOpenStackExporter fa refused listen get cleanup services m w) = Inr (Inr addr)) \<longleftrightarrow>
    reg \<noteq> [] \<and> (\<exists>r \<in> set (fst (replies get 10 (listen reg w))).
       case r of Inl e \<Rightarrow> False | Inr (status, body) \<Rightarrow> status = 200)"
  using assms wait_until_up_iff [of get 10 "listen reg w"]
  by (auto simp: startOpenStackExporter_def split: prod.split bool.split)

end
