(* ===== verification/Spec2Isabelle.thy ===== *)
theory Spec2Isabelle
  imports Collect_Run Cache_Service Service_Selection Label_Mapping Microversion Subnet_Pools
    Factory Main_App Metric_Names Scrape_Service Registration Process_Run Cached_Answers Common_Metrics
    Test_Network Test_Servers Test_Exporter
begin

text \<open>
  A model of the OpenStack exporter for Prometheus and the theorems that make it correct.

  \<^bold>\<open>The program.\<close> The process (\<^verbatim>\<open>main.go\<close>) decides which of fifteen OpenStack services it reports on,
  serves \<^verbatim>\<open>/metrics\<close> (one cloud) or \<^verbatim>\<open>/probe\<close> (several), and can fill a cache in the background
  (\<^verbatim>\<open>cache/\<close>). For each service of a request \<^verbatim>\<open>exporters/exporter.go\<close> makes a client
  (\<^verbatim>\<open>exporters/utils.go\<close>) and an exporter: a table of metrics, some of which have a list function
  that asks an OpenStack API and sends samples. A scrape runs the list functions of an exporter
  concurrently and ends with an \<^verbatim>\<open>up\<close> sample.

  \<^bold>\<open>Layout.\<close>
  \<^item> \<open>Go_Base\<close>, \<open>Go_Time\<close>, \<open>Go_Any\<close>: what the code uses of Go: strings as byte lists, int64 and
    float64 arithmetic with wrap-around and rounding, errors and panics as values, range loops over
    maps as an arbitrary permutation of the entries (\<open>permutes_order\<close>), counting maps.
  \<^item> \<open>Base_Exporter\<close>: tables, configuration, the exporter record, \<^verbatim>\<open>AddMetric\<close>, \<^verbatim>\<open>RunCollection\<close> and
    the type of a collection (samples sent, and how it stopped). The locale \<open>metric_table\<close> states
    what a service's table has to satisfy; each service's table is an interpretation.
  \<^item> \<open>Collect_Run\<close>: \<^verbatim>\<open>Collect\<close> as a step relation over its goroutines, with the invariant of the
    reachable states, termination, and what has been sent at the end.
  \<^item> \<open>Status_Map\<close>, \<open>Status_Counter\<close>: status codes (locale \<open>status_table\<close>, interpreted for each
    service) and counters per status.
  \<^item> One theory per service: \<open>Compute\<close> (\<^verbatim>\<open>nova.go\<close>), \<open>Network\<close> and \<open>Subnet_Pools\<close>
    (\<^verbatim>\<open>neutron.go\<close>), \<open>Volume\<close> (\<^verbatim>\<open>cinder.go\<close>), \<open>Identity\<close> (\<^verbatim>\<open>keystone.go\<close>), \<open>Image\<close>
    (\<^verbatim>\<open>glance.go\<close>), \<open>Load_Balancer\<close> (\<^verbatim>\<open>loadbalancer.go\<close>), \<open>Dns\<close> (\<^verbatim>\<open>designate.go\<close>),
    \<open>Baremetal\<close> (\<^verbatim>\<open>ironic.go\<close>), \<open>Placement\<close>, \<open>Orchestration\<close> (\<^verbatim>\<open>heat.go\<close>), \<open>Database\<close>
    (\<^verbatim>\<open>trove.go\<close>), \<open>Share\<close> (\<^verbatim>\<open>manila.go\<close>), \<open>Gnocchi\<close>, \<open>Container_Infra\<close>, \<open>Object_Store\<close>.
    Definitions have the names of the Go functions. The answers of the API are arguments; each is a
    value or the error of the request, so every early return is a branch.
  \<^item> \<open>Service_Client\<close>, \<open>Catalog\<close>, \<open>Microversion\<close>, \<open>Factory\<close>: clients, the process-wide map of
    endpoint options, detection of services, microversions, \<^verbatim>\<open>NewExporter\<close>.
  \<^item> \<open>Metric_Names\<close>: the names under which the exporters of different services register.
  \<^item> \<open>Safe_Runs\<close>, \<open>Scrape_Functions\<close>, \<open>Scrape_Safe\<close>, \<open>Scrape_Service\<close>: what the rows of each table run,
    and the locale \<open>service_scrape\<close> (a table, the rows each of its functions sends under, and the
    functions, which do not panic while those rows are registered), interpreted for all fifteen
    services; from it, that a whole scrape of any service can return and never ends the process.
  \<^item> \<open>Registration\<close>: the contract of a Prometheus registry and what the exporters describe, so that
    a whole request of several services goes through, and the mapped labels with which it cannot.
    \<open>Common_Metrics\<close>: \<^verbatim>\<open>exporters/common_metrics.go\<close>.
  \<^item> \<open>Cache_Backend\<close>, \<open>Cache_Service\<close>: the cache (locale \<open>cache_backend\<close>, interpreted by the
    in-memory cache, which refines a map of clouds) and the service that fills and flushes it, a
    step relation over time. \<open>Cached_Answers\<close>: collecting and reading together.
  \<^item> \<open>Service_Selection\<close>, \<open>Label_Mapping\<close>, \<open>Slices\<close>, \<open>Main_App\<close>: flags, requests, handlers, routes
    and the start of the process. \<open>Process_Run\<close>: the running process, a labelled step relation over its
    goroutines (main, background service, server, listener, requests) and its two contexts.
  \<^item> \<open>Go_Testing\<close> (\<^verbatim>\<open>testing.T\<close> and \<^verbatim>\<open>integration/tools\<close>), \<open>Test_Clients\<close> (\<^verbatim>\<open>integration/clients\<close>),
    \<open>Test_Network\<close> and \<open>Test_Servers\<close> (\<^verbatim>\<open>integration/funcs\<close>), \<open>Test_Exporter\<close>
    (\<^verbatim>\<open>integration/utils.go\<close>): the support of the integration tests. A test is an action on a state
    (the cloud, the registered cleanups, what failed); an action can also end the test or panic.

  \<^bold>\<open>What the lemmas show.\<close> Per service: which samples a listing sends, with which labels, in which
  order, and where it stops. For the registry: exactly the enabled rows of a table are registered.
  For concurrency: all interleavings of \<^verbatim>\<open>Collect\<close> and of the DNS error group. For the cache: what is
  stored, read and flushed, and how old served data can get. For the process: the services selected,
  the answers of the handlers on every path, that a request is answered whole, and with which
  status a run of the process ends. For the integration tests: a test that ends anywhere leaves the
  cloud as it was, a node walks the provisioning states, the retries of a request. Several theorems
  exhibit a behaviour that the code does not intend: a disabled metric that crashes a listing, endpoint
  options shared between clouds, a microversion no endpoint supports, a cache read that ignores the
  age, a family that is lost in the cache, a mapped label that no registry takes, a shutdown that is
  not awaited, a concurrency of zero.

  \<^bold>\<open>Bounds.\<close> There is no fuel: loops are structural recursion, and runs of goroutines are step
  relations whose termination is proved with a measure. Numbers below \<open>2 ^ 53\<close> (float64) and
  \<open>2 ^ 63\<close> (int) are exact; the theorems that need it say so.

  \<^bold>\<open>Parameters.\<close> gophercloud, the Prometheus client, \<^verbatim>\<open>errgroup\<close> (its documented contract),
  \<^verbatim>\<open>netipx\<close> set operations, the text forms of network prefixes, YAML, TLS and Vault clients. A
  sample is the arguments handed to \<^verbatim>\<open>MustNewConstMetric\<close>; \<open>accepts_arity\<close> is the library's contract
  that the number of label values decides; \<open>documented_registry\<close> is that of \<^verbatim>\<open>Register\<close>.

  \<^bold>\<open>Not modelled.\<close> Logging, and \<^verbatim>\<open>PrintResource\<close> of the integration tools, which only logs; the web
  server beyond its contract (listening, requests, shutdown); the decoding of API answers into
  records; charts, packaging and tests.
\<close>

section \<open>A scrape of the object store, from construction to the last sample\<close>

text \<open>
  The list function that a row of the object store's table names. The table has one with a list
  function, so a run has one goroutine.
\<close>

definition object_store_lists :: "prom \<Rightarrow> pages \<Rightarrow> exporter \<Rightarrow> ListFunc \<Rightarrow> coll" where
  "object_store_lists pr ps ex f =
     (if f = ''ListContainers'' then ListContainers pr ps ex else ([], Panicked Nil_deref))"

lemma object_store_registry:
  assumes "\<And>m. enabled (new_base ''object_store'' cfg) m"
  shows "metrics_of (NewObjectStoreExporter pr cfg) = base_metrics pr None (new_base ''object_store'' cfg)
    @ map (entry pr (new_base ''object_store'' cfg)) defaultObjectStoreMetrics"
proof -
  have "filter (enabled (new_base ''object_store'' cfg)) defaultObjectStoreMetrics = defaultObjectStoreMetrics"
    using assms by simp
  moreover have "defaultObjectStoreMetrics \<noteq> []" by (simp add: defaultObjectStoreMetrics_def)
  ultimately show ?thesis
    unfolding NewObjectStoreExporter_def
    using object_store.metrics_exact [of "new_base ''object_store'' cfg" pr] by simp
qed

lemma object_store_entries:
  assumes "\<And>m. enabled (new_base ''object_store'' cfg) m"
  shows "filter has_fn (metrics_of (NewObjectStoreExporter pr cfg))
    = [entry pr (new_base ''object_store'' cfg) (metric ''objects'' [''container_name''] (Some ''ListContainers''))]
    \<and> length (metrics_of (NewObjectStoreExporter pr cfg)) = 4"
  using assms
  unfolding object_store_registry [OF assms]
  by (simp add: defaultObjectStoreMetrics_def base_metrics_def entry_def has_fn_def)

lemma object_store_body:
  assumes "\<And>m. enabled (new_base ''object_store'' cfg) m" and "\<not> CollectTime cfg"
    and "accepts_arity pr"
  shows "map (collect_body pr (object_store_lists pr (map Inr css, None) (NewObjectStoreExporter pr cfg))
        secs (NewObjectStoreExporter pr cfg)) (filter has_fn (metrics_of (NewObjectStoreExporter pr cfg)))
    = [(concat (map (container_samples (NewObjectStoreExporter pr cfg)) (concat css)), Done)]"
proof -
  let ?ex = "NewObjectStoreExporter pr cfg"
  have w: "wired ?ex defaultObjectStoreMetrics"
    unfolding NewObjectStoreExporter_def using assms(1) by (intro object_store.wired_register) simp_all
  have "CollectTime ?ex = CollectTime cfg" by (simp add: NewObjectStoreExporter_def)
  with assms w show ?thesis
    by (simp add: object_store_entries collect_body_def RunCollection_def entry_def
        object_store_lists_def ListContainers_pages)
qed

lemma object_store_no_panic:
  assumes "\<And>m. enabled (new_base ''object_store'' cfg) m" and "\<not> CollectTime cfg"
    and "accepts_arity pr"
    and "c \<in> set (map (collect_body pr (object_store_lists pr (map Inr css, None) (NewObjectStoreExporter pr cfg))
        secs (NewObjectStoreExporter pr cfg)) (filter has_fn (metrics_of (NewObjectStoreExporter pr cfg))))"
  shows "\<not> panicking c"
  using assms(4) unfolding object_store_body [OF assms(1-3)] by (simp add: panicking_def)

lemma object_store_up:
  assumes "\<And>m. enabled (new_base ''object_store'' cfg) m"
  shows "registered (NewObjectStoreExporter pr cfg) ''up'' 0"
  unfolding registered_def object_store_registry [OF assms]
  by (simp add: base_metrics_def)

lemma object_store_returns:
  assumes "\<And>m. enabled (new_base ''object_store'' cfg) m" and "\<not> CollectTime cfg"
    and "accepts_arity pr" and "permutes_order ord"
  shows "\<exists>t. Collect pr (object_store_lists pr (map Inr css, None) (NewObjectStoreExporter pr cfg))
      secs ord (NewObjectStoreExporter pr cfg) t \<and> cs_phase t = Returned"
proof (rule Collect_can_return [OF assms(4) _ assms(3) object_store_up [OF assms(1)]])
  show "length (metrics_of (NewObjectStoreExporter pr cfg)) < 2 ^ 31"
    using object_store_entries [OF assms(1), of pr] by simp
qed (rule object_store_no_panic [OF assms(1-3)])

text \<open>
  Property C2. A scrape of the object store: however it runs, when it returns it has sent two samples
  for each container of each page and nothing else, and after them that the service is up.
\<close>

theorem object_store_scrape:
  assumes "\<And>m. enabled (new_base ''object_store'' cfg) m" and "\<not> CollectTime cfg"
    and "accepts_arity pr" and "permutes_order ord" and "ex = NewObjectStoreExporter pr cfg"
    and "Collect pr (object_store_lists pr (map Inr css, None) ex) secs ord ex t"
    and "cs_phase t = Returned"
  shows "\<exists>xs. cs_sent t = xs @ [samp ex ''up'' 1 []] \<and>
    mset xs = mset (concat (map (container_samples ex) (concat css)))"
proof -
  have "length (metrics_of ex) < 2 ^ 31"
    using object_store_entries [OF assms(1), of pr] by (simp add: assms(5))
  from Collect_result [OF assms(6,7,4) this] show ?thesis
    unfolding assms(5) object_store_body [OF assms(1-3)] by (auto simp: Let_def fails_def)
qed

section \<open>Witnesses for the run of an exporter\<close>

definition sample_exporter :: exporter where
  "sample_exporter = NewObjectStoreExporter sample_prom sample_config"

lemma sample_config_CollectTime [simp]: "\<not> CollectTime sample_config"
  by (simp add: sample_config_def)

definition sample_pages :: "Container list list" where
  "sample_pages = [[\<lparr>co_Name = ''c'', co_Count = 2, co_Bytes = 7\<rparr>]]"

abbreviation sample_run :: "collect_state \<Rightarrow> bool" where
  "sample_run \<equiv> Collect sample_prom
     (object_store_lists sample_prom (map Inr sample_pages, None) sample_exporter)
     (\<lambda>n. 0) (\<lambda>es. es) sample_exporter"

lemma sample_run_returns: "\<exists>t. sample_run t \<and> cs_phase t = Returned"
  unfolding sample_exporter_def
  by (rule object_store_returns) (simp_all add: permutes_order_def)

theorem object_store_scrape_witness:
  "\<exists>t xs. sample_run t \<and> cs_sent t = xs @ [samp sample_exporter ''up'' 1 []] \<and>
    mset xs = mset (concat (map (container_samples sample_exporter) (concat sample_pages)))"
proof -
  obtain t where t: "sample_run t" "cs_phase t = Returned" using sample_run_returns by blast
  have "\<exists>xs. cs_sent t = xs @ [samp sample_exporter ''up'' 1 []] \<and>
    mset xs = mset (concat (map (container_samples sample_exporter) (concat sample_pages)))"
    by (rule object_store_scrape [OF _ _ _ _ sample_exporter_def t])
      (simp_all add: permutes_order_def)
  with t(1) show ?thesis by blast
qed

theorem collect_sends_all_then_up_witness:
  "\<exists>t xs. sample_run t \<and> cs_sent t = xs @ [samp sample_exporter ''up'' 1 []]"
proof -
  obtain t where t: "sample_run t" "cs_phase t = Returned" using sample_run_returns by blast
  have n: "length (metrics_of sample_exporter) < 2 ^ 31"
    unfolding sample_exporter_def by (simp add: object_store_entries)
  have b: "map (collect_body sample_prom
      (object_store_lists sample_prom (map Inr sample_pages, None) sample_exporter) (\<lambda>n. 0) sample_exporter)
      (filter has_fn (metrics_of sample_exporter))
    = [(concat (map (container_samples sample_exporter) (concat sample_pages)), Done)]"
    unfolding sample_exporter_def by (rule object_store_body) simp_all
  have "\<exists>xs. cs_sent t = xs @ [samp sample_exporter ''up'' 1 []]"
    using collect_sends_all_then_up [OF t _ n] unfolding b
    by (auto simp: Let_def fails_def permutes_order_def)
  with t(1) show ?thesis by blast
qed


end
